(* ===== verification/Prelude.thy ===== *)
theory Prelude
  imports Complex_Main "HOL-Library.Char_ord" "HOL-Library.List_Lexorder" "HOL-Library.AList"
begin

text \<open>
  What every component of the model shares: Python's strings and the string methods the
  source uses, dictionaries in insertion order, JSON-like values, and the exception classes
  that cross component boundaries.

  A Python \<open>str\<close> is a \<open>string\<close>, one \<open>char\<close> per code point, so the model covers the
  code points U+0000 to U+00FF; the methods below (\<open>split\<close>, \<open>strip\<close>, \<open>lower\<close>, \<dots>) are written
  out for that whole range. A \<open>bytes\<close> value is a \<open>string\<close> as well, one \<open>char\<close> per byte.
\<close>

named_theorems str_simps \<open>characteristic equations of the string methods\<close>
named_theorems guard_defs \<open>definitions of the code's guard predicates\<close>
named_theorems inv_intros \<open>introduction rules for component invariants\<close>

section \<open>Exceptions\<close>

text \<open>
  One constructor per exception class the modelled code raises or catches. A message is kept
  where the code or its callers can tell messages apart. \<open>GateError\<close> is the validation error class each
  of the registry and release scripts declares for itself.
\<close>

datatype exn =
    ValueError string
  | RuntimeErr string
  | DiscoveryError
  | SigningKeyError
  | ClaimValidationError
  | OidcNetworkSecurityError string
  | OidcDocumentError
  | HttpxHTTPError
  | InvalidTokenError string
  | JwkError
  | ValidationErr "(string list \<times> string) list"
  | VulnerabilityPolicyError string
  | GateError string
  | OtherExn string

type_synonym 'a result = "exn + 'a"

definition rbind :: "'e + 'a \<Rightarrow> ('a \<Rightarrow> 'e + 'b) \<Rightarrow> 'e + 'b" where
  "rbind r f = (case r of Inl e \<Rightarrow> Inl e | Inr x \<Rightarrow> f x)"

lemma rbind_simps [simp]: "rbind (Inl e) f = Inl e" "rbind (Inr x) f = f x"
  by (simp_all add: rbind_def)

lemma rbind_Inr_iff: "rbind r f = Inr y \<longleftrightarrow> (\<exists>x. r = Inr x \<and> f x = Inr y)"
  by (cases r) auto

lemma rbind_Inl_iff: "rbind r f = Inl e \<longleftrightarrow> r = Inl e \<or> (\<exists>x. r = Inr x \<and> f x = Inl e)"
  by (cases r) auto

text \<open>A loop that stops at the first exception.\<close>

fun rmap :: "('a \<Rightarrow> 'e + 'b) \<Rightarrow> 'a list \<Rightarrow> 'e + 'b list" where
  "rmap f [] = Inr []"
| "rmap f (x # xs) = rbind (f x) (\<lambda>y. rbind (rmap f xs) (\<lambda>ys. Inr (y # ys)))"

lemma rmap_Inr_iff: "rmap f xs = Inr ys \<longleftrightarrow> list_all2 (\<lambda>x y. f x = Inr y) xs ys"
  by (induction xs arbitrary: ys) (auto simp: rbind_Inr_iff list_all2_Cons1)

definition ensure :: "bool \<Rightarrow> 'e \<Rightarrow> 'e + unit" where
  "ensure b e = (if b then Inr () else Inl e)"

lemma ensure_Inr [simp]: "ensure b e = Inr u \<longleftrightarrow> b"
  by (simp add: ensure_def)

lemma ensure_Inl [simp]: "ensure b e = Inl e' \<longleftrightarrow> \<not> b \<and> e' = e"
  by (auto simp: ensure_def)

text \<open>A sequence of checks, run in order; the first that fails decides the exception.\<close>

fun checks :: "('e + unit) list \<Rightarrow> 'e + unit" where
  "checks [] = Inr ()"
| "checks (c # cs) = rbind c (\<lambda>_. checks cs)"

lemma checks_Inr [simp]: "checks cs = Inr u \<longleftrightarrow> (\<forall>c \<in> set cs. c = Inr ())"
  by (induction cs) (auto simp: rbind_Inr_iff)

lemma checks_Inl: "checks cs = Inl e \<Longrightarrow> \<exists>c \<in> set cs. c = Inl e"
  by (induction cs) (auto simp: rbind_Inl_iff)

section \<open>Strings\<close>

type_synonym bytes = string

definition ord_of :: "char \<Rightarrow> nat" where
  "ord_of c = of_char c"

definition is_ascii :: "string \<Rightarrow> bool" where
  "is_ascii s = list_all (\<lambda>c. ord_of c < 128) s"

text \<open>\<open>str.isspace\<close> on one code point below U+0100.\<close>

definition py_isspace :: "char \<Rightarrow> bool" where
  "py_isspace c =
     (let n = ord_of c in (9 \<le> n \<and> n \<le> 13) \<or> (28 \<le> n \<and> n \<le> 32) \<or> n = 133 \<or> n = 160)"

definition is_digit :: "char \<Rightarrow> bool" where
  "is_digit c = (let n = ord_of c in 48 \<le> n \<and> n \<le> 57)"

definition is_alpha_ascii :: "char \<Rightarrow> bool" where
  "is_alpha_ascii c = (let n = ord_of c in (65 \<le> n \<and> n \<le> 90) \<or> (97 \<le> n \<and> n \<le> 122))"

text \<open>\<open>str.lower\<close>: A to Z, and the Latin-1 capitals U+00C0 to U+00DE except U+00D7.\<close>

definition lower_char :: "char \<Rightarrow> char" where
  "lower_char c =
     (let n = ord_of c
      in if (65 \<le> n \<and> n \<le> 90) \<or> (192 \<le> n \<and> n \<le> 222 \<and> n \<noteq> 215) then char_of (n + 32) else c)"

definition py_lower :: "string \<Rightarrow> string" where
  "py_lower = map lower_char"

text \<open>\<open>bytes.lower\<close> touches ASCII letters only.\<close>

definition bytes_lower :: "bytes \<Rightarrow> bytes" where
  "bytes_lower = map (\<lambda>c. if 65 \<le> ord_of c \<and> ord_of c \<le> 90 then char_of (ord_of c + 32) else c)"

definition py_lstrip_by :: "(char \<Rightarrow> bool) \<Rightarrow> string \<Rightarrow> string" where
  "py_lstrip_by P s = dropWhile P s"

definition py_rstrip_by :: "(char \<Rightarrow> bool) \<Rightarrow> string \<Rightarrow> string" where
  "py_rstrip_by P s = rev (dropWhile P (rev s))"

definition py_strip :: "string \<Rightarrow> string" where
  "py_strip s = py_rstrip_by py_isspace (py_lstrip_by py_isspace s)"

definition py_rstrip_char :: "char \<Rightarrow> string \<Rightarrow> string" where
  "py_rstrip_char c s = py_rstrip_by (\<lambda>x. x = c) s"

text \<open>\<open>str.split(sep)\<close> for a one-character separator, and \<open>str.split()\<close>.\<close>

fun split_by :: "(char \<Rightarrow> bool) \<Rightarrow> string \<Rightarrow> string list" where
  "split_by P [] = [[]]"
| "split_by P (c # cs) =
     (if P c then [] # split_by P cs
      else (case split_by P cs of [] \<Rightarrow> [[c]] | w # ws \<Rightarrow> (c # w) # ws))"

definition split_on :: "char \<Rightarrow> string \<Rightarrow> string list" where
  "split_on c s = split_by (\<lambda>x. x = c) s"

definition py_split :: "string \<Rightarrow> string list" where
  "py_split s = filter (\<lambda>w. w \<noteq> []) (split_by py_isspace s)"

fun join :: "string \<Rightarrow> string list \<Rightarrow> string" where
  "join sep [] = []"
| "join sep [w] = w"
| "join sep (w # v # ws) = w @ sep @ join sep (v # ws)"

definition startswith :: "string \<Rightarrow> string \<Rightarrow> bool" where
  "startswith s p = (take (length p) s = p)"

definition endswith :: "string \<Rightarrow> string \<Rightarrow> bool" where
  "endswith s p = (length p \<le> length s \<and> drop (length s - length p) s = p)"

text \<open>\<open>p in s\<close>, and \<open>s.find(p)\<close> (None for -1).\<close>

fun py_find :: "string \<Rightarrow> string \<Rightarrow> nat option" where
  "py_find [] p = (if p = [] then Some 0 else None)"
| "py_find (c # cs) p =
     (if startswith (c # cs) p then Some 0 else map_option Suc (py_find cs p))"

definition contains :: "string \<Rightarrow> string \<Rightarrow> bool" where
  "contains s p = (py_find s p \<noteq> None)"

text \<open>\<open>str.partition\<close> and \<open>str.rpartition\<close> on one character: before, found, after.\<close>

definition partition_on :: "char \<Rightarrow> string \<Rightarrow> string \<times> bool \<times> string" where
  "partition_on c s =
     (if c \<in> set s then (takeWhile (\<lambda>x. x \<noteq> c) s, True, tl (dropWhile (\<lambda>x. x \<noteq> c) s))
      else (s, False, []))"

definition rpartition_on :: "char \<Rightarrow> string \<Rightarrow> string \<times> bool \<times> string" where
  "rpartition_on c s =
     (if c \<in> set s
      then (rev (tl (dropWhile (\<lambda>x. x \<noteq> c) (rev s))), True, rev (takeWhile (\<lambda>x. x \<noteq> c) (rev s)))
      else ([], False, s))"

text \<open>\<open>str(n)\<close> and \<open>int(s)\<close>.\<close>

fun show_nat :: "nat \<Rightarrow> string" where
  "show_nat n =
     (if n < 10 then [char_of (48 + n)] else show_nat (n div 10) @ [char_of (48 + n mod 10)])"

declare show_nat.simps [simp del]

definition show_int :: "int \<Rightarrow> string" where
  "show_int i = (if i < 0 then CHR ''-'' # show_nat (nat (- i)) else show_nat (nat i))"

definition nat_of_digits :: "string \<Rightarrow> nat" where
  "nat_of_digits s = foldl (\<lambda>n c. 10 * n + (ord_of c - 48)) 0 s"

text \<open>
  \<open>int(s)\<close>: surrounding whitespace, one sign, decimal digits with single underscores between
  them, and at most 4300 digits; None stands for \<open>ValueError\<close>.
\<close>

definition digit_groups :: "string \<Rightarrow> nat option" where
  "digit_groups s =
     (let gs = split_on (CHR ''_'') s
      in if list_all (\<lambda>g. g \<noteq> [] \<and> list_all is_digit g) gs \<and> length (concat gs) \<le> 4300
         then Some (nat_of_digits (concat gs)) else None)"

definition py_int :: "string \<Rightarrow> int option" where
  "py_int s =
     (case py_strip s of
        [] \<Rightarrow> None
      | c # cs \<Rightarrow>
          if c = CHR ''-'' then map_option (\<lambda>n. - int n) (digit_groups cs)
          else if c = CHR ''+'' then map_option int (digit_groups cs)
          else map_option int (digit_groups (c # cs)))"

section \<open>Sets of strings, sorted\<close>

text \<open>\<open>sorted(set(xs))\<close>.\<close>

definition sorted_set :: "'a::linorder list \<Rightarrow> 'a list" where
  "sorted_set xs = sort (remdups xs)"

lemma set_sorted_set [simp]: "set (sorted_set xs) = set xs"
  by (simp add: sorted_set_def)

lemma sorted_sorted_set [simp]: "sorted (sorted_set xs)"
  by (simp add: sorted_set_def)

lemma distinct_sorted_set [simp]: "distinct (sorted_set xs)"
  by (simp add: sorted_set_def)

lemma sorted_set_id: "sorted xs \<Longrightarrow> distinct xs \<Longrightarrow> sorted_set xs = xs"
  by (simp add: sorted_set_def distinct_remdups_id sort_key_id_if_sorted)

lemma sorted_set_idem [simp]: "sorted_set (sorted_set xs) = sorted_set xs"
  by (rule sorted_set_id) simp_all

lemma sorted_set_eqI: "set xs = set ys \<Longrightarrow> sorted_set xs = sorted_set ys"
  by (rule sorted_distinct_set_unique) simp_all

lemma sorted_set_eq_iff: "sorted_set xs = sorted_set ys \<longleftrightarrow> set xs = set ys"
  by (metis set_sorted_set sorted_set_eqI)

lemma sorted_set_Nil [simp]: "sorted_set [] = []"
  by (simp add: sorted_set_def)

lemma sorted_set_Nil_iff [simp]: "sorted_set xs = [] \<longleftrightarrow> xs = []"
  by (metis set_empty set_sorted_set sorted_set_Nil)

lemma sorted_list_of_set_conv: "sorted_list_of_set (set xs) = sorted_set xs"
  by (simp add: sorted_set_def sorted_list_of_set_sort_remdups)

section \<open>Laws of the string methods\<close>

lemma split_by_nonempty [simp]: "split_by P s \<noteq> []"
  by (induction s) (auto split: list.splits)

lemma split_by_no_sep: "w \<in> set (split_by P s) \<Longrightarrow> c \<in> set w \<Longrightarrow> \<not> P c"
proof (induction s arbitrary: w)
  case (Cons x xs)
  then show ?case by (fastforce split: list.splits if_splits)
qed simp

lemma split_by_chars: "w \<in> set (split_by P s) \<Longrightarrow> set w \<subseteq> set s"
proof (induction s arbitrary: w)
  case (Cons x xs)
  then show ?case by (fastforce split: list.splits if_splits)
qed simp

lemma split_by_id: "(\<And>c. c \<in> set s \<Longrightarrow> \<not> P c) \<Longrightarrow> split_by P s = [s]"
  by (induction s) auto

lemma split_by_append: "P c \<Longrightarrow> split_by P (xs @ c # ys) = split_by P xs @ split_by P ys"
  by (induction xs) (auto split: list.splits)

lemma split_by_join:
  assumes "P c" and "ws \<noteq> []" and "\<And>w x. w \<in> set ws \<Longrightarrow> x \<in> set w \<Longrightarrow> \<not> P x"
  shows "split_by P (join [c] ws) = ws"
  using assms(2,3)
proof (induction "[c]" ws rule: join.induct)
  case (3 w v ws)
  then have "split_by P (w @ c # join [c] (v # ws)) = split_by P w @ split_by P (join [c] (v # ws))"
    using assms(1) by (intro split_by_append)
  moreover have "split_by P w = [w]" using 3 by (intro split_by_id) auto
  moreover have "split_by P (join [c] (v # ws)) = v # ws" using 3 by (intro 3) auto
  ultimately show ?case by simp
qed (auto intro: split_by_id)

lemma py_split_no_space: "w \<in> set (py_split s) \<Longrightarrow> c \<in> set w \<Longrightarrow> \<not> py_isspace c"
  by (auto simp: py_split_def dest: split_by_no_sep)

lemma py_split_nonempty: "w \<in> set (py_split s) \<Longrightarrow> w \<noteq> []"
  by (simp add: py_split_def)

lemma py_split_join_space [str_simps]:
  assumes "\<And>w. w \<in> set ws \<Longrightarrow> w \<noteq> []"
    and "\<And>w x. w \<in> set ws \<Longrightarrow> x \<in> set w \<Longrightarrow> \<not> py_isspace x"
  shows "py_split (join '' '' ws) = ws"
proof (cases "ws = []")
  case True
  then show ?thesis by (simp add: py_split_def)
next
  case False
  have sp: "py_isspace CHR '' ''" by (simp add: py_isspace_def ord_of_def)
  have "split_by py_isspace (join '' '' ws) = ws"
    by (rule split_by_join [where P = py_isspace, OF sp False]) (use assms(2) in blast)
  with assms(1) show ?thesis
    by (simp add: py_split_def)
qed

lemma join_split_on [str_simps]: "join [c] (split_on c s) = s"
  unfolding split_on_def
proof (induction s)
  case (Cons x xs)
  show ?case
  proof (cases "split_by (\<lambda>y. y = c) xs")
    case (Cons w ws)
    with Cons.IH show ?thesis by (cases ws) auto
  qed simp
qed simp

lemma partition_on_True:
  "partition_on c s = (a, True, b) \<Longrightarrow> s = a @ c # b \<and> c \<notin> set a"
proof -
  assume h: "partition_on c s = (a, True, b)"
  then have c: "c \<in> set s" by (auto simp: partition_on_def split: if_splits)
  then have ne: "dropWhile (\<lambda>x. x \<noteq> c) s \<noteq> []" by (auto simp: dropWhile_eq_Nil_conv)
  moreover have "hd (dropWhile (\<lambda>x. x \<noteq> c) s) = c" using hd_dropWhile [OF ne] by simp
  ultimately have "dropWhile (\<lambda>x. x \<noteq> c) s = c # tl (dropWhile (\<lambda>x. x \<noteq> c) s)"
    by (cases "dropWhile (\<lambda>x. x \<noteq> c) s") auto
  moreover have "s = takeWhile (\<lambda>x. x \<noteq> c) s @ dropWhile (\<lambda>x. x \<noteq> c) s" by simp
  moreover have "a = takeWhile (\<lambda>x. x \<noteq> c) s" "b = tl (dropWhile (\<lambda>x. x \<noteq> c) s)"
    using h c by (auto simp: partition_on_def)
  moreover have "c \<notin> set (takeWhile (\<lambda>x. x \<noteq> c) s)" by (auto dest: set_takeWhileD)
  ultimately show ?thesis by simp
qed

lemma partition_on_False: "partition_on c s = (a, False, b) \<Longrightarrow> a = s \<and> b = [] \<and> c \<notin> set s"
  by (auto simp: partition_on_def split: if_splits)

lemma rpartition_on_False: "rpartition_on c s = (a, False, b) \<Longrightarrow> b = s \<and> c \<notin> set s"
  by (auto simp: rpartition_on_def split: if_splits)

lemma startswith_iff: "startswith s p \<longleftrightarrow> (\<exists>t. s = p @ t)"
  by (metis append_take_drop_id startswith_def append_eq_conv_conj)

lemma startswith_append [simp]: "startswith (p @ t) p"
  by (auto simp: startswith_iff)

lemma contains_iff: "contains s p \<longleftrightarrow> (\<exists>a b. s = a @ p @ b)"
proof (induction s)
  case Nil
  then show ?case by (simp add: contains_def)
next
  case (Cons c cs)
  have "contains (c # cs) p \<longleftrightarrow> startswith (c # cs) p \<or> contains cs p"
    by (simp add: contains_def)
  also have "\<dots> \<longleftrightarrow> (\<exists>a b. c # cs = a @ p @ b)"
  proof
    assume "startswith (c # cs) p \<or> contains cs p"
    then show "\<exists>a b. c # cs = a @ p @ b"
    proof
      assume "startswith (c # cs) p"
      then obtain t where "c # cs = [] @ p @ t" by (auto simp: startswith_iff)
      then show ?thesis by blast
    next
      assume "contains cs p"
      with Cons obtain a b where "cs = a @ p @ b" by blast
      then have "c # cs = (c # a) @ p @ b" by simp
      then show ?thesis by blast
    qed
  next
    assume "\<exists>a b. c # cs = a @ p @ b"
    then obtain a b where ab: "c # cs = a @ p @ b" by blast
    then show "startswith (c # cs) p \<or> contains cs p"
      using Cons by (cases a) (auto simp: startswith_iff)
  qed
  finally show ?case .
qed

section \<open>JSON-like values and dictionaries\<close>

text \<open>
  A dictionary is its list of items in insertion order. Assigning to a present key keeps its
  place, as \<open>AList.update\<close> does. Finite floats are exact rationals.
\<close>

type_synonym 'v dict = "(string \<times> 'v) list"

datatype pyval =
    PNone
  | PBool bool
  | PInt int
  | PFloat rat
  | PStr string
  | PList "pyval list"
  | PDict "(string \<times> pyval) list"

type_synonym claims = "pyval dict"

text \<open>\<open>d.get(k)\<close>: None for a missing key.\<close>

definition py_get :: "pyval dict \<Rightarrow> string \<Rightarrow> pyval" where
  "py_get d k = (case map_of d k of None \<Rightarrow> PNone | Some v \<Rightarrow> v)"

fun truthy :: "pyval \<Rightarrow> bool" where
  "truthy PNone = False"
| "truthy (PBool b) = b"
| "truthy (PInt i) = (i \<noteq> 0)"
| "truthy (PFloat r) = (r \<noteq> 0)"
| "truthy (PStr s) = (s \<noteq> [])"
| "truthy (PList vs) = (vs \<noteq> [])"
| "truthy (PDict kvs) = (kvs \<noteq> [])"

text \<open>\<open>isinstance(v, str)\<close> and its value; likewise for lists and objects.\<close>

fun as_str :: "pyval \<Rightarrow> string option" where
  "as_str (PStr s) = Some s" | "as_str _ = None"

fun as_list :: "pyval \<Rightarrow> pyval list option" where
  "as_list (PList vs) = Some vs" | "as_list _ = None"

fun as_dict :: "pyval \<Rightarrow> pyval dict option" where
  "as_dict (PDict d) = Some d" | "as_dict _ = None"

text \<open>\<open>isinstance(v, str) and v\<close>.\<close>

definition nonempty_str :: "pyval \<Rightarrow> bool" where
  "nonempty_str v = (case as_str v of None \<Rightarrow> False | Some s \<Rightarrow> s \<noteq> [])"

lemma as_str_Some [simp]: "as_str v = Some s \<longleftrightarrow> v = PStr s"
  by (cases v) auto

lemma as_list_Some [simp]: "as_list v = Some s \<longleftrightarrow> v = PList s"
  by (cases v) auto

lemma as_dict_Some [simp]: "as_dict v = Some s \<longleftrightarrow> v = PDict s"
  by (cases v) auto

lemma nonempty_str_iff: "nonempty_str v \<longleftrightarrow> (\<exists>s. v = PStr s \<and> s \<noteq> [])"
  by (cases v) (auto simp: nonempty_str_def)

lemma py_get_Nil [simp]: "py_get [] k = PNone"
  by (simp add: py_get_def)

lemma py_get_Cons [simp]: "py_get ((k', v) # d) k = (if k' = k then v else py_get d k)"
  by (simp add: py_get_def)

lemma py_get_update [simp]: "py_get (AList.update k v d) k' = (if k' = k then v else py_get d k')"
  by (simp add: py_get_def update_conv)

text \<open>\<open>int(v)\<close> on a claim; None stands for the exception.\<close>

fun py_int_of :: "pyval \<Rightarrow> int option" where
  "py_int_of (PBool b) = Some (if b then 1 else 0)"
| "py_int_of (PInt i) = Some i"
| "py_int_of (PFloat r) = Some (if 0 \<le> r then \<lfloor>r\<rfloor> else \<lceil>r\<rceil>)"
| "py_int_of (PStr s) = py_int s"
| "py_int_of _ = None"

text \<open>
  \<open>str(v)\<close>; \<open>repr_of\<close> renders the values whose text depends on float or container formatting.
\<close>

fun py_str :: "(pyval \<Rightarrow> string) \<Rightarrow> pyval \<Rightarrow> string" where
  "py_str repr_of PNone = ''None''"
| "py_str repr_of (PBool b) = (if b then ''True'' else ''False'')"
| "py_str repr_of (PInt i) = show_int i"
| "py_str repr_of (PStr s) = s"
| "py_str repr_of v = repr_of v"

text \<open>An object whose nested objects never repeat a key.\<close>

fun distinct_keys :: "pyval \<Rightarrow> bool" where
  "distinct_keys (PList vs) = list_all distinct_keys vs"
| "distinct_keys (PDict kvs) = (distinct (map fst kvs) \<and> list_all (\<lambda>kv. distinct_keys (snd kv)) kvs)"
| "distinct_keys _ = True"

end
