(* ===== verification/Domain.thy ===== *)
theory Domain
  imports Prelude "HOL-Library.FSet"
begin

text \<open>
  The domain layer (\<open>domain/\<close>): OIDC metadata, the provider-neutral principal, and the
  normalisation of scope and role claims. A \<open>frozenset\<close> is an \<open>fset\<close>.
\<close>

section \<open>Value objects\<close>

record oidc_metadata =
  md_issuer :: string
  md_jwks_uri :: string

datatype principal_kind = DELEGATED | APPLICATION | UNKNOWN

record principal =
  p_client_id :: string
  p_subject :: "string option"
  p_issuer :: "string option"
  p_kind :: principal_kind
  p_scopes :: "string fset"
  p_roles :: "string fset"

text \<open>
  The domain errors: each is a \<open>TokenVerificationError\<close>, which is what the token verifier
  catches.
\<close>

fun is_token_verification_error :: "exn \<Rightarrow> bool" where
  "is_token_verification_error DiscoveryError = True"
| "is_token_verification_error SigningKeyError = True"
| "is_token_verification_error ClaimValidationError = True"
| "is_token_verification_error _ = False"

section \<open>Scope and role claims\<close>

definition claim_words :: "pyval \<Rightarrow> string list" where
  "claim_words v = (case as_str v of None \<Rightarrow> [] | Some s \<Rightarrow> py_split s)"

definition scopes_from_claims :: "claims \<Rightarrow> string list" where
  "scopes_from_claims claims =
     sorted_set (claim_words (py_get claims ''scope'') @ claim_words (py_get claims ''scp''))"

definition roles_from_claims :: "claims \<Rightarrow> string list" where
  "roles_from_claims claims =
     (case as_list (py_get claims ''roles'') of
        None \<Rightarrow> []
      | Some rs \<Rightarrow> sorted_set [s. PStr s \<leftarrow> rs, s \<noteq> []])"

definition qualify_scope :: "string \<Rightarrow> string \<Rightarrow> string" where
  "qualify_scope prefix scope = (if contains scope ''://'' then scope else prefix @ scope)"

definition qualify_scopes :: "string list \<Rightarrow> string \<Rightarrow> string list" where
  "qualify_scopes scopes resource_uri =
     (let prefix = py_rstrip_char CHR ''/'' resource_uri @ ''/''
      in sorted_set (map (qualify_scope prefix) (filter (\<lambda>s. s \<noteq> []) scopes)))"

lemma scopes_from_claims_set:
  "set (scopes_from_claims c) = set (claim_words (py_get c ''scope'')) \<union> set (claim_words (py_get c ''scp''))"
  by (simp add: scopes_from_claims_def)

lemma claim_words_simps [simp]:
  "claim_words (PStr s) = py_split s" "claim_words PNone = []" "claim_words (PList vs) = []"
  by (simp_all add: claim_words_def)

lemma scopes_from_claims_canonical [simp]:
  "sorted (scopes_from_claims c)" "distinct (scopes_from_claims c)"
  by (simp_all add: scopes_from_claims_def)

text \<open>Only the claims \<open>scope\<close> and \<open>scp\<close> matter: no other claim is promoted to a scope.\<close>

lemma scopes_from_claims_frame:
  "k \<noteq> ''scope'' \<Longrightarrow> k \<noteq> ''scp'' \<Longrightarrow> scopes_from_claims (AList.update k v c) = scopes_from_claims c"
  by (simp add: scopes_from_claims_def)

lemma scopes_from_claims_tokens:
  "s \<in> set (scopes_from_claims c) \<Longrightarrow> s \<noteq> [] \<and> (\<forall>x \<in> set s. \<not> py_isspace x)"
  by (auto simp: scopes_from_claims_set claim_words_def split: option.splits
      dest: py_split_nonempty py_split_no_space)

lemma roles_from_claims_nonempty: "r \<in> set (roles_from_claims c) \<Longrightarrow> r \<noteq> []"
  by (auto simp: roles_from_claims_def split: option.splits pyval.splits if_splits)

text \<open>A scope set written as one space-delimited claim is read back unchanged.\<close>

lemma scopes_from_claims_join:
  assumes "\<And>w. w \<in> set ws \<Longrightarrow> w \<noteq> []" and "\<And>w x. w \<in> set ws \<Longrightarrow> x \<in> set w \<Longrightarrow> \<not> py_isspace x"
  shows "scopes_from_claims [(''scope'', PStr (join '' '' ws))] = sorted_set ws"
  using assms by (simp add: scopes_from_claims_def str_simps)

subsection \<open>Qualification\<close>

lemma contains_append_left: "contains p t \<Longrightarrow> contains (p @ s) t"
  by (auto simp: contains_iff) (metis append.assoc)

lemma qualify_scopes_set:
  "set (qualify_scopes ss u) =
     qualify_scope (py_rstrip_char CHR ''/'' u @ ''/'') ` {s \<in> set ss. s \<noteq> []}"
  by (auto simp: qualify_scopes_def Let_def)

lemma qualify_scopes_canonical [simp]:
  "sorted (qualify_scopes ss u)" "distinct (qualify_scopes ss u)"
  by (simp_all add: qualify_scopes_def Let_def)

lemma qualify_scope_nonempty: "s \<noteq> [] \<Longrightarrow> qualify_scope p s \<noteq> []"
  by (simp add: qualify_scope_def)

lemma qualify_scope_idem:
  "contains p ''://'' \<Longrightarrow> qualify_scope p (qualify_scope p s) = qualify_scope p s"
  by (simp add: qualify_scope_def contains_append_left)

lemma qualify_scope_image_fixed:
  assumes "contains p ''://''"
  shows "qualify_scope p ` {s \<in> qualify_scope p ` {s \<in> A. s \<noteq> []}. s \<noteq> []} = qualify_scope p ` {s \<in> A. s \<noteq> []}"
proof -
  have "{s \<in> qualify_scope p ` {s \<in> A. s \<noteq> []}. s \<noteq> []} = qualify_scope p ` {s \<in> A. s \<noteq> []}"
    using qualify_scope_nonempty by auto
  then show ?thesis by (simp add: image_image qualify_scope_idem [OF assms])
qed

text \<open>Every result is a value that was URI-qualified already, or a short name under this resource.\<close>

lemma qualify_scopes_origin:
  assumes "s \<in> set (qualify_scopes ss u)"
  shows "(s \<in> set ss \<and> contains s ''://'') \<or>
    (\<exists>t \<in> set ss. \<not> contains t ''://'' \<and> t \<noteq> [] \<and> s = py_rstrip_char CHR ''/'' u @ ''/'' @ t)"
  using assms unfolding qualify_scopes_set qualify_scope_def by (auto split: if_splits)

lemma qualify_scopes_idem:
  assumes "contains (py_rstrip_char CHR ''/'' u @ ''/'') ''://''"
  shows "qualify_scopes (qualify_scopes ss u) u = qualify_scopes ss u"
  by (rule sorted_distinct_set_unique)
    (simp_all only: qualify_scopes_canonical qualify_scopes_set qualify_scope_image_fixed [OF assms])

text \<open>Two short names never collide after qualification.\<close>

lemma qualify_scope_inj:
  "\<not> contains s ''://'' \<Longrightarrow> \<not> contains t ''://'' \<Longrightarrow> qualify_scope p s = qualify_scope p t \<Longrightarrow> s = t"
  by (simp add: qualify_scope_def)

end
