(* ===== verification/Tool_Authorization.thy ===== *)
theory Tool_Authorization
  imports Domain
begin

text \<open>
  \<open>application/tool_authorization.py\<close>: declarative, default-deny policies for MCP tools. The
  service is its policy registry, a dictionary from tool names to policies; constructing a
  policy can raise, so the constructors return a result.
\<close>

section \<open>Policies\<close>

datatype tool_policy_kind = AUTHENTICATED | DELEGATED_SCOPES | APPLICATION_ROLES | OAUTH_SCOPES

datatype authorization_reason =
  ALLOWED | POLICY_MISSING | UNAUTHENTICATED | WRONG_PRINCIPAL_KIND | MISSING_PERMISSION

record tool_policy =
  tp_kind :: tool_policy_kind
  tp_permissions :: "string fset"

fun policy_kind_value :: "tool_policy_kind \<Rightarrow> string" where
  "policy_kind_value AUTHENTICATED = ''authenticated''"
| "policy_kind_value DELEGATED_SCOPES = ''delegated_scopes''"
| "policy_kind_value APPLICATION_ROLES = ''application_roles''"
| "policy_kind_value OAUTH_SCOPES = ''oauth_scopes''"

fun reason_value :: "authorization_reason \<Rightarrow> string" where
  "reason_value ALLOWED = ''allowed''"
| "reason_value POLICY_MISSING = ''policy_missing''"
| "reason_value UNAUTHENTICATED = ''unauthenticated''"
| "reason_value WRONG_PRINCIPAL_KIND = ''wrong_principal_kind''"
| "reason_value MISSING_PERMISSION = ''missing_permission''"

text \<open>\<open>ToolPolicy(...)\<close> with its \<open>__post_init__\<close> checks.\<close>

definition make_policy :: "tool_policy_kind \<Rightarrow> string fset \<Rightarrow> tool_policy result" where
  "make_policy k perms =
     (if k = AUTHENTICATED \<and> perms \<noteq> {||}
      then Inl (ValueError ''authenticated tool policies cannot declare permissions'')
      else if k \<noteq> AUTHENTICATED \<and> perms = {||}
      then Inl (ValueError (policy_kind_value k @ '' tool policies require at least one permission''))
      else Inr \<lparr>tp_kind = k, tp_permissions = perms\<rparr>)"

definition is_valid_oauth_scope_token :: "string \<Rightarrow> bool" where
  "is_valid_oauth_scope_token value =
     list_all (\<lambda>c. let code = ord_of c
                   in code = 33 \<or> (35 \<le> code \<and> code \<le> 91) \<or> (93 \<le> code \<and> code \<le> 126)) value"

definition permissions_of :: "string list \<Rightarrow> string fset result" where
  "permissions_of values =
     (let permissions = fset_of_list (filter (\<lambda>v. v \<noteq> []) values)
      in if permissions = {||}
         then Inl (ValueError ''tool policy permissions must contain at least one non-empty value'')
         else Inr permissions)"

definition scope_permissions :: "string list \<Rightarrow> string fset result" where
  "scope_permissions values =
     rbind (permissions_of values) (\<lambda>permissions.
       if fBall permissions is_valid_oauth_scope_token then Inr permissions
       else Inl (ValueError ''invalid OAuth scope token''))"

definition policy_authenticated :: "tool_policy result" where
  "policy_authenticated = make_policy AUTHENTICATED {||}"

definition policy_delegated_scopes :: "string list \<Rightarrow> tool_policy result" where
  "policy_delegated_scopes scopes = rbind (scope_permissions scopes) (make_policy DELEGATED_SCOPES)"

definition policy_application_roles :: "string list \<Rightarrow> tool_policy result" where
  "policy_application_roles roles = rbind (permissions_of roles) (make_policy APPLICATION_ROLES)"

definition policy_oauth_scopes :: "string list \<Rightarrow> tool_policy result" where
  "policy_oauth_scopes scopes = rbind (scope_permissions scopes) (make_policy OAUTH_SCOPES)"

section \<open>Decisions\<close>

record authorization_decision =
  allowed :: bool
  reason :: authorization_reason
  required_scopes :: "string list"

type_synonym tool_authorization_service = "tool_policy dict"

text \<open>\<open>ToolAuthorizationService(policies)\<close> copies the registry.\<close>

definition make_service :: "tool_policy dict \<Rightarrow> tool_authorization_service" where
  "make_service policies = policies"

definition required_scopes_of :: "tool_policy \<Rightarrow> string list" where
  "required_scopes_of policy =
     (if tp_kind policy \<notin> {DELEGATED_SCOPES, OAUTH_SCOPES} then []
      else sorted_list_of_fset (tp_permissions policy))"

definition permission_decision :: "tool_policy \<Rightarrow> string fset \<Rightarrow> authorization_decision" where
  "permission_decision policy granted =
     (let rs = required_scopes_of policy
      in if tp_permissions policy |\<subseteq>| granted
         then \<lparr>allowed = True, reason = ALLOWED, required_scopes = rs\<rparr>
         else \<lparr>allowed = False, reason = MISSING_PERMISSION, required_scopes = rs\<rparr>)"

definition authorize ::
    "tool_authorization_service \<Rightarrow> string \<Rightarrow> principal option \<Rightarrow> authorization_decision" where
  "authorize svc tool_name who =
     (case map_of svc tool_name of
        None \<Rightarrow> \<lparr>allowed = False, reason = POLICY_MISSING, required_scopes = []\<rparr>
      | Some policy \<Rightarrow>
          (case who of
             None \<Rightarrow> \<lparr>allowed = False, reason = UNAUTHENTICATED,
                      required_scopes = required_scopes_of policy\<rparr>
           | Some p \<Rightarrow>
               (case tp_kind policy of
                  AUTHENTICATED \<Rightarrow> \<lparr>allowed = True, reason = ALLOWED, required_scopes = []\<rparr>
                | DELEGATED_SCOPES \<Rightarrow>
                    if p_kind p \<noteq> DELEGATED
                    then \<lparr>allowed = False, reason = WRONG_PRINCIPAL_KIND,
                          required_scopes = required_scopes_of policy\<rparr>
                    else permission_decision policy (p_scopes p)
                | APPLICATION_ROLES \<Rightarrow>
                    if p_kind p \<noteq> APPLICATION
                    then \<lparr>allowed = False, reason = WRONG_PRINCIPAL_KIND, required_scopes = []\<rparr>
                    else permission_decision policy (p_roles p)
                | OAUTH_SCOPES \<Rightarrow> permission_decision policy (p_scopes p))))"

definition is_visible :: "tool_authorization_service \<Rightarrow> string \<Rightarrow> principal option \<Rightarrow> bool" where
  "is_visible svc tool_name who = allowed (authorize svc tool_name who)"

definition required_scopes_for :: "tool_authorization_service \<Rightarrow> string \<Rightarrow> string list" where
  "required_scopes_for svc tool_name =
     (case map_of svc tool_name of None \<Rightarrow> [] | Some policy \<Rightarrow> required_scopes_of policy)"

section \<open>The access-control specification\<close>

text \<open>What a policy grants to an authenticated principal, and what the registry grants.\<close>

fun grants :: "tool_policy \<Rightarrow> principal \<Rightarrow> bool" where
  "grants policy p =
     (case tp_kind policy of
        AUTHENTICATED \<Rightarrow> True
      | DELEGATED_SCOPES \<Rightarrow> p_kind p = DELEGATED \<and> fset (tp_permissions policy) \<subseteq> fset (p_scopes p)
      | APPLICATION_ROLES \<Rightarrow> p_kind p = APPLICATION \<and> fset (tp_permissions policy) \<subseteq> fset (p_roles p)
      | OAUTH_SCOPES \<Rightarrow> fset (tp_permissions policy) \<subseteq> fset (p_scopes p))"

definition may_invoke :: "tool_authorization_service \<Rightarrow> string \<Rightarrow> principal option \<Rightarrow> bool" where
  "may_invoke svc tool_name who \<longleftrightarrow>
     (\<exists>policy p. map_of svc tool_name = Some policy \<and> who = Some p \<and> grants policy p)"

lemmas authorize_unfold = authorize_def permission_decision_def Let_def

lemma authorize_allowed_iff: "allowed (authorize svc t who) \<longleftrightarrow> may_invoke svc t who"
  by (auto simp: authorize_unfold may_invoke_def less_eq_fset.rep_eq
      split: option.splits tool_policy_kind.splits)

lemma authorize_reason_iff: "reason (authorize svc t who) = ALLOWED \<longleftrightarrow> may_invoke svc t who"
  by (auto simp: authorize_unfold may_invoke_def less_eq_fset.rep_eq
      split: option.splits tool_policy_kind.splits)

lemma authorize_missing_policy:
  "map_of svc t = None \<Longrightarrow> authorize svc t who = \<lparr>allowed = False, reason = POLICY_MISSING, required_scopes = []\<rparr>"
  by (simp add: authorize_def)

lemma authorize_required_scopes:
  "map_of svc t = Some pol \<Longrightarrow> required_scopes (authorize svc t who) \<in> {[], required_scopes_of pol}"
  by (auto simp: authorize_unfold split: option.splits tool_policy_kind.splits)

lemma set_required_scopes_of:
  "set (required_scopes_of pol) =
     (if tp_kind pol \<in> {DELEGATED_SCOPES, OAUTH_SCOPES} then fset (tp_permissions pol) else {})"
  by (simp add: required_scopes_of_def)

lemma sorted_distinct_required_scopes_of [simp]:
  "sorted (required_scopes_of pol)" "distinct (required_scopes_of pol)"
  by (simp_all add: required_scopes_of_def sorted_list_of_fset.rep_eq)

lemma authorize_required_canonical:
  "sorted (required_scopes (authorize svc t who)) \<and> distinct (required_scopes (authorize svc t who))"
  by (auto simp: authorize_unfold split: option.splits tool_policy_kind.splits)

text \<open>The reason \<open>MISSING_PERMISSION\<close> pins down the policy and what is missing.\<close>

lemma authorize_missing_permission:
  assumes "reason (authorize svc t (Some p)) = MISSING_PERMISSION"
  obtains pol where "map_of svc t = Some pol" "tp_kind pol \<noteq> AUTHENTICATED"
    "required_scopes (authorize svc t (Some p)) = required_scopes_of pol"
    "tp_kind pol \<in> {DELEGATED_SCOPES, OAUTH_SCOPES} \<Longrightarrow> \<not> fset (tp_permissions pol) \<subseteq> fset (p_scopes p)"
    "tp_kind pol = DELEGATED_SCOPES \<Longrightarrow> p_kind p = DELEGATED"
  using assms
  by (auto simp: authorize_unfold less_eq_fset.rep_eq split: option.splits tool_policy_kind.splits if_splits)

lemma authorize_step_up:
  assumes "reason (authorize svc t (Some p)) = MISSING_PERMISSION"
    and "required_scopes (authorize svc t (Some p)) \<noteq> []"
    and "set (required_scopes (authorize svc t (Some p))) \<subseteq> fset (p_scopes q)" and "p_kind q = p_kind p"
  shows "allowed (authorize svc t (Some q))"
proof -
  obtain pol where pol: "map_of svc t = Some pol"
    "required_scopes (authorize svc t (Some p)) = required_scopes_of pol"
    "tp_kind pol = DELEGATED_SCOPES \<Longrightarrow> p_kind p = DELEGATED"
    using assms(1) by (elim authorize_missing_permission) blast
  moreover have "tp_kind pol \<in> {DELEGATED_SCOPES, OAUTH_SCOPES}"
    using assms(2) pol(2) by (auto simp: required_scopes_of_def split: if_splits)
  ultimately show ?thesis
    using assms(3,4) by (auto simp: authorize_allowed_iff may_invoke_def set_required_scopes_of)
qed

lemma authorize_step_up_needed:
  assumes "reason (authorize svc t (Some p)) = MISSING_PERMISSION"
    and "required_scopes (authorize svc t (Some p)) \<noteq> []"
  shows "\<not> set (required_scopes (authorize svc t (Some p))) \<subseteq> fset (p_scopes p)"
proof -
  obtain pol where pol: "required_scopes (authorize svc t (Some p)) = required_scopes_of pol"
    "tp_kind pol \<in> {DELEGATED_SCOPES, OAUTH_SCOPES} \<Longrightarrow> \<not> fset (tp_permissions pol) \<subseteq> fset (p_scopes p)"
    using assms(1) by (elim authorize_missing_permission) blast
  with assms(2) show ?thesis
    by (auto simp: set_required_scopes_of required_scopes_of_def split: if_splits)
qed

text \<open>More scopes never turn another decision into a scope challenge.\<close>

lemma authorize_step_up_stable:
  assumes "\<not> (reason (authorize svc t (Some p)) = MISSING_PERMISSION \<and> required_scopes (authorize svc t (Some p)) \<noteq> [])"
    and "p_kind q = p_kind p" and "fset (p_scopes p) \<subseteq> fset (p_scopes q)"
  shows "\<not> (reason (authorize svc t (Some q)) = MISSING_PERMISSION \<and> required_scopes (authorize svc t (Some q)) \<noteq> [])"
  using assms
  by (auto simp: authorize_unfold less_eq_fset.rep_eq required_scopes_of_def
      split: option.splits tool_policy_kind.splits if_splits)

text \<open>
  The scopes an authenticated principal needs for a tool: none, unless the policy grants by scopes to
  principals of its kind. They are what a challenge for the tool asks for.
\<close>

definition scope_demand :: "tool_authorization_service \<Rightarrow> string \<Rightarrow> principal \<Rightarrow> string set" where
  "scope_demand svc tool_name p =
     (case map_of svc tool_name of
        None \<Rightarrow> {}
      | Some policy \<Rightarrow>
          if tp_kind policy = OAUTH_SCOPES \<or> tp_kind policy = DELEGATED_SCOPES \<and> p_kind p = DELEGATED
          then fset (tp_permissions policy) else {})"

lemma challenged_iff_demand:
  "reason (authorize svc t (Some p)) = MISSING_PERMISSION \<and> required_scopes (authorize svc t (Some p)) \<noteq> [] \<longleftrightarrow>
   \<not> scope_demand svc t p \<subseteq> fset (p_scopes p)"
  by (auto simp: authorize_unfold scope_demand_def less_eq_fset.rep_eq required_scopes_of_def sorted_list_of_fset.rep_eq
      split: option.splits tool_policy_kind.splits)

lemma demanded_scopes:
  "\<not> scope_demand svc t p \<subseteq> fset (p_scopes p) \<Longrightarrow> set (required_scopes (authorize svc t (Some p))) = scope_demand svc t p"
  by (auto simp: authorize_unfold scope_demand_def less_eq_fset.rep_eq required_scopes_of_def sorted_list_of_fset.rep_eq
      split: option.splits tool_policy_kind.splits if_splits)

text \<open>Scopes and roles are separate signals, and permissions are monotone in each.\<close>

lemma may_invoke_mono:
  "may_invoke svc t (Some p) \<Longrightarrow> p_kind q = p_kind p \<Longrightarrow> p_scopes p |\<subseteq>| p_scopes q \<Longrightarrow>
   p_roles p |\<subseteq>| p_roles q \<Longrightarrow> may_invoke svc t (Some q)"
  by (fastforce simp: may_invoke_def less_eq_fset.rep_eq split: tool_policy_kind.splits)

lemma authorize_ignores_roles:
  "map_of svc t = Some pol \<Longrightarrow> tp_kind pol \<noteq> APPLICATION_ROLES \<Longrightarrow>
   authorize svc t (Some (p\<lparr>p_roles := rs\<rparr>)) = authorize svc t (Some p)"
  by (auto simp: authorize_unfold split: tool_policy_kind.splits)

lemma authorize_ignores_scopes:
  "map_of svc t = Some pol \<Longrightarrow> tp_kind pol = APPLICATION_ROLES \<Longrightarrow>
   authorize svc t (Some (p\<lparr>p_scopes := ss\<rparr>)) = authorize svc t (Some p)"
  by (auto simp: authorize_unfold split: tool_policy_kind.splits)

section \<open>Well-formed registries\<close>

text \<open>What the constructors establish.\<close>

definition policy_ok :: "tool_policy \<Rightarrow> bool" where
  "policy_ok pol \<longleftrightarrow>
     (tp_kind pol = AUTHENTICATED \<longleftrightarrow> tp_permissions pol = {||}) \<and>
     fBall (tp_permissions pol) (\<lambda>v. v \<noteq> []) \<and>
     (tp_kind pol \<in> {DELEGATED_SCOPES, OAUTH_SCOPES} \<longrightarrow> fBall (tp_permissions pol) is_valid_oauth_scope_token)"

definition service_ok :: "tool_authorization_service \<Rightarrow> bool" where
  "service_ok svc \<longleftrightarrow> list_all (\<lambda>kv. policy_ok (snd kv)) svc"

lemma permissions_of_Inr:
  "permissions_of vs = Inr ps \<Longrightarrow> fset ps = {v \<in> set vs. v \<noteq> []} \<and> ps \<noteq> {||}"
  by (auto simp: permissions_of_def Let_def fset_of_list.rep_eq split: if_splits)

lemma scope_permissions_Inr:
  "scope_permissions vs = Inr ps \<Longrightarrow>
   fset ps = {v \<in> set vs. v \<noteq> []} \<and> ps \<noteq> {||} \<and> fBall ps is_valid_oauth_scope_token"
  by (auto simp: scope_permissions_def rbind_Inr_iff dest!: permissions_of_Inr split: if_splits)

lemma make_policy_Inr:
  "make_policy k ps = Inr pol \<longleftrightarrow> (k = AUTHENTICATED \<longleftrightarrow> ps = {||}) \<and> pol = \<lparr>tp_kind = k, tp_permissions = ps\<rparr>"
  by (auto simp: make_policy_def)

lemma policy_authenticated_ok: "policy_authenticated = Inr pol \<Longrightarrow> policy_ok pol"
  by (auto simp: policy_authenticated_def make_policy_Inr policy_ok_def)

lemma policy_delegated_ok: "policy_delegated_scopes vs = Inr pol \<Longrightarrow> policy_ok pol"
  by (auto simp: policy_delegated_scopes_def rbind_Inr_iff make_policy_Inr policy_ok_def
      dest!: scope_permissions_Inr)

lemma policy_oauth_ok: "policy_oauth_scopes vs = Inr pol \<Longrightarrow> policy_ok pol"
  by (auto simp: policy_oauth_scopes_def rbind_Inr_iff make_policy_Inr policy_ok_def
      dest!: scope_permissions_Inr)

lemma policy_roles_ok:
  assumes "policy_application_roles vs = Inr pol"
  shows "policy_ok pol"
proof -
  obtain ps where "permissions_of vs = Inr ps" and "pol = \<lparr>tp_kind = APPLICATION_ROLES, tp_permissions = ps\<rparr>"
    using assms by (auto simp: policy_application_roles_def rbind_Inr_iff make_policy_Inr)
  then show ?thesis using permissions_of_Inr [of vs ps] by (simp add: policy_ok_def)
qed

lemmas policy_constructors_ok =
  policy_authenticated_ok policy_delegated_ok policy_oauth_ok policy_roles_ok

lemma service_ok_lookup: "service_ok svc \<Longrightarrow> map_of svc t = Some pol \<Longrightarrow> policy_ok pol"
  by (auto simp: service_ok_def list_all_iff dest!: map_of_SomeD)

text \<open>Every scope a decision of a well-formed registry advertises can be put in a header.\<close>

lemma authorize_required_tokens:
  assumes "service_ok svc" and "s \<in> set (required_scopes (authorize svc t who))"
  shows "s \<noteq> [] \<and> is_valid_oauth_scope_token s"
proof (cases "map_of svc t")
  case None
  with assms(2) show ?thesis by (simp add: authorize_def)
next
  case (Some pol)
  with assms(2) have "s \<in> set (required_scopes_of pol)"
    using authorize_required_scopes [OF Some, of who] by auto
  then have "s \<in> fset (tp_permissions pol)" "tp_kind pol \<in> {DELEGATED_SCOPES, OAUTH_SCOPES}"
    by (simp_all add: set_required_scopes_of split: if_splits)
  with service_ok_lookup [OF assms(1) Some] show ?thesis
    by (auto simp: policy_ok_def)
qed

lemma scope_demand_tokens:
  assumes "service_ok svc" and "s \<in> scope_demand svc t p"
  shows "s \<noteq> [] \<and> is_valid_oauth_scope_token s"
  using assms service_ok_lookup [OF assms(1), of t]
  by (auto simp: scope_demand_def policy_ok_def split: option.splits if_splits)

section \<open>The authorizer as an interface\<close>

text \<open>
  What the token verifier and the MCP middleware rely on: they call \<open>authorize\<close> and know of the
  registry only these laws.
\<close>

locale tool_authorizer =
  fixes decide :: "string \<Rightarrow> principal option \<Rightarrow> authorization_decision"
  assumes anonymous_denied: "\<not> allowed (decide t None)"
    and allowed_has_no_reason: "allowed (decide t who) \<longleftrightarrow> reason (decide t who) = ALLOWED"
    and step_up_needed:
      "reason (decide t (Some p)) = MISSING_PERMISSION \<Longrightarrow> required_scopes (decide t (Some p)) \<noteq> [] \<Longrightarrow>
       \<not> set (required_scopes (decide t (Some p))) \<subseteq> fset (p_scopes p)"
    and step_up_enough:
      "reason (decide t (Some p)) = MISSING_PERMISSION \<Longrightarrow> required_scopes (decide t (Some p)) \<noteq> [] \<Longrightarrow>
       set (required_scopes (decide t (Some p))) \<subseteq> fset (p_scopes q) \<Longrightarrow> p_kind q = p_kind p \<Longrightarrow>
       allowed (decide t (Some q))"
    and step_up_stable:
      "\<not> (reason (decide t (Some p)) = MISSING_PERMISSION \<and> required_scopes (decide t (Some p)) \<noteq> []) \<Longrightarrow>
       p_kind q = p_kind p \<Longrightarrow> fset (p_scopes p) \<subseteq> fset (p_scopes q) \<Longrightarrow>
       \<not> (reason (decide t (Some q)) = MISSING_PERMISSION \<and> required_scopes (decide t (Some q)) \<noteq> [])"
begin

lemma allowed_authenticated: "allowed (decide t who) \<Longrightarrow> \<exists>p. who = Some p"
  using anonymous_denied by (cases who) auto

lemma denied_reason: "\<not> allowed (decide t who) \<Longrightarrow> reason (decide t who) \<noteq> ALLOWED"
  by (simp add: allowed_has_no_reason)

end

interpretation svc: tool_authorizer "authorize policies" for policies
proof unfold_locales
  show "\<not> allowed (authorize policies t None)" for t
    by (simp add: authorize_allowed_iff may_invoke_def)
  show "allowed (authorize policies t who) \<longleftrightarrow> reason (authorize policies t who) = ALLOWED" for t who
    by (simp add: authorize_allowed_iff authorize_reason_iff)
qed (fact authorize_step_up_needed authorize_step_up authorize_step_up_stable)+

end
