(* ===== verification/Mcp_Principal.thy ===== *)
theory Mcp_Principal
  imports Domain
begin

text \<open>
  \<open>adapters/mcp_principal.py\<close>: from the SDK's access token to the domain principal. The SDK's
  \<open>AccessToken\<close> is the record \<open>access_token\<close>; a request is what \<open>getattr(request, "user")\<close> finds on
  it. \<open>repr_of\<close> is \<open>str()\<close> on floats and containers (see \<open>py_str\<close>).
\<close>

record access_token =
  at_token :: string
  at_client_id :: string
  at_scopes :: "string list"
  at_expires_at :: "int option"
  at_resource :: "string option"
  at_subject :: "string option"
  at_claims :: "claims option"

datatype auth_provider = Entra | Generic

text \<open>
  No request object; a request whose \<open>user\<close> property raises \<open>AssertionError\<close>; one whose user is
  not an \<open>AuthenticatedUser\<close>; one with an authenticated user.
\<close>

datatype http_request = NoRequest | UserAssertion | OtherUser | AuthenticatedUser access_token

definition claims_of :: "access_token \<Rightarrow> claims" where
  "claims_of tok = (case at_claims tok of None \<Rightarrow> [] | Some c \<Rightarrow> c)"

definition entra_principal_kind :: "claims \<Rightarrow> principal_kind" where
  "entra_principal_kind claims =
     (let scp = py_get claims ''scp'';
          has_delegated_scopes = (case as_str scp of None \<Rightarrow> False | Some s \<Rightarrow> py_split s \<noteq> []);
          idtyp = py_get claims ''idtyp''
      in if has_delegated_scopes
         then (if idtyp = PStr ''app'' then UNKNOWN else DELEGATED)
         else if idtyp = PStr ''app'' then APPLICATION
         else UNKNOWN)"

definition principal_from_access_token ::
    "(pyval \<Rightarrow> string) \<Rightarrow> access_token \<Rightarrow> auth_provider \<Rightarrow> principal" where
  "principal_from_access_token repr_of tok provider =
     (let claims = claims_of tok;
          issuer_value = py_get claims ''iss'';
          issuer = (if issuer_value \<noteq> PNone then Some (py_str repr_of issuer_value) else None)
      in \<lparr>p_client_id = at_client_id tok,
          p_subject = at_subject tok,
          p_issuer = issuer,
          p_kind = (if provider = Entra then entra_principal_kind claims else UNKNOWN),
          p_scopes = fset_of_list (at_scopes tok),
          p_roles = (if provider = Entra then fset_of_list (roles_from_claims claims) else {||})\<rparr>)"

fun access_token_from_request :: "http_request \<Rightarrow> access_token option" where
  "access_token_from_request NoRequest = None"
| "access_token_from_request UserAssertion = None"
| "access_token_from_request OtherUser = None"
| "access_token_from_request (AuthenticatedUser tok) = Some tok"

definition principal_from_request ::
    "(pyval \<Rightarrow> string) \<Rightarrow> http_request \<Rightarrow> auth_provider \<Rightarrow> principal option" where
  "principal_from_request repr_of request provider =
     (case access_token_from_request request of
        None \<Rightarrow> None
      | Some tok \<Rightarrow> Some (principal_from_access_token repr_of tok provider))"

lemma principal_from_access_token_simps [simp]:
  "p_client_id (principal_from_access_token R tok pr) = at_client_id tok"
  "fset (p_scopes (principal_from_access_token R tok pr)) = set (at_scopes tok)"
  "p_kind (principal_from_access_token R tok Entra) = entra_principal_kind (claims_of tok)"
  "p_kind (principal_from_access_token R tok Generic) = UNKNOWN"
  "p_roles (principal_from_access_token R tok Generic) = {||}"
  "fset (p_roles (principal_from_access_token R tok Entra)) = set (roles_from_claims (claims_of tok))"
  by (simp_all add: principal_from_access_token_def Let_def fset_of_list.rep_eq)

lemma entra_kind_delegated_iff:
  "entra_principal_kind c = DELEGATED \<longleftrightarrow>
   (\<exists>s. py_get c ''scp'' = PStr s \<and> py_split s \<noteq> []) \<and> py_get c ''idtyp'' \<noteq> PStr ''app''"
  by (cases "py_get c ''scp''") (auto simp: entra_principal_kind_def Let_def)

lemma entra_kind_application_iff:
  "entra_principal_kind c = APPLICATION \<longleftrightarrow>
   claim_words (py_get c ''scp'') = [] \<and> py_get c ''idtyp'' = PStr ''app''"
  by (cases "py_get c ''scp''") (auto simp: entra_principal_kind_def Let_def claim_words_def)

text \<open>Only \<open>scp\<close> and \<open>idtyp\<close> decide the identity mode; roles are no proof of it.\<close>

lemma entra_kind_frame:
  "k \<noteq> ''scp'' \<Longrightarrow> k \<noteq> ''idtyp'' \<Longrightarrow> entra_principal_kind (AList.update k v c) = entra_principal_kind c"
  by (simp add: entra_principal_kind_def)

lemma principal_from_request_Some:
  "principal_from_request R req pr = Some p \<longleftrightarrow>
   (\<exists>tok. req = AuthenticatedUser tok \<and> p = principal_from_access_token R tok pr)"
  by (cases req) (auto simp: principal_from_request_def)

end
