(* ===== verification/Security_Audit.thy ===== *)
theory Security_Audit
  imports Domain
begin

text \<open>
  \<open>adapters/security_audit.py\<close>: one allowlisted record per security event. The log is the list of
  the records' fields, in the order they were emitted.
\<close>

datatype audit_action =
    AUTHENTICATION_REJECTED | AUTHORIZATION_DENIED | OAUTH_SCOPE_STEP_UP
  | TRANSPORT_REJECTED | OUTBOUND_CREDENTIAL_BLOCKED

datatype audit_outcome = DENIED | CHALLENGED

fun action_value :: "audit_action \<Rightarrow> string" where
  "action_value AUTHENTICATION_REJECTED = ''authentication_rejected''"
| "action_value AUTHORIZATION_DENIED = ''authorization_denied''"
| "action_value OAUTH_SCOPE_STEP_UP = ''oauth_scope_step_up''"
| "action_value TRANSPORT_REJECTED = ''transport_rejected''"
| "action_value OUTBOUND_CREDENTIAL_BLOCKED = ''outbound_credential_blocked''"

fun outcome_value :: "audit_outcome \<Rightarrow> string" where
  "outcome_value DENIED = ''denied''"
| "outcome_value CHALLENGED = ''challenged''"

fun kind_value :: "principal_kind \<Rightarrow> string" where
  "kind_value DELEGATED = ''delegated''"
| "kind_value APPLICATION = ''application''"
| "kind_value UNKNOWN = ''unknown''"

definition bounded_text :: "string \<Rightarrow> nat \<Rightarrow> string" where
  "bounded_text value limit = (if length value \<le> limit then value else take limit value @ ''...'')"

text \<open>The optional keyword arguments of \<open>emit_security_audit\<close>.\<close>

record audit_args =
  aa_principal :: "principal option"
  aa_tool_name :: "string option"
  aa_status_code :: "nat option"
  aa_required_scope_count :: "nat option"
  aa_target_kind :: "string option"

definition no_args :: audit_args where
  "no_args = \<lparr>aa_principal = None, aa_tool_name = None, aa_status_code = None,
              aa_required_scope_count = None, aa_target_kind = None\<rparr>"

definition audit_record ::
    "audit_action \<Rightarrow> audit_outcome \<Rightarrow> string \<Rightarrow> audit_args \<Rightarrow> pyval dict" where
  "audit_record action outcome reason args =
     [(''schema_version'', PInt 1),
      (''action'', PStr (action_value action)),
      (''outcome'', PStr (outcome_value outcome)),
      (''reason'', PStr (bounded_text reason 128))]
   @ (case aa_principal args of None \<Rightarrow> []
      | Some p \<Rightarrow> [(''principal_kind'', PStr (kind_value (p_kind p))),
                   (''client_id'', PStr (bounded_text (p_client_id p) 256))])
   @ (case aa_tool_name args of None \<Rightarrow> [] | Some t \<Rightarrow> [(''tool_name'', PStr (bounded_text t 256))])
   @ (case aa_status_code args of None \<Rightarrow> [] | Some n \<Rightarrow> [(''status_code'', PInt (int n))])
   @ (case aa_required_scope_count args of None \<Rightarrow> []
      | Some n \<Rightarrow> [(''required_scope_count'', PInt (int n))])
   @ (case aa_target_kind args of None \<Rightarrow> [] | Some t \<Rightarrow> [(''target_kind'', PStr t)])"

type_synonym audit_log = "pyval dict list"

definition emit_security_audit ::
    "audit_action \<Rightarrow> audit_outcome \<Rightarrow> string \<Rightarrow> audit_args \<Rightarrow> audit_log \<Rightarrow> audit_log" where
  "emit_security_audit action outcome reason args entries = entries @ [audit_record action outcome reason args]"

lemma bounded_text_length: "length (bounded_text s n) \<le> n + 3"
  by (simp add: bounded_text_def)

lemma bounded_text_short [simp]: "length s \<le> n \<Longrightarrow> bounded_text s n = s"
  by (simp add: bounded_text_def)

definition audit_fields :: "string set" where
  "audit_fields = {''schema_version'', ''action'', ''outcome'', ''reason'', ''principal_kind'', ''client_id'',
     ''tool_name'', ''status_code'', ''required_scope_count'', ''target_kind''}"

lemma audit_record_fields: "fst ` set (audit_record a out r args) \<subseteq> audit_fields"
  by (auto simp: audit_record_def audit_fields_def split: option.splits)

lemma audit_record_distinct: "distinct (map fst (audit_record a out r args))"
  by (auto simp: audit_record_def split: option.splits)

text \<open>The values that a peer can influence are bounded.\<close>

lemma audit_record_bounded:
  assumes "(k, PStr s) \<in> set (audit_record a out r args)" and "k \<in> {''reason'', ''client_id'', ''tool_name''}"
  shows "length s \<le> 259"
  using assms bounded_text_length [of r 128] bounded_text_length [of _ 256]
  by (auto simp: audit_record_def split: option.splits)

text \<open>Of a principal, the record depends on its kind and client id only.\<close>

lemma audit_record_principal_frame:
  assumes "p_kind q = p_kind p" and "p_client_id q = p_client_id p"
  shows "audit_record a out r (args\<lparr>aa_principal := Some q\<rparr>) = audit_record a out r (args\<lparr>aa_principal := Some p\<rparr>)"
  using assms by (simp add: audit_record_def)

end
