(* ===== verification/Mcp_Tool_Authorization.thy ===== *)
theory Mcp_Tool_Authorization
  imports Tool_Authorization Mcp_Principal Security_Audit
begin

text \<open>
  \<open>adapters/mcp_tool_authorization.py\<close>: the MCP server middleware that filters \<open>tools/list\<close> and
  guards \<open>tools/call\<close>. A handler result is the SDK's list model, a wire dictionary, a tool-call
  result or anything else. \<open>call_next\<close> is the rest of the chain; its own state is \<open>'s\<close>.
\<close>

record tool_model =
  tm_name :: string
  tm_rest :: pyval

datatype handler_result =
    ListToolsResult "tool_model list" "pyval dict"
  | WireDict "pyval dict"
  | CallToolResult "string list" bool
  | OtherHandlerResult pyval

record server_request =
  sr_method :: string
  sr_params :: "pyval dict option"
  sr_request :: http_request

record 's mcp_state =
  ms_inner :: 's
  ms_audit :: audit_log

type_synonym 's call_next = "server_request \<Rightarrow> 's mcp_state \<Rightarrow> handler_result result \<times> 's mcp_state"

definition denied_text :: string where
  "denied_text = ''Authorization denied for this tool.''"

text \<open>The entries of a wire list that survive.\<close>

definition visible_entry :: "tool_authorization_service \<Rightarrow> principal option \<Rightarrow> pyval \<Rightarrow> bool" where
  "visible_entry svc who tool =
     (case as_dict tool of
        None \<Rightarrow> False
      | Some d \<Rightarrow> (case as_str (py_get d ''name'') of None \<Rightarrow> False | Some name \<Rightarrow> is_visible svc name who))"

fun filter_tool_list :: "tool_authorization_service \<Rightarrow> principal option \<Rightarrow> handler_result \<Rightarrow> handler_result" where
  "filter_tool_list svc who (ListToolsResult tools rest) =
     ListToolsResult (filter (\<lambda>t. is_visible svc (tm_name t) who) tools) rest"
| "filter_tool_list svc who (WireDict d) =
     (case as_list (py_get d ''tools'') of
        Some tools \<Rightarrow> WireDict (AList.update ''tools'' (PList (filter (visible_entry svc who) tools)) d)
      | None \<Rightarrow> ListToolsResult [] [])"
| "filter_tool_list svc who _ = ListToolsResult [] []"

definition tool_name_of :: "server_request \<Rightarrow> string option" where
  "tool_name_of ctx =
     (let name = (case sr_params ctx of None \<Rightarrow> PNone | Some params \<Rightarrow> py_get params ''name'')
      in if nonempty_str name then as_str name else None)"

definition tool_middleware ::
    "tool_authorization_service \<Rightarrow> auth_provider \<Rightarrow> (pyval \<Rightarrow> string) \<Rightarrow> 's call_next \<Rightarrow> 's call_next" where
  "tool_middleware svc provider repr_of call_next ctx st =
     (if sr_method ctx = ''tools/list''
      then (case call_next ctx st of
              (Inl e, st') \<Rightarrow> (Inl e, st')
            | (Inr r, st') \<Rightarrow>
                (Inr (filter_tool_list svc (principal_from_request repr_of (sr_request ctx) provider) r), st'))
      else if sr_method ctx \<noteq> ''tools/call'' then call_next ctx st
      else (case tool_name_of ctx of
              None \<Rightarrow> call_next ctx st
            | Some tool_name \<Rightarrow>
                let principal = principal_from_request repr_of (sr_request ctx) provider;
                    decision = authorize svc tool_name principal
                in if allowed decision then call_next ctx st
                   else (Inr (CallToolResult [denied_text] True),
                         st\<lparr>ms_audit := emit_security_audit AUTHORIZATION_DENIED DENIED
                              (reason_value (reason decision))
                              (no_args\<lparr>aa_principal := principal, aa_tool_name := Some tool_name\<rparr>)
                              (ms_audit st)\<rparr>)))"

section \<open>Calls\<close>

lemma tool_name_of_Some: "tool_name_of ctx = Some n \<Longrightarrow>
    n \<noteq> [] \<and> (\<exists>params. sr_params ctx = Some params \<and> py_get params ''name'' = PStr n)"
  by (auto simp: tool_name_of_def Let_def nonempty_str_iff split: if_splits option.splits)

lemma tool_call_allowed:
  "sr_method ctx = ''tools/call'' \<Longrightarrow> tool_name_of ctx = Some n \<Longrightarrow>
   may_invoke svc n (principal_from_request R (sr_request ctx) pr) \<Longrightarrow>
   tool_middleware svc pr R next ctx st = next ctx st"
  by (simp add: tool_middleware_def Let_def authorize_allowed_iff)

lemma tool_call_denied:
  "sr_method ctx = ''tools/call'' \<Longrightarrow> tool_name_of ctx = Some n \<Longrightarrow>
   \<not> may_invoke svc n (principal_from_request R (sr_request ctx) pr) \<Longrightarrow>
   fst (tool_middleware svc pr R next ctx st) = Inr (CallToolResult [denied_text] True) \<and>
   ms_inner (snd (tool_middleware svc pr R next ctx st)) = ms_inner st \<and>
   length (ms_audit (snd (tool_middleware svc pr R next ctx st))) = Suc (length (ms_audit st))"
  by (simp add: tool_middleware_def Let_def authorize_allowed_iff emit_security_audit_def)

section \<open>Listings\<close>

text \<open>A wire entry survives exactly when it is an object whose name is a tool the principal may invoke.\<close>

lemma visible_entry_iff:
  "visible_entry svc who tool \<longleftrightarrow> (\<exists>d name. tool = PDict d \<and> py_get d ''name'' = PStr name \<and> may_invoke svc name who)"
  by (cases tool) (auto simp: visible_entry_def is_visible_def authorize_allowed_iff split: option.splits)

text \<open>The members of a filtered wire list: the tools are the surviving ones, everything else is as it was.\<close>

lemma filtered_wire:
  assumes "py_get d ''tools'' = PList tools"
  obtains d' where "filter_tool_list svc who (WireDict d) = WireDict d'"
    "map_of d' = (map_of d)(''tools'' \<mapsto> PList (filter (visible_entry svc who) tools))" "map fst d' = map fst d"
proof -
  from assms have "''tools'' \<in> set (map fst d)"
    by (auto simp: py_get_def image_iff dest!: map_of_SomeD intro: rev_bexI split: option.splits)
  then have "map fst (AList.update ''tools'' v d) = map fst d" for v by (simp add: update_keys)
  with assms show ?thesis
    by (intro that [of "AList.update ''tools'' (PList (filter (visible_entry svc who) tools)) d"]) (simp_all add: update_conv')
qed

end
