(* ===== verification/Python_Ip.thy ===== *)
theory Python_Ip
  imports Prelude "HOL-Library.Word"
begin

unbundle bit_operations_syntax

text \<open>
  Python's \<open>ipaddress\<close> as the code uses it: parsing an address literal, \<open>ipv4_mapped\<close>,
  \<open>is_loopback\<close> and \<open>is_global\<close>. Addresses are machine words; a network test compares the high bits.
  The tables are those of Python 3.13 (the oldest interpreter the project supports).
\<close>

type_synonym ipv4 = "32 word"
type_synonym ipv6 = "128 word"

text \<open>An IPv6 address keeps its scope id, the text after a percent sign.\<close>

datatype ip_address = IPv4 ipv4 | IPv6 ipv6 "string option"

section \<open>Parsing\<close>

definition parse_octet :: "string \<Rightarrow> nat option" where
  "parse_octet s =
     (if s \<noteq> [] \<and> list_all is_digit s \<and> length s \<le> 3 \<and> (s = ''0'' \<or> hd s \<noteq> CHR ''0'')
         \<and> nat_of_digits s \<le> 255
      then Some (nat_of_digits s) else None)"

definition parse_ipv4 :: "string \<Rightarrow> ipv4 option" where
  "parse_ipv4 s =
     (case map parse_octet (split_on CHR ''.'' s) of
        [Some a, Some b, Some c, Some d] \<Rightarrow> Some (of_nat (((a * 256 + b) * 256 + c) * 256 + d))
      | _ \<Rightarrow> None)"

definition hex_value :: "char \<Rightarrow> nat option" where
  "hex_value c =
     (let n = ord_of c in
      if 48 \<le> n \<and> n \<le> 57 then Some (n - 48)
      else if 97 \<le> n \<and> n \<le> 102 then Some (n - 87)
      else if 65 \<le> n \<and> n \<le> 70 then Some (n - 55)
      else None)"

definition parse_hextet :: "string \<Rightarrow> nat option" where
  "parse_hextet s =
     (if s \<noteq> [] \<and> length s \<le> 4 \<and> list_all (\<lambda>c. hex_value c \<noteq> None) s
      then Some (foldl (\<lambda>n c. 16 * n + the (hex_value c)) 0 s) else None)"

text \<open>
  A trailing dotted quad counts as two hextets. The parts are kept as values: None for an empty
  part, which only the double colon may leave, and the parse fails on any other malformed part.
\<close>

definition hextet_parts :: "string \<Rightarrow> nat option list option" where
  "hextet_parts s =
     (let parts = split_on CHR '':'' s;
          plain = (\<lambda>p. if p = [] then Some None else map_option Some (parse_hextet p));
          sequence = (\<lambda>rs. if list_all (\<lambda>r. r \<noteq> None) rs then Some (map the rs) else None)
      in if length parts < 3 then None
         else if CHR ''.'' \<in> set (last parts)
         then (case parse_ipv4 (last parts) of
                 None \<Rightarrow> None
               | Some v \<Rightarrow> map_option (\<lambda>ps. ps @ [Some (unat (drop_bit 16 v)), Some (unat (take_bit 16 v))])
                             (sequence (map plain (butlast parts))))
         else sequence (map plain parts))"

definition hextets_value :: "nat list \<Rightarrow> ipv6" where
  "hextets_value hs = foldl (\<lambda>w h. push_bit 16 w OR of_nat h) 0 hs"

text \<open>The places of empty parts strictly inside the list.\<close>

definition inner_gaps :: "nat option list \<Rightarrow> nat list" where
  "inner_gaps ps = filter (\<lambda>i. ps ! i = None) [1 ..< length ps - 1]"

definition ipv6_of_parts :: "nat option list \<Rightarrow> ipv6 option" where
  "ipv6_of_parts ps =
     (if length ps > 9 then None
      else (case inner_gaps ps of
        [] \<Rightarrow> if length ps = 8 \<and> list_all (\<lambda>p. p \<noteq> None) ps then Some (hextets_value (map the ps)) else None
      | [i] \<Rightarrow>
          (let hi = take i ps; lo = drop (Suc i) ps;
               lead = (hd ps = None); trail = (last ps = None);
               hi' = (if lead then tl hi else hi); lo' = (if trail then butlast lo else lo)
           in if (lead \<and> hi' \<noteq> []) \<or> (trail \<and> lo' \<noteq> []) \<or> length hi' + length lo' \<ge> 8 then None
              else Some (hextets_value (map the hi' @ replicate (8 - (length hi' + length lo')) 0 @ map the lo')))
      | _ \<Rightarrow> None))"

definition parse_ipv6 :: "string \<Rightarrow> (ipv6 \<times> string option) option" where
  "parse_ipv6 s =
     (if CHR ''/'' \<in> set s then None
      else (case partition_on CHR ''%'' s of (addr, has_scope, scope_id) \<Rightarrow>
        if has_scope \<and> (scope_id = [] \<or> CHR ''%'' \<in> set scope_id) then None
        else (case Option.bind (hextet_parts addr) ipv6_of_parts of
                None \<Rightarrow> None
              | Some v \<Rightarrow> Some (v, if has_scope then Some scope_id else None))))"

text \<open>\<open>ipaddress.ip_address(s)\<close>; None is \<open>ValueError\<close>.\<close>

definition ip_address :: "string \<Rightarrow> ip_address option" where
  "ip_address s =
     (case parse_ipv4 s of
        Some v \<Rightarrow> Some (IPv4 v)
      | None \<Rightarrow> map_option (\<lambda>(v, sc). IPv6 v sc) (parse_ipv6 s))"

section \<open>Address classes\<close>

text \<open>\<open>address in network\<close>, for a network given by its base address and prefix length.\<close>

definition in_net4 :: "ipv4 \<Rightarrow> ipv4 \<times> nat \<Rightarrow> bool" where
  "in_net4 a net = (drop_bit (32 - snd net) a = drop_bit (32 - snd net) (fst net))"

definition in_net6 :: "ipv6 \<Rightarrow> ipv6 \<times> nat \<Rightarrow> bool" where
  "in_net6 a net = (drop_bit (128 - snd net) a = drop_bit (128 - snd net) (fst net))"

definition quad :: "nat \<Rightarrow> nat \<Rightarrow> nat \<Rightarrow> nat \<Rightarrow> ipv4" where
  "quad a b c d = of_nat (((a * 256 + b) * 256 + c) * 256 + d)"

definition private4 :: "(ipv4 \<times> nat) list" where
  "private4 =
     [(quad 0 0 0 0, 8), (quad 10 0 0 0, 8), (quad 127 0 0 0, 8), (quad 169 254 0 0, 16),
      (quad 172 16 0 0, 12), (quad 192 0 0 0, 24), (quad 192 0 0 170, 31), (quad 192 0 2 0, 24),
      (quad 192 168 0 0, 16), (quad 198 18 0 0, 15), (quad 198 51 100 0, 24), (quad 203 0 113 0, 24),
      (quad 240 0 0 0, 4), (quad 255 255 255 255, 32)]"

definition private4_exceptions :: "(ipv4 \<times> nat) list" where
  "private4_exceptions = [(quad 192 0 0 9, 32), (quad 192 0 0 10, 32)]"

definition hextets :: "nat list \<Rightarrow> ipv6" where
  "hextets hs = hextets_value (hs @ replicate (8 - length hs) 0)"

definition private6 :: "(ipv6 \<times> nat) list" where
  "private6 =
     [(hextets [0, 0, 0, 0, 0, 0, 0, 1], 128), (hextets [], 128), (hextets [0, 0, 0, 0, 0, 65535], 96),
      (hextets [100, 65435, 1], 48), (hextets [256], 64), (hextets [8193], 23), (hextets [8193, 3512], 32),
      (hextets [8194], 16), (hextets [16383], 20), (hextets [64512], 7), (hextets [65152], 10)]"

definition private6_exceptions :: "(ipv6 \<times> nat) list" where
  "private6_exceptions =
     [(hextets [8193, 1, 0, 0, 0, 0, 0, 1], 128), (hextets [8193, 1, 0, 0, 0, 0, 0, 2], 128),
      (hextets [8193, 3], 32), (hextets [8193, 4, 274], 48), (hextets [8193, 32], 28), (hextets [8193, 48], 28)]"

definition is_private4 :: "ipv4 \<Rightarrow> bool" where
  "is_private4 a = (list_ex (in_net4 a) private4 \<and> \<not> list_ex (in_net4 a) private4_exceptions)"

definition is_global4 :: "ipv4 \<Rightarrow> bool" where
  "is_global4 a = (\<not> in_net4 a (quad 100 64 0 0, 10) \<and> \<not> is_private4 a)"

definition is_loopback4 :: "ipv4 \<Rightarrow> bool" where
  "is_loopback4 a = in_net4 a (quad 127 0 0 0, 8)"

definition ipv4_mapped :: "ipv6 \<Rightarrow> ipv4 option" where
  "ipv4_mapped a = (if drop_bit 32 a = 65535 then Some (ucast a) else None)"

definition is_global6 :: "ipv6 \<Rightarrow> bool" where
  "is_global6 a =
     (case ipv4_mapped a of
        Some v \<Rightarrow> is_global4 v
      | None \<Rightarrow> \<not> (list_ex (in_net6 a) private6 \<and> \<not> list_ex (in_net6 a) private6_exceptions))"

definition is_loopback6 :: "ipv6 \<Rightarrow> bool" where
  "is_loopback6 a = (case ipv4_mapped a of Some v \<Rightarrow> is_loopback4 v | None \<Rightarrow> a = 1)"

fun is_global :: "ip_address \<Rightarrow> bool" where
  "is_global (IPv4 a) = is_global4 a"
| "is_global (IPv6 a sc) = is_global6 a"

fun is_loopback :: "ip_address \<Rightarrow> bool" where
  "is_loopback (IPv4 a) = is_loopback4 a"
| "is_loopback (IPv6 a sc) = is_loopback6 a"

lemma replicate_nums:
  "replicate 2 x = [x, x]" "replicate 3 x = [x, x, x]" "replicate 4 x = [x, x, x, x]"
  "replicate 8 x = [x, x, x, x, x, x, x, x]" "replicate 5 x = [x, x, x, x, x]" "replicate 6 x = [x, x, x, x, x, x]" "replicate 7 x = [x, x, x, x, x, x, x]"
  by (simp_all add: numeral_eq_Suc)

lemma loopback4_private: "is_loopback4 a \<Longrightarrow> is_private4 a"
proof -
  assume lo: "is_loopback4 a"
  then have "list_ex (in_net4 a) private4" by (simp add: is_loopback4_def private4_def)
  moreover have "\<not> list_ex (in_net4 a) private4_exceptions"
  proof
    assume "list_ex (in_net4 a) private4_exceptions"
    then have "a = quad 192 0 0 9 \<or> a = quad 192 0 0 10"
      by (simp add: private4_exceptions_def in_net4_def)
    with lo show False by (auto simp: is_loopback4_def in_net4_def quad_def drop_bit_eq_div)
  qed
  ultimately show ?thesis by (simp add: is_private4_def)
qed

lemma loopback_not_global: "is_loopback a \<Longrightarrow> \<not> is_global a"
proof (cases a)
  case (IPv6 v sc)
  assume "is_loopback a"
  show ?thesis
  proof (cases "ipv4_mapped v")
    case (Some m)
    with IPv6 \<open>is_loopback a\<close> show ?thesis
      by (simp add: is_loopback6_def is_global6_def is_global4_def loopback4_private)
  next
    case None
    with IPv6 \<open>is_loopback a\<close> have "v = 1" by (simp add: is_loopback6_def)
    moreover have "in_net6 1 (hextets [0, 0, 0, 0, 0, 0, 0, 1], 128)"
      by (simp add: in_net6_def hextets_def hextets_value_def)
    moreover have "\<not> list_ex (in_net6 1) private6_exceptions"
      by (simp add: private6_exceptions_def in_net6_def hextets_def hextets_value_def drop_bit_eq_div replicate_nums)
    ultimately show ?thesis using IPv6 None by (simp add: is_global6_def private6_def)
  qed
qed (simp add: is_global4_def loopback4_private)

text \<open>The equations that evaluate an address literal.\<close>

lemmas ip_eval =
  ip_address_def parse_ipv4_def parse_octet_def split_on_def is_digit_def nat_of_digits_def ord_of_def
  parse_ipv6_def partition_on_def hextet_parts_def parse_hextet_def hex_value_def ipv6_of_parts_def inner_gaps_def
  hextets_value_def replicate_nums
lemmas ip_class_eval =
  is_global4_def is_private4_def private4_def private4_exceptions_def in_net4_def quad_def is_loopback4_def
  is_global6_def is_loopback6_def ipv4_mapped_def private6_def private6_exceptions_def in_net6_def hextets_def
  hextets_value_def replicate_nums

end
