(* ===== verification/Python_Url.thy ===== *)
theory Python_Url
  imports Python_Ip
begin

text \<open>
  Python's \<open>urllib.parse.urlsplit\<close> and the properties of its result that the code reads
  (\<open>hostname\<close>, \<open>port\<close>, \<open>username\<close>, \<open>password\<close>). The NFKC check of a non-ASCII authority never fails on
  code points below U+0100, so it does not appear.
\<close>

record split_url =
  u_scheme :: string
  u_netloc :: string
  u_path :: string
  u_query :: string
  u_fragment :: string

section \<open>urlsplit\<close>

definition scheme_char :: "char \<Rightarrow> bool" where
  "scheme_char c = (is_alpha_ascii c \<or> is_digit c \<or> c \<in> {CHR ''+'', CHR ''-'', CHR ''.''})"

definition split_scheme :: "string \<Rightarrow> string \<times> string" where
  "split_scheme url =
     (case partition_on CHR '':'' url of (pre, found, post) \<Rightarrow>
        if found \<and> pre \<noteq> [] \<and> is_alpha_ascii (hd pre) \<and> list_all scheme_char pre
        then (py_lower pre, post) else ([], url))"

definition netloc_end :: "char \<Rightarrow> bool" where
  "netloc_end c = (c \<in> {CHR ''/'', CHR ''?'', CHR ''#''})"

definition split_netloc :: "string \<Rightarrow> string \<times> string" where
  "split_netloc url =
     (if startswith url ''//''
      then (takeWhile (\<lambda>c. \<not> netloc_end c) (drop 2 url), dropWhile (\<lambda>c. \<not> netloc_end c) (drop 2 url))
      else ([], url))"

definition bracketed_host_ok :: "string \<Rightarrow> bool" where
  "bracketed_host_ok h =
     (if startswith h ''v''
      then (case partition_on CHR ''.'' (tl h) of (ver, found, rest) \<Rightarrow>
              found \<and> ver \<noteq> [] \<and> list_all (\<lambda>c. hex_value c \<noteq> None) ver \<and> rest \<noteq> [])
      else (case ip_address h of Some (IPv6 _ _) \<Rightarrow> True | _ \<Rightarrow> False))"

definition hostinfo_part :: "string \<Rightarrow> string" where
  "hostinfo_part netloc = (case rpartition_on CHR ''@'' netloc of (_, _, h) \<Rightarrow> h)"

definition bracketed_netloc_ok :: "string \<Rightarrow> bool" where
  "bracketed_netloc_ok netloc =
     (case partition_on CHR ''['' (hostinfo_part netloc) of (before, have_open, bracketed) \<Rightarrow>
        if have_open
        then before = [] \<and>
          (case partition_on CHR '']'' bracketed of (host, _, port) \<Rightarrow>
             (port = [] \<or> startswith port '':'') \<and> bracketed_host_ok host)
        else bracketed_host_ok (fst (partition_on CHR '':'' (hostinfo_part netloc))))"

definition netloc_ok :: "string \<Rightarrow> bool" where
  "netloc_ok netloc =
     ((CHR ''['' \<in> set netloc \<longleftrightarrow> CHR '']'' \<in> set netloc) \<and>
      (CHR ''['' \<in> set netloc \<longrightarrow> bracketed_netloc_ok netloc))"

definition clean_url :: "string \<Rightarrow> string" where
  "clean_url url =
     filter (\<lambda>c. ord_of c \<notin> {9, 10, 13}) (dropWhile (\<lambda>c. ord_of c \<le> 32) url)"

text \<open>None is \<open>ValueError\<close>.\<close>

definition urlsplit :: "string \<Rightarrow> split_url option" where
  "urlsplit url =
     (case split_scheme (clean_url url) of (scheme, rest) \<Rightarrow>
      case split_netloc rest of (netloc, rest1) \<Rightarrow>
        if \<not> netloc_ok netloc then None
        else
          case partition_on CHR ''#'' rest1 of (rest2, _, fragment) \<Rightarrow>
          case partition_on CHR ''?'' rest2 of (path, _, query) \<Rightarrow>
            Some \<lparr>u_scheme = scheme, u_netloc = netloc, u_path = path, u_query = query, u_fragment = fragment\<rparr>)"

section \<open>Properties of the result\<close>

definition userinfo :: "split_url \<Rightarrow> string option \<times> string option" where
  "userinfo u =
     (case rpartition_on CHR ''@'' (u_netloc u) of (info, have_info, _) \<Rightarrow>
        if have_info
        then (case partition_on CHR '':'' info of (name, have_password, password) \<Rightarrow>
                (Some name, if have_password then Some password else None))
        else (None, None))"

definition hostinfo :: "split_url \<Rightarrow> string \<times> string option" where
  "hostinfo u =
     (let h = hostinfo_part (u_netloc u) in
      case partition_on CHR ''['' h of (_, have_open, bracketed) \<Rightarrow>
        let (hostname, port) =
          (if have_open
           then (case partition_on CHR '']'' bracketed of (hostname, _, port) \<Rightarrow>
                   (hostname, snd (snd (partition_on CHR '':'' port))))
           else (case partition_on CHR '':'' h of (hostname, _, port) \<Rightarrow> (hostname, port)))
        in (hostname, if port = [] then None else Some port))"

definition url_hostname :: "split_url \<Rightarrow> string option" where
  "url_hostname u =
     (let h = fst (hostinfo u)
      in if h = [] then None
         else (case partition_on CHR ''%'' h of (name, found, zone) \<Rightarrow>
                 Some (py_lower name @ (if found then ''%'' else []) @ zone)))"

text \<open>The port: absent, a number, or \<open>ValueError\<close>.\<close>

definition url_port :: "split_url \<Rightarrow> nat option result" where
  "url_port u =
     (case snd (hostinfo u) of
        None \<Rightarrow> Inr None
      | Some p \<Rightarrow>
          if list_all is_digit p \<and> length p \<le> 4300 \<and> nat_of_digits p \<le> 65535
          then Inr (Some (nat_of_digits p)) else Inl (ValueError ''port''))"

definition url_username :: "split_url \<Rightarrow> string option" where
  "url_username u = fst (userinfo u)"

definition url_password :: "split_url \<Rightarrow> string option" where
  "url_password u = snd (userinfo u)"

text \<open>The equations that evaluate a literal URL.\<close>

lemmas url_eval =
  urlsplit_def clean_url_def split_scheme_def split_netloc_def netloc_ok_def bracketed_netloc_ok_def
  hostinfo_part_def bracketed_host_ok_def partition_on_def rpartition_on_def scheme_char_def is_alpha_ascii_def
  is_digit_def netloc_end_def startswith_def py_lower_def lower_char_def ord_of_def userinfo_def hostinfo_def
  url_hostname_def url_port_def url_username_def url_password_def nat_of_digits_def

lemma url_port_bound: "url_port u = Inr (Some p) \<Longrightarrow> p \<le> 65535"
  by (auto simp: url_port_def split: option.splits if_splits)

lemma no_userinfo_iff: "url_username u = None \<longleftrightarrow> CHR ''@'' \<notin> set (u_netloc u)"
  by (auto simp: url_username_def userinfo_def rpartition_on_def split: prod.splits)

end
