(* ===== verification/Oidc_Policy.thy ===== *)
theory Oidc_Policy
  imports Python_Url
begin

text \<open>
  The trust policy of \<open>adapters/oidc_http_security.py\<close>: which URLs the discovery and JWKS clients
  may contact, and to which address a request is pinned. \<open>idna\<close> is the codec's result on a hostname
  with non-ASCII characters (nameprep and punycode); on ASCII names the codec only checks label
  lengths, which is written out. The resolver is a step of the environment, whose state is \<open>'w\<close>.
\<close>

datatype oidc_request_kind = Discovery | Jwks

type_synonym origin = "string \<times> string \<times> nat"
type_synonym idna_codec = "string \<Rightarrow> string option"

record resolved_target =
  rt_scheme :: string
  rt_host :: string
  rt_port :: nat
  rt_ip :: ip_address
  rt_kind :: oidc_request_kind

section \<open>URLs and origins\<close>

definition discovery_suffix :: string where
  "discovery_suffix = ''/.well-known/openid-configuration''"

definition default_port :: "string \<Rightarrow> nat result" where
  "default_port scheme =
     (if scheme = ''https'' then Inr 443
      else if scheme = ''http'' then Inr 80
      else Inl (OidcNetworkSecurityError ''OIDC URLs must use HTTP or HTTPS''))"

fun effective_address :: "ip_address \<Rightarrow> ip_address" where
  "effective_address (IPv4 a) = IPv4 a"
| "effective_address (IPv6 a sc) = (case ipv4_mapped a of Some v \<Rightarrow> IPv4 v | None \<Rightarrow> IPv6 a sc)"

definition idna_encode :: "idna_codec \<Rightarrow> string \<Rightarrow> string option" where
  "idna_encode idna host =
     (if is_ascii host
      then (let labels = split_on CHR ''.'' host
            in if list_all (\<lambda>l. l \<noteq> [] \<and> length l < 64) (butlast labels) \<and> length (last labels) < 64
               then Some host else None)
      else idna host)"

definition normalize_host :: "idna_codec \<Rightarrow> string \<Rightarrow> string result" where
  "normalize_host idna host =
     (if CHR ''%'' \<in> set host
      then Inl (OidcNetworkSecurityError ''IPv6 zone identifiers are not permitted in OIDC URLs'')
      else (case idna_encode idna host of
              None \<Rightarrow> Inl (OidcNetworkSecurityError ''OIDC URL contains an invalid hostname'')
            | Some h \<Rightarrow> Inr (py_rstrip_char CHR ''.'' (py_lower h))))"

definition origin_of :: "idna_codec \<Rightarrow> string \<Rightarrow> string \<Rightarrow> nat \<Rightarrow> origin result" where
  "origin_of idna scheme host port = rbind (normalize_host idna host) (\<lambda>h. Inr (scheme, h, port))"

text \<open>\<open>parsed.port or _default_port(scheme)\<close>: port 0 counts as absent.\<close>

definition port_or_default :: "split_url \<Rightarrow> nat result" where
  "port_or_default parsed =
     (case url_port parsed of
        Inl e \<Rightarrow> Inl (OidcNetworkSecurityError ''OIDC URL is malformed'')
      | Inr (Some p) \<Rightarrow> if p \<noteq> 0 then Inr p else default_port (py_lower (u_scheme parsed))
      | Inr None \<Rightarrow> default_port (py_lower (u_scheme parsed)))"

definition parse_url :: "idna_codec \<Rightarrow> string \<Rightarrow> origin result" where
  "parse_url idna url =
     (if CHR 0x5C \<in> set url \<or> (\<exists>c \<in> set url. ord_of c < 32)
      then Inl (OidcNetworkSecurityError ''OIDC URL contains invalid characters'')
      else (case urlsplit url of
        None \<Rightarrow> Inl (OidcNetworkSecurityError ''OIDC URL is malformed'')
      | Some parsed \<Rightarrow>
          let scheme = py_lower (u_scheme parsed) in
          rbind (port_or_default parsed) (\<lambda>port.
          if scheme \<notin> {''http'', ''https''}
          then Inl (OidcNetworkSecurityError ''OIDC URLs must use HTTP or HTTPS'')
          else (case url_hostname parsed of
            None \<Rightarrow> Inl (OidcNetworkSecurityError ''OIDC URL must contain a hostname'')
          | Some hostname \<Rightarrow>
              if hostname = []
              then Inl (OidcNetworkSecurityError ''OIDC URL must contain a hostname'')
              else if url_username parsed \<noteq> None \<or> url_password parsed \<noteq> None
              then Inl (OidcNetworkSecurityError ''userinfo is not permitted in OIDC URLs'')
              else if u_fragment parsed \<noteq> []
              then Inl (OidcNetworkSecurityError ''fragments are not permitted in OIDC URLs'')
              else rbind (normalize_host idna hostname) (\<lambda>h. Inr (scheme, h, port))))))"

definition render_host_header :: "string \<Rightarrow> nat \<Rightarrow> string \<Rightarrow> string result" where
  "render_host_header host port scheme =
     (let rendered = (case ip_address host of Some (IPv6 _ _) \<Rightarrow> ''['' @ host @ '']'' | _ \<Rightarrow> host)
      in rbind (default_port scheme) (\<lambda>d.
           Inr (if port \<noteq> d then rendered @ '':'' @ show_nat port else rendered)))"

section \<open>The system resolver\<close>

text \<open>What \<open>getaddrinfo\<close> under a timeout yields: a timeout, a failure, or the socket addresses.\<close>

datatype dns_answer = DnsTimeout | DnsFailure | DnsInfos "string list"

fun collect_addresses :: "string list \<Rightarrow> ip_address list \<Rightarrow> ip_address list result" where
  "collect_addresses [] acc = Inr acc"
| "collect_addresses (raw # rest) acc =
     (case ip_address (fst (partition_on CHR ''%'' raw)) of
        None \<Rightarrow> Inl (OidcNetworkSecurityError ''resolver returned an invalid IP address'')
      | Some a \<Rightarrow> collect_addresses rest (if a \<in> set acc then acc else acc @ [a]))"

definition system_resolver ::
    "(string \<Rightarrow> nat \<Rightarrow> 'w \<Rightarrow> dns_answer \<times> 'w) \<Rightarrow> string \<Rightarrow> nat \<Rightarrow> 'w \<Rightarrow> ip_address list result \<times> 'w" where
  "system_resolver getaddrinfo host port w =
     (case ip_address host of
        Some literal \<Rightarrow> (Inr [literal], w)
      | None \<Rightarrow>
          (case getaddrinfo host port w of
             (DnsTimeout, w') \<Rightarrow> (Inl (OidcNetworkSecurityError ''OIDC DNS resolution timed out''), w')
           | (DnsFailure, w') \<Rightarrow> (Inl (OidcNetworkSecurityError ''OIDC DNS resolution failed''), w')
           | (DnsInfos infos, w') \<Rightarrow>
               (rbind (collect_addresses infos []) (\<lambda>addresses.
                  if addresses = []
                  then Inl (OidcNetworkSecurityError ''OIDC DNS resolution returned no usable addresses'')
                  else Inr addresses), w')))"

section \<open>The policy\<close>

record network_policy =
  np_issuer_url :: string
  np_issuer_origin :: origin
  np_discovery_url :: string
  np_allow_insecure_loopback :: bool
  np_dns_timeout :: rat
  np_http_timeout :: rat
  np_discovery_max_bytes :: int
  np_jwks_max_bytes :: int
  np_trusted_origins :: "origin list"

text \<open>One entry of the JWKS allowlist.\<close>

definition allowed_origin :: "idna_codec \<Rightarrow> bool \<Rightarrow> string \<Rightarrow> origin result" where
  "allowed_origin idna allow_insecure raw_origin =
     (case parse_url idna raw_origin of
        Inl e \<Rightarrow> Inl e
      | Inr (scheme, host, port) \<Rightarrow>
          (case urlsplit raw_origin of
             None \<Rightarrow> Inl (ValueError ''urlsplit'')
           | Some parsed \<Rightarrow>
               if u_path parsed \<notin> {[], ''/''} \<or> u_query parsed \<noteq> []
               then Inl (OidcNetworkSecurityError ''JWKS allowlist entries must be origins without path or query'')
               else if scheme \<noteq> ''https'' \<and> \<not> allow_insecure
               then Inl (OidcNetworkSecurityError ''JWKS allowlist origins must use HTTPS'')
               else origin_of idna scheme host port))"

definition make_network_policy ::
    "idna_codec \<Rightarrow> string \<Rightarrow> bool \<Rightarrow> string list \<Rightarrow> rat \<Rightarrow> rat \<Rightarrow> int \<Rightarrow> int \<Rightarrow> network_policy result" where
  "make_network_policy idna issuer_url allow_insecure jwks_allowed dns_timeout http_timeout discovery_max jwks_max =
     (if dns_timeout \<le> 0 \<or> http_timeout \<le> 0
      then Inl (ValueError ''OIDC DNS and HTTP timeouts must be positive'')
      else if discovery_max \<le> 0 \<or> jwks_max \<le> 0
      then Inl (ValueError ''OIDC response-size limits must be positive'')
      else (case parse_url idna issuer_url of
        Inl e \<Rightarrow> Inl e
      | Inr (scheme, host, port) \<Rightarrow>
          if scheme \<noteq> ''https'' \<and> \<not> allow_insecure
          then Inl (OidcNetworkSecurityError ''OIDC issuer must use HTTPS'')
          else (case urlsplit issuer_url of
            None \<Rightarrow> Inl (ValueError ''urlsplit'')
          | Some parsed \<Rightarrow>
              if u_query parsed \<noteq> []
              then Inl (OidcNetworkSecurityError ''OIDC issuer URL must not contain a query'')
              else rbind (origin_of idna scheme host port) (\<lambda>issuer_origin.
                   rbind (rmap (allowed_origin idna allow_insecure) jwks_allowed) (\<lambda>allowed.
                   Inr \<lparr>np_issuer_url = issuer_url, np_issuer_origin = issuer_origin,
                        np_discovery_url = py_rstrip_char CHR ''/'' issuer_url @ discovery_suffix,
                        np_allow_insecure_loopback = allow_insecure,
                        np_dns_timeout = dns_timeout, np_http_timeout = http_timeout,
                        np_discovery_max_bytes = discovery_max, np_jwks_max_bytes = jwks_max,
                        np_trusted_origins = issuer_origin # allowed\<rparr>)))))"

definition assert_jwks_uri_trusted :: "idna_codec \<Rightarrow> network_policy \<Rightarrow> string \<Rightarrow> unit result" where
  "assert_jwks_uri_trusted idna pol jwks_uri =
     (case parse_url idna jwks_uri of
        Inl e \<Rightarrow> Inl e
      | Inr (scheme, host, port) \<Rightarrow>
          rbind (origin_of idna scheme host port) (\<lambda>orig.
            if orig \<notin> set (np_trusted_origins pol)
            then Inl (OidcNetworkSecurityError ''OIDC JWKS origin is not trusted'') else Inr ()))"

definition assert_metadata_trusted :: "idna_codec \<Rightarrow> network_policy \<Rightarrow> string \<Rightarrow> string \<Rightarrow> unit result" where
  "assert_metadata_trusted idna pol issuer jwks_uri =
     (if issuer \<noteq> np_issuer_url pol
      then Inl (OidcNetworkSecurityError ''OIDC discovery issuer does not match configuration'')
      else assert_jwks_uri_trusted idna pol jwks_uri)"

definition request_kind :: "idna_codec \<Rightarrow> network_policy \<Rightarrow> string \<Rightarrow> oidc_request_kind result" where
  "request_kind idna pol url =
     (if url = np_discovery_url pol then Inr Discovery
      else rbind (assert_jwks_uri_trusted idna pol url) (\<lambda>_. Inr Jwks))"

definition response_limit_for :: "idna_codec \<Rightarrow> network_policy \<Rightarrow> string \<Rightarrow> int result" where
  "response_limit_for idna pol url =
     rbind (request_kind idna pol url) (\<lambda>kind.
       Inr (if kind = Discovery then np_discovery_max_bytes pol else np_jwks_max_bytes pol))"

text \<open>The choice of the pinned address from all answers.\<close>

definition choose_target ::
    "network_policy \<Rightarrow> oidc_request_kind \<Rightarrow> origin \<Rightarrow> ip_address list \<Rightarrow> resolved_target result" where
  "choose_target pol kind orig addresses =
     (case orig of (scheme, host, port) \<Rightarrow>
      case addresses of
        [] \<Rightarrow> Inl (OidcNetworkSecurityError ''OIDC DNS resolution returned no usable addresses'')
      | first # _ \<Rightarrow>
          let effective = map effective_address addresses;
              target = \<lparr>rt_scheme = scheme, rt_host = host, rt_port = port, rt_ip = first, rt_kind = kind\<rparr>
          in if list_all is_loopback effective \<and> np_allow_insecure_loopback pol then Inr target
             else if scheme \<noteq> ''https''
             then Inl (OidcNetworkSecurityError ''HTTPS is required for OIDC discovery and JWKS'')
             else if list_ex (\<lambda>a. \<not> is_global a) effective
             then Inl (OidcNetworkSecurityError
                         ''OIDC DNS resolution included a private, loopback, link-local, reserved, or otherwise non-global address'')
             else Inr target)"

type_synonym 'w resolver = "string \<Rightarrow> nat \<Rightarrow> 'w \<Rightarrow> ip_address list result \<times> 'w"

definition policy_resolve ::
    "idna_codec \<Rightarrow> 'w resolver \<Rightarrow> network_policy \<Rightarrow> string \<Rightarrow> 'w \<Rightarrow> resolved_target result \<times> 'w" where
  "policy_resolve idna resolver pol url w =
     (case request_kind idna pol url of
        Inl e \<Rightarrow> (Inl e, w)
      | Inr kind \<Rightarrow>
          (case parse_url idna url of
             Inl e \<Rightarrow> (Inl e, w)
           | Inr (scheme, host, port) \<Rightarrow>
               (case ip_address host of
                  Some literal \<Rightarrow> (choose_target pol kind (scheme, host, port) [literal], w)
                | None \<Rightarrow>
                    (case resolver host port w of
                       (Inl e, w') \<Rightarrow> (Inl e, w')
                     | (Inr addresses, w') \<Rightarrow>
                         (choose_target pol kind (scheme, host, port) addresses, w')))))"

section \<open>What a resolved target satisfies\<close>

text \<open>
  The addresses the policy lets a request connect to: any global one over HTTPS, or a loopback one
  when the operator allowed it.
\<close>

definition address_admitted :: "network_policy \<Rightarrow> string \<Rightarrow> ip_address \<Rightarrow> bool" where
  "address_admitted pol scheme a \<longleftrightarrow>
     (scheme = ''https'' \<and> is_global (effective_address a)) \<or>
     (np_allow_insecure_loopback pol \<and> is_loopback (effective_address a))"

lemma choose_target_Inr:
  assumes "choose_target pol kind (s, h, p) as = Inr t"
  shows "as \<noteq> []" and "t = \<lparr>rt_scheme = s, rt_host = h, rt_port = p, rt_ip = hd as, rt_kind = kind\<rparr>"
    and "\<forall>a \<in> set as. address_admitted pol s a"
  using assms
  by (auto simp: choose_target_def Let_def address_admitted_def list_all_iff list_ex_iff
      split: list.splits if_splits)

lemma policy_resolve_Inr:
  assumes "policy_resolve idna resolver pol url w = (Inr t, w')"
  obtains as where "request_kind idna pol url = Inr (rt_kind t)"
    "parse_url idna url = Inr (rt_scheme t, rt_host t, rt_port t)"
    "rt_ip t = hd as" "as \<noteq> []" "\<forall>a \<in> set as. address_admitted pol (rt_scheme t) a"
    "ip_address (rt_host t) = None \<Longrightarrow> fst (resolver (rt_host t) (rt_port t) w) = Inr as"
proof -
  from assms obtain s h p where p: "parse_url idna url = Inr (s, h, p)"
    by (auto simp: policy_resolve_def split: sum.splits)
  from assms p obtain k where k: "request_kind idna pol url = Inr k"
    by (auto simp: policy_resolve_def split: sum.splits)
  from assms p k obtain as where as: "choose_target pol k (s, h, p) as = Inr t"
    "ip_address h = None \<Longrightarrow> fst (resolver h p w) = Inr as"
    by (auto simp: policy_resolve_def split: option.splits sum.splits prod.splits)
  from choose_target_Inr [OF as(1)] as(2) p k that show thesis by auto
qed

text \<open>The answers a target was chosen from: the literal of the URL itself, or what the resolver said.\<close>

lemma policy_resolve_answers:
  assumes "policy_resolve idna resolver pol url w = (Inr t, w')"
  obtains answers where "answers \<noteq> []" "rt_ip t = hd answers"
    "\<forall>a \<in> set answers. address_admitted pol (rt_scheme t) a"
    "case ip_address (rt_host t) of Some literal \<Rightarrow> answers = [literal]
       | None \<Rightarrow> fst (resolver (rt_host t) (rt_port t) w) = Inr answers"
proof -
  from assms obtain s h p k as where as: "choose_target pol k (s, h, p) as = Inr t"
    "case ip_address h of Some literal \<Rightarrow> as = [literal] | None \<Rightarrow> fst (resolver h p w) = Inr as"
    by (auto simp: policy_resolve_def split: option.splits sum.splits prod.splits)
  note t = choose_target_Inr [OF as(1)]
  show thesis by (rule that [of as]) (use t as(2) in \<open>simp_all split: option.splits\<close>)
qed

lemma policy_resolve_admitted:
  "policy_resolve idna resolver pol url w = (Inr t, w') \<Longrightarrow> address_admitted pol (rt_scheme t) (rt_ip t)"
  by (elim policy_resolve_Inr) auto

lemma policy_resolve_kind:
  assumes "policy_resolve idna resolver pol url w = (Inr t, w')"
  shows "(rt_kind t = Discovery \<and> url = np_discovery_url pol) \<or>
    (rt_kind t = Jwks \<and> (\<exists>h. normalize_host idna (rt_host t) = Inr h \<and>
       (rt_scheme t, h, rt_port t) \<in> set (np_trusted_origins pol)))"
  using assms
  by (elim policy_resolve_Inr)
    (auto simp: request_kind_def assert_jwks_uri_trusted_def origin_of_def rbind_Inr_iff split: if_splits)

lemma policy_resolve_limit:
  "policy_resolve idna resolver pol url w = (Inr t, w') \<Longrightarrow>
   response_limit_for idna pol url =
     Inr (if rt_kind t = Discovery then np_discovery_max_bytes pol else np_jwks_max_bytes pol)"
  by (elim policy_resolve_Inr) (simp add: response_limit_for_def)

text \<open>Without the loopback opt-in, no request reaches a non-global address or uses plain HTTP.\<close>

lemma policy_resolve_production:
  assumes "policy_resolve idna resolver pol url w = (Inr t, w')" and "\<not> np_allow_insecure_loopback pol"
  shows "rt_scheme t = ''https'' \<and> is_global (effective_address (rt_ip t)) \<and>
    \<not> is_loopback (effective_address (rt_ip t))"
  using policy_resolve_admitted [OF assms(1)] assms(2) loopback_not_global
  by (auto simp: address_admitted_def)

text \<open>What the constructor establishes.\<close>

lemma make_network_policy_Inr:
  assumes "make_network_policy idna issuer ins allowed dns http dmax jmax = Inr pol"
  obtains s h p parsed where "parse_url idna issuer = Inr (s, h, p)" "s = ''https'' \<or> ins"
    "urlsplit issuer = Some parsed" "u_query parsed = []"
    "np_issuer_url pol = issuer" "np_discovery_url pol = py_rstrip_char CHR ''/'' issuer @ discovery_suffix"
    "origin_of idna s h p = Inr (np_issuer_origin pol)" "np_allow_insecure_loopback pol = ins"
    "np_discovery_max_bytes pol = dmax" "np_jwks_max_bytes pol = jmax" "0 < dmax" "0 < jmax" "0 < http"
    "np_http_timeout pol = http"
    "\<exists>os. rmap (allowed_origin idna ins) allowed = Inr os \<and> np_trusted_origins pol = np_issuer_origin pol # os"
  using assms
  by (auto simp: make_network_policy_def rbind_Inr_iff split: if_splits sum.splits option.splits)

lemma allowed_origin_Inr:
  "allowed_origin idna ins raw = Inr orig \<Longrightarrow> fst orig = ''https'' \<or> ins"
  by (auto simp: allowed_origin_def origin_of_def rbind_Inr_iff split: sum.splits option.splits if_splits)

lemma trusted_origins_https:
  assumes "make_network_policy idna issuer ins allowed dns http dmax jmax = Inr pol"
    and "orig \<in> set (np_trusted_origins pol)"
  shows "fst orig = ''https'' \<or> ins"
proof (rule make_network_policy_Inr [OF assms(1)])
  fix s h p parsed
  assume s: "s = ''https'' \<or> ins" and o: "origin_of idna s h p = Inr (np_issuer_origin pol)"
    and os: "\<exists>os. rmap (allowed_origin idna ins) allowed = Inr os \<and> np_trusted_origins pol = np_issuer_origin pol # os"
  from o obtain h' where "np_issuer_origin pol = (s, h', p)"
    unfolding origin_of_def rbind_Inr_iff by (metis sum.inject(2))
  then have "fst (np_issuer_origin pol) = s" by simp
  moreover from os obtain os where os: "rmap (allowed_origin idna ins) allowed = Inr os"
    "np_trusted_origins pol = np_issuer_origin pol # os" by blast
  moreover have "\<And>x. x \<in> set os \<Longrightarrow> fst x = ''https'' \<or> ins"
    using os(1) allowed_origin_Inr by (fastforce simp: rmap_Inr_iff list_all2_conv_all_nth in_set_conv_nth)
  ultimately show ?thesis using s assms(2) by (metis set_ConsD)
qed

section \<open>The discovery URL stays on the issuer's origin\<close>

lemma rstrip_char_append: "\<exists>k. s = py_rstrip_char c s @ replicate k c"
proof -
  have "takeWhile (\<lambda>x. x = c) (rev s) = replicate (length (takeWhile (\<lambda>x. x = c) (rev s))) c"
    by (intro replicate_eqI) (auto dest: set_takeWhileD)
  then have "rev s = replicate (length (takeWhile (\<lambda>x. x = c) (rev s))) c @ dropWhile (\<lambda>x. x = c) (rev s)"
    by (metis takeWhile_dropWhile_id)
  then have "s = rev (dropWhile (\<lambda>x. x = c) (rev s)) @ replicate (length (takeWhile (\<lambda>x. x = c) (rev s))) c"
    by (metis rev_append rev_replicate rev_rev_ident)
  then show ?thesis unfolding py_rstrip_char_def py_rstrip_by_def by blast
qed

lemma split_scheme_append:
  assumes "CHR '':'' \<in> set v" and "split_scheme (v @ t) = (s, post)" and "s \<noteq> []"
  shows "\<exists>q. \<forall>t'. split_scheme (v @ t') = (s, q @ t')"
proof -
  have "takeWhile (\<lambda>x. x \<noteq> CHR '':'') (v @ t') = takeWhile (\<lambda>x. x \<noteq> CHR '':'') v" for t'
    using assms(1) by (rule takeWhile_append1) simp
  moreover have "dropWhile (\<lambda>x. x \<noteq> CHR '':'') (v @ t') = dropWhile (\<lambda>x. x \<noteq> CHR '':'') v @ t'" for t'
    using assms(1) by (rule dropWhile_append1) simp
  moreover have "dropWhile (\<lambda>x. x \<noteq> CHR '':'') v \<noteq> []"
    using assms(1) by (auto simp: dropWhile_eq_Nil_conv)
  ultimately show ?thesis
    using assms by (auto simp: split_scheme_def partition_on_def split: if_splits)
qed

lemma clean_url_append:
  assumes "\<exists>c \<in> set v. 32 < ord_of c" and "list_all (\<lambda>c. ord_of c \<notin> {9, 10, 13}) t"
  shows "clean_url (v @ t) = clean_url v @ t"
proof -
  from assms(1) obtain c where "c \<in> set v" "\<not> ord_of c \<le> 32" by auto
  then have "dropWhile (\<lambda>c. ord_of c \<le> 32) (v @ t) = dropWhile (\<lambda>c. ord_of c \<le> 32) v @ t"
    by (rule dropWhile_append1)
  moreover have "filter (\<lambda>c. ord_of c \<notin> {9, 10, 13}) t = t"
    using assms(2) by (simp add: filter_id_conv list_all_iff)
  ultimately show ?thesis by (simp add: clean_url_def)
qed

lemma colon_in_clean_url: "CHR '':'' \<in> set v \<Longrightarrow> CHR '':'' \<in> set (clean_url v)"
proof -
  assume "CHR '':'' \<in> set v"
  then have "CHR '':'' \<in> set (takeWhile (\<lambda>c. ord_of c \<le> 32) v @ dropWhile (\<lambda>c. ord_of c \<le> 32) v)" by simp
  then have "CHR '':'' \<in> set (dropWhile (\<lambda>c. ord_of c \<le> 32) v)"
    unfolding set_append by (auto dest!: set_takeWhileD simp: ord_of_def)
  then show ?thesis by (simp add: clean_url_def ord_of_def)
qed

text \<open>A nonempty authority ends before trailing slashes, so it survives their replacement.\<close>

lemma split_netloc_slashes:
  assumes "split_netloc (post @ replicate k CHR ''/'') = (netloc, rest)" and "netloc \<noteq> []"
    and "t = [] \<or> netloc_end (hd t)"
  shows "fst (split_netloc (post @ t)) = netloc"
proof -
  let ?z = "post @ replicate k CHR ''/''"
  have z: "startswith ?z ''//''" using assms(1,2) by (auto simp: split_netloc_def split: if_splits)
  then obtain m where m: "?z = ''//'' @ m" by (auto simp: startswith_iff)
  then have net: "netloc = takeWhile (\<lambda>c. \<not> netloc_end c) m"
    using assms(1) z by (simp add: split_netloc_def)
  have last_net: "last netloc \<in> set netloc" using assms(2) by simp
  then have "\<not> netloc_end (last netloc)" unfolding net by (auto dest: set_takeWhileD)
  then have not_slash: "last netloc \<noteq> CHR ''/''" by (auto simp: netloc_end_def)
  obtain r where r: "m = netloc @ r" "r = [] \<or> netloc_end (hd r)"
    unfolding net by (metis hd_dropWhile takeWhile_dropWhile_id)
  have "length (''//'' @ netloc) \<le> length post"
  proof (rule ccontr)
    assume "\<not> ?thesis"
    then have len: "length post \<le> 1 + length netloc" "1 + length netloc < length ?z" using m r(1) by auto
    then have "?z ! (1 + length netloc) = CHR ''/''"
      by (simp add: nth_append)
    moreover have "?z ! (1 + length netloc) = last netloc"
      using assms(2) unfolding m r(1) by (simp add: nth_append last_conv_nth)
    ultimately show False using not_slash by simp
  qed
  moreover have "?z = (''//'' @ netloc) @ r" using m r(1) by simp
  ultimately have "take (length (''//'' @ netloc)) post = ''//'' @ netloc"
    by (metis append_eq_conv_conj take_append take_all_iff append_Nil2 diff_is_0_eq take_0)
  then obtain q where "post = (''//'' @ netloc) @ q" by (metis append_take_drop_id)
  then have q: "post = ''//'' @ netloc @ q" by simp
  then have "q @ replicate k CHR ''/'' = r" using m r(1) by simp
  then have "q = [] \<or> netloc_end (hd q)" using r(2) by (cases q) auto
  with assms(3) have "q @ t = [] \<or> netloc_end (hd (q @ t))" by (cases q) auto
  moreover have "\<And>x. x \<in> set netloc \<Longrightarrow> \<not> netloc_end x" unfolding net by (auto dest: set_takeWhileD)
  ultimately have "takeWhile (\<lambda>c. \<not> netloc_end c) (netloc @ q @ t) = netloc"
    by (cases "q @ t") (auto simp: takeWhile_append)
  then show ?thesis by (simp add: q split_netloc_def startswith_def)
qed

text \<open>Two accepted URLs with one scheme and one authority have one origin.\<close>

lemma parse_url_same_authority:
  assumes "parse_url idna a = Inr x" and "parse_url idna b = Inr y"
    and "urlsplit a = Some pa" and "urlsplit b = Some pb"
    and "u_scheme pa = u_scheme pb" and "u_netloc pa = u_netloc pb"
  shows "x = y"
proof -
  have "hostinfo pa = hostinfo pb" using assms(6) by (simp add: hostinfo_def)
  then have "url_hostname pa = url_hostname pb" "url_port pa = url_port pb"
    by (simp_all add: url_hostname_def url_port_def)
  moreover from this have "port_or_default pa = port_or_default pb"
    by (simp only: port_or_default_def assms(5))
  ultimately show ?thesis
    using assms by (auto simp: parse_url_def Let_def rbind_Inr_iff split: if_splits option.splits)
qed

lemma parse_url_InrD:
  assumes "parse_url idna url = Inr x"
  obtains parsed where "urlsplit url = Some parsed" "u_scheme parsed \<noteq> []" "u_netloc parsed \<noteq> []"
proof -
  from assms obtain parsed where p: "urlsplit url = Some parsed" "url_hostname parsed \<noteq> None"
    "py_lower (u_scheme parsed) \<in> {''http'', ''https''}"
    by (auto simp: parse_url_def Let_def rbind_Inr_iff split: if_splits option.splits)
  from p(3) have "u_scheme parsed \<noteq> []" by (auto simp: py_lower_def)
  moreover from p(2) have "u_netloc parsed \<noteq> []"
    by (auto simp: url_hostname_def hostinfo_def hostinfo_part_def rpartition_on_def partition_on_def Let_def)
  ultimately show thesis using p(1) that by blast
qed

lemma urlsplit_Some:
  "urlsplit url = Some u \<Longrightarrow>
   u_scheme u = fst (split_scheme (clean_url url)) \<and>
   u_netloc u = fst (split_netloc (snd (split_scheme (clean_url url))))"
  by (auto simp: urlsplit_def split: prod.splits if_splits)

lemma discovery_same_authority:
  assumes "urlsplit (v @ replicate k CHR ''/'') = Some pa" "u_scheme pa \<noteq> []" "u_netloc pa \<noteq> []"
    and "urlsplit (v @ discovery_suffix) = Some pb"
  shows "u_scheme pb = u_scheme pa \<and> u_netloc pb = u_netloc pa"
proof -
  let ?z = "v @ replicate k CHR ''/''"
  have "fst (split_scheme (clean_url ?z)) \<noteq> []" using assms(2) urlsplit_Some [OF assms(1)] by simp
  then have "CHR '':'' \<in> set (clean_url ?z)"
    by (auto simp: split_scheme_def partition_on_def split: if_splits)
  then have "CHR '':'' \<in> set ?z"
    unfolding clean_url_def by (auto dest!: set_dropWhileD)
  then have colon: "CHR '':'' \<in> set v" by (auto split: if_splits)
  then have big: "\<exists>c \<in> set v. 32 < ord_of c" by (intro bexI [of _ "CHR '':''"]) (simp_all add: ord_of_def)
  have cz: "clean_url ?z = clean_url v @ replicate k CHR ''/''"
    by (rule clean_url_append [OF big]) (simp add: list_all_iff ord_of_def)
  have cd: "clean_url (v @ discovery_suffix) = clean_url v @ discovery_suffix"
    by (rule clean_url_append [OF big]) (simp add: discovery_suffix_def ord_of_def)
  obtain s post where s: "split_scheme (clean_url v @ replicate k CHR ''/'') = (s, post)" by fastforce
  have "s \<noteq> []" using assms(2) urlsplit_Some [OF assms(1)] cz s by simp
  then obtain q where q: "\<And>t'. split_scheme (clean_url v @ t') = (s, q @ t')"
    using split_scheme_append [OF colon_in_clean_url [OF colon] s] by blast
  obtain n r where n: "split_netloc (q @ replicate k CHR ''/'') = (n, r)" by fastforce
  have "n \<noteq> []" using assms(3) urlsplit_Some [OF assms(1)] cz q n by simp
  then have "fst (split_netloc (q @ discovery_suffix)) = n"
    by (rule split_netloc_slashes [OF n]) (simp add: discovery_suffix_def netloc_end_def)
  then show ?thesis
    using urlsplit_Some [OF assms(1)] urlsplit_Some [OF assms(4)] cz cd q n by simp
qed

lemma discovery_url_origin:
  assumes "make_network_policy idna issuer ins allowed dns http dmax jmax = Inr pol"
    and "parse_url idna (np_discovery_url pol) = Inr (s, h, p)"
  shows "origin_of idna s h p = Inr (np_issuer_origin pol)"
proof (rule make_network_policy_Inr [OF assms(1)])
  fix s' h' p' parsed
  assume i: "parse_url idna issuer = Inr (s', h', p')"
    and d: "np_discovery_url pol = py_rstrip_char CHR ''/'' issuer @ discovery_suffix"
    and o: "origin_of idna s' h' p' = Inr (np_issuer_origin pol)"
  obtain k where k: "issuer = py_rstrip_char CHR ''/'' issuer @ replicate k CHR ''/''"
    using rstrip_char_append by blast
  from parse_url_InrD [OF i] obtain pa where pa: "urlsplit issuer = Some pa" "u_scheme pa \<noteq> []" "u_netloc pa \<noteq> []" .
  from parse_url_InrD [OF assms(2)] obtain pb where pb: "urlsplit (np_discovery_url pol) = Some pb" .
  have "u_scheme pb = u_scheme pa \<and> u_netloc pb = u_netloc pa"
    using discovery_same_authority [of _ k] pa pb k d by metis
  then have "(s', h', p') = (s, h, p)"
    using parse_url_same_authority [OF i assms(2) pa(1) pb] by simp
  then show ?thesis using o by simp
qed

end
