(* ===== verification/Oidc_Transport.thy ===== *)
theory Oidc_Transport
  imports Oidc_Policy Security_Audit
begin

text \<open>
  \<open>PinnedOidcAsyncTransport\<close> of \<open>adapters/oidc_http_security.py\<close>: the HTTP transport every discovery
  and JWKS request goes through, and the byte stream that bounds a response. The policy's methods
  are arguments; what the transport needs of them is the locale \<open>pinned_policy\<close>, which the model of
  \<open>OidcNetworkSecurityPolicy\<close> satisfies. httpx header maps are case-insensitive: here a map on
  lower-case names. A child transport is identified by the number of the factory call that made it.
\<close>

type_synonym headers = "string \<rightharpoonup> string"

record oidc_request =
  rq_method :: string
  rq_url :: string
  rq_headers :: headers

text \<open>The request handed to a child: its URL is \<open>wr_url\<close> with the host replaced by \<open>wr_connect\<close>.\<close>

record wire_request =
  wr_method :: string
  wr_url :: string
  wr_connect :: ip_address
  wr_headers :: headers
  wr_timeout :: rat
  wr_sni :: "string option"

text \<open>A response: the chunks its stream yields, and the exception that ends the stream, if any.\<close>

record http_response =
  hr_status :: nat
  hr_headers :: headers
  hr_chunks :: "bytes list"
  hr_fault :: "exn option"

record 'w transport_state =
  ts_children :: "(origin \<times> nat) list"
  ts_created :: nat
  ts_audit :: audit_log
  ts_closed :: nat
  ts_wire :: "(nat \<times> wire_request) list"
  ts_env :: 'w

definition transport_init :: "int \<Rightarrow> 'w \<Rightarrow> 'w transport_state result" where
  "transport_init max_hosts w =
     (if max_hosts \<le> 0 then Inl (ValueError ''max_hosts must be positive'')
      else Inr \<lparr>ts_children = [], ts_created = 0, ts_audit = [], ts_closed = 0, ts_wire = [], ts_env = w\<rparr>)"

text \<open>\<open>_BoundedAsyncByteStream.__aiter__\<close>: the chunks yielded, and the exception that stops it.\<close>

fun bounded_chunks :: "int \<Rightarrow> int \<Rightarrow> bytes list \<Rightarrow> exn option \<Rightarrow> bytes list \<times> exn option" where
  "bounded_chunks limit seen [] fault = ([], fault)"
| "bounded_chunks limit seen (chunk # rest) fault =
     (let seen' = seen + int (length chunk) in
      if seen' > limit
      then ([], Some (OidcNetworkSecurityError ''OIDC response exceeded the configured size limit''))
      else (case bounded_chunks limit seen' rest fault of (ys, e) \<Rightarrow> (chunk # ys, e)))"

definition bounded_response :: "int \<Rightarrow> http_response \<Rightarrow> http_response" where
  "bounded_response limit r =
     (case bounded_chunks limit 0 (hr_chunks r) (hr_fault r) of (ys, e) \<Rightarrow>
        r\<lparr>hr_chunks := ys, hr_fault := e\<rparr>)"

text \<open>The critical section of \<open>_transport_for\<close>, under the lock.\<close>

definition locked_child :: "nat \<Rightarrow> origin \<Rightarrow> 'w transport_state \<Rightarrow> nat result \<times> 'w transport_state" where
  "locked_child max_hosts key st =
     (case map_of (ts_children st) key of
        Some c \<Rightarrow> (Inr c, st)
      | None \<Rightarrow>
          if max_hosts \<le> length (ts_children st)
          then (Inl (OidcNetworkSecurityError ''OIDC outbound host budget exhausted''), st)
          else (Inr (ts_created st),
                st\<lparr>ts_children := ts_children st @ [(key, ts_created st)], ts_created := Suc (ts_created st)\<rparr>))"

text \<open>\<open>others\<close>: the critical sections of other tasks that get the lock while this one waits for it.\<close>

definition transport_for ::
    "idna_codec \<Rightarrow> nat \<Rightarrow> origin list \<Rightarrow> resolved_target \<Rightarrow> 'w transport_state \<Rightarrow> nat result \<times> 'w transport_state" where
  "transport_for idna max_hosts others target st =
     (case origin_of idna (rt_scheme target) (rt_host target) (rt_port target) of
        Inl e \<Rightarrow> (Inl e, st)
      | Inr key \<Rightarrow>
          (case map_of (ts_children st) key of
             Some c \<Rightarrow> (Inr c, st)
           | None \<Rightarrow> locked_child max_hosts key (fold (\<lambda>k s. snd (locked_child max_hosts k s)) others st)))"

text \<open>The checks on a response, in order.\<close>

definition content_encoding_of :: "http_response \<Rightarrow> string" where
  "content_encoding_of r =
     py_strip (py_lower (case hr_headers r ''content-encoding'' of None \<Rightarrow> ''identity'' | Some v \<Rightarrow> v))"

definition check_content_length :: "int \<Rightarrow> http_response \<Rightarrow> unit result" where
  "check_content_length limit r =
     (case hr_headers r ''content-length'' of
        None \<Rightarrow> Inr ()
      | Some v \<Rightarrow>
          (case py_int v of
             None \<Rightarrow> Inl (OidcNetworkSecurityError ''OIDC response has invalid Content-Length'')
           | Some n \<Rightarrow> ensure (0 \<le> n \<and> n \<le> limit)
                        (OidcNetworkSecurityError ''OIDC response exceeded the configured size limit'')))"

definition close_one :: "'w transport_state \<Rightarrow> 'w transport_state" where
  "close_one st = st\<lparr>ts_closed := Suc (ts_closed st)\<rparr>"

definition receive_response ::
    "int result \<Rightarrow> http_response \<Rightarrow> 'w transport_state \<Rightarrow> http_response result \<times> 'w transport_state" where
  "receive_response limit_result r st =
     (if 300 \<le> hr_status r \<and> hr_status r < 400
      then (Inl (OidcNetworkSecurityError ''OIDC redirects are not permitted''), close_one st)
      else if content_encoding_of r \<notin> {[], ''identity''}
      then (Inl (OidcNetworkSecurityError ''compressed OIDC responses are not accepted''), close_one st)
      else (case limit_result of
              Inl e \<Rightarrow> (Inl e, st)
            | Inr limit \<Rightarrow>
                (case check_content_length limit r of
                   Inl e \<Rightarrow> (Inl e, close_one st)
                 | Inr _ \<Rightarrow> (Inr (bounded_response limit r), st))))"

text \<open>The request sent on the network for a resolved target.\<close>

definition wire_request_of :: "rat \<Rightarrow> oidc_request \<Rightarrow> resolved_target \<Rightarrow> string \<Rightarrow> wire_request" where
  "wire_request_of timeout req target host_header =
     \<lparr>wr_method = rq_method req, wr_url = rq_url req, wr_connect = rt_ip target,
      wr_headers = (rq_headers req)(''host'' \<mapsto> host_header, ''accept-encoding'' \<mapsto> ''identity''),
      wr_timeout = timeout,
      wr_sni = (if rt_scheme target = ''https'' then Some (rt_host target) else None)\<rparr>"

definition has_credentials :: "oidc_request \<Rightarrow> bool" where
  "has_credentials req \<longleftrightarrow>
     rq_headers req ''authorization'' \<noteq> None \<or> rq_headers req ''proxy-authorization'' \<noteq> None"

definition set_env :: "'w transport_state \<Rightarrow> 'w \<Rightarrow> 'w transport_state" where
  "set_env st w = st\<lparr>ts_env := w\<rparr>"

type_synonym 'w child_send = "nat \<Rightarrow> wire_request \<Rightarrow> 'w \<Rightarrow> http_response result \<times> 'w"

definition handle_request ::
    "idna_codec \<Rightarrow> (string \<Rightarrow> 'w \<Rightarrow> resolved_target result \<times> 'w) \<Rightarrow> (string \<Rightarrow> int result) \<Rightarrow> rat \<Rightarrow> nat \<Rightarrow>
     'w child_send \<Rightarrow> origin list \<Rightarrow> oidc_request \<Rightarrow> 'w transport_state \<Rightarrow>
     http_response result \<times> 'w transport_state" where
  "handle_request idna resolve limit_for timeout max_hosts network others req st =
     (if rq_method req \<noteq> ''GET''
      then (Inl (OidcNetworkSecurityError ''OIDC control-plane requests must use GET''), st)
      else if has_credentials req
      then (Inl (OidcNetworkSecurityError ''OIDC control-plane requests must not carry authorization credentials''),
            st\<lparr>ts_audit := emit_security_audit OUTBOUND_CREDENTIAL_BLOCKED DENIED
                 ''credential_header_on_oidc_control_plane''
                 (no_args\<lparr>aa_target_kind := Some ''oidc_control_plane''\<rparr>) (ts_audit st)\<rparr>)
      else (case resolve (rq_url req) (ts_env st) of
        (Inl e, w) \<Rightarrow> (Inl e, set_env st w)
      | (Inr target, w) \<Rightarrow>
          (case transport_for idna max_hosts others target (set_env st w) of
             (Inl e, st1) \<Rightarrow> (Inl e, st1)
           | (Inr child, st1) \<Rightarrow>
               (case render_host_header (rt_host target) (rt_port target) (rt_scheme target) of
                  Inl e \<Rightarrow> (Inl e, st1)
                | Inr host_header \<Rightarrow>
                    let wire = wire_request_of timeout req target host_header;
                        st2 = st1\<lparr>ts_wire := ts_wire st1 @ [(child, wire)]\<rparr>
                    in (case network child wire (ts_env st2) of
                          (Inl e, w') \<Rightarrow> (Inl e, set_env st2 w')
                        | (Inr r, w') \<Rightarrow> receive_response (limit_for (rq_url req)) r (set_env st2 w'))))))"

text \<open>\<open>aclose\<close>: the cache is emptied and every child closed; the closed children are returned.\<close>

definition transport_aclose :: "'w transport_state \<Rightarrow> nat list \<times> 'w transport_state" where
  "transport_aclose st = (map snd (ts_children st), st\<lparr>ts_children := []\<rparr>)"

section \<open>The bounded stream\<close>

lemma bounded_chunks_bound:
  "bounded_chunks limit seen cs fault = (ys, e) \<Longrightarrow> seen \<le> limit \<Longrightarrow>
   seen + int (length (concat ys)) \<le> limit"
proof (induction limit seen cs fault arbitrary: ys rule: bounded_chunks.induct)
  case (2 limit seen chunk rest fault)
  then show ?case by (fastforce simp: Let_def split: if_splits prod.splits)
qed auto

lemma bounded_chunks_id:
  "seen + int (length (concat cs)) \<le> limit \<Longrightarrow> bounded_chunks limit seen cs fault = (cs, fault)"
  by (induction limit seen cs fault rule: bounded_chunks.induct) (auto simp: Let_def)

lemma bounded_chunks_over:
  "limit < seen + int (length (concat cs)) \<Longrightarrow> seen \<le> limit \<Longrightarrow>
   snd (bounded_chunks limit seen cs fault) =
     Some (OidcNetworkSecurityError ''OIDC response exceeded the configured size limit'')"
  by (induction limit seen cs fault rule: bounded_chunks.induct)
    (auto simp: Let_def split: prod.splits if_splits)

lemma bounded_chunks_prefix:
  "bounded_chunks limit seen cs fault = (ys, e) \<Longrightarrow> \<exists>zs. cs = ys @ zs"
proof (induction limit seen cs fault arbitrary: ys rule: bounded_chunks.induct)
  case (2 limit seen chunk rest fault)
  then show ?case by (fastforce simp: Let_def split: if_splits prod.splits)
qed auto

text \<open>
  A stream within the limit is passed on as it is; a longer one is cut and ends with the size error,
  never silently.
\<close>

definition bounded_relay :: "int \<Rightarrow> http_response \<Rightarrow> http_response \<Rightarrow> bool" where
  "bounded_relay limit raw r \<longleftrightarrow>
     hr_status r = hr_status raw \<and> hr_headers r = hr_headers raw \<and>
     (if int (length (concat (hr_chunks raw))) \<le> limit
      then hr_chunks r = hr_chunks raw \<and> hr_fault r = hr_fault raw
      else (\<exists>cut. hr_chunks raw = hr_chunks r @ cut) \<and> int (length (concat (hr_chunks r))) \<le> limit \<and>
           hr_fault r = Some (OidcNetworkSecurityError ''OIDC response exceeded the configured size limit''))"

lemma bounded_response_relay:
  assumes "0 \<le> limit"
  shows "bounded_relay limit raw (bounded_response limit raw)"
proof -
  obtain ys e where b: "bounded_chunks limit 0 (hr_chunks raw) (hr_fault raw) = (ys, e)" by fastforce
  show ?thesis
    using bounded_chunks_id [of 0 "hr_chunks raw" limit "hr_fault raw"] bounded_chunks_bound [OF b]
      bounded_chunks_over [of limit 0 "hr_chunks raw" "hr_fault raw"] bounded_chunks_prefix [OF b] b assms
    by (auto simp: bounded_relay_def bounded_response_def)
qed

lemma bounded_relay_length:
  "bounded_relay limit raw r \<Longrightarrow> int (length (concat (hr_chunks r))) \<le> limit"
  by (auto simp: bounded_relay_def split: if_splits)

lemma check_content_length_Inr:
  "(check_content_length limit r = Inr ()) =
     (case hr_headers r ''content-length'' of None \<Rightarrow> True
      | Some v \<Rightarrow> (\<exists>n. py_int v = Some n \<and> 0 \<le> n \<and> n \<le> limit))"
  by (auto simp: check_content_length_def ensure_def split: option.splits)

section \<open>The pool of child transports\<close>

text \<open>At most \<open>max_hosts\<close> pools, one per origin, never shared by two origins.\<close>

definition pool_inv :: "nat \<Rightarrow> 'w transport_state \<Rightarrow> bool" where
  "pool_inv max_hosts st \<longleftrightarrow>
     length (ts_children st) \<le> max_hosts \<and> distinct (map fst (ts_children st)) \<and>
     distinct (map snd (ts_children st)) \<and> (\<forall>c \<in> set (map snd (ts_children st)). c < ts_created st)"

lemma transport_init_inv: "transport_init (int m) w = Inr st \<Longrightarrow> pool_inv m st"
  by (auto simp: transport_init_def pool_inv_def split: if_splits)

lemma pool_inv_frame [simp]:
  "pool_inv m (st\<lparr>ts_env := w\<rparr>) = pool_inv m st" "pool_inv m (st\<lparr>ts_audit := a\<rparr>) = pool_inv m st"
  "pool_inv m (st\<lparr>ts_wire := l\<rparr>) = pool_inv m st" "pool_inv m (set_env st w) = pool_inv m st"
  "pool_inv m (close_one st) = pool_inv m st"
  by (simp_all add: pool_inv_def set_env_def close_one_def)

lemma locked_child_inv [inv_intros]:
  "pool_inv m st \<Longrightarrow> pool_inv m (snd (locked_child m key st))"
  by (fastforce simp: pool_inv_def locked_child_def map_of_eq_None_iff split: option.splits intro: less_SucI)

lemma locked_fold_inv [inv_intros]:
  "pool_inv m st \<Longrightarrow> pool_inv m (fold (\<lambda>k s. snd (locked_child m k s)) ks st)"
  by (induction ks arbitrary: st) (simp_all add: inv_intros)

lemma transport_for_inv [inv_intros]:
  "pool_inv m st \<Longrightarrow> pool_inv m (snd (transport_for idna m others t st))"
  by (auto simp: transport_for_def intro!: inv_intros split: sum.splits option.splits)

lemma receive_response_inv [inv_intros]:
  "pool_inv m st \<Longrightarrow> pool_inv m (snd (receive_response lr r st))"
  by (auto simp: receive_response_def split: sum.splits)

lemma handle_request_inv:
  assumes "pool_inv m st"
  shows "pool_inv m (snd (handle_request idna resolve limit_for timeout m network others req st))"
proof -
  have "pool_inv m (set_env st w)" for w using assms by simp
  note t = transport_for_inv [OF this]
  show ?thesis
    using assms t unfolding handle_request_def Let_def
    by (auto split: prod.splits sum.splits intro!: inv_intros) (metis snd_conv)+
qed

lemma aclose_inv: "pool_inv m st \<Longrightarrow> pool_inv m (snd (transport_aclose st))"
  by (simp add: pool_inv_def transport_aclose_def)

text \<open>Two origins are never served by the same pool.\<close>

lemma pool_isolated:
  assumes "pool_inv m st" and "map_of (ts_children st) k = Some c" and "map_of (ts_children st) k' = Some c"
  shows "k = k'"
proof -
  have "(k, c) \<in> set (ts_children st)" "(k', c) \<in> set (ts_children st)"
    using assms(2,3) by (auto dest: map_of_SomeD)
  then show ?thesis
    using assms(1) unfolding pool_inv_def distinct_map inj_on_def by (metis fst_conv snd_conv)
qed

lemma locked_child_found:
  "locked_child m key st = (Inr c, st') \<Longrightarrow> map_of (ts_children st') key = Some c"
  by (auto simp: locked_child_def map_add_def map_of_append split: option.splits if_splits)

lemma transport_for_found:
  "transport_for idna m others t st = (Inr c, st') \<Longrightarrow>
   \<exists>key. origin_of idna (rt_scheme t) (rt_host t) (rt_port t) = Inr key \<and> map_of (ts_children st') key = Some c"
  by (auto simp: transport_for_def dest: locked_child_found split: sum.splits option.splits)

lemma locked_child_frame [simp]:
  "ts_wire (snd (locked_child m k st)) = ts_wire st" "ts_audit (snd (locked_child m k st)) = ts_audit st"
  "ts_env (snd (locked_child m k st)) = ts_env st" "ts_closed (snd (locked_child m k st)) = ts_closed st"
  by (auto simp: locked_child_def split: option.splits)

lemma locked_fold_frame [simp]:
  "ts_wire (fold (\<lambda>k s. snd (locked_child m k s)) ks st) = ts_wire st"
  "ts_audit (fold (\<lambda>k s. snd (locked_child m k s)) ks st) = ts_audit st"
  "ts_env (fold (\<lambda>k s. snd (locked_child m k s)) ks st) = ts_env st"
  "ts_closed (fold (\<lambda>k s. snd (locked_child m k s)) ks st) = ts_closed st"
  by (induction ks arbitrary: st) simp_all

lemma transport_for_frame:
  assumes "transport_for idna m others t st = (r, st')"
  shows "ts_wire st' = ts_wire st" "ts_audit st' = ts_audit st" "ts_env st' = ts_env st" "ts_closed st' = ts_closed st"
proof -
  have "st' = snd (transport_for idna m others t st)" using assms by simp
  then show "ts_wire st' = ts_wire st" "ts_audit st' = ts_audit st" "ts_env st' = ts_env st" "ts_closed st' = ts_closed st"
    by (auto simp: transport_for_def split: sum.splits option.splits)
qed

lemma receive_response_wire [simp]: "ts_wire (snd (receive_response lr r st)) = ts_wire st"
  by (auto simp: receive_response_def close_one_def split: sum.splits)

section \<open>The interface to the policy\<close>

text \<open>
  What the transport needs of its policy: a target it resolves is one it admits, and it has a
  response limit for every URL it resolves.
\<close>

locale pinned_policy =
  fixes resolve :: "string \<Rightarrow> 'w \<Rightarrow> resolved_target result \<times> 'w"
    and limit_for :: "string \<Rightarrow> int result"
    and admits :: "string \<Rightarrow> resolved_target \<Rightarrow> bool"
  assumes resolve_admits: "resolve url w = (Inr t, w') \<Longrightarrow> admits url t"
    and resolve_limit: "resolve url w = (Inr t, w') \<Longrightarrow> \<exists>l. limit_for url = Inr l"
begin

text \<open>What a request adds to the wire: nothing, or one credential-free GET to the target resolved for
  its own URL.\<close>

definition safe_wire :: "rat \<Rightarrow> oidc_request \<Rightarrow> 'w \<Rightarrow> wire_request \<Rightarrow> bool" where
  "safe_wire timeout req w wr \<longleftrightarrow>
     (\<exists>t w' host_header. resolve (rq_url req) w = (Inr t, w') \<and> admits (rq_url req) t \<and>
        wr = wire_request_of timeout req t host_header \<and>
        render_host_header (rt_host t) (rt_port t) (rt_scheme t) = Inr host_header) \<and>
     rq_method req = ''GET'' \<and> \<not> has_credentials req"

lemma handle_request_wire:
  assumes "handle_request idna resolve limit_for timeout m network others req st = (res, st')"
  shows "ts_wire st' = ts_wire st \<or> (\<exists>c wr. ts_wire st' = ts_wire st @ [(c, wr)] \<and> safe_wire timeout req (ts_env st) wr)"
proof (cases "rq_method req = ''GET'' \<and> \<not> has_credentials req")
  case False
  then show ?thesis using assms by (auto simp: handle_request_def split: if_splits)
next
  case guards: True
  obtain rr w where rr: "resolve (rq_url req) (ts_env st) = (rr, w)" by fastforce
  show ?thesis
  proof (cases rr)
    case (Inl e)
    then show ?thesis using assms guards rr by (auto simp: handle_request_def set_env_def)
  next
    case (Inr t)
    with rr have adm: "admits (rq_url req) t" by (auto intro: resolve_admits)
    obtain cr st1 where tf: "transport_for idna m others t (set_env st w) = (cr, st1)" by fastforce
    note frame = transport_for_frame [OF tf]
    show ?thesis
    proof (cases cr)
      case (Inl e)
      then show ?thesis using assms guards rr Inr tf frame by (auto simp: handle_request_def set_env_def)
    next
      case (Inr c)
      note c = this
      show ?thesis
      proof (cases "render_host_header (rt_host t) (rt_port t) (rt_scheme t)")
        case (Inl e)
        then show ?thesis
          using assms guards rr \<open>rr = Inr t\<close> tf c frame by (auto simp: handle_request_def set_env_def)
      next
        case (Inr hh)
        let ?wr = "wire_request_of timeout req t hh"
        have "safe_wire timeout req (ts_env st) ?wr"
          unfolding safe_wire_def using rr \<open>rr = Inr t\<close> adm Inr guards by blast
        moreover have "ts_wire st' = ts_wire st @ [(c, ?wr)]"
          using assms guards rr \<open>rr = Inr t\<close> tf c Inr frame
          by (auto simp: handle_request_def set_env_def Let_def dest!: arg_cong [where f = "ts_wire \<circ> snd"]
              split: prod.splits sum.splits)
        ultimately show ?thesis by blast
      qed
    qed
  qed
qed

text \<open>A returned response is one the network gave to the one request sent, checked and bounded.\<close>

lemma handle_request_response:
  assumes "handle_request idna resolve limit_for timeout m network others req st = (Inr r, st')"
  obtains c wr raw l where "ts_wire st' = ts_wire st @ [(c, wr)]"
    "fst (network c wr (snd (resolve (rq_url req) (ts_env st)))) = Inr raw"
    "limit_for (rq_url req) = Inr l" "check_content_length l raw = Inr ()" "r = bounded_response l raw"
    "\<not> (300 \<le> hr_status raw \<and> hr_status raw < 400)" "content_encoding_of raw \<in> {[], ''identity''}"
proof -
  from assms obtain t w c st1 hh raw w' where t: "resolve (rq_url req) (ts_env st) = (Inr t, w)"
    and tf: "transport_for idna m others t (set_env st w) = (Inr c, st1)"
    and n: "network c (wire_request_of timeout req t hh) (ts_env st1) = (Inr raw, w')"
    and r: "receive_response (limit_for (rq_url req)) raw
       (set_env (st1\<lparr>ts_wire := ts_wire st1 @ [(c, wire_request_of timeout req t hh)]\<rparr>) w') = (Inr r, st')"
    by (auto simp: handle_request_def Let_def split: if_splits prod.splits sum.splits)
  note frame = transport_for_frame [OF tf]
  from resolve_limit [OF t] obtain l where l: "limit_for (rq_url req) = Inr l" by blast
  with r have "r = bounded_response l raw" "\<not> (300 \<le> hr_status raw \<and> hr_status raw < 400)"
    "content_encoding_of raw \<in> {[], ''identity''}" "check_content_length l raw = Inr ()"
    by (auto simp: receive_response_def split: if_splits sum.splits)
  moreover have "ts_wire st' = ts_wire st @ [(c, wire_request_of timeout req t hh)]"
    using arg_cong [OF r, of "ts_wire \<circ> snd"] frame
    by (simp add: set_env_def)
  ultimately show thesis using n t l frame that by (simp add: set_env_def)
qed

end

text \<open>The model of \<open>OidcNetworkSecurityPolicy\<close> is such a policy.\<close>

definition target_admitted :: "idna_codec \<Rightarrow> network_policy \<Rightarrow> string \<Rightarrow> resolved_target \<Rightarrow> bool" where
  "target_admitted idna pol url t \<longleftrightarrow>
     address_admitted pol (rt_scheme t) (rt_ip t) \<and>
     ((rt_kind t = Discovery \<and> url = np_discovery_url pol) \<or>
      (rt_kind t = Jwks \<and> (\<exists>h. normalize_host idna (rt_host t) = Inr h \<and>
         (rt_scheme t, h, rt_port t) \<in> set (np_trusted_origins pol))))"

interpretation oidc_net: pinned_policy "policy_resolve idna resolver pol" "response_limit_for idna pol"
    "target_admitted idna pol" for idna resolver pol
proof unfold_locales
  fix url w t w'
  assume r: "policy_resolve idna resolver pol url w = (Inr t, w')"
  show "target_admitted idna pol url t"
    using policy_resolve_admitted [OF r] policy_resolve_kind [OF r] by (simp add: target_admitted_def)
  show "\<exists>l. response_limit_for idna pol url = Inr l"
    using policy_resolve_limit [OF r] by blast
qed

text \<open>
  What one call can put on the wire, for this policy: the request is bound to the scheme, host and port
  that the URL asked for parses to, and to the answers for that host.
\<close>

definition pinned_wire ::
    "idna_codec \<Rightarrow> 'w resolver \<Rightarrow> network_policy \<Rightarrow> oidc_request \<Rightarrow> 'w \<Rightarrow> wire_request \<Rightarrow>
     string \<Rightarrow> string \<Rightarrow> nat \<Rightarrow> ip_address list \<Rightarrow> bool" where
  "pinned_wire idna resolver pol req w wr scheme host port answers \<longleftrightarrow>
     wr_method wr = ''GET'' \<and> wr_url wr = rq_url req \<and> wr_headers wr ''authorization'' = None \<and>
     wr_headers wr ''proxy-authorization'' = None \<and> wr_headers wr ''accept-encoding'' = Some ''identity'' \<and>
     parse_url idna (rq_url req) = Inr (scheme, host, port) \<and>
     (\<exists>header. render_host_header host port scheme = Inr header \<and> wr_headers wr ''host'' = Some header) \<and>
     wr_sni wr = (if scheme = ''https'' then Some host else None) \<and>
     (case ip_address host of Some literal \<Rightarrow> answers = [literal]
      | None \<Rightarrow> fst (resolver host port w) = Inr answers) \<and>
     answers \<noteq> [] \<and> wr_connect wr = hd answers \<and> (\<forall>a \<in> set answers. address_admitted pol scheme a) \<and>
     (rq_url req = np_discovery_url pol \<or>
      (\<exists>h. normalize_host idna host = Inr h \<and> (scheme, h, port) \<in> set (np_trusted_origins pol)))"

lemma handle_request_pinned:
  assumes "handle_request idna (policy_resolve idna resolver pol) (response_limit_for idna pol) timeout max_hosts
      network others req st = (res, st')"
  shows "ts_wire st' = ts_wire st \<or>
    (\<exists>child wr scheme host port answers. ts_wire st' = ts_wire st @ [(child, wr)] \<and>
       pinned_wire idna resolver pol req (ts_env st) wr scheme host port answers)"
proof (cases "ts_wire st' = ts_wire st")
  case False
  then obtain c wr where wire: "ts_wire st' = ts_wire st @ [(c, wr)]"
    and safe: "oidc_net.safe_wire idna resolver pol timeout req (ts_env st) wr"
    using oidc_net.handle_request_wire [OF assms] by blast
  from safe obtain t w' hh where t: "policy_resolve idna resolver pol (rq_url req) (ts_env st) = (Inr t, w')"
    "target_admitted idna pol (rq_url req) t" "wr = wire_request_of timeout req t hh"
    "render_host_header (rt_host t) (rt_port t) (rt_scheme t) = Inr hh" "rq_method req = ''GET''" "\<not> has_credentials req"
    by (auto simp: oidc_net.safe_wire_def)
  obtain answers where a: "answers \<noteq> []" "rt_ip t = hd answers"
    "\<forall>a \<in> set answers. address_admitted pol (rt_scheme t) a"
    "case ip_address (rt_host t) of Some literal \<Rightarrow> answers = [literal]
       | None \<Rightarrow> fst (resolver (rt_host t) (rt_port t) (ts_env st)) = Inr answers"
    using t(1) by (rule policy_resolve_answers)
  have "parse_url idna (rq_url req) = Inr (rt_scheme t, rt_host t, rt_port t)"
    using t(1) by (rule policy_resolve_Inr)
  then have "pinned_wire idna resolver pol req (ts_env st) wr (rt_scheme t) (rt_host t) (rt_port t) answers"
    using t(2-6) a by (auto simp: pinned_wire_def wire_request_of_def target_admitted_def has_credentials_def)
  with wire show ?thesis by blast
qed simp

end
