(* ===== verification/Oidc_Json.thy ===== *)
theory Oidc_Json
  imports Oidc_Transport
begin

text \<open>
  \<open>adapters/oidc_json.py\<close> and the HTTP response checks the discovery and JWKS clients share.
  \<open>loads\<close> stands for UTF-8 decoding followed by the JSON grammar: it yields the parse tree with
  every object as the list of its pairs, duplicates included, and \<open>Inl (ValueError _)\<close> for
  \<open>UnicodeDecodeError\<close> and \<open>JSONDecodeError\<close>. The pairs hook is modelled.
\<close>

type_synonym json_loads = "bytes \<Rightarrow> pyval result"

fun object_without_duplicates :: "(string \<times> pyval) list \<Rightarrow> pyval dict \<Rightarrow> pyval dict result" where
  "object_without_duplicates [] acc = Inr acc"
| "object_without_duplicates ((key, value) # pairs) acc =
     (if key \<in> fst ` set acc then Inl OidcDocumentError
      else object_without_duplicates pairs (acc @ [(key, value)]))"

text \<open>The hook runs on the innermost objects first.\<close>

fun apply_hook :: "pyval \<Rightarrow> pyval result" and apply_hook_list :: "pyval list \<Rightarrow> pyval list result"
  and apply_hook_pairs :: "(string \<times> pyval) list \<Rightarrow> (string \<times> pyval) list result" where
  "apply_hook (PList vs) = rbind (apply_hook_list vs) (\<lambda>vs'. Inr (PList vs'))"
| "apply_hook (PDict kvs) =
     rbind (apply_hook_pairs kvs) (\<lambda>kvs'. rbind (object_without_duplicates kvs' []) (\<lambda>d. Inr (PDict d)))"
| "apply_hook v = Inr v"
| "apply_hook_list [] = Inr []"
| "apply_hook_list (v # vs) = rbind (apply_hook v) (\<lambda>v'. rbind (apply_hook_list vs) (\<lambda>vs'. Inr (v' # vs')))"
| "apply_hook_pairs [] = Inr []"
| "apply_hook_pairs ((k, v) # kvs) =
     rbind (apply_hook v) (\<lambda>v'. rbind (apply_hook_pairs kvs) (\<lambda>kvs'. Inr ((k, v') # kvs')))"

definition parse_json_object :: "json_loads \<Rightarrow> bytes \<Rightarrow> int \<Rightarrow> pyval dict result" where
  "parse_json_object loads content max_bytes =
     (if content = [] \<or> int (length content) > max_bytes then Inl OidcDocumentError
      else (case loads content of
              Inl (ValueError m) \<Rightarrow> Inl OidcDocumentError
            | Inl e \<Rightarrow> Inl e
            | Inr tree \<Rightarrow>
                rbind (apply_hook tree) (\<lambda>value.
                  case as_dict value of None \<Rightarrow> Inl OidcDocumentError | Some d \<Rightarrow> Inr d)))"

section \<open>Documents fetched by the shared client\<close>

text \<open>What \<open>httpx.AsyncClient.get\<close> returns once the body is read.\<close>

record fetched =
  ft_status :: nat
  ft_headers :: headers
  ft_content :: bytes

definition raise_for_status :: "fetched \<Rightarrow> unit result" where
  "raise_for_status r = ensure (200 \<le> ft_status r \<and> ft_status r < 300) HttpxHTTPError"

definition media_type :: "fetched \<Rightarrow> string" where
  "media_type r =
     py_lower (fst (partition_on CHR '';'' (case ft_headers r ''content-type'' of None \<Rightarrow> [] | Some v \<Rightarrow> v)))"

definition fetched_document ::
    "json_loads \<Rightarrow> string list \<Rightarrow> int \<Rightarrow> fetched \<Rightarrow> pyval dict result" where
  "fetched_document loads media_types max_bytes r =
     rbind (raise_for_status r) (\<lambda>_.
     rbind (ensure (media_type r \<in> set media_types) OidcDocumentError) (\<lambda>_.
       parse_json_object loads (ft_content r) max_bytes))"

text \<open>The classes both clients translate: \<open>httpx.HTTPError\<close>, \<open>OidcDocumentError\<close>, \<open>OidcNetworkSecurityError\<close>.\<close>

fun is_fetch_error :: "exn \<Rightarrow> bool" where
  "is_fetch_error HttpxHTTPError = True"
| "is_fetch_error OidcDocumentError = True"
| "is_fetch_error (OidcNetworkSecurityError m) = True"
| "is_fetch_error e = False"

definition translate_fetch_error :: "exn \<Rightarrow> 'a result \<Rightarrow> 'a result" where
  "translate_fetch_error to r = (case r of Inl e \<Rightarrow> Inl (if is_fetch_error e then to else e) | Inr x \<Rightarrow> Inr x)"

lemma translate_fetch_error_Inr [simp]: "translate_fetch_error to r = Inr x \<longleftrightarrow> r = Inr x"
  by (auto simp: translate_fetch_error_def split: sum.splits)

lemma translate_fetch_error_Inl:
  "translate_fetch_error to r = Inl e \<Longrightarrow> e = to \<or> (r = Inl e \<and> \<not> is_fetch_error e)"
  by (auto simp: translate_fetch_error_def split: sum.splits if_splits)

section \<open>The pairs hook accepts exactly the trees without duplicate keys\<close>

lemma object_without_duplicates_eq:
  "object_without_duplicates kvs acc =
     (if distinct (map fst kvs) \<and> fst ` set acc \<inter> fst ` set kvs = {} then Inr (acc @ kvs)
      else Inl OidcDocumentError)"
  by (induction kvs acc rule: object_without_duplicates.induct) auto

lemma apply_hook_eq:
  "apply_hook v = (if distinct_keys v then Inr v else Inl OidcDocumentError)"
  "apply_hook_list vs = (if list_all distinct_keys vs then Inr vs else Inl OidcDocumentError)"
  "apply_hook_pairs kvs = (if list_all (\<lambda>kv. distinct_keys (snd kv)) kvs then Inr kvs else Inl OidcDocumentError)"
  by (induction v and vs and kvs rule: apply_hook_apply_hook_list_apply_hook_pairs.induct)
    (auto simp: object_without_duplicates_eq)

lemma parse_json_object_Inr:
  "parse_json_object loads content m = Inr d \<longleftrightarrow>
     content \<noteq> [] \<and> int (length content) \<le> m \<and> loads content = Inr (PDict d) \<and> distinct_keys (PDict d)"
  by (auto simp: parse_json_object_def apply_hook_eq split: sum.splits exn.splits option.splits if_splits)

lemma fetched_document_Inr:
  "fetched_document loads ms m r = Inr d \<longleftrightarrow>
     200 \<le> ft_status r \<and> ft_status r < 300 \<and> media_type r \<in> set ms \<and>
     ft_content r \<noteq> [] \<and> int (length (ft_content r)) \<le> m \<and>
     loads (ft_content r) = Inr (PDict d) \<and> distinct_keys (PDict d)"
  by (auto simp: fetched_document_def raise_for_status_def rbind_Inr_iff parse_json_object_Inr)

section \<open>The shared HTTP client\<close>

text \<open>
  The client the entrypoint builds around the pinned transport, as far as \<open>get\<close> goes: one GET
  request with the client's default headers, no redirects followed, the body read to its end.
\<close>

definition client_get ::
    "(oidc_request \<Rightarrow> 'w transport_state \<Rightarrow> http_response result \<times> 'w transport_state) \<Rightarrow> headers \<Rightarrow>
     string \<Rightarrow> 'w transport_state \<Rightarrow> fetched result \<times> 'w transport_state" where
  "client_get transport default_headers url st =
     (case transport \<lparr>rq_method = ''GET'', rq_url = url, rq_headers = default_headers\<rparr> st of
        (Inl e, st') \<Rightarrow> (Inl e, st')
      | (Inr r, st') \<Rightarrow>
          (case hr_fault r of
             Some e \<Rightarrow> (Inl e, st')
           | None \<Rightarrow> (Inr \<lparr>ft_status = hr_status r, ft_headers = hr_headers r,
                            ft_content = concat (hr_chunks r)\<rparr>, st')))"

end
