(* ===== verification/Oidc_Discovery.thy ===== *)
theory Oidc_Discovery
  imports Oidc_Json
begin

text \<open>
  \<open>adapters/oidc_discovery.py\<close>: trusted metadata of the configured issuer, fetched under a lock and
  cached. The TTL caches of \<open>cachetools\<close> are maps that may forget an entry at any time
  (\<open>alive\<close>). The environment \<open>oidc_env\<close> also serves the JWKS client, which shares the state.
\<close>

type_synonym jwks_index = "pyval dict dict"

record 'w oidc_state =
  os_metadata :: "string \<rightharpoonup> oidc_metadata"
  os_keys :: "string \<rightharpoonup> jwks_index"
  os_last_forced :: "string \<rightharpoonup> rat"
  os_env :: 'w

record ('w, 'k) oidc_env =
  e_idna :: idna_codec
  e_policy :: network_policy
  e_http_get :: "string \<Rightarrow> 'w \<Rightarrow> fetched result \<times> 'w"
  e_loads :: json_loads
  e_metadata_alive :: "string \<Rightarrow> 'w \<Rightarrow> bool"
  e_keys_alive :: "string \<Rightarrow> 'w \<Rightarrow> bool"
  e_now :: "'w \<Rightarrow> rat"
  e_metadata_waiters :: "'w \<Rightarrow> nat"
  e_keys_waiters :: "'w \<Rightarrow> (string \<times> bool) list"
  e_unverified_header :: "string \<Rightarrow> pyval dict result"
  e_pyjwk_from_dict :: "pyval dict \<Rightarrow> string \<Rightarrow> 'k result"
  e_max_keys :: nat
  e_refresh_cooldown :: rat

text \<open>The constructor's checks.\<close>

definition discovery_init :: "int \<Rightarrow> int \<Rightarrow> unit result" where
  "discovery_init cache_ttl_seconds cache_size =
     (if cache_ttl_seconds \<le> 0 \<or> cache_size \<le> 0
      then Inl (ValueError ''discovery cache TTL and size must be positive'') else Inr ())"

definition metadata_of :: "idna_codec \<Rightarrow> network_policy \<Rightarrow> pyval dict \<Rightarrow> oidc_metadata result" where
  "metadata_of idna pol document =
     (let issuer = py_get document ''issuer''; jwks_uri = py_get document ''jwks_uri'' in
      if \<not> nonempty_str issuer then Inl OidcDocumentError
      else if \<not> nonempty_str jwks_uri then Inl OidcDocumentError
      else (case (as_str issuer, as_str jwks_uri) of
              (Some i, Some j) \<Rightarrow>
                rbind (assert_metadata_trusted idna pol i j) (\<lambda>_. Inr \<lparr>md_issuer = i, md_jwks_uri = j\<rparr>)
            | _ \<Rightarrow> Inl OidcDocumentError))"

definition discovery_fetch :: "('w, 'k) oidc_env \<Rightarrow> 'w \<Rightarrow> oidc_metadata result \<times> 'w" where
  "discovery_fetch env w =
     (let pol = e_policy env in
      case e_http_get env (np_discovery_url pol) w of (response, w') \<Rightarrow>
        (translate_fetch_error DiscoveryError
           (rbind response (\<lambda>r.
            rbind (fetched_document (e_loads env) [''application/json''] (np_discovery_max_bytes pol) r)
              (metadata_of (e_idna env) pol))), w'))"

definition cached_metadata :: "('w, 'k) oidc_env \<Rightarrow> string \<Rightarrow> 'w oidc_state \<Rightarrow> oidc_metadata option" where
  "cached_metadata env issuer st =
     (if e_metadata_alive env issuer (os_env st) then os_metadata st issuer else None)"

text \<open>The critical section under \<open>_fetch_lock\<close>.\<close>

definition discovery_locked ::
    "('w, 'k) oidc_env \<Rightarrow> string \<Rightarrow> 'w oidc_state \<Rightarrow> oidc_metadata result \<times> 'w oidc_state" where
  "discovery_locked env issuer st =
     (case cached_metadata env issuer st of
        Some m \<Rightarrow> (Inr m, st)
      | None \<Rightarrow>
          (case discovery_fetch env (os_env st) of
             (Inl e, w) \<Rightarrow> (Inl e, st\<lparr>os_env := w\<rparr>)
           | (Inr m, w) \<Rightarrow> (Inr m, st\<lparr>os_metadata := (os_metadata st)(issuer \<mapsto> m), os_env := w\<rparr>)))"

text \<open>While a task waits for the lock, \<open>e_metadata_waiters\<close> others run their critical section.\<close>

definition discovery_resolve ::
    "('w, 'k) oidc_env \<Rightarrow> string \<Rightarrow> 'w oidc_state \<Rightarrow> oidc_metadata result \<times> 'w oidc_state" where
  "discovery_resolve env issuer st =
     (if issuer \<noteq> np_issuer_url (e_policy env) then (Inl DiscoveryError, st)
      else (case cached_metadata env issuer st of
              Some m \<Rightarrow> (Inr m, st)
            | None \<Rightarrow>
                discovery_locked env issuer
                  (((\<lambda>s. snd (discovery_locked env issuer s)) ^^ e_metadata_waiters env (os_env st)) st)))"

section \<open>Only trusted metadata is cached and returned\<close>

definition trusted_metadata :: "('w, 'k) oidc_env \<Rightarrow> oidc_metadata \<Rightarrow> bool" where
  "trusted_metadata env m \<longleftrightarrow>
     md_issuer m = np_issuer_url (e_policy env) \<and>
     assert_jwks_uri_trusted (e_idna env) (e_policy env) (md_jwks_uri m) = Inr ()"

definition metadata_inv :: "('w, 'k) oidc_env \<Rightarrow> 'w oidc_state \<Rightarrow> bool" where
  "metadata_inv env st \<longleftrightarrow> (\<forall>issuer m. os_metadata st issuer = Some m \<longrightarrow> trusted_metadata env m)"

lemma metadata_of_trusted:
  "metadata_of (e_idna env) (e_policy env) d = Inr m \<Longrightarrow> trusted_metadata env m"
  by (auto simp: metadata_of_def trusted_metadata_def assert_metadata_trusted_def Let_def rbind_Inr_iff
      split: if_splits option.splits)

lemma discovery_fetch_trusted: "discovery_fetch env w = (Inr m, w') \<Longrightarrow> trusted_metadata env m"
  by (auto simp: discovery_fetch_def Let_def rbind_Inr_iff intro: metadata_of_trusted split: prod.splits)

lemma cached_metadata_trusted:
  "metadata_inv env st \<Longrightarrow> cached_metadata env i st = Some m \<Longrightarrow> trusted_metadata env m"
  by (auto simp: metadata_inv_def cached_metadata_def split: if_splits)

lemma discovery_locked_trusted:
  assumes "metadata_inv env st" and "discovery_locked env i st = (r, st')"
  shows "metadata_inv env st'" and "r = Inr m \<Longrightarrow> trusted_metadata env m"
  using assms cached_metadata_trusted [OF assms(1)]
  by (auto simp: discovery_locked_def metadata_inv_def dest!: discovery_fetch_trusted
      split: option.splits prod.splits sum.splits if_splits)

lemma discovery_waiters_inv:
  "metadata_inv env st \<Longrightarrow> metadata_inv env (((\<lambda>s. snd (discovery_locked env i s)) ^^ n) st)"
  by (induction n) (auto intro: discovery_locked_trusted(1) [OF _ surjective_pairing])

lemma discovery_resolve_trusted:
  assumes "metadata_inv env st" and "discovery_resolve env i st = (r, st')"
  shows "metadata_inv env st'" and "r = Inr m \<Longrightarrow> trusted_metadata env m \<and> i = np_issuer_url (e_policy env)"
  using assms discovery_locked_trusted [OF discovery_waiters_inv [OF assms(1)]] cached_metadata_trusted [OF assms(1)]
  by (auto simp: discovery_resolve_def split: if_splits option.splits)

lemma discovery_keys_frame:
  assumes "discovery_resolve env i st = (r, st')"
  shows "os_keys st' = os_keys st" and "os_last_forced st' = os_last_forced st"
proof -
  have l: "os_keys (snd (discovery_locked env i s)) = os_keys s \<and>
      os_last_forced (snd (discovery_locked env i s)) = os_last_forced s" for i s
    by (auto simp: discovery_locked_def split: option.splits prod.splits sum.splits)
  have w: "os_keys (((\<lambda>s. snd (discovery_locked env i s)) ^^ n) st) = os_keys st \<and>
      os_last_forced (((\<lambda>s. snd (discovery_locked env i s)) ^^ n) st) = os_last_forced st" for i n
    by (induction n) (simp_all add: l)
  have "st' = snd (discovery_resolve env i st)" using assms by simp
  then show "os_keys st' = os_keys st" "os_last_forced st' = os_last_forced st"
    by (auto simp: discovery_resolve_def l w split: option.splits)
qed

text \<open>A live cached entry is returned without any request; a second call right after a success is one.\<close>

lemma discovery_cache_hit:
  "cached_metadata env i st = Some m \<Longrightarrow> i = np_issuer_url (e_policy env) \<Longrightarrow>
   discovery_resolve env i st = (Inr m, st)"
  by (simp add: discovery_resolve_def)

lemma discovery_resolve_cached:
  assumes "discovery_resolve env i st = (Inr m, st')"
  shows "os_metadata st' i = Some m"
proof -
  have l: "discovery_locked env i s = (Inr m, s') \<Longrightarrow> os_metadata s' i = Some m" for s s'
    by (auto simp: discovery_locked_def cached_metadata_def split: option.splits prod.splits sum.splits if_splits)
  show ?thesis
    using assms l by (auto simp: discovery_resolve_def cached_metadata_def split: if_splits option.splits)
qed

section \<open>The port\<close>

text \<open>
  \<open>application/auth_ports.py\<close>, \<open>DiscoveryPort\<close>: what the token verifiers rely on. The state carries
  an invariant; a resolved document is one the policy trusts, for the issuer asked for.
\<close>

locale discovery_port =
  fixes resolve_metadata :: "string \<Rightarrow> 's \<Rightarrow> oidc_metadata result \<times> 's"
    and inv :: "'s \<Rightarrow> bool"
    and trusted :: "oidc_metadata \<Rightarrow> bool"
  assumes resolve_inv: "inv st \<Longrightarrow> resolve_metadata issuer st = (r, st') \<Longrightarrow> inv st'"
    and resolve_trusted: "inv st \<Longrightarrow> resolve_metadata issuer st = (Inr m, st') \<Longrightarrow>
      trusted m \<and> md_issuer m = issuer"

interpretation discovery: discovery_port "discovery_resolve env"
    "\<lambda>st. metadata_inv env st \<and> keys_ok (os_keys st)" "trusted_metadata env" for env keys_ok
proof unfold_locales
  fix st st' :: "'a oidc_state" and issuer r
  assume inv: "metadata_inv env st \<and> keys_ok (os_keys st)" and r: "discovery_resolve env issuer st = (r, st')"
  show "metadata_inv env st' \<and> keys_ok (os_keys st')"
    using discovery_resolve_trusted(1) [OF _ r] discovery_keys_frame(1) [OF r] inv by simp
next
  fix st st' :: "'a oidc_state" and issuer m
  assume inv: "metadata_inv env st \<and> keys_ok (os_keys st)" and r: "discovery_resolve env issuer st = (Inr m, st')"
  have "trusted_metadata env m \<and> issuer = np_issuer_url (e_policy env)"
    using discovery_resolve_trusted(2) [OF _ r] inv by simp
  then show "trusted_metadata env m \<and> md_issuer m = issuer" by (simp add: trusted_metadata_def)
qed

end
