(* ===== verification/Jwks_Key_Resolver.thy ===== *)
theory Jwks_Key_Resolver
  imports Oidc_Discovery
begin

text \<open>
  \<open>adapters/jwks_key_resolver.py\<close>: the signing key for a token, from a trusted JWKS that is cached
  and refreshed at most once per miss and per cooldown. \<open>get_unverified_header\<close> and
  \<open>PyJWK.from_dict\<close> belong to PyJWT and are parameters of the environment.
\<close>

definition max_kid_length :: nat where
  "max_kid_length = 256"

definition accepted_algorithms :: "string list" where
  "accepted_algorithms = [''RS256'', ''ES256'']"

definition jwks_media_types :: "string list" where
  "jwks_media_types = [''application/json'', ''application/jwk-set+json'']"

definition key_resolver_init :: "int \<Rightarrow> int \<Rightarrow> int \<Rightarrow> rat \<Rightarrow> unit result" where
  "key_resolver_init lifespan_seconds cache_size max_keys refresh_cooldown_seconds =
     (if lifespan_seconds \<le> 0 \<or> cache_size \<le> 0 \<or> max_keys \<le> 0
      then Inl (ValueError ''JWKS cache TTL, cache size and max_keys must be positive'')
      else if refresh_cooldown_seconds \<le> 0 then Inl (ValueError ''JWKS refresh cooldown must be positive'')
      else Inr ())"

definition bounded_kid :: "pyval \<Rightarrow> bool" where
  "bounded_kid v \<longleftrightarrow> (case as_str v of None \<Rightarrow> False | Some s \<Rightarrow> s \<noteq> [] \<and> length s \<le> max_kid_length)"

text \<open>\<open>use\<close> and \<open>key_ops\<close> of a key that may verify signatures.\<close>

definition usable_for_signatures :: "pyval dict \<Rightarrow> bool" where
  "usable_for_signatures key \<longleftrightarrow>
     (py_get key ''use'' = PNone \<or> py_get key ''use'' = PStr ''sig'') \<and>
     (py_get key ''key_ops'' = PNone \<or>
      (case as_list (py_get key ''key_ops'') of None \<Rightarrow> False | Some ops \<Rightarrow> PStr ''verify'' \<in> set ops))"

fun index_keys :: "pyval list \<Rightarrow> jwks_index \<Rightarrow> string list \<Rightarrow> jwks_index result" where
  "index_keys [] indexed seen = Inr indexed"
| "index_keys (raw # rest) indexed seen =
     (case as_dict raw of
        None \<Rightarrow> index_keys rest indexed seen
      | Some key \<Rightarrow>
          if \<not> bounded_kid (py_get key ''kid'') then index_keys rest indexed seen
          else (case as_str (py_get key ''kid'') of
                  None \<Rightarrow> index_keys rest indexed seen
                | Some kid \<Rightarrow>
                    if kid \<in> set seen then Inl OidcDocumentError
                    else if \<not> usable_for_signatures key then index_keys rest indexed (kid # seen)
                    else index_keys rest (AList.update kid key indexed) (kid # seen)))"

fun is_jwk_error :: "exn \<Rightarrow> bool" where
  "is_jwk_error JwkError = True"
| "is_jwk_error (ValueError m) = True"
| "is_jwk_error (OtherExn m) = (m = ''KeyError'')"
| "is_jwk_error e = False"

definition compatible_key ::
    "('w, 'k) oidc_env \<Rightarrow> jwks_index \<Rightarrow> string \<Rightarrow> string \<Rightarrow> 'k option result" where
  "compatible_key env keys kid algorithm =
     (case map_of keys kid of
        None \<Rightarrow> Inr None
      | Some raw \<Rightarrow>
          let advertised = py_get raw ''alg'';
              expected = (if algorithm = ''RS256'' then ''RSA'' else ''EC'')
          in if advertised \<noteq> PNone \<and> advertised \<noteq> PStr algorithm then Inr None
             else if py_get raw ''kty'' \<noteq> PStr expected then Inr None
             else if algorithm = ''ES256'' \<and> py_get raw ''crv'' \<noteq> PStr ''P-256'' then Inr None
             else (case e_pyjwk_from_dict env raw algorithm of
                     Inr k \<Rightarrow> Inr (Some k)
                   | Inl e \<Rightarrow> if is_jwk_error e then Inr None else Inl e))"

definition keys_of_document :: "nat \<Rightarrow> pyval dict \<Rightarrow> jwks_index result" where
  "keys_of_document max_keys document =
     (case as_list (py_get document ''keys'') of
        None \<Rightarrow> Inl OidcDocumentError
      | Some raw_keys \<Rightarrow>
          if length raw_keys > max_keys then Inl OidcDocumentError else index_keys raw_keys [] [])"

definition fetch_keys :: "('w, 'k) oidc_env \<Rightarrow> string \<Rightarrow> 'w \<Rightarrow> jwks_index result \<times> 'w" where
  "fetch_keys env jwks_uri w =
     (let pol = e_policy env in
      case assert_jwks_uri_trusted (e_idna env) pol jwks_uri of
        Inl e \<Rightarrow> (translate_fetch_error SigningKeyError (Inl e), w)
      | Inr _ \<Rightarrow>
          (case e_http_get env jwks_uri w of (response, w') \<Rightarrow>
             (translate_fetch_error SigningKeyError
                (rbind response (\<lambda>r.
                 rbind (fetched_document (e_loads env) jwks_media_types (np_jwks_max_bytes pol) r)
                   (keys_of_document (e_max_keys env)))), w')))"

definition cached_keys :: "('w, 'k) oidc_env \<Rightarrow> string \<Rightarrow> 'w oidc_state \<Rightarrow> jwks_index option" where
  "cached_keys env uri st = (if e_keys_alive env uri (os_env st) then os_keys st uri else None)"

definition store_keys ::
    "('w, 'k) oidc_env \<Rightarrow> string \<Rightarrow> 'w oidc_state \<Rightarrow> jwks_index result \<times> 'w oidc_state" where
  "store_keys env uri st =
     (case fetch_keys env uri (os_env st) of
        (Inl e, w) \<Rightarrow> (Inl e, st\<lparr>os_env := w\<rparr>)
      | (Inr keys, w) \<Rightarrow> (Inr keys, st\<lparr>os_keys := (os_keys st)(uri \<mapsto> keys), os_env := w\<rparr>))"

text \<open>The critical section of \<open>_keys_for\<close>.\<close>

definition in_cooldown :: "('w, 'k) oidc_env \<Rightarrow> string \<Rightarrow> 'w oidc_state \<Rightarrow> bool" where
  "in_cooldown env uri st =
     (case os_last_forced st uri of
        None \<Rightarrow> False
      | Some previous \<Rightarrow> e_now env (os_env st) - previous < e_refresh_cooldown env)"

definition keys_locked ::
    "('w, 'k) oidc_env \<Rightarrow> string \<Rightarrow> bool \<Rightarrow> 'w oidc_state \<Rightarrow> jwks_index result \<times> 'w oidc_state" where
  "keys_locked env uri force_refresh st =
     (case cached_keys env uri st of
        None \<Rightarrow> store_keys env uri st
      | Some cached \<Rightarrow>
          if \<not> force_refresh then (Inr cached, st)
          else if in_cooldown env uri st then (Inr cached, st)
          else store_keys env uri
                 (st\<lparr>os_last_forced := (os_last_forced st)(uri \<mapsto> e_now env (os_env st))\<rparr>))"

definition run_waiters :: "('w, 'k) oidc_env \<Rightarrow> 'w oidc_state \<Rightarrow> 'w oidc_state" where
  "run_waiters env st =
     fold (\<lambda>(uri, force) s. snd (keys_locked env uri force s)) (e_keys_waiters env (os_env st)) st"

definition keys_for ::
    "('w, 'k) oidc_env \<Rightarrow> string \<Rightarrow> bool \<Rightarrow> 'w oidc_state \<Rightarrow> jwks_index result \<times> 'w oidc_state" where
  "keys_for env uri force_refresh st =
     (case if force_refresh then None else cached_keys env uri st of
        Some cached \<Rightarrow> (Inr cached, st)
      | None \<Rightarrow> keys_locked env uri force_refresh (run_waiters env st))"

text \<open>The header checks of \<open>resolve\<close>: the \<open>kid\<close> and algorithm the key is bound to.\<close>

definition header_binding :: "('w, 'k) oidc_env \<Rightarrow> string \<Rightarrow> (string \<times> string) result" where
  "header_binding env token =
     (case e_unverified_header env token of
        Inl (InvalidTokenError m) \<Rightarrow> Inl SigningKeyError
      | Inl e \<Rightarrow> Inl e
      | Inr header \<Rightarrow>
          if \<not> bounded_kid (py_get header ''kid'') then Inl SigningKeyError
          else (case (as_str (py_get header ''kid''), as_str (py_get header ''alg'')) of
                  (Some kid, Some algorithm) \<Rightarrow>
                    if algorithm \<in> set accepted_algorithms then Inr (kid, algorithm) else Inl SigningKeyError
                | _ \<Rightarrow> Inl SigningKeyError))"

definition resolve_key ::
    "('w, 'k) oidc_env \<Rightarrow> string \<Rightarrow> string \<Rightarrow> 'w oidc_state \<Rightarrow> 'k result \<times> 'w oidc_state" where
  "resolve_key env jwks_uri token st =
     (case header_binding env token of
        Inl e \<Rightarrow> (Inl e, st)
      | Inr (kid, algorithm) \<Rightarrow>
          (case assert_jwks_uri_trusted (e_idna env) (e_policy env) jwks_uri of
             Inl (OidcNetworkSecurityError m) \<Rightarrow> (Inl SigningKeyError, st)
           | Inl e \<Rightarrow> (Inl e, st)
           | Inr _ \<Rightarrow>
               (case keys_for env jwks_uri False st of
                  (Inl e, st1) \<Rightarrow> (Inl e, st1)
                | (Inr keys, st1) \<Rightarrow>
                    (case compatible_key env keys kid algorithm of
                       Inl e \<Rightarrow> (Inl e, st1)
                     | Inr (Some k) \<Rightarrow> (Inr k, st1)
                     | Inr None \<Rightarrow>
                         (case keys_for env jwks_uri True st1 of
                            (Inl e, st2) \<Rightarrow> (Inl e, st2)
                          | (Inr keys2, st2) \<Rightarrow>
                              (case compatible_key env keys2 kid algorithm of
                                 Inl e \<Rightarrow> (Inl e, st2)
                               | Inr (Some k) \<Rightarrow> (Inr k, st2)
                               | Inr None \<Rightarrow> (Inl SigningKeyError, st2)))))))"

section \<open>What the index holds\<close>

definition index_entry_ok :: "string \<Rightarrow> pyval dict \<Rightarrow> bool" where
  "index_entry_ok kid key \<longleftrightarrow>
     py_get key ''kid'' = PStr kid \<and> kid \<noteq> [] \<and> length kid \<le> max_kid_length \<and> usable_for_signatures key"

definition index_ok :: "jwks_index \<Rightarrow> bool" where
  "index_ok keys \<longleftrightarrow> (\<forall>(kid, key) \<in> set keys. index_entry_ok kid key) \<and> distinct (map fst keys)"

lemma set_alist_update: "set (AList.update k v al) \<subseteq> insert (k, v) (set al)"
  by (induction al) auto

lemma index_ok_update:
  assumes "index_ok keys" and "index_entry_ok kid key"
  shows "index_ok (AList.update kid key keys)"
  using assms set_alist_update [of kid key keys] unfolding index_ok_def
  by (auto simp: distinct_update)

lemma index_ok_Nil [simp]: "index_ok []"
  by (simp add: index_ok_def)

lemma bounded_kid_iff:
  "bounded_kid v \<longleftrightarrow> (\<exists>s. v = PStr s \<and> s \<noteq> [] \<and> length s \<le> max_kid_length)"
  by (cases v) (auto simp: bounded_kid_def)

text \<open>The bounded \<open>kid\<close> values of a document, in order.\<close>

definition kids_of :: "pyval list \<Rightarrow> string list" where
  "kids_of raws =
     concat (map (\<lambda>raw. case as_dict raw of None \<Rightarrow> []
                      | Some key \<Rightarrow> (case as_str (py_get key ''kid'') of
                           Some kid \<Rightarrow> if bounded_kid (PStr kid) then [kid] else [] | None \<Rightarrow> [])) raws)"

lemma kids_of_Nil [simp]: "kids_of [] = []"
  by (simp add: kids_of_def)

lemma kids_of_key:
  "py_get key ''kid'' = PStr kid \<Longrightarrow> bounded_kid (PStr kid) \<Longrightarrow> kids_of (PDict key # rest) = kid # kids_of rest"
  by (simp add: kids_of_def)

lemma kids_of_skip:
  "\<not> (\<exists>key. raw = PDict key \<and> bounded_kid (py_get key ''kid'')) \<Longrightarrow> kids_of (raw # rest) = kids_of rest"
  by (cases raw) (auto simp: kids_of_def split: option.splits)

text \<open>One round of the loop: the entry is skipped, only recorded as seen, or indexed.\<close>

lemma index_keys_step:
  assumes "index_keys (raw # rest) indexed seen = Inr keys"
  obtains (skip) "index_keys rest indexed seen = Inr keys" "kids_of (raw # rest) = kids_of rest"
  | (unusable) key kid where "raw = PDict key" "py_get key ''kid'' = PStr kid" "bounded_kid (PStr kid)"
      "kid \<notin> set seen" "index_keys rest indexed (kid # seen) = Inr keys"
  | (indexed) key kid where "raw = PDict key" "py_get key ''kid'' = PStr kid" "bounded_kid (PStr kid)"
      "kid \<notin> set seen" "usable_for_signatures key"
      "index_keys rest (AList.update kid key indexed) (kid # seen) = Inr keys"
proof (cases "\<exists>k. raw = PDict k \<and> bounded_kid (py_get k ''kid'')")
  case False
  then have "index_keys rest indexed seen = Inr keys"
    using assms by (cases raw) (auto split: if_splits)
  then show thesis using skip kids_of_skip [OF False] by simp
next
  case True
  then obtain k s where raw: "raw = PDict k" "py_get k ''kid'' = PStr s" "bounded_kid (PStr s)"
    by (auto simp: bounded_kid_iff)
  then show thesis using assms unusable indexed by (auto split: if_splits)
qed

lemma index_keys_ok:
  "index_ok indexed \<Longrightarrow> index_keys raws indexed seen = Inr keys \<Longrightarrow> index_ok keys"
proof (induction raws arbitrary: indexed seen)
  case (Cons raw raws)
  from Cons.prems(2) show ?case
  proof (cases rule: index_keys_step)
    case (indexed key kid)
    then have "index_entry_ok kid key" by (auto simp: index_entry_ok_def bounded_kid_iff)
    with Cons indexed(6) show ?thesis by (blast intro: index_ok_update)
  qed (use Cons in blast)+
qed simp

text \<open>
  The loop in closed form: a document whose bounded \<open>kid\<close> values are distinct yields its usable keys
  in order; any other is refused.
\<close>

definition usable_entries :: "pyval list \<Rightarrow> jwks_index" where
  "usable_entries raws =
     concat (map (\<lambda>raw. case as_dict raw of None \<Rightarrow> []
                      | Some key \<Rightarrow> (case as_str (py_get key ''kid'') of
                           Some kid \<Rightarrow> if bounded_kid (PStr kid) \<and> usable_for_signatures key then [(kid, key)] else []
                         | None \<Rightarrow> [])) raws)"

lemma alist_update_new: "k \<notin> fst ` set al \<Longrightarrow> AList.update k v al = al @ [(k, v)]"
  by (induction al) auto

lemma index_keys_closed:
  "fst ` set indexed \<subseteq> set seen \<Longrightarrow>
   index_keys raws indexed seen =
     (if distinct (kids_of raws) \<and> set (kids_of raws) \<inter> set seen = {}
      then Inr (indexed @ usable_entries raws) else Inl OidcDocumentError)"
proof (induction raws arbitrary: indexed seen)
  case Nil
  then show ?case by (simp add: usable_entries_def)
next
  case (Cons raw raws)
  show ?case
  proof (cases "\<exists>k. raw = PDict k \<and> bounded_kid (py_get k ''kid'')")
    case False
    then have "index_keys (raw # raws) indexed seen = index_keys raws indexed seen"
      "usable_entries (raw # raws) = usable_entries raws"
      by (cases raw; auto simp: usable_entries_def split: option.splits)+
    then show ?thesis using Cons kids_of_skip [OF False] by simp
  next
    case True
    then obtain k s where raw: "raw = PDict k" "py_get k ''kid'' = PStr s" "bounded_kid (PStr s)"
      by (auto simp: bounded_kid_iff)
    have u: "usable_entries (raw # raws) = (if usable_for_signatures k then [(s, k)] else []) @ usable_entries raws"
      using raw by (simp add: usable_entries_def)
    have new: "s \<notin> set seen \<Longrightarrow> AList.update s k indexed = indexed @ [(s, k)]"
      using Cons.prems by (intro alist_update_new) auto
    have "fst ` set indexed \<subseteq> set (s # seen)" "fst ` set (indexed @ [(s, k)]) \<subseteq> set (s # seen)"
      using Cons.prems by auto
    then show ?thesis
      using raw u new Cons.IH [of indexed "s # seen"] Cons.IH [of "indexed @ [(s, k)]" "s # seen"]
      by (auto simp: kids_of_key)
  qed
qed

section \<open>The cache holds trusted documents only\<close>

definition keys_ok :: "('w, 'k) oidc_env \<Rightarrow> (string \<rightharpoonup> jwks_index) \<Rightarrow> bool" where
  "keys_ok env cache \<longleftrightarrow>
     (\<forall>uri keys. cache uri = Some keys \<longrightarrow>
        assert_jwks_uri_trusted (e_idna env) (e_policy env) uri = Inr () \<and> index_ok keys)"

lemma keys_of_document_ok: "keys_of_document m d = Inr keys \<Longrightarrow> index_ok keys"
  by (auto simp: keys_of_document_def intro: index_keys_ok [where indexed = "[]"] index_ok_Nil
      split: option.splits if_splits)

lemma fetch_keys_ok:
  "fetch_keys env uri w = (Inr keys, w') \<Longrightarrow>
   assert_jwks_uri_trusted (e_idna env) (e_policy env) uri = Inr () \<and> index_ok keys"
  by (auto simp: fetch_keys_def Let_def rbind_Inr_iff intro: keys_of_document_ok split: sum.splits prod.splits)

lemma store_keys_ok:
  assumes "keys_ok env (os_keys st)" and "store_keys env uri st = (r, st')"
  shows "keys_ok env (os_keys st')" and "r = Inr keys \<Longrightarrow> index_ok keys"
  using assms
  by (auto simp: store_keys_def keys_ok_def dest!: fetch_keys_ok split: prod.splits sum.splits if_splits)

lemma cached_keys_ok: "keys_ok env (os_keys st) \<Longrightarrow> cached_keys env uri st = Some keys \<Longrightarrow> index_ok keys"
  by (auto simp: cached_keys_def keys_ok_def split: if_splits)

lemma keys_locked_ok:
  assumes "keys_ok env (os_keys st)" and "keys_locked env uri force st = (r, st')"
  shows "keys_ok env (os_keys st')" and "r = Inr keys \<Longrightarrow> index_ok keys"
proof -
  have ok: "keys_ok env (os_keys (st\<lparr>os_last_forced := l\<rparr>))" for l using assms(1) by simp
  show "keys_ok env (os_keys st')" and "r = Inr keys \<Longrightarrow> index_ok keys"
    using assms(2) store_keys_ok [OF assms(1)] store_keys_ok [OF ok] cached_keys_ok [OF assms(1)] assms(1)
    by (auto simp: keys_locked_def split: option.splits if_splits)
qed

lemma run_waiters_ok:
  assumes "keys_ok env (os_keys st)" shows "keys_ok env (os_keys (run_waiters env st))"
proof -
  have "keys_ok env (os_keys s) \<Longrightarrow>
      keys_ok env (os_keys (fold (\<lambda>(uri, force) s. snd (keys_locked env uri force s)) ws s))" for ws s
    by (induction ws arbitrary: s) (auto intro: keys_locked_ok(1) [OF _ surjective_pairing])
  then show ?thesis using assms by (simp add: run_waiters_def)
qed

lemma keys_for_ok:
  assumes "keys_ok env (os_keys st)" and "keys_for env uri force st = (r, st')"
  shows "keys_ok env (os_keys st')" and "r = Inr keys \<Longrightarrow> index_ok keys"
  using assms(2) keys_locked_ok [OF run_waiters_ok [OF assms(1)]] cached_keys_ok [OF assms(1)] assms(1)
  by (auto simp: keys_for_def split: option.splits if_splits)

text \<open>What binds a resolved key to its token.\<close>

definition key_bound :: "('w, 'k) oidc_env \<Rightarrow> string \<Rightarrow> string \<Rightarrow> 'k \<Rightarrow> bool" where
  "key_bound env uri token k \<longleftrightarrow>
     (\<exists>kid algorithm raw. header_binding env token = Inr (kid, algorithm) \<and>
        assert_jwks_uri_trusted (e_idna env) (e_policy env) uri = Inr () \<and>
        index_entry_ok kid raw \<and>
        (py_get raw ''alg'' = PNone \<or> py_get raw ''alg'' = PStr algorithm) \<and>
        py_get raw ''kty'' = PStr (if algorithm = ''RS256'' then ''RSA'' else ''EC'') \<and>
        e_pyjwk_from_dict env raw algorithm = Inr k)"

lemma compatible_key_bound:
  assumes "index_ok keys" and "compatible_key env keys kid algorithm = Inr (Some k)"
  obtains raw where "index_entry_ok kid raw" "py_get raw ''alg'' = PNone \<or> py_get raw ''alg'' = PStr algorithm"
    "py_get raw ''kty'' = PStr (if algorithm = ''RS256'' then ''RSA'' else ''EC'')"
    "e_pyjwk_from_dict env raw algorithm = Inr k"
proof -
  from assms(2) obtain raw where raw: "map_of keys kid = Some raw"
    "py_get raw ''alg'' = PNone \<or> py_get raw ''alg'' = PStr algorithm"
    "py_get raw ''kty'' = PStr (if algorithm = ''RS256'' then ''RSA'' else ''EC'')"
    "e_pyjwk_from_dict env raw algorithm = Inr k"
    unfolding compatible_key_def Let_def by (cases "map_of keys kid") (auto split: if_splits sum.splits)
  from raw(1) assms(1) have "index_entry_ok kid raw" by (auto simp: index_ok_def dest: map_of_SomeD)
  with raw that show thesis by blast
qed

lemma resolve_key_ok:
  assumes inv: "keys_ok env (os_keys st)" and r: "resolve_key env uri token st = (r, st')"
  shows "keys_ok env (os_keys st')" and "r = Inr k \<Longrightarrow> key_bound env uri token k"
proof -
  have "keys_ok env (os_keys st') \<and> (\<forall>k. r = Inr k \<longrightarrow> key_bound env uri token k)"
  proof (cases "\<exists>b. header_binding env token = Inr b \<and> assert_jwks_uri_trusted (e_idna env) (e_policy env) uri = Inr ()")
    case False
    then show ?thesis using r inv by (auto simp: resolve_key_def split: sum.splits exn.splits)
  next
    case True
    then obtain kid alg where b: "header_binding env token = Inr (kid, alg)"
      "assert_jwks_uri_trusted (e_idna env) (e_policy env) uri = Inr ()" by auto
    have bound: "index_ok keys \<Longrightarrow> compatible_key env keys kid alg = Inr (Some k) \<Longrightarrow> key_bound env uri token k"
      for keys k
      using b by (elim compatible_key_bound) (auto simp: key_bound_def)
    obtain kr st1 where k1: "keys_for env uri False st = (kr, st1)" by fastforce
    note ok1 = keys_for_ok [OF inv k1]
    obtain kr2 st2 where k2: "keys_for env uri True st1 = (kr2, st2)" by fastforce
    note ok2 = keys_for_ok [OF ok1(1) k2]
    show ?thesis
      using r b k1 k2 ok1 ok2 bound unfolding resolve_key_def
      by (auto split: sum.splits option.splits)
  qed
  then show "keys_ok env (os_keys st')" and "r = Inr k \<Longrightarrow> key_bound env uri token k" by auto
qed

lemma resolve_key_metadata_frame:
  assumes "resolve_key env uri token st = (r, st')"
  shows "os_metadata st' = os_metadata st"
proof -
  have s: "os_metadata (snd (store_keys env u s)) = os_metadata s" for u s
    by (auto simp: store_keys_def split: prod.splits sum.splits)
  have l: "os_metadata (snd (keys_locked env u f s)) = os_metadata s" for u f s
    by (auto simp: keys_locked_def s split: option.splits)
  have w: "os_metadata (fold (\<lambda>(uri, force) s. snd (keys_locked env uri force s)) ws s) = os_metadata s" for ws s
    by (induction ws arbitrary: s) (auto simp: l)
  have f: "keys_for env u f s = (x, s') \<Longrightarrow> os_metadata s' = os_metadata s" for u f s x s'
    using l w by (auto simp: keys_for_def run_waiters_def split: option.splits if_splits) (metis snd_conv)+
  show ?thesis
    using assms unfolding resolve_key_def
    by (auto split: sum.splits prod.splits option.splits exn.splits dest!: f)
qed

section \<open>Refresh cooldown\<close>

text \<open>A forced refresh of a cached document within the cooldown makes no request and changes nothing.\<close>

lemma keys_locked_cooldown:
  "cached_keys env uri st = Some keys \<Longrightarrow> in_cooldown env uri st \<Longrightarrow> keys_locked env uri True st = (Inr keys, st)"
  by (simp add: keys_locked_def)

text \<open>A forced refresh that does go out starts the cooldown, whether or not it succeeds.\<close>

lemma keys_locked_starts_cooldown:
  assumes "cached_keys env uri st = Some keys" and "\<not> in_cooldown env uri st"
    and "keys_locked env uri True st = (r, st')"
  shows "os_last_forced st' uri = Some (e_now env (os_env st))"
  using assms by (auto simp: keys_locked_def store_keys_def split: prod.splits sum.splits)

section \<open>The port\<close>

text \<open>\<open>KeyResolverPort\<close> of \<open>application/auth_ports.py\<close>.\<close>

locale key_resolver_port =
  fixes resolve_signing_key :: "string \<Rightarrow> string \<Rightarrow> 's \<Rightarrow> 'k result \<times> 's"
    and inv :: "'s \<Rightarrow> bool"
    and bound :: "string \<Rightarrow> string \<Rightarrow> 'k \<Rightarrow> bool"
  assumes resolve_key_inv: "inv st \<Longrightarrow> resolve_signing_key uri token st = (r, st') \<Longrightarrow> inv st'"
    and resolve_key_bound: "inv st \<Longrightarrow> resolve_signing_key uri token st = (Inr k, st') \<Longrightarrow> bound uri token k"

definition oidc_inv :: "('w, 'k) oidc_env \<Rightarrow> 'w oidc_state \<Rightarrow> bool" where
  "oidc_inv env st \<longleftrightarrow> metadata_inv env st \<and> keys_ok env (os_keys st)"

interpretation jwks: key_resolver_port "resolve_key env" "oidc_inv env" "key_bound env" for env
proof unfold_locales
  fix st st' :: "'a oidc_state" and uri token and r :: "'b result"
  assume inv: "oidc_inv env st" and r: "resolve_key env uri token st = (r, st')"
  show "oidc_inv env st'"
    using inv resolve_key_ok(1) [OF _ r] resolve_key_metadata_frame [OF r]
    by (simp add: oidc_inv_def metadata_inv_def)
next
  fix st st' :: "'a oidc_state" and uri token and k :: 'b
  assume inv: "oidc_inv env st" and r: "resolve_key env uri token st = (Inr k, st')"
  show "key_bound env uri token k"
    using inv resolve_key_ok(2) [OF _ r] by (simp add: oidc_inv_def)
qed

end
