(* ===== verification/Token_Verifiers.thy ===== *)
theory Token_Verifiers
  imports Jwks_Key_Resolver Mcp_Principal
begin

text \<open>
  \<open>adapters/generic_oidc_token_verifier.py\<close> and \<open>adapters/entra_token_verifier.py\<close>. The two ports are
  arguments, as in the source; \<open>jwt.decode\<close> of PyJWT is the parameter \<open>jwt_decode\<close>, which sees the
  state because it reads the clock. A verifier returns an access token, None, or the exception that
  leaves \<open>verify_token\<close>; the rejection reasons it logs are part of its state.
\<close>

record 's verifier_state =
  vs_ports :: 's
  vs_rejections :: "string list"

type_synonym 'v verifier = "string \<Rightarrow> 'v \<Rightarrow> access_token option result \<times> 'v"

record jwt_options =
  jo_algorithms :: "string list"
  jo_audience :: string
  jo_issuer :: string
  jo_leeway :: int
  jo_require :: "string list"

type_synonym ('s, 'k) jwt_decoder = "'s \<Rightarrow> string \<Rightarrow> 'k \<Rightarrow> jwt_options \<Rightarrow> claims result"

definition decode_options :: "string \<Rightarrow> oidc_metadata \<Rightarrow> jwt_options" where
  "decode_options audience metadata =
     \<lparr>jo_algorithms = [''RS256'', ''ES256''], jo_audience = audience, jo_issuer = md_issuer metadata,
      jo_leeway = 60, jo_require = [''exp'', ''iat'', ''iss'', ''aud'', ''sub'']\<rparr>"

text \<open>\<open>claims[k]\<close> and \<open>int(claims[k])\<close>.\<close>

definition claim_at :: "claims \<Rightarrow> string \<Rightarrow> pyval result" where
  "claim_at c k = (case map_of c k of None \<Rightarrow> Inl (OtherExn ''KeyError'') | Some v \<Rightarrow> Inr v)"

definition int_claim :: "claims \<Rightarrow> string \<Rightarrow> int result" where
  "int_claim c k =
     rbind (claim_at c k) (\<lambda>v. case py_int_of v of None \<Rightarrow> Inl (OtherExn ''int'') | Some i \<Rightarrow> Inr i)"

text \<open>\<open>claims.get("azp") or claims.get("client_id") or claims["sub"]\<close>.\<close>

definition client_claim :: "claims \<Rightarrow> pyval result" where
  "client_claim c =
     (if truthy (py_get c ''azp'') then Inr (py_get c ''azp'')
      else if truthy (py_get c ''client_id'') then Inr (py_get c ''client_id'')
      else claim_at c ''sub'')"

definition access_token_of ::
    "(pyval \<Rightarrow> string) \<Rightarrow> string \<Rightarrow> string \<Rightarrow> claims \<Rightarrow> access_token result" where
  "access_token_of repr_of audience token claims =
     rbind (client_claim claims) (\<lambda>client.
     rbind (int_claim claims ''exp'') (\<lambda>expires.
     rbind (claim_at claims ''sub'') (\<lambda>sub.
       Inr \<lparr>at_token = token, at_client_id = py_str repr_of client,
            at_scopes = scopes_from_claims claims, at_expires_at = Some expires,
            at_resource = Some audience, at_subject = Some (py_str repr_of sub),
            at_claims = Some claims\<rparr>)))"

text \<open>The two \<open>except\<close> clauses: the reason that is logged; None for an exception they let through.\<close>

definition rejection_reason :: "exn \<Rightarrow> string option" where
  "rejection_reason e =
     (if is_token_verification_error e then Some ''discovery_or_key_resolution_failed''
      else (case e of InvalidTokenError name \<Rightarrow> Some name | _ \<Rightarrow> None))"

definition reject :: "exn \<Rightarrow> 's verifier_state \<Rightarrow> access_token option result \<times> 's verifier_state" where
  "reject e st =
     (case rejection_reason e of
        Some why \<Rightarrow> (Inr None, st\<lparr>vs_rejections := vs_rejections st @ [why]\<rparr>)
      | None \<Rightarrow> (Inl e, st))"

definition generic_verify ::
    "(string \<Rightarrow> 's \<Rightarrow> oidc_metadata result \<times> 's) \<Rightarrow> (string \<Rightarrow> string \<Rightarrow> 's \<Rightarrow> 'k result \<times> 's) \<Rightarrow>
     ('s, 'k) jwt_decoder \<Rightarrow> (pyval \<Rightarrow> string) \<Rightarrow> string \<Rightarrow> string \<Rightarrow> 's verifier_state verifier" where
  "generic_verify discovery key_resolver jwt_decode repr_of issuer_url audience token st =
     (case discovery issuer_url (vs_ports st) of
        (Inl e, s1) \<Rightarrow> reject e (st\<lparr>vs_ports := s1\<rparr>)
      | (Inr metadata, s1) \<Rightarrow>
          (case key_resolver (md_jwks_uri metadata) token s1 of
             (Inl e, s2) \<Rightarrow> reject e (st\<lparr>vs_ports := s2\<rparr>)
           | (Inr signing_key, s2) \<Rightarrow>
               (case jwt_decode s2 token signing_key (decode_options audience metadata) of
                  Inl e \<Rightarrow> reject e (st\<lparr>vs_ports := s2\<rparr>)
                | Inr claims \<Rightarrow>
                    (rbind (access_token_of repr_of audience token claims) (\<lambda>tok. Inr (Some tok)),
                     st\<lparr>vs_ports := s2\<rparr>))))"

definition entra_issuer :: "string \<Rightarrow> string" where
  "entra_issuer tenant_id = ''https://login.microsoftonline.com/'' @ tenant_id @ ''/v2.0''"

definition entra_verify ::
    "(string \<Rightarrow> 's \<Rightarrow> oidc_metadata result \<times> 's) \<Rightarrow> (string \<Rightarrow> string \<Rightarrow> 's \<Rightarrow> 'k result \<times> 's) \<Rightarrow>
     ('s, 'k) jwt_decoder \<Rightarrow> (pyval \<Rightarrow> string) \<Rightarrow> string \<Rightarrow> string \<Rightarrow> string \<Rightarrow> 's verifier_state verifier" where
  "entra_verify discovery key_resolver jwt_decode repr_of tenant_id audience application_id_uri token st =
     (case generic_verify discovery key_resolver jwt_decode repr_of (entra_issuer tenant_id) audience token st of
        (Inr (Some tok), st') \<Rightarrow>
          if py_get (claims_of tok) ''tid'' \<noteq> PStr tenant_id
          then (Inr None, st'\<lparr>vs_rejections := vs_rejections st' @ [''tenant_mismatch'']\<rparr>)
          else (Inr (Some (tok\<lparr>at_scopes := qualify_scopes (at_scopes tok) application_id_uri\<rparr>)), st')
      | other \<Rightarrow> other)"

section \<open>The verifier contract\<close>

text \<open>
  \<open>TokenVerifier\<close>: what the progressive verifier and the server rely on. Every accepted token is
  one the verifier stands for, and the state invariant survives every call.
\<close>

locale token_verifier =
  fixes verify :: "'v verifier"
    and inv :: "'v \<Rightarrow> bool"
    and genuine :: "string \<Rightarrow> access_token \<Rightarrow> bool"
  assumes verify_inv: "inv st \<Longrightarrow> verify token st = (r, st') \<Longrightarrow> inv st'"
    and verify_genuine: "inv st \<Longrightarrow> verify token st = (Inr (Some tok), st') \<Longrightarrow> genuine token tok"

text \<open>Both ports on one shared state.\<close>

locale oidc_ports = discovery_port resolve_metadata inv trusted + key_resolver_port resolve_signing_key inv bound
  for resolve_metadata :: "string \<Rightarrow> 's \<Rightarrow> oidc_metadata result \<times> 's"
    and resolve_signing_key :: "string \<Rightarrow> string \<Rightarrow> 's \<Rightarrow> 'k result \<times> 's"
    and inv :: "'s \<Rightarrow> bool" and trusted :: "oidc_metadata \<Rightarrow> bool" and bound :: "string \<Rightarrow> string \<Rightarrow> 'k \<Rightarrow> bool"
begin

text \<open>
  A token is genuine when its claims decoded under a trusted issuer's bound key, with the options
  the code fixes.
\<close>

definition decoded :: "('s, 'k) jwt_decoder \<Rightarrow> string \<Rightarrow> string \<Rightarrow> string \<Rightarrow> claims \<Rightarrow> bool" where
  "decoded jwt_decode issuer_url audience token claims \<longleftrightarrow>
     (\<exists>metadata key s. trusted metadata \<and> md_issuer metadata = issuer_url \<and>
        bound (md_jwks_uri metadata) token key \<and>
        jwt_decode s token key (decode_options audience metadata) = Inr claims)"

lemma generic_verify_cases:
  assumes "inv (vs_ports st)"
    and "generic_verify resolve_metadata resolve_signing_key jwt_decode repr_of issuer_url audience token st = (r, st')"
  shows "inv (vs_ports st')"
    and "r = Inr (Some tok) \<Longrightarrow>
      \<exists>claims. decoded jwt_decode issuer_url audience token claims \<and>
        access_token_of repr_of audience token claims = Inr tok"
proof -
  obtain mr s1 where m: "resolve_metadata issuer_url (vs_ports st) = (mr, s1)" by fastforce
  have inv1: "inv s1" using resolve_inv [OF assms(1) m] .
  have "inv (vs_ports st') \<and> (\<forall>tok. r = Inr (Some tok) \<longrightarrow>
      (\<exists>claims. decoded jwt_decode issuer_url audience token claims \<and>
        access_token_of repr_of audience token claims = Inr tok))"
  proof (cases mr)
    case (Inl e)
    then show ?thesis using assms m inv1 by (auto simp: generic_verify_def reject_def split: option.splits)
  next
    case (Inr md)
    have md: "trusted md" "md_issuer md = issuer_url" using resolve_trusted [OF assms(1)] m Inr by auto
    obtain kr s2 where k: "resolve_signing_key (md_jwks_uri md) token s1 = (kr, s2)" by fastforce
    have inv2: "inv s2" using resolve_key_inv [OF inv1 k] .
    show ?thesis
    proof (cases kr)
      case (Inl e)
      then show ?thesis
        using assms m inv2 k \<open>mr = Inr md\<close> by (auto simp: generic_verify_def reject_def split: option.splits)
    next
      case (Inr key)
      have key: "bound (md_jwks_uri md) token key" using resolve_key_bound [OF inv1] k Inr by auto
      show ?thesis
      proof (cases "jwt_decode s2 token key (decode_options audience md)")
        case (Inl e)
        then show ?thesis
          using assms m inv2 k \<open>mr = Inr md\<close> \<open>kr = Inr key\<close>
          by (auto simp: generic_verify_def reject_def split: option.splits)
      next
        case (Inr claims)
        have "decoded jwt_decode issuer_url audience token claims"
          unfolding decoded_def using md key Inr by blast
        then show ?thesis
          using assms m inv2 k \<open>mr = Inr md\<close> \<open>kr = Inr key\<close> Inr
          by (auto simp: generic_verify_def rbind_Inr_iff)
      qed
    qed
  qed
  then show "inv (vs_ports st')"
    and "r = Inr (Some tok) \<Longrightarrow>
      \<exists>claims. decoded jwt_decode issuer_url audience token claims \<and>
        access_token_of repr_of audience token claims = Inr tok" by auto
qed

definition generic_genuine ::
    "('s, 'k) jwt_decoder \<Rightarrow> (pyval \<Rightarrow> string) \<Rightarrow> string \<Rightarrow> string \<Rightarrow> string \<Rightarrow> access_token \<Rightarrow> bool" where
  "generic_genuine jwt_decode repr_of issuer_url audience token tok \<longleftrightarrow>
     (\<exists>claims. decoded jwt_decode issuer_url audience token claims \<and>
        access_token_of repr_of audience token claims = Inr tok)"

lemma generic_is_verifier:
  "token_verifier (generic_verify resolve_metadata resolve_signing_key jwt_decode repr_of issuer_url audience)
     (\<lambda>st. inv (vs_ports st)) (generic_genuine jwt_decode repr_of issuer_url audience)"
  by unfold_locales (auto simp: generic_genuine_def dest: generic_verify_cases)

text \<open>The Entra verifier accepts a generic token of its tenant, with its scopes qualified.\<close>

definition entra_genuine ::
    "('s, 'k) jwt_decoder \<Rightarrow> (pyval \<Rightarrow> string) \<Rightarrow> string \<Rightarrow> string \<Rightarrow> string \<Rightarrow> string \<Rightarrow> access_token \<Rightarrow> bool" where
  "entra_genuine jwt_decode repr_of tenant audience app_uri token tok \<longleftrightarrow>
     (\<exists>inner. generic_genuine jwt_decode repr_of (entra_issuer tenant) audience token inner \<and>
        py_get (claims_of inner) ''tid'' = PStr tenant \<and>
        tok = inner\<lparr>at_scopes := qualify_scopes (at_scopes inner) app_uri\<rparr>)"

lemma entra_genuineI:
  "generic_genuine jwt_decode repr_of (entra_issuer tenant) audience token inner \<Longrightarrow>
   py_get (claims_of inner) ''tid'' = PStr tenant \<Longrightarrow>
   entra_genuine jwt_decode repr_of tenant audience app_uri token
     (inner\<lparr>at_scopes := qualify_scopes (at_scopes inner) app_uri\<rparr>)"
  unfolding entra_genuine_def by blast

lemma entra_is_verifier:
  "token_verifier (entra_verify resolve_metadata resolve_signing_key jwt_decode repr_of tenant audience app_uri)
     (\<lambda>st. inv (vs_ports st)) (entra_genuine jwt_decode repr_of tenant audience app_uri)"
proof -
  have g: "token_verifier
      (generic_verify resolve_metadata resolve_signing_key jwt_decode repr_of (entra_issuer tenant) audience)
      (\<lambda>st. inv (vs_ports st)) (generic_genuine jwt_decode repr_of (entra_issuer tenant) audience)"
    by (rule generic_is_verifier)
  show ?thesis
    using token_verifier.verify_inv [OF g] token_verifier.verify_genuine [OF g]
    by unfold_locales
      (auto simp: entra_verify_def intro!: entra_genuineI split: prod.splits sum.splits option.splits if_splits)
qed

end

text \<open>The discovery and JWKS clients are these ports.\<close>

interpretation oidc: oidc_ports "discovery_resolve env" "resolve_key env" "oidc_inv env"
    "trusted_metadata env" "key_bound env" for env
proof -
  have "oidc_inv env = (\<lambda>st. metadata_inv env st \<and> keys_ok env (os_keys st))" for env :: "('a, 'b) oidc_env"
    by (simp add: fun_eq_iff oidc_inv_def)
  then show "oidc_ports (discovery_resolve env) (resolve_key env) (oidc_inv env) (trusted_metadata env) (key_bound env)"
    using discovery.discovery_port_axioms [of env "keys_ok env"] jwks.key_resolver_port_axioms [of env]
    by (simp add: oidc_ports_def)
qed

interpretation generic_verifier: token_verifier
    "generic_verify (discovery_resolve env) (resolve_key env) jwt_decode repr_of issuer_url audience"
    "\<lambda>st. oidc_inv env (vs_ports st)" "oidc.generic_genuine env jwt_decode repr_of issuer_url audience"
    for env jwt_decode repr_of issuer_url audience
  by (rule oidc.generic_is_verifier)

interpretation entra_verifier: token_verifier
    "entra_verify (discovery_resolve env) (resolve_key env) jwt_decode repr_of tenant audience app_uri"
    "\<lambda>st. oidc_inv env (vs_ports st)" "oidc.entra_genuine env jwt_decode repr_of tenant audience app_uri"
    for env jwt_decode repr_of tenant audience app_uri
  by (rule oidc.entra_is_verifier)

section \<open>What an accepted token says\<close>

lemma access_token_of_Inr:
  assumes "access_token_of repr_of audience token claims = Inr tok"
  shows "at_token tok = token" and "at_resource tok = Some audience" and "at_claims tok = Some claims"
    and "at_scopes tok = scopes_from_claims claims"
    and "\<exists>sub. map_of claims ''sub'' = Some sub \<and> at_subject tok = Some (py_str repr_of sub)"
    and "\<exists>exp i. map_of claims ''exp'' = Some exp \<and> py_int_of exp = Some i \<and> at_expires_at tok = Some i"
  using assms
  by (auto simp: access_token_of_def int_claim_def claim_at_def rbind_Inr_iff split: option.splits)

text \<open>Which failures are answered with None: the domain errors and PyJWT's token errors, no others.\<close>

lemma generic_verify_reject:
  "discovery i (vs_ports st) = (Inl e, s1) \<Longrightarrow> is_token_verification_error e \<Longrightarrow>
   generic_verify discovery kr jd R i aud token st =
     (Inr None, st\<lparr>vs_ports := s1, vs_rejections := vs_rejections st @ [''discovery_or_key_resolution_failed'']\<rparr>)"
  by (simp add: generic_verify_def reject_def rejection_reason_def)

end
