(* ===== verification/Asgi.thy ===== *)
theory Asgi
  imports Security_Audit
begin

text \<open>
  The ASGI calling convention the three HTTP middlewares share. An application is called with a
  scope and a \<open>send\<close> callback; what it does is a transformation of the \<open>world\<close>, which holds the
  messages the server has accepted, the audit log, the request-local progressive-authorization
  context (the module's context variable) and the admission counter. A call ends normally or with
  an exception. \<open>receive\<close> is passed through by every middleware and is left implicit.
\<close>

record asgi_scope =
  sc_type :: string
  sc_method :: string
  sc_path :: string
  sc_headers :: "(bytes \<times> bytes) list"

datatype message =
    ResponseStart nat "(bytes \<times> bytes) list"
  | ResponseBody bytes
  | OtherMessage string

datatype outcome = Returned | Raised exn

text \<open>\<open>McpRequestTarget\<close> and \<open>ProgressiveAuthorizationContext\<close> of \<open>progressive_auth_http.py\<close>.\<close>

record mcp_request_target =
  tgt_method :: string
  tgt_name :: string

record progressive_context =
  pc_is_mcp_request :: bool
  pc_target :: "mcp_request_target option"
  pc_required_scopes :: "string list"

record world =
  w_out :: "message list"
  w_audit :: audit_log
  w_context :: "progressive_context option"
  w_replaced :: bool
  w_in_flight :: int

type_synonym send = "message \<Rightarrow> world \<Rightarrow> outcome \<times> world"
type_synonym app = "asgi_scope \<Rightarrow> send \<Rightarrow> world \<Rightarrow> outcome \<times> world"

text \<open>Sequencing: an exception skips what follows.\<close>

definition and_then :: "outcome \<times> world \<Rightarrow> (world \<Rightarrow> outcome \<times> world) \<Rightarrow> outcome \<times> world" where
  "and_then r f = (case r of (Returned, w) \<Rightarrow> f w | (Raised e, w) \<Rightarrow> (Raised e, w))"

lemma and_then_simps [simp]:
  "and_then (Returned, w) f = f w" "and_then (Raised e, w) f = (Raised e, w)"
  by (simp_all add: and_then_def)

definition audit :: "audit_action \<Rightarrow> audit_outcome \<Rightarrow> string \<Rightarrow> audit_args \<Rightarrow> world \<Rightarrow> world" where
  "audit action outc reason args w =
     w\<lparr>w_audit := emit_security_audit action outc reason args (w_audit w)\<rparr>"

lemma audit_simps [simp]:
  "w_out (audit a out r args w) = w_out w" "w_context (audit a out r args w) = w_context w"
  "w_replaced (audit a out r args w) = w_replaced w" "w_in_flight (audit a out r args w) = w_in_flight w"
  "w_audit (audit a out r args w) = w_audit w @ [audit_record a out r args]"
  by (simp_all add: audit_def emit_security_audit_def)

text \<open>
  A response object built by the code: its status, the headers the code gives it and its body.
  Calling it sends a start and a body message (Starlette adds its own content headers, which are
  not part of the model).
\<close>

record response =
  rs_status :: nat
  rs_headers :: "(string \<times> string) list"
  rs_body :: string

definition respond :: "response \<Rightarrow> send \<Rightarrow> world \<Rightarrow> outcome \<times> world" where
  "respond r send w =
     and_then (send (ResponseStart (rs_status r) (rs_headers r)) w) (send (ResponseBody (rs_body r)))"

text \<open>The server's own \<open>send\<close>, and one that fails from the n-th message on (a closed connection).\<close>

definition server_send :: send where
  "server_send msg w = (Returned, w\<lparr>w_out := w_out w @ [msg]\<rparr>)"

definition is_start :: "message \<Rightarrow> bool" where
  "is_start m = (case m of ResponseStart _ _ \<Rightarrow> True | _ \<Rightarrow> False)"

definition is_body :: "message \<Rightarrow> bool" where
  "is_body m = (case m of ResponseBody _ \<Rightarrow> True | _ \<Rightarrow> False)"

lemma is_start_simps [simp]:
  "is_start (ResponseStart n h)" "\<not> is_start (ResponseBody b)" "\<not> is_start (OtherMessage t)"
  "\<not> is_body (ResponseStart n h)" "is_body (ResponseBody b)" "\<not> is_body (OtherMessage t)"
  by (simp_all add: is_start_def is_body_def)

section \<open>The middleware interface\<close>

text \<open>
  Every middleware of the stack delegates a scope that is not an HTTP request (lifespan,
  websocket) untouched.
\<close>

locale asgi_middleware =
  fixes mw :: "app \<Rightarrow> app"
  assumes non_http: "sc_type sc \<noteq> ''http'' \<Longrightarrow> mw app sc send w = app sc send w"

text \<open>Two stacked middlewares are one: the outer wraps the inner.\<close>

locale asgi_stack = outer: asgi_middleware outer + inner: asgi_middleware inner
  for outer inner :: "app \<Rightarrow> app"
begin

lemma composed: "asgi_middleware (\<lambda>app. outer (inner app))"
  by unfold_locales (simp add: outer.non_http inner.non_http)

end

sublocale asgi_stack \<subseteq> both: asgi_middleware "\<lambda>app. outer (inner app)"
  by (rule composed)

section \<open>Applications as scripts\<close>

text \<open>
  What an inner application does during one request, as far as the middlewares can see: it sends
  messages, and the verifier it calls may declare missing scopes in the request's context. Any
  run of any inner application is one such script.
\<close>

datatype app_event = Sends message | Declares "string list"

fun play :: "app_event list \<Rightarrow> send \<Rightarrow> world \<Rightarrow> outcome \<times> world" where
  "play [] send w = (Returned, w)"
| "play (Sends m # es) send w = and_then (send m w) (play es send)"
| "play (Declares ss # es) send w =
     play es send (w\<lparr>w_context := map_option (\<lambda>c. c\<lparr>pc_required_scopes := ss\<rparr>) (w_context w)\<rparr>)"

definition script_app :: "app_event list \<Rightarrow> app" where
  "script_app es sc send w = play es send w"

end
