(* ===== verification/Runtime_Probes.thy ===== *)
theory Runtime_Probes
  imports Asgi
begin

text \<open>
  \<open>application/runtime_status.py\<close> and \<open>adapters/runtime_probes.py\<close>: the readiness flag of this
  worker, and the middleware that answers the two probe paths before authentication. The flag's
  lock makes each operation atomic, so an operation is one state transformation.
\<close>

record runtime_status =
  rt_ready :: bool

definition initial_status :: runtime_status where
  "initial_status = \<lparr>rt_ready = False\<rparr>"

definition is_ready :: "runtime_status \<Rightarrow> bool" where
  "is_ready st = rt_ready st"

definition mark_ready :: "runtime_status \<Rightarrow> runtime_status" where
  "mark_ready st = st\<lparr>rt_ready := True\<rparr>"

definition mark_not_ready :: "runtime_status \<Rightarrow> runtime_status" where
  "mark_not_ready st = st\<lparr>rt_ready := False\<rparr>"

text \<open>\<open>json.dumps\<close> of a one-member object, in Starlette's compact form.\<close>

definition quoted :: "string \<Rightarrow> string" where
  "quoted s = CHR 0x22 # s @ [CHR 0x22]"

definition json_member :: "string \<Rightarrow> string \<Rightarrow> string" where
  "json_member k v = quoted k @ '':'' @ quoted v"

definition probe_headers :: "(string \<times> string) list" where
  "probe_headers = [(''Cache-Control'', ''no-store''), (''X-Content-Type-Options'', ''nosniff'')]"

definition status_response :: "nat \<Rightarrow> string \<Rightarrow> response" where
  "status_response code status =
     \<lparr>rs_status = code, rs_headers = probe_headers, rs_body = ''{'' @ json_member ''status'' status @ ''}''\<rparr>"

definition probe_middleware :: "runtime_status \<Rightarrow> app \<Rightarrow> app" where
  "probe_middleware st app sc send w =
     (if sc_type sc \<noteq> ''http'' \<or> sc_path sc \<notin> {''/livez'', ''/readyz''} then app sc send w
      else if sc_method sc \<noteq> ''GET''
      then respond \<lparr>rs_status = 405, rs_headers = probe_headers @ [(''Allow'', ''GET'')], rs_body = []\<rparr> send w
      else if sc_path sc = ''/livez'' then respond (status_response 200 ''ok'') send w
      else if is_ready st then respond (status_response 200 ''ready'') send w
      else respond (status_response 503 ''not_ready'') send w)"

interpretation probes: asgi_middleware "probe_middleware st" for st
  by unfold_locales (simp add: probe_middleware_def)

lemma probe_delegates:
  "sc_path sc \<notin> {''/livez'', ''/readyz''} \<Longrightarrow> probe_middleware st app sc send w = app sc send w"
  by (simp add: probe_middleware_def)

lemma probe_independent_of_app:
  "sc_type sc = ''http'' \<Longrightarrow> sc_path sc \<in> {''/livez'', ''/readyz''} \<Longrightarrow>
   probe_middleware st app sc send w = probe_middleware st app' sc send w"
  by (auto simp: probe_middleware_def)

lemma probe_readiness:
  assumes "sc_type sc = ''http''" and "sc_path sc = ''/readyz''" and "sc_method sc = ''GET''"
  shows "probe_middleware st app sc send w =
    respond (if rt_ready st then status_response 200 ''ready'' else status_response 503 ''not_ready'') send w"
  using assms by (simp add: probe_middleware_def is_ready_def)

end
