(* ===== verification/Header_Codec.thy ===== *)
theory Header_Codec
  imports Prelude
begin

text \<open>
  The header-value encoding of \<open>adapters/progressive_auth_http.py\<close>: a plain visible value, or
  \<open>=?base64?...?=\<close>. Python's strict \<open>base64.b64decode(..., validate=True)\<close> and the strict UTF-8
  decoder are written out; a decoded name with a code point above U+00FF is outside the modelled
  strings (see \<open>Prelude\<close>) and is reported as undecodable.
\<close>

section \<open>Base64\<close>

definition b64_value :: "char \<Rightarrow> nat option" where
  "b64_value c =
     (let n = ord_of c in
      if 65 \<le> n \<and> n \<le> 90 then Some (n - 65)
      else if 97 \<le> n \<and> n \<le> 122 then Some (n - 71)
      else if 48 \<le> n \<and> n \<le> 57 then Some (n + 4)
      else if n = 43 then Some 62
      else if n = 47 then Some 63
      else None)"

text \<open>
  The decoder's loop (\<open>binascii.a2b_base64\<close> in strict mode): position in the current quad, the
  bits left over, the number of pad characters, whether padding has started, the bytes so far.
  None is \<open>binascii.Error\<close>.
\<close>

fun b64_loop :: "string \<Rightarrow> nat \<Rightarrow> nat \<Rightarrow> nat \<Rightarrow> bool \<Rightarrow> nat list \<Rightarrow> nat list option" where
  "b64_loop [] q left pads started acc = (if q = 0 then Some (rev acc) else None)"
| "b64_loop (c # cs) q left pads started acc =
     (if c = CHR ''=''
      then (if 2 \<le> q \<and> 4 \<le> q + Suc pads
            then (if cs = [] then Some (rev acc) else None)
            else b64_loop cs q left (if 2 \<le> q then Suc pads else pads) True acc)
      else (case b64_value c of
              None \<Rightarrow> None
            | Some v \<Rightarrow>
                if started then None
                else if q = 0 then b64_loop cs 1 v 0 started acc
                else if q = 1 then b64_loop cs 2 (v mod 16) 0 started ((left * 4 + v div 16) # acc)
                else if q = 2 then b64_loop cs 3 (v mod 4) 0 started ((left * 16 + v div 4) # acc)
                else b64_loop cs 0 0 0 started ((left * 64 + v) # acc)))"

definition b64decode :: "string \<Rightarrow> nat list option" where
  "b64decode s = (if s \<noteq> [] \<and> hd s = CHR ''='' then None else b64_loop s 0 0 0 False [])"

section \<open>UTF-8\<close>

definition is_cont :: "nat \<Rightarrow> bool" where
  "is_cont b \<longleftrightarrow> 128 \<le> b \<and> b \<le> 191"

fun utf8_decode :: "nat list \<Rightarrow> nat list option" where
  "utf8_decode [] = Some []"
| "utf8_decode (b # bs) =
     (if b < 128 then map_option (\<lambda>r. b # r) (utf8_decode bs)
      else if 194 \<le> b \<and> b \<le> 223 then
        (case bs of
           b1 # r1 \<Rightarrow> if is_cont b1
             then map_option (\<lambda>r. ((b - 192) * 64 + (b1 - 128)) # r) (utf8_decode r1) else None
         | _ \<Rightarrow> None)
      else if 224 \<le> b \<and> b \<le> 239 then
        (case bs of
           b1 # b2 # r2 \<Rightarrow>
             if is_cont b1 \<and> is_cont b2 \<and> (b = 224 \<longrightarrow> 160 \<le> b1) \<and> (b = 237 \<longrightarrow> b1 \<le> 159)
             then map_option (\<lambda>r. ((b - 224) * 4096 + (b1 - 128) * 64 + (b2 - 128)) # r) (utf8_decode r2)
             else None
         | _ \<Rightarrow> None)
      else if 240 \<le> b \<and> b \<le> 244 then
        (case bs of
           b1 # b2 # b3 # r3 \<Rightarrow>
             if is_cont b1 \<and> is_cont b2 \<and> is_cont b3 \<and> (b = 240 \<longrightarrow> 144 \<le> b1) \<and> (b = 244 \<longrightarrow> b1 \<le> 143)
             then map_option (\<lambda>r. ((b - 240) * 262144 + (b1 - 128) * 4096 + (b2 - 128) * 64 + (b3 - 128)) # r)
                    (utf8_decode r3)
             else None
         | _ \<Rightarrow> None)
      else None)"

definition str_of_codes :: "nat list \<Rightarrow> string option" where
  "str_of_codes cs = (if list_all (\<lambda>n. n < 256) cs then Some (map char_of cs) else None)"

section \<open>Header values\<close>

definition base64_prefix :: string where "base64_prefix = ''=?base64?''"
definition base64_suffix :: string where "base64_suffix = ''?=''"

text \<open>\<open>value[len(prefix) : -len(suffix)]\<close>.\<close>

definition strip_sentinel :: "string \<Rightarrow> string" where
  "strip_sentinel value = drop (length base64_prefix) (take (length value - length base64_suffix) value)"

definition decode_header_value :: "string \<Rightarrow> string option" where
  "decode_header_value value =
     (if startswith value base64_prefix \<and> endswith value base64_suffix
      then Option.bind (Option.bind (b64decode (strip_sentinel value)) utf8_decode) str_of_codes
      else if value \<noteq> py_strip value then None
      else Some value)"

section \<open>Round trip\<close>

text \<open>The encoding side, as a client that follows the header convention writes it.\<close>

definition b64_char :: "nat \<Rightarrow> char" where
  "b64_char v =
     (if v < 26 then char_of (v + 65) else if v < 52 then char_of (v + 71)
      else if v < 62 then char_of (v - 4) else if v = 62 then CHR ''+'' else CHR ''/'')"

fun b64encode :: "nat list \<Rightarrow> string" where
  "b64encode [] = []"
| "b64encode [a] = [b64_char (a div 4), b64_char (a mod 4 * 16), CHR ''='', CHR ''='']"
| "b64encode [a, b] =
     [b64_char (a div 4), b64_char (a mod 4 * 16 + b div 16), b64_char (b mod 16 * 4), CHR ''='']"
| "b64encode (a # b # c # rest) =
     b64_char (a div 4) # b64_char (a mod 4 * 16 + b div 16) # b64_char (b mod 16 * 4 + c div 64)
     # b64_char (c mod 64) # b64encode rest"

definition utf8_encode :: "string \<Rightarrow> nat list" where
  "utf8_encode s =
     concat (map (\<lambda>c. let n = ord_of c in if n < 128 then [n] else [192 + n div 64, 128 + n mod 64]) s)"

definition encode_header_value :: "string \<Rightarrow> string" where
  "encode_header_value name = base64_prefix @ b64encode (utf8_encode name) @ base64_suffix"

lemma ord_of_bound [simp]: "ord_of c < 256"
  by (simp add: ord_of_def)

lemma ord_of_char_of: "n < 256 \<Longrightarrow> ord_of (char_of n) = n"
  by (simp add: ord_of_def)

lemma char_of_ord_of [simp]: "char_of (ord_of c) = c"
  by (simp add: ord_of_def)

lemma ord_of_consts: "ord_of CHR ''+'' = 43" "ord_of CHR ''/'' = 47" "ord_of CHR ''='' = 61"
  by (simp_all add: ord_of_def)

lemma ord_b64_char:
  "v < 64 \<Longrightarrow> ord_of (b64_char v) =
     (if v < 26 then v + 65 else if v < 52 then v + 71 else if v < 62 then v - 4 else if v = 62 then 43 else 47)"
  by (auto simp: b64_char_def ord_of_char_of ord_of_consts)

lemma b64_value_char [simp]: "v < 64 \<Longrightarrow> b64_value (b64_char v) = Some v"
  by (auto simp: b64_value_def Let_def ord_b64_char)

lemma b64_char_no_pad [simp]: "v < 64 \<Longrightarrow> b64_char v \<noteq> CHR ''=''"
proof
  assume "v < 64" "b64_char v = CHR ''=''"
  then have "ord_of (b64_char v) = 61" by (simp add: ord_of_consts)
  with ord_b64_char [OF \<open>v < 64\<close>] show False by (auto split: if_splits)
qed

text \<open>One data character of the loop, and the four sextets of a byte triple.\<close>

lemma b64_loop_data:
  "v < 64 \<Longrightarrow> b64_loop (b64_char v # cs) q left pads False acc =
     (if q = 0 then b64_loop cs 1 v 0 False acc
      else if q = 1 then b64_loop cs 2 (v mod 16) 0 False ((left * 4 + v div 16) # acc)
      else if q = 2 then b64_loop cs 3 (v mod 4) 0 False ((left * 16 + v div 4) # acc)
      else b64_loop cs 0 0 0 False ((left * 64 + v) # acc))"
  by simp

lemma byte_parts:
  fixes a :: nat
  assumes "a < 256"
  shows "a div 4 < 64" and "a div 16 < 16" and "a div 64 < 4" and "a mod 4 < 4" and "a mod 16 < 16" and "a mod 64 < 64"
  using assms by (simp_all add: less_mult_imp_div_less)

lemma sextet_bounds:
  fixes x y z w :: nat
  shows "x < 4 \<Longrightarrow> y < 16 \<Longrightarrow> x * 16 + y < 64" and "y < 16 \<Longrightarrow> x < 4 \<Longrightarrow> y * 4 + x < 64"
    and "x < 4 \<Longrightarrow> x * 16 < 64" and "y < 16 \<Longrightarrow> y * 4 < 64"
  by simp_all

lemma sextet_parts:
  fixes x y :: nat
  shows "y < 16 \<Longrightarrow> (x * 16 + y) div 16 = x" and "y < 16 \<Longrightarrow> (x * 16 + y) mod 16 = y"
    and "x < 4 \<Longrightarrow> (y * 4 + x) div 4 = y" and "x < 4 \<Longrightarrow> (y * 4 + x) mod 4 = x"
  by simp_all

lemma b64_loop_encode:
  "list_all (\<lambda>n. n < 256) bs \<Longrightarrow> b64_loop (b64encode bs) 0 0 0 False acc = Some (rev acc @ bs)"
proof (induction bs arbitrary: acc rule: b64encode.induct)
  case (2 a)
  then have a: "a < 256" by simp
  show ?case
    by (simp add: b64_loop_data byte_parts [OF a] sextet_bounds del: b64_loop.simps(2)) simp
next
  case (3 a b)
  then have a: "a < 256" and b: "b < 256" by simp_all
  show ?case
    by (simp add: b64_loop_data byte_parts [OF a] byte_parts [OF b] sextet_bounds sextet_parts
        del: b64_loop.simps(2)) simp
next
  case (4 a b c rest)
  then have a: "a < 256" and b: "b < 256" and c: "c < 256" by simp_all
  show ?case
    using 4 by (simp add: b64_loop_data byte_parts [OF a] byte_parts [OF b] byte_parts [OF c]
        sextet_bounds sextet_parts del: b64_loop.simps(2))
qed simp

lemma b64decode_encode:
  assumes "list_all (\<lambda>n. n < 256) bs"
  shows "b64decode (b64encode bs) = Some bs"
proof -
  have "b64encode bs = [] \<or> hd (b64encode bs) \<noteq> CHR ''=''"
    using assms by (cases bs rule: b64encode.cases) auto
  with b64_loop_encode [OF assms, of "[]"] show ?thesis by (auto simp: b64decode_def)
qed

lemma utf8_encode_Cons:
  "utf8_encode (c # s) =
     (if ord_of c < 128 then [ord_of c] else [192 + ord_of c div 64, 128 + ord_of c mod 64]) @ utf8_encode s"
  by (simp add: utf8_encode_def Let_def)

lemma utf8_decode_encode: "utf8_decode (utf8_encode s) = Some (map ord_of s)"
proof (induction s)
  case Nil
  then show ?case by (simp add: utf8_encode_def)
next
  case (Cons c s)
  show ?case
  proof (cases "ord_of c < 128")
    case True
    with Cons show ?thesis by (simp add: utf8_encode_Cons)
  next
    case False
    define n where "n = ord_of c"
    have n: "128 \<le> n" "n < 256" using False by (simp_all add: n_def)
    then have q: "2 \<le> n div 64" "n div 64 < 4" "n mod 64 < 64" by simp_all
    have "\<not> 192 + n div 64 < 128" "194 \<le> 192 + n div 64 \<and> 192 + n div 64 \<le> 223" using q by auto
    moreover have "is_cont (128 + n mod 64)" using q by (simp add: is_cont_def)
    moreover have "(192 + n div 64 - 192) * 64 + (128 + n mod 64 - 128) = n" by simp
    ultimately show ?thesis
      using Cons False by (simp add: utf8_encode_Cons n_def [symmetric])
  qed
qed

lemma utf8_encode_bound: "list_all (\<lambda>n. n < 256) (utf8_encode s)"
proof (induction s)
  case (Cons c s)
  have "ord_of c div 64 < 4" by (simp add: less_mult_imp_div_less)
  moreover have "ord_of c mod 64 < 128" by (rule less_trans [of _ 64]) simp_all
  ultimately show ?case using Cons by (simp add: utf8_encode_Cons)
qed (simp add: utf8_encode_def)

lemma str_of_codes_ord [simp]: "str_of_codes (map ord_of s) = Some s"
proof -
  have "map char_of (map ord_of s) = s" by (induction s) simp_all
  then show ?thesis by (simp add: str_of_codes_def list_all_iff)
qed

lemma strip_sentinel_encode [simp]: "strip_sentinel (base64_prefix @ s @ base64_suffix) = s"
  by (simp add: strip_sentinel_def base64_prefix_def base64_suffix_def)

lemma encode_header_value_sentinel:
  "startswith (encode_header_value s) base64_prefix \<and> endswith (encode_header_value s) base64_suffix"
  by (simp add: encode_header_value_def startswith_def endswith_def)

lemma decode_encode_header: "decode_header_value (encode_header_value s) = Some s"
  using encode_header_value_sentinel [of s]
  by (simp add: decode_header_value_def)
    (simp add: encode_header_value_def b64decode_encode utf8_encode_bound utf8_decode_encode)

lemma decode_plain:
  "\<not> startswith s base64_prefix \<Longrightarrow> py_strip s = s \<Longrightarrow> decode_header_value s = Some s"
  by (simp add: decode_header_value_def)

end
