(* ===== verification/Progressive_Auth_Http.thy ===== *)
theory Progressive_Auth_Http
  imports Runtime_Probes Header_Codec
begin

text \<open>
  \<open>adapters/progressive_auth_http.py\<close>: the middleware that replaces the SDK's 401 by a 403
  \<open>insufficient_scope\<close> challenge when the verifier has declared missing scopes in the request's
  context. The context variable is the world's \<open>w_context\<close>; the closure variable
  \<open>response_replaced\<close> is \<open>w_replaced\<close>. Both are set on entry and restored on exit.
\<close>

section \<open>Routing metadata\<close>

definition single_header :: "asgi_scope \<Rightarrow> bytes \<Rightarrow> string option" where
  "single_header sc expected_name =
     (case [value. (name, value) \<leftarrow> sc_headers sc, bytes_lower name = expected_name] of
        [value] \<Rightarrow> if is_ascii value then Some value else None
      | _ \<Rightarrow> None)"

definition modern_protocol_version :: string where
  "modern_protocol_version = ''2026-07-28''"

definition target_from_scope :: "asgi_scope \<Rightarrow> mcp_request_target option" where
  "target_from_scope sc =
     (if sc_method sc \<noteq> ''POST'' then None
      else
        let protocol_version = single_header sc ''mcp-protocol-version'';
            method = single_header sc ''mcp-method'';
            name = single_header sc ''mcp-name''
        in if protocol_version \<noteq> Some modern_protocol_version \<or> method \<noteq> Some ''tools/call'' \<or> name = None
           then None
           else (case Option.bind name decode_header_value of
                   None \<Rightarrow> None
                 | Some decoded \<Rightarrow>
                     if decoded = [] then None
                     else Some \<lparr>tgt_method = ''tools/call'', tgt_name = decoded\<rparr>))"

section \<open>The challenge\<close>

definition challenge_body :: string where
  "challenge_body =
     ''{'' @ json_member ''error'' ''insufficient_scope'' @ '','' @
     json_member ''error_description'' ''Additional authorization is required for this operation.'' @ ''}''"

definition challenge_header :: "string list \<Rightarrow> string \<Rightarrow> string" where
  "challenge_header scopes resource_metadata_url =
     ''Bearer error='' @ quoted ''insufficient_scope'' @ '', scope='' @ quoted (join '' '' scopes) @
     '', resource_metadata='' @ quoted resource_metadata_url"

definition challenge_start :: "string \<Rightarrow> message" where
  "challenge_start challenge =
     ResponseStart 403
       [(''content-type'', ''application/json''),
        (''content-length'', show_nat (length challenge_body)),
        (''cache-control'', ''no-store''),
        (''www-authenticate'', challenge)]"

text \<open>\<open>encode("ascii")\<close> raises on a character above U+007F.\<close>

definition send_insufficient_scope_response ::
    "send \<Rightarrow> string list \<Rightarrow> string \<Rightarrow> world \<Rightarrow> outcome \<times> world" where
  "send_insufficient_scope_response send scopes url w =
     (let challenge = challenge_header scopes url
      in if \<not> is_ascii challenge then (Raised (ValueError ''UnicodeEncodeError''), w)
         else and_then (send (challenge_start challenge) w) (send (ResponseBody challenge_body)))"

definition send_with_scope_challenge :: "string \<Rightarrow> send \<Rightarrow> send" where
  "send_with_scope_challenge url send msg w =
     (case w_context w of
        None \<Rightarrow> send msg w
      | Some ctx \<Rightarrow>
          if is_start msg \<and> pc_required_scopes ctx \<noteq> []
          then
            let w1 = audit OAUTH_SCOPE_STEP_UP CHALLENGED ''missing_permission''
                       (no_args\<lparr>aa_tool_name := map_option tgt_name (pc_target ctx),
                                aa_status_code := Some 403,
                                aa_required_scope_count := Some (length (pc_required_scopes ctx))\<rparr>) w
            in and_then (send_insufficient_scope_response send (pc_required_scopes ctx) url w1)
                 (\<lambda>w2. (Returned, w2\<lparr>w_replaced := True\<rparr>))
          else if is_body msg \<and> w_replaced w then (Returned, w)
          else send msg w)"

definition new_context :: "string \<Rightarrow> asgi_scope \<Rightarrow> progressive_context" where
  "new_context mcp_path sc =
     (let is_mcp = (sc_method sc = ''POST'' \<and> sc_path sc = mcp_path)
      in \<lparr>pc_is_mcp_request = is_mcp,
          pc_target = (if is_mcp then target_from_scope sc else None),
          pc_required_scopes = []\<rparr>)"

definition progressive_middleware :: "string \<Rightarrow> string \<Rightarrow> app \<Rightarrow> app" where
  "progressive_middleware url mcp_path app sc send w =
     (if sc_type sc \<noteq> ''http'' then app sc send w
      else
        case app sc (send_with_scope_challenge url send)
               (w\<lparr>w_context := Some (new_context mcp_path sc), w_replaced := False\<rparr>) of
          (out, w') \<Rightarrow> (out, w'\<lparr>w_context := w_context w, w_replaced := w_replaced w\<rparr>))"

interpretation progressive: asgi_middleware "progressive_middleware url mcp_path" for url mcp_path
  by unfold_locales (simp add: progressive_middleware_def)

section \<open>What the target is trusted for\<close>

lemma target_from_scope_Some:
  assumes "target_from_scope sc = Some tgt"
  shows "sc_method sc = ''POST''" and "tgt_method tgt = ''tools/call''" and "tgt_name tgt \<noteq> []"
    and "single_header sc ''mcp-protocol-version'' = Some modern_protocol_version"
    and "single_header sc ''mcp-method'' = Some ''tools/call''"
    and "\<exists>v. single_header sc ''mcp-name'' = Some v \<and> decode_header_value v = Some (tgt_name tgt)"
  using assms by (auto simp: target_from_scope_def Let_def split: if_splits option.splits)

lemma header_values_filter:
  "[value. (name, value) \<leftarrow> hs, bytes_lower name = n] = map snd (filter (\<lambda>h. bytes_lower (fst h) = n) hs)"
  by (induction hs) auto

text \<open>A header counts only when it occurs exactly once.\<close>

lemma single_header_Some_iff:
  "single_header sc n = Some v \<longleftrightarrow>
   is_ascii v \<and> (\<exists>name. filter (\<lambda>h. bytes_lower (fst h) = n) (sc_headers sc) = [(name, v)])"
proof (cases "filter (\<lambda>h. bytes_lower (fst h) = n) (sc_headers sc)")
  case (Cons h hs)
  then show ?thesis
    by (cases h; cases hs) (auto simp: single_header_def header_values_filter)
qed (simp add: single_header_def header_values_filter)

section \<open>Replacement of the inner response\<close>

text \<open>
  The messages that pass when scopes are declared before the response starts: everything up to the
  start is as sent, the start becomes the challenge, the bodies that follow are dropped.
\<close>

fun strip_replaced :: "message list \<Rightarrow> message list" where
  "strip_replaced [] = []"
| "strip_replaced (m # ms) = (if is_body m then strip_replaced ms else m # strip_replaced ms)"

lemma server_send_simps [simp]: "server_send m w = (Returned, w\<lparr>w_out := w_out w @ [m]\<rparr>)"
  by (simp add: server_send_def)

lemma challenge_send:
  assumes "w_context w = Some ctx" and "pc_required_scopes ctx \<noteq> []" and "is_start m"
    and "is_ascii (challenge_header (pc_required_scopes ctx) url)"
  shows "\<exists>w'. send_with_scope_challenge url server_send m w = (Returned, w') \<and>
    w_out w' = w_out w @ [challenge_start (challenge_header (pc_required_scopes ctx) url), ResponseBody challenge_body] \<and>
    w_context w' = w_context w \<and> w_replaced w' \<and> w_in_flight w' = w_in_flight w"
  using assms
  by (simp add: send_with_scope_challenge_def send_insufficient_scope_response_def Let_def)

lemma replaced_body_dropped:
  "w_context w = Some ctx \<Longrightarrow> w_replaced w \<Longrightarrow> is_body m \<Longrightarrow>
   send_with_scope_challenge url send m w = (Returned, w)"
  by (auto simp: send_with_scope_challenge_def is_body_def is_start_def split: message.splits)

lemma no_scopes_transparent:
  "w_context w = Some ctx \<Longrightarrow> pc_required_scopes ctx = [] \<Longrightarrow> \<not> w_replaced w \<Longrightarrow>
   send_with_scope_challenge url send m w = send m w"
  by (simp add: send_with_scope_challenge_def)

text \<open>Once replaced, further bodies of the inner response never reach the client.\<close>

lemma play_bodies_dropped:
  "w_context w = Some ctx \<Longrightarrow> w_replaced w \<Longrightarrow>
   play (map (\<lambda>b. Sends (ResponseBody b)) bs) (send_with_scope_challenge url send) w = (Returned, w)"
  by (induction bs) (simp_all add: replaced_body_dropped)

text \<open>With nothing declared, any script of messages goes through unchanged.\<close>

lemma play_transparent:
  "w_context w = Some ctx \<Longrightarrow> pc_required_scopes ctx = [] \<Longrightarrow> \<not> w_replaced w \<Longrightarrow>
   play (map Sends ms) (send_with_scope_challenge url server_send) w = (Returned, w\<lparr>w_out := w_out w @ ms\<rparr>)"
  by (induction ms arbitrary: w) (simp_all add: no_scopes_transparent)

lemma progressive_challenge:
  assumes "sc_type sc = ''http''" and "ss \<noteq> []" and "is_ascii (challenge_header ss url)"
  shows "\<exists>w'. progressive_middleware url mcp_path
      (script_app (Declares ss # Sends (ResponseStart status hs) # map (\<lambda>b. Sends (ResponseBody b)) bs)) sc server_send w
      = (Returned, w') \<and>
    w_out w' = w_out w @ [challenge_start (challenge_header ss url), ResponseBody challenge_body] \<and>
    w_context w' = w_context w"
proof -
  let ?w0 = "w\<lparr>w_context := Some (new_context mcp_path sc), w_replaced := False\<rparr>"
  let ?ctx = "(new_context mcp_path sc)\<lparr>pc_required_scopes := ss\<rparr>"
  let ?w1 = "?w0\<lparr>w_context := Some ?ctx\<rparr>"
  obtain w2 where w2: "send_with_scope_challenge url server_send (ResponseStart status hs) ?w1 = (Returned, w2)"
    "w_out w2 = w_out w @ [challenge_start (challenge_header ss url), ResponseBody challenge_body]"
    "w_context w2 = Some ?ctx" "w_replaced w2"
    using challenge_send [of ?w1 ?ctx "ResponseStart status hs" url] assms(2,3) by auto
  from play_bodies_dropped [OF w2(3,4)] w2(1,2) assms(1) show ?thesis
    by (simp add: progressive_middleware_def script_app_def)
qed

text \<open>A challenge that cannot be encoded: nothing is sent, and the exception leaves the middleware.\<close>

lemma progressive_challenge_unencodable:
  assumes "sc_type sc = ''http''" and "ss \<noteq> []" and "\<not> is_ascii (challenge_header ss url)"
  shows "\<exists>w'. progressive_middleware url mcp_path
      (script_app (Declares ss # Sends (ResponseStart status hs) # map (\<lambda>b. Sends (ResponseBody b)) bs)) sc server_send w
      = (Raised (ValueError ''UnicodeEncodeError''), w') \<and> w_out w' = w_out w \<and> w_context w' = w_context w"
  using assms
  by (simp add: progressive_middleware_def script_app_def send_with_scope_challenge_def
      send_insufficient_scope_response_def is_start_def Let_def)

lemma join_ascii: "list_all is_ascii ws \<longleftrightarrow> is_ascii (join '' '' ws)"
  by (induction "'' ''" ws rule: join.induct) (auto simp: is_ascii_def ord_of_def)

lemma challenge_header_ascii:
  "is_ascii (challenge_header ss url) \<longleftrightarrow> list_all is_ascii ss \<and> is_ascii url"
  unfolding join_ascii by (simp add: challenge_header_def quoted_def is_ascii_def ord_of_def)

lemma progressive_transparent:
  assumes "sc_type sc = ''http''"
  shows "progressive_middleware url mcp_path (script_app (map Sends ms)) sc server_send w =
    (Returned, w\<lparr>w_out := w_out w @ ms\<rparr>)"
  using assms play_transparent
    [of "w\<lparr>w_context := Some (new_context mcp_path sc), w_replaced := False\<rparr>" "new_context mcp_path sc" ms url]
  by (simp add: progressive_middleware_def script_app_def new_context_def Let_def)

text \<open>The context is restored whatever the application does, exceptions included.\<close>

lemma progressive_restores:
  "sc_type sc = ''http'' \<Longrightarrow>
   w_context (snd (progressive_middleware url mcp_path app sc send w)) = w_context w \<and>
   w_replaced (snd (progressive_middleware url mcp_path app sc send w)) = w_replaced w"
  by (simp add: progressive_middleware_def split: prod.splits)


end
