(* ===== verification/Progressive_Token_Verifier.thy ===== *)
theory Progressive_Token_Verifier
  imports Token_Verifiers Tool_Authorization Progressive_Auth_Http
begin

text \<open>
  \<open>adapters/progressive_token_verifier.py\<close>: after the delegate has verified a token, the wrapper
  compares it with the global scopes and with the policy of the tool named in the request's routing
  headers, and declares what is missing in the request's context. \<open>decide\<close> is the authorizer's
  \<open>authorize\<close>; the state is the delegate's together with the request's world.
\<close>

definition missing_scopes ::
    "(string \<Rightarrow> principal option \<Rightarrow> authorization_decision) \<Rightarrow> auth_provider \<Rightarrow> (pyval \<Rightarrow> string) \<Rightarrow>
     string list \<Rightarrow> mcp_request_target option \<Rightarrow> access_token \<Rightarrow> string list" where
  "missing_scopes decide provider repr_of globals target tok =
     sorted_set
       ((if set globals \<subseteq> set (at_scopes tok) then [] else globals)
        @ (case target of
             None \<Rightarrow> []
           | Some t \<Rightarrow>
               let decision = decide (tgt_name t) (Some (principal_from_access_token repr_of tok provider))
               in if \<not> allowed decision \<and> reason decision = MISSING_PERMISSION
                    \<and> required_scopes decision \<noteq> []
                  then required_scopes decision else []))"

definition progressive_verify ::
    "'v verifier \<Rightarrow> (string \<Rightarrow> principal option \<Rightarrow> authorization_decision) \<Rightarrow> auth_provider \<Rightarrow>
     (pyval \<Rightarrow> string) \<Rightarrow> string list \<Rightarrow> ('v \<times> world) verifier" where
  "progressive_verify delegate decide provider repr_of global_required_scopes token st =
     (case st of (v, w) \<Rightarrow>
      case delegate token v of
        (Inl e, v') \<Rightarrow> (Inl e, v', w)
      | (Inr None, v') \<Rightarrow>
          (Inr None, v', audit AUTHENTICATION_REJECTED DENIED ''token_verification_failed'' no_args w)
      | (Inr (Some tok), v') \<Rightarrow>
          (case w_context w of
             None \<Rightarrow> (Inr (Some tok), v', w)
           | Some ctx \<Rightarrow>
               if \<not> pc_is_mcp_request ctx then (Inr (Some tok), v', w)
               else
                 let challenge_scopes =
                       missing_scopes decide provider repr_of (sorted_set global_required_scopes) (pc_target ctx) tok
                 in if challenge_scopes \<noteq> []
                    then (Inr None, v', w\<lparr>w_context := Some (ctx\<lparr>pc_required_scopes := challenge_scopes\<rparr>)\<rparr>)
                    else (Inr (Some tok), v', w)))"

section \<open>The wrapper is a verifier\<close>

text \<open>It accepts only what the delegate accepted, unchanged.\<close>

lemma progressive_verify_accepts:
  assumes "progressive_verify delegate decide pr R gs token (v, w) = (Inr (Some tok), v', w')"
  shows "delegate token v = (Inr (Some tok), v')" and "w' = w"
  using assms
  by (auto simp: progressive_verify_def Let_def split: prod.splits sum.splits option.splits if_splits)

lemma progressive_verify_delegate_state:
  "fst (snd (progressive_verify delegate decide pr R gs token (v, w))) = snd (delegate token v)"
  by (auto simp: progressive_verify_def Let_def split: prod.splits sum.splits option.splits)

context token_verifier
begin

lemma progressive_is_verifier:
  "token_verifier (progressive_verify verify decide pr R gs) (\<lambda>st. inv (fst st)) genuine"
proof unfold_locales
  fix st st' :: "'v \<times> world" and token r
  assume "inv (fst st)" and "progressive_verify verify decide pr R gs token st = (r, st')"
  then show "inv (fst st')"
    using progressive_verify_delegate_state [of verify decide pr R gs token "fst st" "snd st"]
      verify_inv [of "fst st" token, OF _ surjective_pairing] by simp
next
  fix st st' :: "'v \<times> world" and token tok
  assume "inv (fst st)" and "progressive_verify verify decide pr R gs token st = (Inr (Some tok), st')"
  then show "genuine token tok"
    using progressive_verify_accepts [of verify decide pr R gs token "fst st" "snd st" tok "fst st'" "snd st'"]
      verify_genuine by simp
qed

end

interpretation progressive_generic: token_verifier
    "progressive_verify
       (generic_verify (discovery_resolve env) (resolve_key env) jwt_decode repr_of issuer_url audience)
       decide pr repr_of gs"
    "\<lambda>st. oidc_inv env (vs_ports (fst st))" "oidc.generic_genuine env jwt_decode repr_of issuer_url audience"
    for env jwt_decode repr_of issuer_url audience decide pr gs
  by (rule generic_verifier.progressive_is_verifier)

interpretation progressive_entra: token_verifier
    "progressive_verify
       (entra_verify (discovery_resolve env) (resolve_key env) jwt_decode repr_of tenant audience app_uri)
       decide pr repr_of gs"
    "\<lambda>st. oidc_inv env (vs_ports (fst st))" "oidc.entra_genuine env jwt_decode repr_of tenant audience app_uri"
    for env jwt_decode repr_of tenant audience app_uri decide pr gs
  by (rule entra_verifier.progressive_is_verifier)

section \<open>What is declared missing\<close>

lemma missing_scopes_canonical [simp]:
  "sorted (missing_scopes d pr R gs t tok)" "distinct (missing_scopes d pr R gs t tok)"
  by (simp_all add: missing_scopes_def)

context tool_authorizer
begin

lemma missing_scopes_Nil_iff:
  "missing_scopes decide pr R gs t tok = [] \<longleftrightarrow>
     set gs \<subseteq> set (at_scopes tok) \<and>
     (\<forall>target. t = Some target \<longrightarrow>
        \<not> (reason (decide (tgt_name target) (Some (principal_from_access_token R tok pr))) = MISSING_PERMISSION \<and>
           required_scopes (decide (tgt_name target) (Some (principal_from_access_token R tok pr))) \<noteq> []))"
  by (auto simp: missing_scopes_def Let_def allowed_has_no_reason split: option.splits)

text \<open>A declared challenge asks for something the token lacks.\<close>

lemma missing_scopes_missing:
  assumes "missing_scopes decide pr R gs t tok \<noteq> []"
  shows "\<not> set (missing_scopes decide pr R gs t tok) \<subseteq> set (at_scopes tok)"
proof (cases "set gs \<subseteq> set (at_scopes tok)")
  case False
  then show ?thesis by (auto simp: missing_scopes_def)
next
  case True
  let ?d = "\<lambda>target. decide (tgt_name target) (Some (principal_from_access_token R tok pr))"
  from True assms obtain target where t: "t = Some target" "reason (?d target) = MISSING_PERMISSION"
    "required_scopes (?d target) \<noteq> []"
    by (auto simp: missing_scopes_Nil_iff)
  then have "set (missing_scopes decide pr R gs t tok) = set (required_scopes (?d target))"
    using True by (auto simp: missing_scopes_def Let_def allowed_has_no_reason)
  then show ?thesis using step_up_needed [OF t(2,3)] by simp
qed

text \<open>
  One step-up is enough: a token of the same identity mode that carries the declared scopes besides those
  of the first one is not challenged again.
\<close>

lemma missing_scopes_converges:
  assumes "set (missing_scopes decide pr R gs t tok) \<subseteq> set (at_scopes tok2)" and "set (at_scopes tok) \<subseteq> set (at_scopes tok2)"
    and "p_kind (principal_from_access_token R tok2 pr) = p_kind (principal_from_access_token R tok pr)"
  shows "missing_scopes decide pr R gs t tok2 = []"
  unfolding missing_scopes_Nil_iff
proof (intro conjI allI impI)
  show "set gs \<subseteq> set (at_scopes tok2)"
    using assms(1,2) by (auto simp: missing_scopes_def split: if_splits)
  fix target assume t: "t = Some target"
  let ?p = "principal_from_access_token R tok pr" and ?q = "principal_from_access_token R tok2 pr"
  show "\<not> (reason (decide (tgt_name target) (Some ?q)) = MISSING_PERMISSION \<and>
      required_scopes (decide (tgt_name target) (Some ?q)) \<noteq> [])"
  proof (cases "reason (decide (tgt_name target) (Some ?p)) = MISSING_PERMISSION \<and>
      required_scopes (decide (tgt_name target) (Some ?p)) \<noteq> []")
    case True
    then have "set (required_scopes (decide (tgt_name target) (Some ?p))) \<subseteq> set (at_scopes tok2)"
      using assms(1) t by (auto simp: missing_scopes_def Let_def allowed_has_no_reason split: if_splits)
    then have "allowed (decide (tgt_name target) (Some ?q))"
      using True assms(3) by (intro step_up_enough [of _ ?p]) auto
    then show ?thesis by (simp add: allowed_has_no_reason)
  next
    case False
    then show ?thesis by (rule step_up_stable) (use assms(2,3) in simp_all)
  qed
qed

end

text \<open>What the registry's authorizer makes of a token: the scopes the routed tool demands of its principal.\<close>

definition target_demand ::
    "tool_authorization_service \<Rightarrow> auth_provider \<Rightarrow> (pyval \<Rightarrow> string) \<Rightarrow> mcp_request_target option \<Rightarrow> access_token \<Rightarrow>
     string set" where
  "target_demand svc provider repr_of target tok =
     (case target of
        None \<Rightarrow> {}
      | Some t \<Rightarrow> scope_demand svc (tgt_name t) (principal_from_access_token repr_of tok provider))"

lemma set_missing_scopes:
  "set (missing_scopes (authorize svc) pr R gs t tok) =
     (if set gs \<subseteq> set (at_scopes tok) then {} else set gs) \<union>
     (if target_demand svc pr R t tok \<subseteq> set (at_scopes tok) then {} else target_demand svc pr R t tok)"
proof (cases t)
  case None
  then show ?thesis by (simp add: missing_scopes_def target_demand_def)
next
  case (Some target)
  let ?p = "principal_from_access_token R tok pr"
  have c: "\<not> allowed (authorize svc (tgt_name target) (Some ?p)) \<and>
      reason (authorize svc (tgt_name target) (Some ?p)) = MISSING_PERMISSION \<and>
      required_scopes (authorize svc (tgt_name target) (Some ?p)) \<noteq> [] \<longleftrightarrow>
      \<not> scope_demand svc (tgt_name target) ?p \<subseteq> set (at_scopes tok)"
    using challenged_iff_demand [of svc "tgt_name target" ?p] svc.allowed_has_no_reason [of svc "tgt_name target" "Some ?p"]
    by auto
  show ?thesis
    using demanded_scopes [of svc "tgt_name target" ?p]
    by (auto simp: missing_scopes_def Some target_demand_def Let_def c)
qed

lemma missing_scopes_empty:
  "missing_scopes (authorize svc) pr R gs t tok = [] \<longleftrightarrow>
   set gs \<subseteq> set (at_scopes tok) \<and> target_demand svc pr R t tok \<subseteq> set (at_scopes tok)"
  using set_missing_scopes [of svc pr R gs t tok] by (auto simp flip: set_empty split: if_splits)

end
