(* ===== verification/Http_Admission.thy ===== *)
theory Http_Admission
  imports Asgi
begin

text \<open>
  \<open>adapters/http_transport_security.py\<close>: the outermost middleware. It bounds the request envelope,
  repeats the SDK's Host/Origin validation before authentication, and admits a bounded number of
  concurrent requests. The SDK's \<open>TransportSecurityMiddleware.validate_request\<close> is the parameter
  \<open>ad_validate\<close>: given the scope and whether the request is a POST, it rejects with a response or
  accepts.
\<close>

section \<open>State and envelope checks\<close>

record admission =
  ad_validate :: "asgi_scope \<Rightarrow> bool \<Rightarrow> response option"
  ad_mcp_path :: string
  ad_max_header_count :: nat
  ad_max_header_bytes :: nat
  ad_max_concurrent :: int
  ad_operational_paths :: "string list"

definition critical_singleton_headers :: "bytes list" where
  "critical_singleton_headers =
     [''authorization'', ''content-length'', ''content-type'', ''host'', ''mcp-method'', ''mcp-name'',
      ''mcp-protocol-version'', ''mcp-session-id'', ''origin'', ''transfer-encoding'']"

definition audit_transport_rejection :: "string \<Rightarrow> nat \<Rightarrow> world \<Rightarrow> world" where
  "audit_transport_rejection rsn status_code =
     audit TRANSPORT_REJECTED DENIED rsn (no_args\<lparr>aa_status_code := Some status_code\<rparr>)"

text \<open>The header loop: the names seen so far, and which framing headers occurred.\<close>

fun scan_headers :: "(bytes \<times> bytes) list \<Rightarrow> bytes list \<Rightarrow> bool \<Rightarrow> bool \<Rightarrow> (bool \<times> bool) option" where
  "scan_headers [] seen cl te = Some (cl, te)"
| "scan_headers ((raw_name, v) # hs) seen cl te =
     (let name = bytes_lower raw_name;
          cl' = (cl \<or> name = ''content-length'');
          te' = (te \<or> (name \<noteq> ''content-length'' \<and> name = ''transfer-encoding''))
      in if name \<notin> set critical_singleton_headers then scan_headers hs seen cl' te'
         else if name \<in> set seen then None
         else scan_headers hs (name # seen) cl' te')"

definition header_bytes :: "(bytes \<times> bytes) list \<Rightarrow> nat" where
  "header_bytes headers = sum_list (map (\<lambda>(name, value). length name + length value + 4) headers)"

definition plain_response :: "nat \<Rightarrow> string \<Rightarrow> response" where
  "plain_response status body = \<lparr>rs_status = status, rs_headers = [], rs_body = body\<rparr>"

definition validate_envelope :: "admission \<Rightarrow> asgi_scope \<Rightarrow> world \<Rightarrow> response option \<times> world" where
  "validate_envelope ad sc w =
     (let headers = sc_headers sc
      in if length headers > ad_max_header_count ad
         then (Some (plain_response 431 ''Too many request headers''),
               audit_transport_rejection ''header_count_limit'' 431 w)
         else if header_bytes headers > ad_max_header_bytes ad
         then (Some (plain_response 431 ''Request headers too large''),
               audit_transport_rejection ''header_bytes_limit'' 431 w)
         else (case scan_headers headers [] False False of
                 None \<Rightarrow> (Some (plain_response 400 ''Duplicate security-critical header''),
                          audit_transport_rejection ''duplicate_security_header'' 400 w)
               | Some (has_cl, has_te) \<Rightarrow>
                   if has_cl \<and> has_te
                   then (Some (plain_response 400 ''Ambiguous request framing''),
                         audit_transport_rejection ''ambiguous_request_framing'' 400 w)
                   else (None, w)))"

definition try_admit :: "admission \<Rightarrow> world \<Rightarrow> bool \<times> world" where
  "try_admit ad w =
     (if w_in_flight w \<ge> ad_max_concurrent ad then (False, w)
      else (True, w\<lparr>w_in_flight := w_in_flight w + 1\<rparr>))"

definition release :: "world \<Rightarrow> world" where
  "release w = w\<lparr>w_in_flight := w_in_flight w - 1\<rparr>"

definition admission_middleware :: "admission \<Rightarrow> app \<Rightarrow> app" where
  "admission_middleware ad app sc send w =
     (if sc_type sc \<noteq> ''http'' then app sc send w
      else (case validate_envelope ad sc w of
        (Some rejection, w1) \<Rightarrow> respond rejection send w1
      | (None, w1) \<Rightarrow>
          if sc_path sc \<in> set (ad_operational_paths ad) then app sc send w1
          else (case ad_validate ad sc (sc_method sc = ''POST'') of
            Some transport_rejection \<Rightarrow>
              respond transport_rejection send
                (audit_transport_rejection ''host_or_origin_rejected'' (rs_status transport_rejection) w1)
          | None \<Rightarrow>
              if sc_path sc = ad_mcp_path ad \<and> sc_method sc \<noteq> ''POST''
              then respond \<lparr>rs_status = 405, rs_headers = [(''Allow'', ''POST'')], rs_body = []\<rparr> send
                     (audit_transport_rejection ''method_not_allowed'' 405 w1)
              else (case try_admit ad w1 of
                (False, w2) \<Rightarrow>
                  respond \<lparr>rs_status = 503, rs_headers = [(''Retry-After'', ''1'')],
                           rs_body = ''Server is at its request concurrency limit''\<rparr> send
                    (audit_transport_rejection ''concurrency_limit'' 503 w2)
              | (True, w2) \<Rightarrow>
                  (case app sc send w2 of (out, w3) \<Rightarrow> (out, release w3))))))"

interpretation admission: asgi_middleware "admission_middleware ad" for ad
  by unfold_locales (simp add: admission_middleware_def)

section \<open>The envelope specification\<close>

definition header_names :: "asgi_scope \<Rightarrow> bytes list" where
  "header_names sc = map (\<lambda>h. bytes_lower (fst h)) (sc_headers sc)"

text \<open>What an accepted envelope satisfies, without the loop.\<close>

definition envelope_ok :: "admission \<Rightarrow> asgi_scope \<Rightarrow> bool" where
  "envelope_ok ad sc \<longleftrightarrow>
     length (sc_headers sc) \<le> ad_max_header_count ad \<and>
     header_bytes (sc_headers sc) \<le> ad_max_header_bytes ad \<and>
     (\<forall>n \<in> set critical_singleton_headers. count_list (header_names sc) n \<le> 1) \<and>
     \<not> (''content-length'' \<in> set (header_names sc) \<and> ''transfer-encoding'' \<in> set (header_names sc))"

lemma scan_headers_flags:
  "scan_headers hs seen cl te = Some (cl', te') \<Longrightarrow>
   cl' = (cl \<or> ''content-length'' \<in> (\<lambda>h. bytes_lower (fst h)) ` set hs) \<and>
   te' = (te \<or> ''transfer-encoding'' \<in> (\<lambda>h. bytes_lower (fst h)) ` set hs)"
  by (induction hs seen cl te rule: scan_headers.induct)
    (auto simp: Let_def split: if_splits)

lemma scan_headers_defined:
  "(\<exists>r. scan_headers hs seen cl te = Some r) \<longleftrightarrow>
   (\<forall>n \<in> set critical_singleton_headers.
      count_list (map (\<lambda>h. bytes_lower (fst h)) hs) n + (if n \<in> set seen then 1 else 0) \<le> 1)"
proof (induction hs seen cl te rule: scan_headers.induct)
  case (2 raw_name v hs seen cl te)
  let ?n = "bytes_lower raw_name"
  show ?case
  proof (cases "?n \<in> set critical_singleton_headers")
    case False
    with 2(1) [OF refl refl refl False] show ?thesis by (auto simp: Let_def)
  next
    case True
    show ?thesis
    proof (cases "?n \<in> set seen")
      case seen: True
      with True show ?thesis by (auto simp: Let_def intro!: bexI [of _ ?n])
    next
      case fresh: False
      have "\<not> ?n \<notin> set critical_singleton_headers" using True by simp
      from 2(2) [OF refl refl refl this fresh] fresh True show ?thesis
        by (auto simp: Let_def split: if_splits)
    qed
  qed
qed simp

lemma validate_envelope_None_iff:
  "fst (validate_envelope ad sc w) = None \<longleftrightarrow> envelope_ok ad sc"
proof (cases "scan_headers (sc_headers sc) [] False False")
  case None
  then have "\<not> (\<exists>r. scan_headers (sc_headers sc) [] False False = Some r)" by simp
  then show ?thesis
    using None unfolding scan_headers_defined
    by (auto simp: validate_envelope_def envelope_ok_def header_names_def Let_def)
next
  case (Some r)
  then have "\<exists>r. scan_headers (sc_headers sc) [] False False = Some r" by simp
  then have once: "\<forall>n \<in> set critical_singleton_headers. count_list (header_names sc) n \<le> 1"
    unfolding scan_headers_defined by (simp add: header_names_def)
  obtain cl te where r: "r = (cl, te)" by (cases r)
  from scan_headers_flags [OF Some [unfolded r]]
  have "cl \<longleftrightarrow> ''content-length'' \<in> set (header_names sc)" "te \<longleftrightarrow> ''transfer-encoding'' \<in> set (header_names sc)"
    by (simp_all add: header_names_def)
  with Some r once show ?thesis
    by (auto simp: validate_envelope_def envelope_ok_def Let_def)
qed

lemma validate_envelope_accept: "validate_envelope ad sc w = (None, w') \<Longrightarrow> w' = w \<and> envelope_ok ad sc"
proof -
  assume h: "validate_envelope ad sc w = (None, w')"
  then have "envelope_ok ad sc" using validate_envelope_None_iff [of ad sc w] by simp
  moreover from h have "w' = w"
    by (auto simp: validate_envelope_def Let_def split: if_splits option.splits)
  ultimately show ?thesis by simp
qed

lemma validate_envelope_reject:
  "validate_envelope ad sc w = (Some r, w') \<Longrightarrow>
   rs_status r \<in> {400, 431} \<and> w_in_flight w' = w_in_flight w \<and> w_out w' = w_out w"
  by (auto simp: validate_envelope_def Let_def plain_response_def audit_transport_rejection_def
      split: if_splits option.splits)

section \<open>What reaches the inner application\<close>

definition is_operational :: "admission \<Rightarrow> asgi_scope \<Rightarrow> bool" where
  "is_operational ad sc \<longleftrightarrow> sc_path sc \<in> set (ad_operational_paths ad)"

definition transport_ok :: "admission \<Rightarrow> asgi_scope \<Rightarrow> bool" where
  "transport_ok ad sc \<longleftrightarrow>
     envelope_ok ad sc \<and> ad_validate ad sc (sc_method sc = ''POST'') = None \<and>
     (sc_path sc = ad_mcp_path ad \<longrightarrow> sc_method sc = ''POST'')"

lemma admission_operational:
  assumes "sc_type sc = ''http''" and "envelope_ok ad sc" and "is_operational ad sc"
  shows "admission_middleware ad app sc send w = app sc send w"
proof (cases "validate_envelope ad sc w")
  case (Pair r w1)
  with assms(2) have "r = None" using validate_envelope_None_iff [of ad sc w] by simp
  moreover from this Pair have "w1 = w" using validate_envelope_accept by simp
  ultimately show ?thesis
    using Pair assms by (simp add: admission_middleware_def is_operational_def)
qed

lemma admission_admits:
  assumes "sc_type sc = ''http''" and "transport_ok ad sc" and "\<not> is_operational ad sc"
    and "w_in_flight w < ad_max_concurrent ad"
  shows "admission_middleware ad app sc send w =
    (case app sc send (w\<lparr>w_in_flight := w_in_flight w + 1\<rparr>) of (out, w') \<Rightarrow> (out, release w'))"
proof (cases "validate_envelope ad sc w")
  case (Pair r w1)
  with assms(2) have "r = None"
    using validate_envelope_None_iff [of ad sc w] by (simp add: transport_ok_def)
  moreover from this Pair have "w1 = w" using validate_envelope_accept by simp
  ultimately show ?thesis
    using Pair assms by (auto simp: admission_middleware_def is_operational_def transport_ok_def try_admit_def)
qed

text \<open>Otherwise the inner application is not consulted: any two of them give the same result.\<close>

lemma admission_rejects:
  assumes "sc_type sc = ''http''"
    and "\<not> envelope_ok ad sc \<or> (\<not> is_operational ad sc \<and> (\<not> transport_ok ad sc \<or> ad_max_concurrent ad \<le> w_in_flight w))"
  shows "\<exists>r w1. admission_middleware ad app sc send w = respond r send w1 \<and>
    w_out w1 = w_out w \<and> w_in_flight w1 = w_in_flight w \<and>
    (\<forall>app'. admission_middleware ad app' sc send w = respond r send w1) \<and>
    (rs_status r \<in> {400, 405, 431, 503} \<or> ad_validate ad sc (sc_method sc = ''POST'') = Some r)"
proof (cases "validate_envelope ad sc w")
  case (Pair r w1)
  show ?thesis
  proof (cases r)
    case (Some rej)
    from validate_envelope_reject [OF Pair [unfolded Some]] show ?thesis
      using Pair Some assms(1) by (intro exI [of _ rej] exI [of _ w1]) (auto simp: admission_middleware_def)
  next
    case None
    from validate_envelope_accept [OF Pair [unfolded None]]
    have w1: "w1 = w" and ok: "envelope_ok ad sc" by simp_all
    with assms(2) have op: "\<not> is_operational ad sc" by blast
    note mw = admission_middleware_def assms(1) Pair None w1 op [unfolded is_operational_def]
      audit_transport_rejection_def try_admit_def
    show ?thesis
    proof (cases "ad_validate ad sc (sc_method sc = ''POST'')")
      case (Some rej)
      then show ?thesis
        by (intro exI [of _ rej]
            exI [of _ "audit_transport_rejection ''host_or_origin_rejected'' (rs_status rej) w"])
          (auto simp: mw)
    next
      case valid: None
      let ?not_post = "sc_path sc = ad_mcp_path ad \<and> sc_method sc \<noteq> ''POST''"
      show ?thesis
      proof (cases ?not_post)
        case True
        with valid op show ?thesis
          by (intro exI [of _ "\<lparr>rs_status = 405, rs_headers = [(''Allow'', ''POST'')], rs_body = []\<rparr>"]
              exI [of _ "audit_transport_rejection ''method_not_allowed'' 405 w"])
            (auto simp: mw is_operational_def)
      next
        case False
        with valid assms(2) ok op have "ad_max_concurrent ad \<le> w_in_flight w"
          by (auto simp: transport_ok_def)
        with False valid op show ?thesis
          by (intro exI [of _ "\<lparr>rs_status = 503, rs_headers = [(''Retry-After'', ''1'')],
                rs_body = ''Server is at its request concurrency limit''\<rparr>"]
              exI [of _ "audit_transport_rejection ''concurrency_limit'' 503 w"])
            (auto simp: mw is_operational_def)
      qed
    qed
  qed
qed

section \<open>Concurrency\<close>

text \<open>
  Requests are interleaved on one event loop (and the counter is read and written under a lock), so
  the steps of different requests are separate atomic steps on the shared counter. The second
  component is the set of requests between their admission and their release.
\<close>

inductive admission_step :: "admission \<Rightarrow> world \<times> nat set \<Rightarrow> world \<times> nat set \<Rightarrow> bool"
  for ad :: admission where
  admit: "try_admit ad w = (True, w') \<Longrightarrow> i \<notin> A \<Longrightarrow> admission_step ad (w, A) (w', insert i A)"
| refuse: "try_admit ad w = (False, w') \<Longrightarrow> admission_step ad (w, A) (w', A)"
| finish: "i \<in> A \<Longrightarrow> admission_step ad (w, A) (release w, A - {i})"
| handle: "w_in_flight w' = w_in_flight w \<Longrightarrow> admission_step ad (w, A) (w', A)"

inductive_cases admission_step_cases: "admission_step ad (w, A) s"

inductive admission_reachable :: "admission \<Rightarrow> world \<times> nat set \<Rightarrow> bool" for ad :: admission where
  start: "w_in_flight w = 0 \<Longrightarrow> admission_reachable ad (w, {})"
| step: "admission_reachable ad s \<Longrightarrow> admission_step ad s t \<Longrightarrow> admission_reachable ad t"

definition admission_inv :: "admission \<Rightarrow> world \<times> nat set \<Rightarrow> bool" where
  "admission_inv ad s \<longleftrightarrow>
     finite (snd s) \<and> w_in_flight (fst s) = int (card (snd s)) \<and>
     (snd s = {} \<or> w_in_flight (fst s) \<le> ad_max_concurrent ad)"

lemma admission_step_inv [inv_intros]:
  assumes "admission_step ad s t" and "admission_inv ad s"
  shows "admission_inv ad t"
  using assms
proof (induction rule: admission_step.induct)
  case (admit w w' i A)
  then show ?case by (auto simp: admission_inv_def try_admit_def split: if_splits)
next
  case (finish i A w)
  then have "0 < card A" by (auto simp: admission_inv_def card_gt_0_iff)
  with finish show ?case by (auto simp: admission_inv_def release_def of_nat_diff)
qed (auto simp: admission_inv_def try_admit_def split: if_splits)

lemma admission_reachable_inv: "admission_reachable ad s \<Longrightarrow> admission_inv ad s"
proof (induction rule: admission_reachable.induct)
  case (start w)
  then show ?case by (simp add: admission_inv_def)
qed (rule inv_intros)

end
