(* ===== verification/Access_Properties.thy ===== *)
theory Access_Properties
  imports Mcp_Tool_Authorization Progressive_Token_Verifier Http_Admission
begin

text \<open>
  The properties of the access-control side: tool authorization, step-up challenges, the HTTP
  middlewares, the audit log and the claim normalisation. Each is a few steps over the lemmas of
  the component it is about; the numbering is that of the whole development.
\<close>

section \<open>Tools\<close>

text \<open>C1: A \<open>tools/call\<close> that names a tool reaches the handler exactly when the access-control
  specification lets the request's principal invoke that tool. Otherwise the handler is not run, the
  inner state is untouched, the answer is the fixed denial, and one audit record is written.\<close>

theorem tool_call_guarded:
  "tool_middleware svc pr R next (ctx\<lparr>sr_method := ''tools/call''\<rparr>) st =
    (case tool_name_of ctx of
       None \<Rightarrow> next (ctx\<lparr>sr_method := ''tools/call''\<rparr>) st
     | Some n \<Rightarrow>
         let who = principal_from_request R (sr_request ctx) pr in
         if may_invoke svc n who then next (ctx\<lparr>sr_method := ''tools/call''\<rparr>) st
         else (Inr (CallToolResult [''Authorization denied for this tool.''] True),
               st\<lparr>ms_audit := ms_audit st @
                  [audit_record AUTHORIZATION_DENIED DENIED (reason_value (reason (authorize svc n who)))
                     (no_args\<lparr>aa_principal := who, aa_tool_name := Some n\<rparr>)]\<rparr>))"
proof -
  have "tool_name_of (ctx\<lparr>sr_method := ''tools/call''\<rparr>) = tool_name_of ctx" by (simp add: tool_name_of_def)
  then show ?thesis
    by (simp add: tool_middleware_def Let_def authorize_allowed_iff denied_text_def emit_security_audit_def
        split: option.split)
qed

text \<open>C6: The decision procedure implements the access-control specification, and its reason tells
  precisely why a call is refused: no policy, no principal, the wrong identity mode, or a permission
  that is missing.\<close>

theorem authorize_refines_spec:
  "allowed (authorize svc t who) = may_invoke svc t who \<and>
   (reason (authorize svc t who) = POLICY_MISSING) = (map_of svc t = None) \<and>
   (reason (authorize svc t who) = UNAUTHENTICATED) = (map_of svc t \<noteq> None \<and> who = None) \<and>
   (reason (authorize svc t who) = WRONG_PRINCIPAL_KIND) =
     (\<exists>pol p. map_of svc t = Some pol \<and> who = Some p \<and>
        (tp_kind pol = DELEGATED_SCOPES \<and> p_kind p \<noteq> DELEGATED \<or>
         tp_kind pol = APPLICATION_ROLES \<and> p_kind p \<noteq> APPLICATION)) \<and>
   (reason (authorize svc t who) = MISSING_PERMISSION) =
     (\<exists>pol p. map_of svc t = Some pol \<and> who = Some p \<and> \<not> grants pol p \<and>
        reason (authorize svc t who) \<noteq> WRONG_PRINCIPAL_KIND)"
proof (cases "map_of svc t")
  case None
  then show ?thesis by (simp add: authorize_def may_invoke_def)
next
  case (Some pol)
  show ?thesis
  proof (cases who)
    case None
    with Some show ?thesis by (simp add: authorize_def may_invoke_def)
  next
    case p: (Some p)
    with Some show ?thesis
      by (cases "tp_kind pol") (simp_all add: authorize_unfold may_invoke_def less_eq_fset.rep_eq)
  qed
qed

text \<open>C7: What a \<open>tools/list\<close> answers, for whatever the handler returns. Of a list model the tools the
  principal may invoke remain, in order; of a wire dictionary with a list of tools exactly the entries
  that are objects whose name is a tool the principal may invoke, with every other member unchanged;
  a result of any other shape, a tool-call result or a dictionary without a list included, is replaced
  by the empty catalog. Errors and the state after the handler pass through.\<close>

theorem tool_list_filtered:
  "\<exists>out. tool_middleware svc pr R next (ctx\<lparr>sr_method := ''tools/list''\<rparr>) st =
      (out, snd (next (ctx\<lparr>sr_method := ''tools/list''\<rparr>) st)) \<and>
    (let who = principal_from_request R (sr_request ctx) pr in
     case fst (next (ctx\<lparr>sr_method := ''tools/list''\<rparr>) st) of
       Inl e \<Rightarrow> out = Inl e
     | Inr (ListToolsResult tools rest) \<Rightarrow>
         out = Inr (ListToolsResult (filter (\<lambda>t. may_invoke svc (tm_name t) who) tools) rest)
     | Inr (WireDict d) \<Rightarrow>
         (case py_get d ''tools'' of
            PList tools \<Rightarrow> \<exists>d'. out = Inr (WireDict d') \<and> map fst d' = map fst d \<and>
              map_of d' = (map_of d)(''tools'' \<mapsto> PList (filter (\<lambda>tool. \<exists>m name.
                tool = PDict m \<and> py_get m ''name'' = PStr name \<and> may_invoke svc name who) tools))
          | _ \<Rightarrow> out = Inr (ListToolsResult [] []))
     | Inr _ \<Rightarrow> out = Inr (ListToolsResult [] []))"
proof (cases "next (ctx\<lparr>sr_method := ''tools/list''\<rparr>) st")
  case (Pair r st')
  let ?who = "principal_from_request R (sr_request ctx) pr"
  have m: "tool_middleware svc pr R next (ctx\<lparr>sr_method := ''tools/list''\<rparr>) st =
      (case r of Inl e \<Rightarrow> Inl e | Inr h \<Rightarrow> Inr (filter_tool_list svc ?who h), st')"
    by (simp add: tool_middleware_def Pair split: sum.split)
  have v: "visible_entry svc ?who = (\<lambda>tool. \<exists>m name. tool = PDict m \<and> py_get m ''name'' = PStr name \<and> may_invoke svc name ?who)"
    by (rule ext) (rule visible_entry_iff)
  show ?thesis
  proof (cases "\<exists>d tools. r = Inr (WireDict d) \<and> py_get d ''tools'' = PList tools")
    case True
    then obtain d tools where d: "r = Inr (WireDict d)" "py_get d ''tools'' = PList tools" by blast
    obtain d' where "filter_tool_list svc ?who (WireDict d) = WireDict d'"
      "map_of d' = (map_of d)(''tools'' \<mapsto> PList (filter (visible_entry svc ?who) tools))" "map fst d' = map fst d"
      using d(2) by (rule filtered_wire)
    then show ?thesis unfolding v using m d Pair by (simp add: Let_def)
  next
    case False
    then show ?thesis
      using m Pair
      by (auto simp: Let_def is_visible_def authorize_allowed_iff split: sum.split handler_result.split pyval.split)
  qed
qed

section \<open>Step-up authorization\<close>

text \<open>C5: When the progressive verifier withholds a verified token, the scopes it declares are not
  empty and the token lacks one of them. A second token that carries the declared scopes besides those
  of the first is accepted at once by any request for the same tool: one step-up suffices. Under Entra
  this asks that both tokens prove the same identity mode; a token that proves none may become a delegated
  one with its first scopes, and the step-up for the scopes of the tool is then a second one.\<close>

theorem step_up_converges:
  assumes "delegate token v = (Inr (Some tok), v1)"
    and "progressive_verify delegate (authorize svc) pr R gs token (v, w) = (Inr None, v', w')"
    and "w_context w = Some ctx" and "w_context w' = Some ctx'"
    and "delegate2 token2 v2 = (Inr (Some tok2), v3)"
    and "set (at_scopes tok) \<union> set (pc_required_scopes ctx') \<subseteq> set (at_scopes tok2)"
    and "pr = Entra \<Longrightarrow> p_kind (principal_from_access_token R tok2 pr) = p_kind (principal_from_access_token R tok pr)"
    and "w_context w2 = Some ctx2" and "pc_target ctx2 = pc_target ctx"
  shows "pc_required_scopes ctx' \<noteq> [] \<and> \<not> set (pc_required_scopes ctx') \<subseteq> set (at_scopes tok) \<and>
    progressive_verify delegate2 (authorize svc) pr R gs token2 (v2, w2) = (Inr (Some tok2), v3, w2)"
proof -
  let ?ss = "missing_scopes (authorize svc) pr R (sorted_set gs) (pc_target ctx) tok"
  from assms(1-4) have c: "?ss \<noteq> []" "pc_required_scopes ctx' = ?ss"
    by (auto simp: progressive_verify_def Let_def split: if_splits)
  have "p_kind (principal_from_access_token R tok2 pr) = p_kind (principal_from_access_token R tok pr)"
    using assms(7) by (cases pr) simp_all
  then have "missing_scopes (authorize svc) pr R (sorted_set gs) (pc_target ctx) tok2 = []"
    using assms(6) c(2) by (intro svc.missing_scopes_converges [where tok = tok]) simp_all
  then show ?thesis
    using c svc.missing_scopes_missing [OF c(1)] assms(5,8,9) by (simp add: progressive_verify_def)
qed

text \<open>C16: On an MCP request the progressive verifier accepts a token its delegate verified exactly when
  the token carries every globally required scope and every scope the routed tool demands of the token's
  principal; the delegate's token is then returned and the world is unchanged. Otherwise it is
  withheld, and the request's context gets, sorted and without duplicates, all global scopes if one is
  missing and all demanded scopes of the tool if one is missing. A tool demands scopes when its policy
  grants by OAuth scopes, or by delegated scopes and the principal is a delegated one; a principal of
  the wrong kind is not challenged here, the guard on the call refuses it.\<close>

theorem progressive_acceptance:
  assumes "delegate token v = (Inr (Some tok), v1)" and "w_context w = Some ctx" and "pc_is_mcp_request ctx"
  shows "\<exists>ss. progressive_verify delegate (authorize svc) pr R gs token (v, w) =
      (if set gs \<union> target_demand svc pr R (pc_target ctx) tok \<subseteq> set (at_scopes tok) then (Inr (Some tok), v1, w)
       else (Inr None, v1, w\<lparr>w_context := Some (ctx\<lparr>pc_required_scopes := ss\<rparr>)\<rparr>)) \<and>
    sorted ss \<and> distinct ss \<and>
    set ss = (if set gs \<subseteq> set (at_scopes tok) then {} else set gs) \<union>
      (if target_demand svc pr R (pc_target ctx) tok \<subseteq> set (at_scopes tok) then {}
       else target_demand svc pr R (pc_target ctx) tok)"
proof -
  let ?ss = "missing_scopes (authorize svc) pr R (sorted_set gs) (pc_target ctx) tok"
  have "?ss = [] \<longleftrightarrow> set gs \<union> target_demand svc pr R (pc_target ctx) tok \<subseteq> set (at_scopes tok)"
    unfolding missing_scopes_empty by simp
  with assms have "progressive_verify delegate (authorize svc) pr R gs token (v, w) =
      (if set gs \<union> target_demand svc pr R (pc_target ctx) tok \<subseteq> set (at_scopes tok) then (Inr (Some tok), v1, w)
       else (Inr None, v1, w\<lparr>w_context := Some (ctx\<lparr>pc_required_scopes := ?ss\<rparr>)\<rparr>))"
    by (auto simp: progressive_verify_def Let_def)
  then show ?thesis
    using set_missing_scopes [of svc pr R "sorted_set gs" "pc_target ctx" tok] by (intro exI [of _ ?ss]) simp
qed

text \<open>C17: When scopes were declared before the inner response starts and the challenge header can be
  encoded as ASCII, the client receives the 403 challenge with its own body, and nothing of the inner
  response: neither its status and headers nor any body chunk. When the header cannot be encoded the
  start raises \<open>UnicodeEncodeError\<close> and the client receives nothing. In both cases the enclosing request
  context is restored.\<close>

theorem challenge_replaces_response:
  assumes "ss \<noteq> []"
  shows "\<exists>out w'. progressive_middleware url path
      (script_app (Declares ss # Sends (ResponseStart status hs) # map (\<lambda>b. Sends (ResponseBody b)) bs))
      (sc\<lparr>sc_type := ''http''\<rparr>) server_send w = (out, w') \<and> w_context w' = w_context w \<and>
    (if is_ascii (challenge_header ss url)
     then out = Returned \<and>
       w_out w' = w_out w @ [challenge_start (challenge_header ss url), ResponseBody challenge_body]
     else out = Raised (ValueError ''UnicodeEncodeError'') \<and> w_out w' = w_out w)"
  using progressive_challenge [of "sc\<lparr>sc_type := ''http''\<rparr>" ss url path status hs bs w]
    progressive_challenge_unencodable [of "sc\<lparr>sc_type := ''http''\<rparr>" ss url path status hs bs w] assms
  by (cases "is_ascii (challenge_header ss url)") auto

text \<open>C18: With nothing declared the middleware is invisible, whatever messages the inner application
  sends; and for every inner application and every \<open>send\<close>, exceptions included, the context of the
  enclosing request is what it was.\<close>

theorem progressive_transparent_and_scoped:
  "progressive_middleware url path (script_app (map Sends ms)) (sc\<lparr>sc_type := ''http''\<rparr>) server_send w =
     (Returned, w\<lparr>w_out := w_out w @ ms\<rparr>) \<and>
   w_context (snd (progressive_middleware url path app (sc\<lparr>sc_type := ''http''\<rparr>) send w)) = w_context w"
  using progressive_transparent [of "sc\<lparr>sc_type := ''http''\<rparr>"] progressive_restores [of "sc\<lparr>sc_type := ''http''\<rparr>"]
  by simp

text \<open>C27: What a challenge puts into its header, under a registry of constructor-built policies. Every scope
  it declares is a globally required one or a nonempty OAuth scope token, free of the space, the quote and
  the backslash that would end it or the quoted string. With an ASCII metadata URL the header can be
  encoded exactly when the token has all global scopes or all of these are ASCII; the settings do not
  check that they are.\<close>

theorem advertised_scopes_header_safe:
  assumes "service_ok svc" and "is_ascii url"
  shows "list_all (\<lambda>s. s \<in> set gs \<or> s \<noteq> [] \<and> is_ascii s \<and> CHR 0x22 \<notin> set s \<and> CHR 0x5C \<notin> set s \<and> CHR '' '' \<notin> set s)
      (missing_scopes (authorize svc) pr R gs target tok) \<and>
    is_ascii (challenge_header (missing_scopes (authorize svc) pr R gs target tok) url) =
      (set gs \<subseteq> set (at_scopes tok) \<or> list_all is_ascii gs)"
proof -
  let ?ss = "missing_scopes (authorize svc) pr R gs target tok"
  have "s \<in> target_demand svc pr R target tok \<Longrightarrow> s \<noteq> [] \<and> is_valid_oauth_scope_token s" for s
    using scope_demand_tokens [OF assms(1)] by (auto simp: target_demand_def split: option.splits)
  moreover have "is_valid_oauth_scope_token s \<Longrightarrow>
      is_ascii s \<and> CHR 0x22 \<notin> set s \<and> CHR 0x5C \<notin> set s \<and> CHR '' '' \<notin> set s" for s
    by (auto simp: is_valid_oauth_scope_token_def is_ascii_def list_all_iff Let_def ord_of_def)
  ultimately have d: "\<forall>s \<in> target_demand svc pr R target tok.
      s \<noteq> [] \<and> is_ascii s \<and> CHR 0x22 \<notin> set s \<and> CHR 0x5C \<notin> set s \<and> CHR '' '' \<notin> set s" by blast
  have "list_all (\<lambda>s. s \<in> set gs \<or> s \<noteq> [] \<and> is_ascii s \<and> CHR 0x22 \<notin> set s \<and> CHR 0x5C \<notin> set s \<and> CHR '' '' \<notin> set s) ?ss"
    using d by (auto simp: list_all_iff set_missing_scopes split: if_splits)
  moreover have "is_ascii (challenge_header ?ss url) \<longleftrightarrow> list_all is_ascii ?ss"
    using assms(2) by (simp add: challenge_header_ascii)
  moreover have "list_all is_ascii ?ss \<longleftrightarrow> set gs \<subseteq> set (at_scopes tok) \<or> list_all is_ascii gs"
    using d by (auto simp: list_all_iff set_missing_scopes split: if_splits)
  ultimately show ?thesis by simp
qed

section \<open>Admission\<close>

text \<open>C13: In every reachable state of the admission counter, under any interleaving of admissions,
  refusals, releases and handler steps, the counter is the number of requests between admission and
  release, and that number never exceeds the configured maximum.\<close>

theorem concurrency_bounded:
  assumes "admission_reachable ad (w, A)" and "0 \<le> ad_max_concurrent ad"
  shows "finite A \<and> w_in_flight w = int (card A) \<and> int (card A) \<le> ad_max_concurrent ad"
  using admission_reachable_inv [OF assms(1)] assms(2) by (auto simp: admission_inv_def)

text \<open>C14: The inner application runs only for a probe path with an acceptable envelope, where the
  counter is not touched, or for a request that passes every transport check with a free slot, where
  the slot is taken before and given back after the call, however the call ends. In every other case
  the result is the same as with an application that does nothing.\<close>

theorem admission_decision:
  "admission_middleware ad app (sc\<lparr>sc_type := ''http''\<rparr>) send w =
    (let sc' = sc\<lparr>sc_type := ''http''\<rparr> in
     if envelope_ok ad sc' \<and> is_operational ad sc' then app sc' send w
     else if transport_ok ad sc' \<and> w_in_flight w < ad_max_concurrent ad
     then (case app sc' send (w\<lparr>w_in_flight := w_in_flight w + 1\<rparr>) of
             (out, w') \<Rightarrow> (out, w'\<lparr>w_in_flight := w_in_flight w' - 1\<rparr>))
     else admission_middleware ad (\<lambda>sc send w. (Returned, w)) sc' send w)"
proof -
  let ?sc = "sc\<lparr>sc_type := ''http''\<rparr>"
  consider "envelope_ok ad ?sc" "is_operational ad ?sc"
    | "transport_ok ad ?sc" "w_in_flight w < ad_max_concurrent ad" "\<not> is_operational ad ?sc"
    | "\<not> envelope_ok ad ?sc \<or> (\<not> is_operational ad ?sc \<and>
         (\<not> transport_ok ad ?sc \<or> ad_max_concurrent ad \<le> w_in_flight w))"
    by (metis not_le_imp_less transport_ok_def)
  then show ?thesis
  proof cases
    case 1
    then show ?thesis using admission_operational [of ?sc ad app send w] by (simp add: Let_def)
  next
    case 2
    then show ?thesis using admission_admits [of ?sc ad w app send] by (simp add: Let_def release_def)
  next
    case 3
    then obtain r w1 where "\<And>app'. admission_middleware ad app' ?sc send w = respond r send w1"
      using admission_rejects [of ?sc ad w app send] by auto
    moreover from 3 have "\<not> (envelope_ok ad ?sc \<and> is_operational ad ?sc)"
      "\<not> (transport_ok ad ?sc \<and> w_in_flight w < ad_max_concurrent ad)"
      by (auto simp: transport_ok_def)
    ultimately show ?thesis by (simp only: Let_def if_False)
  qed
qed

text \<open>The header loop, with its bookkeeping of names and framing headers, accepts exactly the
  envelopes of the declarative specification: bounded count and size, no security-critical name
  twice, no Content-Length together with Transfer-Encoding. Acceptance leaves the world unchanged;
  a rejection writes one audit record.\<close>

theorem envelope_equivalence:
  "(fst (validate_envelope ad sc w) = None) = envelope_ok ad sc \<and>
   (snd (validate_envelope ad sc w) = w) = envelope_ok ad sc \<and>
   length (w_audit (snd (validate_envelope ad sc w))) = length (w_audit w) + (if envelope_ok ad sc then 0 else 1)"
proof -
  have acc: "fst (validate_envelope ad sc w) = None \<Longrightarrow> snd (validate_envelope ad sc w) = w"
    using validate_envelope_accept [of ad sc w "snd (validate_envelope ad sc w)"]
    by (cases "validate_envelope ad sc w") auto
  have rej: "fst (validate_envelope ad sc w) \<noteq> None \<Longrightarrow>
      length (w_audit (snd (validate_envelope ad sc w))) = Suc (length (w_audit w))"
    by (auto simp: validate_envelope_def Let_def audit_transport_rejection_def split: if_splits option.splits)
  from acc rej validate_envelope_None_iff [of ad sc w] show ?thesis
    by (cases "envelope_ok ad sc") auto
qed

section \<open>Claims, scopes and identities\<close>

lemma claim_words_join:
  assumes "\<And>w. w \<in> set ws \<Longrightarrow> w \<noteq> [] \<and> list_all (\<lambda>c. \<not> py_isspace c) w"
  shows "claim_words (PStr (join '' '' ws)) = ws"
  using assms by (simp add: list_all_iff py_split_join_space)

text \<open>A set of scope words written as one space-delimited \<open>scope\<close> claim is read back as that set,
  sorted, whatever else the token claims: no other claim but \<open>scp\<close> contributes a scope.\<close>

theorem scope_claim_roundtrip:
  assumes "list_all (\<lambda>w. w \<noteq> [] \<and> list_all (\<lambda>c. \<not> py_isspace c) w) ws"
  shows "scopes_from_claims (AList.update ''scope'' (PStr (join '' '' ws)) (AList.update ''scp'' PNone claims)) =
    sorted_set ws"
  using claim_words_join [of ws] assms by (simp add: scopes_from_claims_def list_all_iff)

text \<open>Qualifying scopes twice is qualifying them once, and a qualified set contains only values that
  were URIs already or short names put under this resource.\<close>

theorem qualify_scopes_canonical_form:
  assumes "contains (py_rstrip_char CHR ''/'' uri @ ''/'') ''://''"
  shows "qualify_scopes (qualify_scopes ss uri) uri = qualify_scopes ss uri \<and>
    list_all (\<lambda>s. (s \<in> set ss \<and> contains s ''://'') \<or>
        (\<exists>t \<in> set ss. \<not> contains t ''://'' \<and> t \<noteq> [] \<and> s = py_rstrip_char CHR ''/'' uri @ ''/'' @ t))
      (qualify_scopes ss uri)"
  unfolding list_all_iff using qualify_scopes_idem [OF assms] qualify_scopes_origin by blast

text \<open>An Entra token is delegated exactly when it has a nonblank \<open>scp\<close> and is not marked as an app
  token, and an application token exactly when it is marked so and has no scopes; a contradictory
  token is neither. A generic token is never either, and no claim gives it a role.\<close>

theorem identity_modes:
  "(p_kind (principal_from_access_token R tok Entra) = DELEGATED) =
     ((\<exists>s. py_get (claims_of tok) ''scp'' = PStr s \<and> py_split s \<noteq> []) \<and>
      py_get (claims_of tok) ''idtyp'' \<noteq> PStr ''app'') \<and>
   (p_kind (principal_from_access_token R tok Entra) = APPLICATION) =
     (claim_words (py_get (claims_of tok) ''scp'') = [] \<and> py_get (claims_of tok) ''idtyp'' = PStr ''app'') \<and>
   p_kind (principal_from_access_token R tok Generic) = UNKNOWN \<and>
   p_roles (principal_from_access_token R tok Generic) = {||}"
  by (simp add: entra_kind_delegated_iff entra_kind_application_iff)

section \<open>Audit and routing headers\<close>

text \<open>Whatever a caller passes, an audit record has only the ten allowlisted fields, each at most
  once, every text in it is bounded by 259 characters unless it is the target kind the code chose,
  and of a principal it depends on the identity mode and the client id only.\<close>

theorem audit_record_allowlisted:
  "set (map fst (audit_record a out r args)) \<subseteq>
     {''schema_version'', ''action'', ''outcome'', ''reason'', ''principal_kind'', ''client_id'', ''tool_name'',
      ''status_code'', ''required_scope_count'', ''target_kind''} \<and>
   distinct (map fst (audit_record a out r args)) \<and>
   list_all (\<lambda>(k, v). k = ''target_kind'' \<or> (case as_str v of None \<Rightarrow> True | Some s \<Rightarrow> length s \<le> 259))
     (audit_record a out r args) \<and>
   audit_record a out r (args\<lparr>aa_principal := Some (p\<lparr>p_scopes := s1, p_roles := s2, p_subject := s3, p_issuer := s4\<rparr>)\<rparr>) =
     audit_record a out r (args\<lparr>aa_principal := Some p\<rparr>)"
proof (intro conjI)
  show "set (map fst (audit_record a out r args)) \<subseteq>
     {''schema_version'', ''action'', ''outcome'', ''reason'', ''principal_kind'', ''client_id'', ''tool_name'',
      ''status_code'', ''required_scope_count'', ''target_kind''}"
    using audit_record_fields [of a out r args] by (simp add: audit_fields_def)
  have "length (action_value a) \<le> 259" by (cases a) simp_all
  moreover have "length (outcome_value out) \<le> 259" by (cases out) simp_all
  moreover have "length (kind_value k) \<le> 259" for k by (cases k) simp_all
  ultimately show "list_all (\<lambda>(k, v). k = ''target_kind'' \<or> (case as_str v of None \<Rightarrow> True | Some s \<Rightarrow> length s \<le> 259))
     (audit_record a out r args)"
    using bounded_text_length [of r 128] bounded_text_length [of _ 256]
    by (auto simp: audit_record_def split: option.splits)
  show "distinct (map fst (audit_record a out r args))" by (rule audit_record_distinct)
  show "audit_record a out r (args\<lparr>aa_principal := Some (p\<lparr>p_scopes := s1, p_roles := s2, p_subject := s3, p_issuer := s4\<rparr>)\<rparr>) =
     audit_record a out r (args\<lparr>aa_principal := Some p\<rparr>)"
    by (rule audit_record_principal_frame) simp_all
qed

lemma b64_char_ascii: "ord_of (b64_char n) < 128"
proof -
  have "n < 62 \<Longrightarrow> (n - 4) mod 256 < 128" by simp
  then show ?thesis by (auto simp: b64_char_def ord_of_def)
qed

lemma encode_header_ascii: "is_ascii (encode_header_value name)"
proof -
  have "ord_of CHR ''='' < 128" by (simp add: ord_of_def)
  then have "list_all (\<lambda>c. ord_of c < 128) (b64encode bs)" for bs
    by (induction bs rule: b64encode.induct) (simp_all add: b64_char_ascii)
  then show ?thesis
    by (simp add: encode_header_value_def is_ascii_def base64_prefix_def base64_suffix_def ord_of_def)
qed

text \<open>C30: A client that puts a tool name into \<open>Mcp-Name\<close> in the base64 form, for a modern \<open>tools/call\<close>
  POST, is routed to exactly that name, character for character; only the empty name yields no
  target.\<close>

theorem routed_name_roundtrip:
  "target_from_scope \<lparr>sc_type = ''http'', sc_method = ''POST'', sc_path = path,
      sc_headers = [(''MCP-Protocol-Version'', modern_protocol_version), (''Mcp-Method'', ''tools/call''),
                    (''Mcp-Name'', encode_header_value name)]\<rparr> =
    (if name = [] then None else Some \<lparr>tgt_method = ''tools/call'', tgt_name = name\<rparr>)"
proof -
  let ?sc = "\<lparr>sc_type = ''http'', sc_method = ''POST'', sc_path = path,
      sc_headers = [(''MCP-Protocol-Version'', modern_protocol_version), (''Mcp-Method'', ''tools/call''),
                    (''Mcp-Name'', encode_header_value name)]\<rparr>"
  have lower: "bytes_lower ''MCP-Protocol-Version'' = ''mcp-protocol-version''"
    "bytes_lower ''Mcp-Method'' = ''mcp-method''" "bytes_lower ''Mcp-Name'' = ''mcp-name''"
    by code_simp+
  have asc: "is_ascii modern_protocol_version" "is_ascii ''tools/call''" by code_simp+
  have "single_header ?sc ''mcp-protocol-version'' = Some modern_protocol_version"
    "single_header ?sc ''mcp-method'' = Some ''tools/call''"
    "single_header ?sc ''mcp-name'' = Some (encode_header_value name)"
    by (simp_all add: single_header_Some_iff lower asc encode_header_ascii)
  then show ?thesis by (simp add: target_from_scope_def decode_encode_header)
qed

section \<open>Witnesses\<close>

text \<open>
  Concrete inputs at which the hypotheses of the properties above hold: an OAuth-scoped tool, a
  caller with and without its scope, an admission limit of two.
\<close>

definition example_registry :: tool_authorization_service where
  "example_registry = [(''deploy'', \<lparr>tp_kind = OAUTH_SCOPES, tp_permissions = {|''write''|}\<rparr>)]"

definition example_context :: progressive_context where
  "example_context =
     \<lparr>pc_is_mcp_request = True, pc_target = Some \<lparr>tgt_method = ''tools/call'', tgt_name = ''deploy''\<rparr>,
      pc_required_scopes = []\<rparr>"

definition example_world :: world where
  "example_world =
     \<lparr>w_out = [], w_audit = [], w_context = Some example_context, w_replaced = False, w_in_flight = 0\<rparr>"

text \<open>The generic verifier over ports that always answer; the scopes claimed by a token are its text.\<close>

definition example_verifier :: "unit verifier_state verifier" where
  "example_verifier =
     generic_verify (\<lambda>_ s. (Inr \<lparr>md_issuer = ''https://as'', md_jwks_uri = ''https://as/jwks''\<rparr>, s)) (\<lambda>_ _ s. (Inr (), s))
       (\<lambda>s token key options. Inr [(''sub'', PStr ''user''), (''exp'', PInt 10), (''scope'', PStr token)])
       (\<lambda>v. []) ''https://as'' ''api''"

definition example_ports :: "unit verifier_state" where
  "example_ports = \<lparr>vs_ports = (), vs_rejections = []\<rparr>"

definition scoped_token :: "string \<Rightarrow> access_token" where
  "scoped_token scopes =
     \<lparr>at_token = scopes, at_client_id = ''user'', at_scopes = sorted_set (py_split scopes), at_expires_at = Some 10,
      at_resource = Some ''api'', at_subject = Some ''user'',
      at_claims = Some [(''sub'', PStr ''user''), (''exp'', PInt 10), (''scope'', PStr scopes)]\<rparr>"

lemma example_verifier_accepts: "example_verifier token v = (Inr (Some (scoped_token token)), v)"
  by (simp add: example_verifier_def generic_verify_def access_token_of_def client_claim_def int_claim_def claim_at_def
      scoped_token_def scopes_from_claims_def claim_words_def)

definition example_admission :: admission where
  "example_admission =
     \<lparr>ad_validate = (\<lambda>sc post. None), ad_mcp_path = ''/mcp'', ad_max_header_count = 8,
      ad_max_header_bytes = 1024, ad_max_concurrent = 2, ad_operational_paths = []\<rparr>"

lemma example_scopes: "py_split ''read'' = [''read'']" "py_split ''read write'' = [''read'', ''write'']"
  "sorted_set [''read''] = [''read'']" "sorted_set [''read'', ''write''] = [''read'', ''write'']"
  by code_simp+

lemma example_demand:
  "target_demand example_registry Generic R (pc_target example_context) (scoped_token token) = {''write''}"
  by (simp add: target_demand_def example_context_def scope_demand_def example_registry_def)

lemma example_challenged:
  "progressive_verify example_verifier (authorize example_registry) Generic (\<lambda>v. []) [''read''] ''read'' (example_ports, example_world) =
     (Inr None, example_ports, example_world\<lparr>w_context := Some (example_context\<lparr>pc_required_scopes := [''write'']\<rparr>)\<rparr>)"
proof -
  have "missing_scopes (authorize example_registry) Generic (\<lambda>v. []) [''read''] (pc_target example_context) (scoped_token ''read'') = [''write'']"
    by (simp add: missing_scopes_def example_context_def example_registry_def scoped_token_def authorize_unfold example_scopes
        principal_from_access_token_def required_scopes_of_def sorted_list_of_fset.rep_eq sorted_set_def claims_of_def)
  then show ?thesis
    by (simp add: progressive_verify_def example_verifier_accepts example_world_def Let_def sorted_set_def)
      (simp add: example_context_def)
qed

theorem step_up_converges_witness:
  "progressive_verify example_verifier (authorize example_registry) Generic (\<lambda>v. []) [''read''] ''read'' (example_ports, example_world) =
     (Inr None, example_ports, example_world\<lparr>w_context := Some (example_context\<lparr>pc_required_scopes := [''write'']\<rparr>)\<rparr>) \<and>
   progressive_verify example_verifier (authorize example_registry) Generic (\<lambda>v. []) [''read''] ''read write'' (example_ports, example_world) =
     (Inr (Some (scoped_token ''read write'')), example_ports, example_world)"
  using step_up_converges [where delegate = example_verifier and ?delegate2.0 = example_verifier, OF example_verifier_accepts example_challenged _ _ example_verifier_accepts,
      of example_context "example_context\<lparr>pc_required_scopes := [''write'']\<rparr>" "''read write''" example_world example_context]
    example_challenged
  by (simp add: scoped_token_def example_scopes example_world_def)

theorem progressive_acceptance_witness:
  "progressive_verify example_verifier (authorize example_registry) Generic (\<lambda>v. []) [''read''] ''read write'' (example_ports, example_world) =
     (Inr (Some (scoped_token ''read write'')), example_ports, example_world) \<and>
   (\<exists>ss. progressive_verify example_verifier (authorize example_registry) Generic (\<lambda>v. []) [''admin''] ''read'' (example_ports, example_world) =
     (Inr None, example_ports, example_world\<lparr>w_context := Some (example_context\<lparr>pc_required_scopes := ss\<rparr>)\<rparr>) \<and>
     set ss = {''admin'', ''write''})"
proof -
  have c: "w_context example_world = Some example_context" "pc_is_mcp_request example_context"
    by (simp_all add: example_world_def example_context_def)
  have s: "at_scopes (scoped_token ''read'') = [''read'']" "at_scopes (scoped_token ''read write'') = [''read'', ''write'']"
    by (simp_all add: scoped_token_def example_scopes)
  show ?thesis
    using progressive_acceptance [where delegate = example_verifier, OF example_verifier_accepts c, of example_registry Generic "\<lambda>v. []" "[''read'']" "''read write''" example_ports]
      progressive_acceptance [where delegate = example_verifier, OF example_verifier_accepts c, of example_registry Generic "\<lambda>v. []" "[''admin'']" "''read''" example_ports]
    by (auto simp: example_demand s)
qed

theorem challenge_replaces_response_witness:
  "\<exists>w'. progressive_middleware ''https://api.example/meta'' ''/mcp''
      (script_app (Declares [''write''] # Sends (ResponseStart 401 []) # map (\<lambda>b. Sends (ResponseBody b)) [''inner'']))
      (\<lparr>sc_type = ''http'', sc_method = ''POST'', sc_path = ''/mcp'', sc_headers = []\<rparr>\<lparr>sc_type := ''http''\<rparr>)
      server_send example_world = (Returned, w') \<and>
    w_out w' = w_out example_world @
      [challenge_start (challenge_header [''write''] ''https://api.example/meta''), ResponseBody challenge_body] \<and>
    w_context w' = w_context example_world"
proof -
  have a: "is_ascii (challenge_header [''write''] ''https://api.example/meta'')" by code_simp
  show ?thesis
    using challenge_replaces_response [of "[''write'']" "''https://api.example/meta''" "''/mcp''" 401 "[]" "[''inner'']"
        "\<lparr>sc_type = ''http'', sc_method = ''POST'', sc_path = ''/mcp'', sc_headers = []\<rparr>" example_world]
    unfolding if_P [OF a] by blast
qed

text \<open>Global scopes outside ASCII are accepted by the settings and make the header unencodable.\<close>

theorem advertised_scopes_header_safe_witness:
  "is_ascii (challenge_header (missing_scopes (authorize example_registry) Generic (\<lambda>v. []) [''read'']
      (pc_target example_context) (scoped_token ''admin'')) ''https://api.example/meta'') \<and>
   \<not> is_ascii (challenge_header (missing_scopes (authorize example_registry) Generic (\<lambda>v. []) [[CHR 0xE9]]
      (pc_target example_context) (scoped_token ''admin'')) ''https://api.example/meta'')"
proof -
  have "service_ok example_registry"
    by (simp add: service_ok_def example_registry_def policy_ok_def is_valid_oauth_scope_token_def ord_of_def)
  moreover have "is_ascii ''https://api.example/meta''" by code_simp
  ultimately have h: "is_ascii (challenge_header (missing_scopes (authorize example_registry) Generic (\<lambda>v. []) gs
      (pc_target example_context) (scoped_token ''admin'')) ''https://api.example/meta'') =
      (set gs \<subseteq> set (at_scopes (scoped_token ''admin'')) \<or> list_all is_ascii gs)" for gs
    using advertised_scopes_header_safe by blast
  have "is_ascii ''read''" "\<not> is_ascii [CHR 0xE9]" "sorted_set (py_split ''admin'') = [''admin'']" by code_simp+
  then show ?thesis by (simp add: h) (simp add: scoped_token_def)
qed

theorem concurrency_bounded_witness:
  "finite {7::nat} \<and> w_in_flight (example_world\<lparr>w_in_flight := 1\<rparr>) = int (card {7::nat}) \<and>
   int (card {7::nat}) \<le> ad_max_concurrent example_admission"
proof -
  have "admission_reachable example_admission (example_world, {})"
    by (rule admission_reachable.start) (simp add: example_world_def)
  moreover have "try_admit example_admission example_world = (True, example_world\<lparr>w_in_flight := 1\<rparr>)"
    by (simp add: try_admit_def example_world_def example_admission_def)
  then have "admission_step example_admission (example_world, {}) (example_world\<lparr>w_in_flight := 1\<rparr>, insert 7 {})"
    by (rule admission_step.admit) simp
  ultimately have "admission_reachable example_admission (example_world\<lparr>w_in_flight := 1\<rparr>, {7})"
    by (rule admission_reachable.step)
  from concurrency_bounded [OF this] show ?thesis by (simp add: example_admission_def)
qed

theorem scope_claim_roundtrip_witness:
  "scopes_from_claims (AList.update ''scope'' (PStr (join '' '' [''write'', ''read'']))
     (AList.update ''scp'' PNone [(''scp'', PStr ''admin''), (''iss'', PStr ''x'')])) = sorted_set [''write'', ''read'']"
  by (rule scope_claim_roundtrip) (simp add: py_isspace_def ord_of_def)

end
