(* ===== verification/Oidc_Properties.thy ===== *)
theory Oidc_Properties
  imports Token_Verifiers
begin

text \<open>
  The properties of the OIDC side: the outbound trust boundary, discovery, JWKS and the token
  verifiers, with a small example deployment at which their hypotheses hold. The issuer of the
  example is an IP literal, so no resolver is involved.
\<close>

section \<open>An example deployment\<close>

definition no_idna :: idna_codec where
  "no_idna h = None"

definition example_policy :: network_policy where
  "example_policy =
     \<lparr>np_issuer_url = ''https://8.8.8.8/'', np_issuer_origin = (''https'', ''8.8.8.8'', 443),
      np_discovery_url = ''https://8.8.8.8/.well-known/openid-configuration'',
      np_allow_insecure_loopback = False, np_dns_timeout = 2, np_http_timeout = 5,
      np_discovery_max_bytes = 65536, np_jwks_max_bytes = 524288,
      np_trusted_origins = [(''https'', ''8.8.8.8'', 443)]\<rparr>"

definition example_env :: "(unit, string) oidc_env" where
  "example_env =
     \<lparr>e_idna = no_idna, e_policy = example_policy,
      e_http_get = (\<lambda>url w.
        (Inr \<lparr>ft_status = 200, ft_headers = [''content-type'' \<mapsto> ''application/json; charset=utf-8''],
              ft_content = (if url = ''https://8.8.8.8/jwks'' then ''k'' else ''d'')\<rparr>, w)),
      e_loads = (\<lambda>content.
        Inr (if content = ''k''
             then PDict [(''keys'', PList [PDict [(''kid'', PStr ''1''), (''kty'', PStr ''RSA''), (''use'', PStr ''sig'')]])]
             else PDict [(''issuer'', PStr ''https://8.8.8.8/''), (''jwks_uri'', PStr ''https://8.8.8.8/jwks'')])),
      e_metadata_alive = (\<lambda>k w. True), e_keys_alive = (\<lambda>k w. True), e_now = (\<lambda>w. 0),
      e_metadata_waiters = (\<lambda>w. 0), e_keys_waiters = (\<lambda>w. []),
      e_unverified_header = (\<lambda>t. Inr [(''kid'', PStr ''1''), (''alg'', PStr ''RS256'')]),
      e_pyjwk_from_dict = (\<lambda>raw alg. Inr ''key''), e_max_keys = 64, e_refresh_cooldown = 30\<rparr>"

definition empty_state :: "unit oidc_state" where
  "empty_state = \<lparr>os_metadata = Map.empty, os_keys = Map.empty, os_last_forced = Map.empty, os_env = ()\<rparr>"

definition example_claims :: claims where
  "example_claims =
     [(''sub'', PStr ''user''), (''azp'', PStr ''client''), (''exp'', PInt 100), (''scp'', PStr ''read''),
      (''tid'', PStr ''00000000-0000-0000-0000-000000000001'')]"

definition example_decode :: "(unit oidc_state, string) jwt_decoder" where
  "example_decode s token key opts = (if key = ''key'' then Inr example_claims else Inl (InvalidTokenError ''DecodeError''))"

lemmas policy_eval =
  url_eval ip_eval parse_url_def port_or_default_def default_port_def normalize_host_def idna_encode_def
  is_ascii_def py_rstrip_char_def py_rstrip_by_def

lemma example_urls:
  "parse_url no_idna ''https://8.8.8.8/'' = Inr (''https'', ''8.8.8.8'', 443)"
  "parse_url no_idna ''https://8.8.8.8/.well-known/openid-configuration'' = Inr (''https'', ''8.8.8.8'', 443)"
  "parse_url no_idna ''https://8.8.8.8/jwks'' = Inr (''https'', ''8.8.8.8'', 443)"
  "normalize_host no_idna ''8.8.8.8'' = Inr ''8.8.8.8''"
  "ip_address ''8.8.8.8'' = Some (IPv4 0x08080808)"
  "is_global (IPv4 0x08080808)" "\<not> is_loopback (IPv4 0x08080808)"
  by (simp_all add: policy_eval ip_class_eval)

lemma example_trusted: "assert_jwks_uri_trusted no_idna example_policy ''https://8.8.8.8/jwks'' = Inr ()"
  by (simp add: assert_jwks_uri_trusted_def example_urls origin_of_def example_policy_def)

lemma example_media_type:
  "media_type \<lparr>ft_status = n, ft_headers = [''content-type'' \<mapsto> ''application/json; charset=utf-8''], ft_content = c\<rparr> =
   ''application/json''"
  by (simp add: media_type_def partition_on_def py_lower_def lower_char_def ord_of_def)

lemma example_discovery:
  "discovery_resolve example_env ''https://8.8.8.8/'' empty_state =
     (Inr \<lparr>md_issuer = ''https://8.8.8.8/'', md_jwks_uri = ''https://8.8.8.8/jwks''\<rparr>,
      empty_state\<lparr>os_metadata :=
        [''https://8.8.8.8/'' \<mapsto> \<lparr>md_issuer = ''https://8.8.8.8/'', md_jwks_uri = ''https://8.8.8.8/jwks''\<rparr>]\<rparr>)"
  by (simp add: discovery_resolve_def discovery_locked_def cached_metadata_def discovery_fetch_def empty_state_def
      example_env_def example_policy_def Let_def fetched_document_def raise_for_status_def example_media_type
      parse_json_object_def apply_hook_eq metadata_of_def nonempty_str_def assert_metadata_trusted_def
      example_trusted [unfolded example_policy_def] translate_fetch_error_def ensure_def)

definition example_key :: "pyval dict" where
  "example_key = [(''kid'', PStr ''1''), (''kty'', PStr ''RSA''), (''use'', PStr ''sig'')]"

lemma example_fetch_keys:
  "fetch_keys example_env ''https://8.8.8.8/jwks'' w = (Inr [(''1'', example_key)], w)"
  by (simp add: fetch_keys_def example_env_def Let_def example_trusted [unfolded example_policy_def] fetched_document_def raise_for_status_def
      example_media_type parse_json_object_def apply_hook_eq keys_of_document_def bounded_kid_def max_kid_length_def
      usable_for_signatures_def translate_fetch_error_def ensure_def jwks_media_types_def example_policy_def example_key_def)

lemma example_header: "header_binding example_env t = Inr (''1'', ''RS256'')"
  by (simp add: header_binding_def example_env_def bounded_kid_def max_kid_length_def accepted_algorithms_def)

lemma example_resolve_key:
  assumes "os_keys st = Map.empty"
  shows "resolve_key example_env ''https://8.8.8.8/jwks'' t st =
     (Inr ''key'', st\<lparr>os_keys := [''https://8.8.8.8/jwks'' \<mapsto> [(''1'', example_key)]], os_env := os_env st\<rparr>)"
proof -
  have "e_policy example_env = example_policy" "e_idna example_env = no_idna" by (simp_all add: example_env_def)
  moreover have "cached_keys example_env u st = None" for u using assms by (simp add: cached_keys_def)
  moreover have "run_waiters example_env st = st" by (simp add: run_waiters_def example_env_def)
  moreover have "compatible_key example_env [(''1'', example_key)] ''1'' ''RS256'' = Inr (Some ''key'')"
    by (simp add: compatible_key_def example_key_def example_env_def)
  ultimately show ?thesis
    using assms by (simp add: resolve_key_def example_header example_trusted keys_for_def keys_locked_def
        store_keys_def example_fetch_keys)
qed

section \<open>Token verification\<close>

text \<open>C3: Every token the generic verifier accepts was signed for a trusted key: the metadata is that of
  the configured issuer with a JWKS URI inside the trust boundary, the key is bound to the token's
  header and to that JWKS, and PyJWT decoded the token under it with the fixed algorithms, audience,
  issuer, leeway and required claims. The access token carries those claims, their scopes and this
  resource's audience. The cache invariant survives.\<close>

theorem accepted_generic_token:
  assumes "oidc_inv env (vs_ports st)"
    and "generic_verify (discovery_resolve env) (resolve_key env) jwt_decode R issuer audience token st =
      (Inr (Some tok), st')"
  shows "oidc_inv env (vs_ports st') \<and> issuer = np_issuer_url (e_policy env) \<and>
    (\<exists>(metadata :: oidc_metadata) key s claims.
       md_issuer metadata = issuer \<and>
       assert_jwks_uri_trusted (e_idna env) (e_policy env) (md_jwks_uri metadata) = Inr () \<and>
       key_bound env (md_jwks_uri metadata) token key \<and>
       jwt_decode s token key
         \<lparr>jo_algorithms = [''RS256'', ''ES256''], jo_audience = audience, jo_issuer = issuer, jo_leeway = 60,
          jo_require = [''exp'', ''iat'', ''iss'', ''aud'', ''sub'']\<rparr> = Inr claims \<and>
       at_token tok = token \<and> at_claims tok = Some claims \<and> at_scopes tok = scopes_from_claims claims \<and>
       at_resource tok = Some audience)"
proof -
  obtain claims where d: "oidc.decoded env jwt_decode issuer audience token claims"
    "access_token_of R audience token claims = Inr tok"
    using oidc.generic_verify_cases(2) [OF assms(1,2)] by blast
  from d(1) obtain metadata key s where m: "trusted_metadata env metadata" "md_issuer metadata = issuer"
    "key_bound env (md_jwks_uri metadata) token key"
    "jwt_decode s token key (decode_options audience metadata) = Inr claims"
    by (auto simp: oidc.decoded_def)
  then have "issuer = np_issuer_url (e_policy env)"
    "assert_jwks_uri_trusted (e_idna env) (e_policy env) (md_jwks_uri metadata) = Inr ()"
    by (auto simp: trusted_metadata_def)
  moreover have "jwt_decode s token key
      \<lparr>jo_algorithms = [''RS256'', ''ES256''], jo_audience = audience, jo_issuer = issuer, jo_leeway = 60,
       jo_require = [''exp'', ''iat'', ''iss'', ''aud'', ''sub'']\<rparr> = Inr claims"
    using m(4) by (simp add: decode_options_def m(2))
  moreover note oidc.generic_verify_cases(1) [OF assms] access_token_of_Inr(1-4) [OF d(2)] m(2,3)
  ultimately show ?thesis by blast
qed

lemma empty_state_inv [simp]: "oidc_inv env empty_state"
  by (simp add: oidc_inv_def metadata_inv_def keys_ok_def empty_state_def)

definition example_verifier_state :: "unit oidc_state verifier_state" where
  "example_verifier_state = \<lparr>vs_ports = empty_state, vs_rejections = []\<rparr>"

definition example_access_token :: access_token where
  "example_access_token =
     \<lparr>at_token = ''t'', at_client_id = ''client'', at_scopes = [''read''], at_expires_at = Some 100,
      at_resource = Some ''api'', at_subject = Some ''user'', at_claims = Some example_claims\<rparr>"

lemma example_access_token: "access_token_of R ''api'' ''t'' example_claims = Inr example_access_token"
proof -
  have "py_split ''read'' = [''read'']" by code_simp
  then show ?thesis
    by (simp add: access_token_of_def client_claim_def example_claims_def int_claim_def claim_at_def
        scopes_from_claims_def sorted_set_def example_access_token_def)
qed

lemma example_verified:
  "fst (generic_verify (discovery_resolve example_env) (resolve_key example_env) example_decode R
     ''https://8.8.8.8/'' ''api'' ''t'' example_verifier_state) = Inr (Some example_access_token)"
proof -
  have "os_keys (empty_state\<lparr>os_metadata := m\<rparr>) = Map.empty" for m by (simp add: empty_state_def)
  then show ?thesis
    by (simp add: generic_verify_def example_verifier_state_def example_discovery example_resolve_key
        example_decode_def example_access_token)
qed

theorem accepted_generic_token_witness:
  "at_scopes example_access_token = scopes_from_claims example_claims \<and> at_resource example_access_token = Some ''api''"
proof -
  obtain st' where r: "generic_verify (discovery_resolve example_env) (resolve_key example_env) example_decode (\<lambda>v. [])
      ''https://8.8.8.8/'' ''api'' ''t'' example_verifier_state = (Inr (Some example_access_token), st')"
    using example_verified [of "\<lambda>v. []"] by (metis prod.collapse)
  have "oidc_inv example_env (vs_ports example_verifier_state)" by (simp add: example_verifier_state_def)
  from accepted_generic_token [OF this r] show ?thesis
    by (auto simp: example_access_token_def example_decode_def split: if_splits)
qed

text \<open>C4: The Entra verifier accepts only what the generic verifier accepts for the tenant's own issuer,
  whose \<open>tid\<close> claim is the configured tenant; nothing but the scopes is changed, each of them
  qualified under this API.\<close>

theorem accepted_entra_token:
  assumes "oidc_inv env (vs_ports st)"
    and "entra_verify (discovery_resolve env) (resolve_key env) jwt_decode R tenant audience uri token st =
      (Inr (Some tok), st')"
  shows "oidc_inv env (vs_ports st') \<and>
    (\<exists>inner. generic_verify (discovery_resolve env) (resolve_key env) jwt_decode R
         (''https://login.microsoftonline.com/'' @ tenant @ ''/v2.0'') audience token st = (Inr (Some inner), st') \<and>
       py_get (claims_of inner) ''tid'' = PStr tenant \<and>
       tok = inner\<lparr>at_scopes := qualify_scopes (at_scopes inner) uri\<rparr>)"
  using assms(2) entra_verifier.verify_inv [OF assms]
  by (auto simp: entra_verify_def entra_issuer_def split: prod.splits sum.splits option.splits if_splits)

definition example_tenant :: string where
  "example_tenant = ''00000000-0000-0000-0000-000000000001''"

definition entra_env :: "(unit, string) oidc_env" where
  "entra_env = example_env\<lparr>e_policy := example_policy\<lparr>np_issuer_url := entra_issuer example_tenant\<rparr>\<rparr>"

definition entra_state :: "unit oidc_state verifier_state" where
  "entra_state =
     \<lparr>vs_ports = \<lparr>os_metadata = [entra_issuer example_tenant \<mapsto>
          \<lparr>md_issuer = entra_issuer example_tenant, md_jwks_uri = ''https://8.8.8.8/jwks''\<rparr>],
        os_keys = [''https://8.8.8.8/jwks'' \<mapsto> [(''1'', example_key)]], os_last_forced = Map.empty, os_env = ()\<rparr>,
      vs_rejections = []\<rparr>"

lemma entra_env_trusts: "assert_jwks_uri_trusted (e_idna entra_env) (e_policy entra_env) ''https://8.8.8.8/jwks'' = Inr ()"
  by (simp add: assert_jwks_uri_trusted_def example_urls origin_of_def example_policy_def entra_env_def example_env_def)

lemma entra_state_inv: "oidc_inv entra_env (vs_ports entra_state)"
  using entra_env_trusts
  by (auto simp: oidc_inv_def metadata_inv_def keys_ok_def entra_state_def trusted_metadata_def index_ok_def
      index_entry_ok_def example_key_def usable_for_signatures_def max_kid_length_def)
    (simp add: entra_env_def)

lemma entra_verified:
  "entra_verify (discovery_resolve entra_env) (resolve_key entra_env) example_decode R example_tenant ''api'' ''api://app''
     ''t'' entra_state = (Inr (Some (example_access_token\<lparr>at_scopes := [''api://app/read'']\<rparr>)), entra_state)"
proof -
  have d: "discovery_resolve entra_env (entra_issuer example_tenant) (vs_ports entra_state) =
      (Inr \<lparr>md_issuer = entra_issuer example_tenant, md_jwks_uri = ''https://8.8.8.8/jwks''\<rparr>, vs_ports entra_state)"
    by (simp add: discovery_resolve_def cached_metadata_def entra_env_def example_env_def entra_state_def)
  have k: "resolve_key entra_env ''https://8.8.8.8/jwks'' ''t'' (vs_ports entra_state) = (Inr ''key'', vs_ports entra_state)"
    using example_header [of "''t''"] entra_env_trusts
    by (simp add: resolve_key_def header_binding_def keys_for_def cached_keys_def compatible_key_def
        example_key_def entra_env_def example_env_def entra_state_def)
  have q: "qualify_scopes [''read''] ''api://app'' = [''api://app/read'']" by code_simp
  show ?thesis
    by (simp add: entra_verify_def generic_verify_def d k example_decode_def example_access_token)
      (simp add: example_access_token_def claims_of_def example_claims_def example_tenant_def q)
qed

theorem accepted_entra_token_witness:
  "oidc_inv entra_env (vs_ports entra_state)"
  using accepted_entra_token [OF entra_state_inv entra_verified [of "\<lambda>v. []"]] by blast

section \<open>Signing keys\<close>

text \<open>C8: A resolved signing key is the one the token's header names: its JWKS URI is trusted, the header's
  algorithm is one of the two accepted, the JWKS entry has the header's \<open>kid\<close>, may verify
  signatures, advertises no other algorithm and has the key type of the algorithm.\<close>

theorem signing_key_bound:
  assumes "oidc_inv env st" and "resolve_key env uri token st = (Inr k, st')"
  shows "assert_jwks_uri_trusted (e_idna env) (e_policy env) uri = Inr () \<and>
    (\<exists>header kid algorithm raw.
       e_unverified_header env token = Inr header \<and> py_get header ''kid'' = PStr kid \<and>
       py_get header ''alg'' = PStr algorithm \<and> algorithm \<in> {''RS256'', ''ES256''} \<and>
       py_get raw ''kid'' = PStr kid \<and> kid \<noteq> [] \<and> length kid \<le> 256 \<and> usable_for_signatures raw \<and>
       (py_get raw ''alg'' = PNone \<or> py_get raw ''alg'' = PStr algorithm) \<and>
       py_get raw ''kty'' = PStr (if algorithm = ''RS256'' then ''RSA'' else ''EC'') \<and>
       e_pyjwk_from_dict env raw algorithm = Inr k)"
proof -
  from assms have "key_bound env uri token k" by (rule jwks.resolve_key_bound)
  then obtain kid algorithm raw where b: "header_binding env token = Inr (kid, algorithm)"
    "assert_jwks_uri_trusted (e_idna env) (e_policy env) uri = Inr ()" "index_entry_ok kid raw"
    "py_get raw ''alg'' = PNone \<or> py_get raw ''alg'' = PStr algorithm"
    "py_get raw ''kty'' = PStr (if algorithm = ''RS256'' then ''RSA'' else ''EC'')"
    "e_pyjwk_from_dict env raw algorithm = Inr k"
    by (auto simp: key_bound_def)
  from b(1) obtain header where "e_unverified_header env token = Inr header" "py_get header ''kid'' = PStr kid"
    "py_get header ''alg'' = PStr algorithm" "algorithm \<in> {''RS256'', ''ES256''}"
    by (auto simp: header_binding_def accepted_algorithms_def split: sum.splits exn.splits if_splits option.splits)
  then show ?thesis using b unfolding index_entry_ok_def max_kid_length_def by blast
qed

theorem signing_key_bound_witness:
  "assert_jwks_uri_trusted no_idna example_policy ''https://8.8.8.8/jwks'' = Inr ()"
proof -
  have "os_keys empty_state = Map.empty" by (simp add: empty_state_def)
  from signing_key_bound [OF empty_state_inv example_resolve_key [OF this]] show ?thesis
    by (simp add: example_env_def)
qed

text \<open>C21: The indexing loop, with its two accumulators, computes a closed form: a key set whose bounded
  \<open>kid\<close> values are distinct yields its usable keys in order under their own \<open>kid\<close>, and one that repeats
  a \<open>kid\<close>, even on an unusable key, is refused as a whole.\<close>

theorem index_keys_closed_form:
  "index_keys raws [] [] =
     (if distinct (kids_of raws) then Inr (usable_entries raws) else Inl OidcDocumentError)"
  by (simp add: index_keys_closed)

text \<open>C22: Unknown key ids cannot be used to flood the JWKS endpoint: after a forced refresh of a cached
  document, a further one within the cooldown answers from the cache and changes nothing, whatever
  happened to the caches in between.\<close>

theorem refresh_cooldown:
  assumes "cached_keys env uri st = Some keys" and "\<not> in_cooldown env uri st"
    and "keys_locked env uri True st = (r, st1)"
    and "os_last_forced st2 uri = os_last_forced st1 uri" and "cached_keys env uri st2 = Some keys2"
    and "e_now env (os_env st2) - e_now env (os_env st) < e_refresh_cooldown env"
  shows "keys_locked env uri True st2 = (Inr keys2, st2)"
proof (rule keys_locked_cooldown [OF assms(5)])
  have "os_last_forced st1 uri = Some (e_now env (os_env st))"
    using keys_locked_starts_cooldown [OF assms(1-3)] .
  then show "in_cooldown env uri st2" using assms(4,6) by (simp add: in_cooldown_def)
qed

theorem refresh_cooldown_witness:
  "keys_locked entra_env ''https://8.8.8.8/jwks'' True
     ((vs_ports entra_state)\<lparr>os_last_forced := [''https://8.8.8.8/jwks'' \<mapsto> 0]\<rparr>) =
   (Inr [(''1'', example_key)], (vs_ports entra_state)\<lparr>os_last_forced := [''https://8.8.8.8/jwks'' \<mapsto> 0]\<rparr>)"
proof -
  let ?u = "''https://8.8.8.8/jwks''"
  let ?st = "vs_ports entra_state" and ?st2 = "(vs_ports entra_state)\<lparr>os_last_forced := [''https://8.8.8.8/jwks'' \<mapsto> 0]\<rparr>"
  have c: "cached_keys entra_env ?u ?st = Some [(''1'', example_key)]"
    "cached_keys entra_env ?u ?st2 = Some [(''1'', example_key)]"
    "\<not> in_cooldown entra_env ?u ?st"
    by (simp_all add: cached_keys_def in_cooldown_def entra_env_def example_env_def entra_state_def)
  obtain r st1 where k: "keys_locked entra_env ?u True ?st = (r, st1)" by fastforce
  have "os_last_forced ?st2 ?u = os_last_forced st1 ?u"
    using keys_locked_starts_cooldown [OF c(1,3) k] by (simp add: entra_env_def example_env_def)
  moreover have "e_now entra_env (os_env ?st2) - e_now entra_env (os_env ?st) < e_refresh_cooldown entra_env"
    by (simp add: entra_env_def example_env_def)
  ultimately show ?thesis using refresh_cooldown [OF c(1,3) k _ c(2)] by blast
qed

section \<open>Documents and metadata\<close>

text \<open>C20: A document is accepted exactly when it is nonempty, within the size limit and parses to an
  object none of whose objects, at any depth, repeats a member name; the accepted value is the parse
  tree itself.\<close>

theorem json_without_duplicates:
  "(parse_json_object loads content limit = Inr d) =
     (content \<noteq> [] \<and> int (length content) \<le> limit \<and> loads content = Inr (PDict d) \<and> distinct_keys (PDict d))"
  by (rule parse_json_object_Inr)

text \<open>C12: Metadata is returned for the configured issuer only; its issuer is that issuer, its JWKS URI
  lies on a trusted origin, and the metadata cache keeps holding trusted metadata only, whatever the
  concurrent requests for the lock do.\<close>

theorem discovery_trusted:
  assumes "metadata_inv env st" and "discovery_resolve env issuer st = (Inr m, st')"
  shows "metadata_inv env st' \<and> issuer = np_issuer_url (e_policy env) \<and> md_issuer m = issuer \<and>
    (\<exists>scheme host port h. parse_url (e_idna env) (md_jwks_uri m) = Inr (scheme, host, port) \<and>
       normalize_host (e_idna env) host = Inr h \<and> (scheme, h, port) \<in> set (np_trusted_origins (e_policy env)))"
proof -
  note t = discovery_resolve_trusted [OF assms]
  then have "assert_jwks_uri_trusted (e_idna env) (e_policy env) (md_jwks_uri m) = Inr ()"
    by (simp add: trusted_metadata_def)
  then have "\<exists>scheme host port h. parse_url (e_idna env) (md_jwks_uri m) = Inr (scheme, host, port) \<and>
       normalize_host (e_idna env) host = Inr h \<and> (scheme, h, port) \<in> set (np_trusted_origins (e_policy env))"
    by (auto simp: assert_jwks_uri_trusted_def origin_of_def rbind_Inr_iff split: sum.splits if_splits)
  then show ?thesis using t by (simp add: trusted_metadata_def)
qed

theorem discovery_trusted_witness:
  "metadata_inv example_env empty_state \<and>
   (\<exists>scheme host port. parse_url (e_idna example_env) ''https://8.8.8.8/jwks'' = Inr (scheme, host, port))"
proof -
  have i: "metadata_inv example_env empty_state" by (simp add: metadata_inv_def empty_state_def)
  from discovery_trusted [OF i example_discovery] i show ?thesis by auto
qed

section \<open>The outbound boundary\<close>

text \<open>C9: Handling a request adds at most one request to the wire. That request is a GET for the same URL,
  without credential headers, asking for an identity encoding. It is bound to the scheme, host and port
  that URL parses to: the Host header is that host (with the port where it is not the default), under
  https the TLS server name is that host, and the connection goes to the literal address of the URL or
  to the first answer the resolver gave for that host and port, all of whose answers the policy admits
  for the scheme. The URL is the discovery URL or lies on a trusted JWKS origin.\<close>

theorem outbound_request_pinned:
  assumes "handle_request idna (policy_resolve idna resolver pol) (response_limit_for idna pol) timeout max_hosts
      network others req st = (res, st')"
  shows "ts_wire st' = ts_wire st \<or>
    (\<exists>child wr scheme host port answers header. ts_wire st' = ts_wire st @ [(child, wr)] \<and>
       wr_method wr = ''GET'' \<and> wr_url wr = rq_url req \<and> wr_headers wr ''authorization'' = None \<and>
       wr_headers wr ''proxy-authorization'' = None \<and> wr_headers wr ''accept-encoding'' = Some ''identity'' \<and>
       parse_url idna (rq_url req) = Inr (scheme, host, port) \<and>
       render_host_header host port scheme = Inr header \<and> wr_headers wr ''host'' = Some header \<and>
       wr_sni wr = (if scheme = ''https'' then Some host else None) \<and>
       (case ip_address host of Some literal \<Rightarrow> answers = [literal]
        | None \<Rightarrow> fst (resolver host port (ts_env st)) = Inr answers) \<and>
       answers \<noteq> [] \<and> wr_connect wr = hd answers \<and> (\<forall>a \<in> set answers. address_admitted pol scheme a) \<and>
       (rq_url req = np_discovery_url pol \<or>
        (\<exists>h. normalize_host idna host = Inr h \<and> (scheme, h, port) \<in> set (np_trusted_origins pol))))"
  using handle_request_pinned [OF assms] unfolding pinned_wire_def by blast

definition example_network :: "unit child_send" where
  "example_network child wire w =
     (Inr \<lparr>hr_status = 200, hr_headers = [''content-length'' \<mapsto> ''3''], hr_chunks = [''ab'', ''c''], hr_fault = None\<rparr>, w)"

definition example_request :: oidc_request where
  "example_request =
     \<lparr>rq_method = ''GET'', rq_url = ''https://8.8.8.8/.well-known/openid-configuration'', rq_headers = Map.empty\<rparr>"

definition idle_transport :: "unit transport_state" where
  "idle_transport = \<lparr>ts_children = [], ts_created = 0, ts_audit = [], ts_closed = 0, ts_wire = [], ts_env = ()\<rparr>"

definition no_resolver :: "unit resolver" where
  "no_resolver host port w = (Inr [], w)"

lemma example_resolved:
  "policy_resolve no_idna no_resolver example_policy (rq_url example_request) () =
     (Inr \<lparr>rt_scheme = ''https'', rt_host = ''8.8.8.8'', rt_port = 443, rt_ip = IPv4 0x08080808, rt_kind = Discovery\<rparr>, ())"
  using example_urls
  by (simp add: policy_resolve_def request_kind_def example_request_def choose_target_def example_policy_def)

definition example_wire :: wire_request where
  "example_wire =
     \<lparr>wr_method = ''GET'', wr_url = ''https://8.8.8.8/.well-known/openid-configuration'', wr_connect = IPv4 0x08080808,
      wr_headers = [''host'' \<mapsto> ''8.8.8.8'', ''accept-encoding'' \<mapsto> ''identity''], wr_timeout = 5,
      wr_sni = Some ''8.8.8.8''\<rparr>"

definition example_result :: http_response where
  "example_result =
     \<lparr>hr_status = 200, hr_headers = [''content-length'' \<mapsto> ''3''], hr_chunks = [''ab'', ''c''], hr_fault = None\<rparr>"

lemma example_wire_built:
  "rq_method example_request = ''GET''" "\<not> has_credentials example_request"
  "render_host_header ''8.8.8.8'' 443 ''https'' = Inr ''8.8.8.8''"
  "wire_request_of 5 example_request \<lparr>rt_scheme = ''https'', rt_host = ''8.8.8.8'', rt_port = 443,
     rt_ip = IPv4 0x08080808, rt_kind = Discovery\<rparr> ''8.8.8.8'' = example_wire"
  by (simp_all add: example_request_def has_credentials_def render_host_header_def default_port_def example_urls
      wire_request_of_def example_wire_def)

lemma example_limits: "response_limit_for no_idna example_policy (rq_url example_request) = Inr 65536"
  by (simp add: response_limit_for_def request_kind_def example_request_def example_policy_def)

lemma example_headers:
  "check_content_length 65536 \<lparr>hr_status = n, hr_headers = [''content-length'' \<mapsto> ''3''], hr_chunks = cs, hr_fault = f\<rparr> = Inr ()"
  "content_encoding_of \<lparr>hr_status = n, hr_headers = [''content-length'' \<mapsto> ''3''], hr_chunks = cs, hr_fault = f\<rparr> = ''identity''"
proof -
  have "py_int ''3'' = Some 3" by (simp add: py_int_def py_strip_def py_lstrip_by_def py_rstrip_by_def
        py_isspace_def ord_of_def digit_groups_def split_on_def is_digit_def nat_of_digits_def)
  moreover have "py_strip (py_lower ''identity'') = ''identity''" by code_simp
  ultimately show
    "check_content_length 65536 \<lparr>hr_status = n, hr_headers = [''content-length'' \<mapsto> ''3''], hr_chunks = cs, hr_fault = f\<rparr> = Inr ()"
    "content_encoding_of \<lparr>hr_status = n, hr_headers = [''content-length'' \<mapsto> ''3''], hr_chunks = cs, hr_fault = f\<rparr> = ''identity''"
    by (simp_all add: check_content_length_def content_encoding_of_def ensure_def)
qed

lemma example_handled:
  "handle_request no_idna (policy_resolve no_idna no_resolver example_policy)
     (response_limit_for no_idna example_policy) 5 8 example_network [] example_request idle_transport =
   (Inr example_result,
    idle_transport\<lparr>ts_children := [((''https'', ''8.8.8.8'', 443), 0)], ts_created := 1, ts_wire := [(0, example_wire)]\<rparr>)"
  using example_resolved example_urls(4) example_wire_built example_limits example_headers
  by (simp add: handle_request_def idle_transport_def set_env_def transport_for_def origin_of_def locked_child_def
      Let_def example_network_def receive_response_def bounded_response_def example_result_def)

theorem outbound_request_pinned_witness:
  "parse_url no_idna (rq_url example_request) = Inr (''https'', ''8.8.8.8'', 443) \<and>
   wr_headers example_wire ''host'' = Some ''8.8.8.8'' \<and> wr_sni example_wire = Some ''8.8.8.8'' \<and>
   wr_connect example_wire = IPv4 0x08080808 \<and> address_admitted example_policy ''https'' (IPv4 0x08080808) \<and>
   ts_wire (snd (handle_request no_idna (policy_resolve no_idna no_resolver example_policy)
     (response_limit_for no_idna example_policy) 5 8 example_network [] example_request idle_transport)) =
     [(0, example_wire)]"
proof -
  have p: "parse_url no_idna (rq_url example_request) = Inr (''https'', ''8.8.8.8'', 443)"
    using example_urls(2) by (simp add: example_request_def)
  have "wr_headers example_wire ''host'' = Some ''8.8.8.8''" "wr_sni example_wire = Some ''8.8.8.8''"
    "wr_connect example_wire = IPv4 0x08080808" "address_admitted example_policy ''https'' (IPv4 0x08080808)"
    using outbound_request_pinned [OF example_handled] unfolding p
    by (auto simp: idle_transport_def example_urls example_wire_built(3))
  then show ?thesis using p by (simp add: example_handled)
qed

text \<open>C19: Handling requests never opens more pools than the host budget, never two for one origin, and
  never lets two origins share one, whichever tasks get the lock in between.\<close>

theorem host_budget:
  assumes "pool_inv max_hosts st"
  shows "pool_inv max_hosts
      (snd (handle_request idna resolve limit_for timeout max_hosts network others req st)) \<and>
    length (ts_children (snd (handle_request idna resolve limit_for timeout max_hosts network others req st))) \<le> max_hosts"
  using handle_request_inv [OF assms] by (simp add: pool_inv_def)

theorem host_budget_witness:
  "length (ts_children (snd (handle_request no_idna (policy_resolve no_idna no_resolver example_policy)
     (response_limit_for no_idna example_policy) 5 8 example_network [(''https'', ''a'', 443)] example_request
     idle_transport))) \<le> 8"
proof -
  have "pool_inv 8 idle_transport" by (simp add: pool_inv_def idle_transport_def)
  from host_budget [OF this] show ?thesis by blast
qed

text \<open>The URL fetched for discovery is derived from the issuer by text, not by parsing; still, whenever
  it parses, its scheme, normalised host and port are those of the issuer the policy was built for.\<close>

theorem discovery_url_on_issuer_origin:
  assumes "make_network_policy idna issuer loopback allowed dns http dmax jmax = Inr pol"
    and "parse_url idna (np_discovery_url pol) = Inr (scheme, host, port)"
  shows "origin_of idna scheme host port = Inr (np_issuer_origin pol)"
  using assms by (rule discovery_url_origin)

theorem discovery_url_on_issuer_origin_witness:
  "origin_of no_idna ''https'' ''8.8.8.8'' 443 = Inr (''https'', ''8.8.8.8'', 443)"
proof -
  have "make_network_policy no_idna ''https://8.8.8.8/'' False [] 2 5 65536 524288 = Inr example_policy"
    using example_urls(1,4)
    by (simp add: make_network_policy_def example_policy_def origin_of_def discovery_suffix_def)
      (simp add: url_eval py_rstrip_char_def py_rstrip_by_def origin_of_def discovery_suffix_def)
  moreover have "parse_url no_idna (np_discovery_url example_policy) = Inr (''https'', ''8.8.8.8'', 443)"
    using example_urls(2) by (simp add: example_policy_def)
  ultimately show ?thesis
    using discovery_url_on_issuer_origin by (fastforce simp: example_policy_def)
qed

end
