(* ===== verification/Python_Uuid.thy ===== *)
theory Python_Uuid
  imports Python_Url
begin

text \<open>
  \<open>str.replace\<close>, \<open>int(s, 16)\<close>, and the canonical text of a \<open>uuid.UUID\<close> read from a string, as
  Python's standard library defines them.
\<close>

function py_replace :: "string \<Rightarrow> string \<Rightarrow> string \<Rightarrow> string" where
  "py_replace [] old new = []"
| "py_replace (c # cs) old new =
     (if old \<noteq> [] \<and> startswith (c # cs) old
      then new @ py_replace (drop (length old) (c # cs)) old new
      else c # py_replace cs old new)"
  by pat_completeness auto

termination by (relation "measure (\<lambda>(s, old, new). length s)") auto

lemma py_replace_absent: "old \<noteq> [] \<Longrightarrow> hd old \<notin> set s \<Longrightarrow> py_replace s old new = s"
proof (induction s)
  case (Cons c cs)
  then have "\<not> startswith (c # cs) old" by (cases old) (auto simp: startswith_def)
  with Cons show ?case by simp
qed simp

definition remove_char :: "char \<Rightarrow> string \<Rightarrow> string" where
  "remove_char c s = filter (\<lambda>x. x \<noteq> c) s"

definition hex_groups :: "string \<Rightarrow> nat option" where
  "hex_groups s =
     (let gs = split_on CHR ''_'' s
      in if list_all (\<lambda>g. g \<noteq> [] \<and> list_all (\<lambda>c. hex_value c \<noteq> None) g) gs
         then Some (foldl (\<lambda>n c. 16 * n + the (hex_value c)) 0 (concat gs)) else None)"

text \<open>An optional \<open>0x\<close> prefix, which one underscore may follow.\<close>

definition after_hex_prefix :: "string \<Rightarrow> string" where
  "after_hex_prefix s =
     (if startswith s ''0x'' \<or> startswith s ''0X''
      then (case drop 2 s of [] \<Rightarrow> [] | c # cs \<Rightarrow> if c = CHR ''_'' then cs else c # cs)
      else s)"

definition py_int16 :: "string \<Rightarrow> int option" where
  "py_int16 s =
     (case py_strip s of
        [] \<Rightarrow> None
      | c # cs \<Rightarrow>
          if c = CHR ''-'' then map_option (\<lambda>n. - int n) (hex_groups (after_hex_prefix cs))
          else if c = CHR ''+'' then map_option int (hex_groups (after_hex_prefix cs))
          else map_option int (hex_groups (after_hex_prefix (c # cs))))"

definition hex_char :: "nat \<Rightarrow> char" where
  "hex_char n = (if n < 10 then char_of (48 + n) else char_of (87 + n))"

fun hex_fixed :: "nat \<Rightarrow> nat \<Rightarrow> string" where
  "hex_fixed 0 n = []"
| "hex_fixed (Suc k) n = hex_fixed k (n div 16) @ [hex_char (n mod 16)]"

definition uuid_text :: "nat \<Rightarrow> string" where
  "uuid_text n =
     (let h = hex_fixed 32 n
      in take 8 h @ ''-'' @ take 4 (drop 8 h) @ ''-'' @ take 4 (drop 12 h) @ ''-'' @ take 4 (drop 16 h)
         @ ''-'' @ drop 20 h)"

definition uuid_digits :: "string \<Rightarrow> string" where
  "uuid_digits s =
     (let t = py_replace (py_replace s ''urn:'' []) ''uuid:'' [];
          brace = (\<lambda>c. c = CHR ''{'' \<or> c = CHR ''}'')
      in remove_char CHR ''-'' (py_rstrip_by brace (py_lstrip_by brace t)))"

text \<open>\<open>str(UUID(s))\<close>; None for \<open>ValueError\<close>.\<close>

definition uuid_canonical :: "string \<Rightarrow> string option" where
  "uuid_canonical s =
     (let h = uuid_digits s
      in if length h \<noteq> 32 then None
         else (case py_int16 h of
                 None \<Rightarrow> None
               | Some i \<Rightarrow> if 0 \<le> i \<and> i < 2 ^ 128 then Some (uuid_text (nat i)) else None))"

section \<open>A canonical text is read back unchanged\<close>

definition hex_chars :: string where
  "hex_chars = ''0123456789abcdef''"

lemma hex_char_cases: "n < 16 \<Longrightarrow> hex_char n \<in> set hex_chars \<and> hex_value (hex_char n) = Some n"
proof -
  assume "n < 16"
  then have "n \<in> {0, 1, 2, 3, 4, 5, 6, 7, 8, 9, 10, 11, 12, 13, 14, 15}" by simp presburger
  then show ?thesis by (elim insertE emptyE; hypsubst; code_simp)
qed

lemma set_hex_fixed: "set (hex_fixed k n) \<subseteq> set hex_chars"
  by (induction k n rule: hex_fixed.induct) (auto simp: hex_char_cases)

lemma length_hex_fixed [simp]: "length (hex_fixed k n) = k"
  by (induction k n rule: hex_fixed.induct) auto

lemma hex_fixed_value: "foldl (\<lambda>n c. 16 * n + the (hex_value c)) 0 (hex_fixed k n) = n mod 16 ^ k"
proof (induction k n rule: hex_fixed.induct)
  case (2 k n)
  have "16 * (n div 16 mod 16 ^ k) + n mod 16 = n mod 16 ^ Suc k"
    by (simp add: mod_mult2_eq)
  with 2 show ?case using hex_char_cases [of "n mod 16"] by simp
qed simp

lemma hex_chars_facts:
  "c \<in> set hex_chars \<Longrightarrow>
   c \<noteq> CHR ''-'' \<and> c \<noteq> CHR ''+'' \<and> c \<noteq> CHR ''_'' \<and> c \<noteq> CHR ''x'' \<and> c \<noteq> CHR ''X'' \<and> c \<noteq> CHR ''{'' \<and> c \<noteq> CHR ''}'' \<and>
   c \<noteq> CHR ''u'' \<and> c \<noteq> CHR ''/'' \<and> \<not> py_isspace c \<and> hex_value c \<noteq> None"
  by (auto simp: hex_chars_def py_isspace_def hex_value_def ord_of_def Let_def)

lemma strip_by_id: "(\<And>c. c \<in> set s \<Longrightarrow> \<not> P c) \<Longrightarrow> py_rstrip_by P (py_lstrip_by P s) = s"
proof -
  assume h: "\<And>c. c \<in> set s \<Longrightarrow> \<not> P c"
  then have "dropWhile P s = s" by (cases s) auto
  moreover from h have "dropWhile P (rev s) = rev s"
    by (cases "s = []") (simp_all add: dropWhile_eq_self_iff hd_rev)
  ultimately show ?thesis by (simp add: py_rstrip_by_def py_lstrip_by_def)
qed

lemma uuid_text_chars: "set (uuid_text n) \<subseteq> insert CHR ''-'' (set hex_chars)"
  using set_hex_fixed [of 32 n] by (auto simp: uuid_text_def Let_def dest!: in_set_takeD in_set_dropD)

lemma chunks_append: "take 8 h @ take 4 (drop 8 h) @ take 4 (drop 12 h) @ take 4 (drop 16 h) @ drop 20 h = h"
proof -
  have "take 4 (drop 16 h) @ drop 20 h = drop 16 h" using append_take_drop_id [of 4 "drop 16 h"] by simp
  moreover have "take 4 (drop 12 h) @ drop 16 h = drop 12 h" using append_take_drop_id [of 4 "drop 12 h"] by simp
  moreover have "take 4 (drop 8 h) @ drop 12 h = drop 8 h" using append_take_drop_id [of 4 "drop 8 h"] by simp
  ultimately show ?thesis by simp
qed

lemma remove_dashes_uuid_text: "remove_char CHR ''-'' (uuid_text n) = hex_fixed 32 n"
proof -
  let ?h = "hex_fixed 32 n"
  have id: "filter (\<lambda>x. x \<noteq> CHR ''-'') t = t" if "set t \<subseteq> set ?h" for t
    using that set_hex_fixed [of 32 n] hex_chars_facts by (auto simp: filter_id_conv)
  have "remove_char CHR ''-'' (uuid_text n) =
      take 8 ?h @ take 4 (drop 8 ?h) @ take 4 (drop 12 ?h) @ take 4 (drop 16 ?h) @ drop 20 ?h"
    unfolding remove_char_def uuid_text_def Let_def filter_append
    by (simp add: id set_take_subset set_drop_subset subset_trans [OF set_take_subset set_drop_subset])
  also have "\<dots> = ?h"
    by (rule chunks_append)
  finally show ?thesis .
qed

lemma uuid_digits_uuid_text: "uuid_digits (uuid_text n) = hex_fixed 32 n"
proof -
  have c: "c \<in> set (uuid_text n) \<Longrightarrow> c \<noteq> CHR ''u'' \<and> c \<noteq> CHR ''{'' \<and> c \<noteq> CHR ''}''" for c
    using uuid_text_chars [of n] hex_chars_facts [of c] by auto
  then have "CHR ''u'' \<notin> set (uuid_text n)" by blast
  then have "py_replace (py_replace (uuid_text n) ''urn:'' []) ''uuid:'' [] = uuid_text n"
    by (simp add: py_replace_absent)
  moreover have "py_rstrip_by (\<lambda>c. c = CHR ''{'' \<or> c = CHR ''}'')
      (py_lstrip_by (\<lambda>c. c = CHR ''{'' \<or> c = CHR ''}'') (uuid_text n)) = uuid_text n"
    by (rule strip_by_id) (use c in blast)
  ultimately show ?thesis
    by (simp only: uuid_digits_def Let_def remove_dashes_uuid_text)
qed

lemma py_int16_hex_fixed: "0 < k \<Longrightarrow> py_int16 (hex_fixed k n) = Some (int (n mod 16 ^ k))"
proof -
  assume k: "0 < k"
  let ?h = "hex_fixed k n"
  have c: "c \<in> set ?h \<Longrightarrow> c \<in> set hex_chars" for c using set_hex_fixed by blast
  have strip: "py_strip ?h = ?h"
    unfolding py_strip_def by (rule strip_by_id) (use c hex_chars_facts in blast)
  have ne: "?h \<noteq> []" using k by (auto dest: arg_cong [where f = length])
  obtain x xs where x: "?h = x # xs" using k by (cases ?h) (auto dest: arg_cong [where f = length])
  have "split_on CHR ''_'' ?h = [?h]"
    unfolding split_on_def by (rule split_by_id) (use c hex_chars_facts in blast)
  moreover have "list_all (\<lambda>c. hex_value c \<noteq> None) ?h"
    unfolding list_all_iff using c hex_chars_facts by blast
  ultimately have "hex_groups ?h = Some (n mod 16 ^ k)"
    using ne by (simp add: hex_groups_def hex_fixed_value)
  moreover have "after_hex_prefix ?h = ?h"
    using c hex_chars_facts [of "hd xs"] x by (cases xs) (simp_all add: after_hex_prefix_def startswith_def)
  moreover have "x \<noteq> CHR ''-''" "x \<noteq> CHR ''+''" using c [of x] hex_chars_facts [of x] x by auto
  ultimately show ?thesis using strip x by (simp add: py_int16_def)
qed

lemma uuid_canonical_form:
  assumes "uuid_canonical s = Some u"
  obtains n where "u = uuid_text n" "n < 2 ^ 128"
  using assms by (auto simp: uuid_canonical_def Let_def nat_less_iff split: if_splits option.splits)

lemma uuid_canonical_text:
  assumes "n < 2 ^ 128"
  shows "uuid_canonical (uuid_text n) = Some (uuid_text n)"
proof -
  have "n mod 16 ^ 32 = n" using assms by simp
  moreover have "int n < 2 ^ 128" using assms by (metis of_nat_less_iff of_nat_numeral of_nat_power)
  ultimately show ?thesis
    using py_int16_hex_fixed [of 32 n] by (simp add: uuid_canonical_def uuid_digits_uuid_text)
qed

lemma uuid_canonical_idem: "uuid_canonical s = Some u \<Longrightarrow> uuid_canonical u = Some u"
  by (elim uuid_canonical_form) (simp add: uuid_canonical_text)

lemma uuid_canonical_chars:
  "uuid_canonical s = Some u \<Longrightarrow> length u = 36 \<and> set u \<subseteq> insert CHR ''-'' (set hex_chars)"
  using uuid_text_chars by (elim uuid_canonical_form) (simp add: uuid_text_def Let_def)

end
