(* ===== verification/Settings.thy ===== *)
theory Settings
  imports Python_Uuid Mcp_Principal Tool_Authorization
begin

text \<open>
  \<open>entrypoints/settings.py\<close>: the process configuration and its validation. Reading the environment
  and coercing its strings to the declared types is pydantic's; the model starts from the typed
  values. \<open>resource_server_url\<close> is \<open>str()\<close> of the parsed URL. A \<open>ValueError\<close> of a validator is
  reported by pydantic as one \<open>value_error\<close> at the model's own (empty) location.
\<close>

datatype app_env = Development | Test | Staging | Production

record settings =
  service_name :: string
  app_env :: app_env
  runtime_host :: string
  runtime_port :: int
  runtime_workers :: int
  runtime_backlog :: int
  runtime_keep_alive_seconds :: int
  runtime_graceful_shutdown_seconds :: int
  resource_server_url :: string
  global_scopes :: "string list"
  oidc_allow_insecure_loopback :: bool
  transport_max_request_body_bytes :: int
  transport_max_header_count :: int
  transport_max_header_bytes :: int
  transport_max_concurrent_requests :: int
  transport_allowed_hosts :: "string list"
  transport_allowed_origins :: "string list"
  provider :: auth_provider
  entra_tenant_id :: "string option"
  entra_audience :: "string option"
  entra_application_id_uri :: "string option"
  generic_issuer_url :: "string option"
  generic_audience :: "string option"
  generic_jwks_allowed_origins :: "string list"

text \<open>\<open>if value\<close> on an optional string, and \<open>value or ""\<close>.\<close>

definition given :: "string option \<Rightarrow> bool" where
  "given v \<longleftrightarrow> v \<noteq> None \<and> v \<noteq> Some []"

definition or_empty :: "string option \<Rightarrow> string" where
  "or_empty v = (case v of None \<Rightarrow> [] | Some s \<Rightarrow> s)"

definition effective_required_scopes :: "settings \<Rightarrow> string list" where
  "effective_required_scopes st =
     (case entra_application_id_uri st of
        Some uri \<Rightarrow> if provider st = Entra \<and> uri \<noteq> [] then qualify_scopes (global_scopes st) uri
                    else global_scopes st
      | None \<Rightarrow> global_scopes st)"

section \<open>Field constraints\<close>

type_synonym issue = "string list \<times> string"

definition range_issue :: "string \<Rightarrow> int \<Rightarrow> int \<Rightarrow> int \<Rightarrow> issue list" where
  "range_issue name low high v =
     (if v < low then [([name], ''greater_than_equal'')]
      else if high < v then [([name], ''less_than_equal'')] else [])"

definition field_issues :: "settings \<Rightarrow> issue list" where
  "field_issues st =
     (if runtime_host st = [] then [([''runtime_host''], ''string_too_short'')]
      else if 253 < length (runtime_host st) then [([''runtime_host''], ''string_too_long'')] else [])
     @ range_issue ''runtime_port'' 1 65535 (runtime_port st)
     @ range_issue ''runtime_workers'' 1 32 (runtime_workers st)
     @ range_issue ''runtime_backlog'' 1 65535 (runtime_backlog st)
     @ range_issue ''runtime_keep_alive_seconds'' 1 120 (runtime_keep_alive_seconds st)
     @ range_issue ''runtime_graceful_shutdown_seconds'' 1 300 (runtime_graceful_shutdown_seconds st)
     @ range_issue ''transport_max_request_body_bytes'' 1024 (16 * 1024 * 1024) (transport_max_request_body_bytes st)
     @ range_issue ''transport_max_header_count'' 8 256 (transport_max_header_count st)
     @ range_issue ''transport_max_header_bytes'' 1024 (128 * 1024) (transport_max_header_bytes st)
     @ range_issue ''transport_max_concurrent_requests'' 1 1024 (transport_max_concurrent_requests st)"

section \<open>The model validator\<close>

text \<open>\<open>urlsplit\<close>, with its \<open>ValueError\<close>.\<close>

definition split_url :: "string \<Rightarrow> split_url result" where
  "split_url s = (case urlsplit s of None \<Rightarrow> Inl (ValueError ''urlsplit'') | Some u \<Rightarrow> Inr u)"

definition invisible :: "string \<Rightarrow> bool" where
  "invisible s \<longleftrightarrow> py_strip s \<noteq> s \<or> (\<exists>c \<in> set s. ord_of c < 33)"

definition validate_runtime_settings :: "settings \<Rightarrow> unit result" where
  "validate_runtime_settings st =
     ensure (\<not> invisible (runtime_host st))
       (ValueError ''runtime_host must be a non-empty visible string without whitespace'')"

definition has_credentials_part :: "split_url \<Rightarrow> bool" where
  "has_credentials_part u \<longleftrightarrow> url_username u \<noteq> None \<or> url_password u \<noteq> None"

definition validate_resource_server_url :: "settings \<Rightarrow> unit result" where
  "validate_resource_server_url st =
     rbind (split_url (resource_server_url st)) (\<lambda>parsed.
       if has_credentials_part parsed \<or> u_query parsed \<noteq> [] \<or> u_fragment parsed \<noteq> []
       then Inl (ValueError ''resource_server_url must not contain credentials, query, or fragment'')
       else if u_scheme parsed = ''https'' then Inr ()
       else (case url_hostname parsed of
               None \<Rightarrow> Inl (ValueError ''resource_server_url must use https'')
             | Some host \<Rightarrow>
                 if u_scheme parsed \<noteq> ''http''
                 then Inl (ValueError ''resource_server_url must use https'')
                 else (case ip_address host of
                         None \<Rightarrow> Inl (ValueError ''HTTP resource_server_url is allowed only for an IP-literal loopback host'')
                       | Some address \<Rightarrow>
                           ensure (is_loopback address)
                             (ValueError ''HTTP resource_server_url is allowed only for an IP-literal loopback host''))))"

definition visible_values :: "string \<Rightarrow> string list \<Rightarrow> unit result" where
  "visible_values field_name values =
     ensure (\<not> list_ex (\<lambda>v. v = [] \<or> invisible v \<or> CHR ''*'' \<in> set v) values)
       (ValueError (field_name @ '' entries must be non-empty exact visible strings''))"

definition check_allowed_host :: "string \<Rightarrow> unit result" where
  "check_allowed_host host =
     rbind (split_url (''//'' @ host)) (\<lambda>parsed.
       case url_port parsed of
         Inl e \<Rightarrow> Inl (ValueError ''transport_allowed_hosts contains an invalid port'')
       | Inr _ \<Rightarrow>
           ensure (\<not> (url_hostname parsed = None \<or> has_credentials_part parsed \<or> u_path parsed \<noteq> [] \<or>
                      u_query parsed \<noteq> [] \<or> u_fragment parsed \<noteq> [] \<or> endswith host '':''))
             (ValueError ''transport_allowed_hosts entries must be host[:port] values''))"

definition is_exact_origin :: "string list \<Rightarrow> split_url \<Rightarrow> bool" where
  "is_exact_origin schemes u \<longleftrightarrow>
     u_scheme u \<in> set schemes \<and> url_hostname u \<noteq> None \<and> \<not> has_credentials_part u \<and>
     u_path u = [] \<and> u_query u = [] \<and> u_fragment u = []"

definition check_allowed_origin :: "string \<Rightarrow> unit result" where
  "check_allowed_origin origin =
     rbind (split_url origin) (\<lambda>parsed.
       case url_port parsed of
         Inl e \<Rightarrow> Inl (ValueError ''transport_allowed_origins contains an invalid port'')
       | Inr _ \<Rightarrow>
           ensure (is_exact_origin [''http'', ''https''] parsed)
             (ValueError ''transport_allowed_origins entries must be exact http(s) origins''))"

definition validate_transport_allowlists :: "settings \<Rightarrow> unit result" where
  "validate_transport_allowlists st =
     rbind (visible_values ''transport_allowed_hosts'' (transport_allowed_hosts st)) (\<lambda>_.
     rbind (visible_values ''transport_allowed_origins'' (transport_allowed_origins st)) (\<lambda>_.
     rbind (checks (map check_allowed_host (transport_allowed_hosts st))) (\<lambda>_.
       checks (map check_allowed_origin (transport_allowed_origins st)))))"

definition is_placeholder_hostname :: "string option \<Rightarrow> bool" where
  "is_placeholder_hostname hostname =
     (case hostname of
        None \<Rightarrow> True
      | Some h \<Rightarrow>
          let normalized = py_lower (py_rstrip_char CHR ''.'' h)
          in normalized = ''localhost'' \<or>
             list_ex (endswith normalized) [''.localhost'', ''.invalid'', ''.test''] \<or>
             list_ex (\<lambda>suffix. normalized = suffix \<or> endswith normalized (CHR ''.'' # suffix))
               [''example.com'', ''example.net'', ''example.org''])"

definition zero_uuid :: string where
  "zero_uuid = ''00000000-0000-0000-0000-000000000000''"

definition check_production_origin :: "string \<Rightarrow> unit result" where
  "check_production_origin origin =
     rbind (split_url origin) (\<lambda>parsed.
       checks [ensure (u_scheme parsed = ''https'')
                 (ValueError ''production transport_allowed_origins must use HTTPS''),
               ensure (\<not> is_placeholder_hostname (url_hostname parsed))
                 (ValueError ''production transport_allowed_origins must not use placeholder hostnames'')])"

definition check_production_entra :: "settings \<Rightarrow> unit result" where
  "check_production_entra st =
     checks [ensure (entra_tenant_id st \<noteq> Some zero_uuid)
               (ValueError ''production entra_tenant_id must not use the all-zero placeholder''),
             ensure (\<not> list_ex (\<lambda>v. case v of None \<Rightarrow> False | Some s \<Rightarrow> contains (py_lower s) zero_uuid)
                       [entra_audience st, entra_application_id_uri st])
               (ValueError ''production Entra identifiers must not use all-zero placeholders'')]"

definition check_jwks_origin :: "string \<Rightarrow> unit result" where
  "check_jwks_origin origin =
     rbind (split_url origin) (\<lambda>parsed.
       case url_port parsed of
         Inl e \<Rightarrow> Inl (ValueError ''production generic_jwks_allowed_origins contains an invalid port'')
       | Inr _ \<Rightarrow>
           checks [ensure (is_exact_origin [''https''] parsed)
                     (ValueError ''production generic_jwks_allowed_origins entries must be exact HTTPS origins''),
                   ensure (\<not> is_placeholder_hostname (url_hostname parsed))
                     (ValueError ''production generic_jwks_allowed_origins must not use placeholder hostnames'')])"

definition check_production_generic :: "settings \<Rightarrow> unit result" where
  "check_production_generic st =
     rbind (split_url (or_empty (generic_issuer_url st))) (\<lambda>issuer.
     case url_port issuer of
       Inl e \<Rightarrow> Inl (ValueError ''production generic_issuer_url contains an invalid port'')
     | Inr _ \<Rightarrow>
         rbind (checks
           [ensure (u_scheme issuer = ''https'' \<and> url_hostname issuer \<noteq> None \<and> \<not> has_credentials_part issuer \<and>
                    u_query issuer = [] \<and> u_fragment issuer = [])
              (ValueError ''production generic_issuer_url must be an absolute HTTPS issuer without credentials, query, or fragment''),
            ensure (\<not> is_placeholder_hostname (url_hostname issuer))
              (ValueError ''production generic_issuer_url must not use a placeholder hostname'')]) (\<lambda>_.
         rbind (split_url (or_empty (generic_audience st))) (\<lambda>audience.
         rbind (ensure (\<not> (url_hostname audience \<noteq> None \<and> is_placeholder_hostname (url_hostname audience)))
                  (ValueError ''production generic_audience must not use a placeholder hostname'')) (\<lambda>_.
           checks (map check_jwks_origin (generic_jwks_allowed_origins st))))))"

definition validate_production_profile :: "settings \<Rightarrow> unit result" where
  "validate_production_profile st =
     (if app_env st \<noteq> Production then Inr ()
      else rbind (split_url (resource_server_url st)) (\<lambda>resource.
           rbind (checks
             [ensure (u_scheme resource = ''https'')
                (ValueError ''production requires an HTTPS resource_server_url''),
              ensure (\<not> is_placeholder_hostname (url_hostname resource))
                (ValueError ''production resource_server_url must not use a placeholder hostname''),
              ensure (\<not> oidc_allow_insecure_loopback st)
                (ValueError ''production forbids oidc_allow_insecure_loopback=true'')]) (\<lambda>_.
           rbind (checks (map check_production_origin (transport_allowed_origins st))) (\<lambda>_.
             if provider st = Entra then check_production_entra st else check_production_generic st))))"

definition canonical_tenant :: "settings \<Rightarrow> settings result" where
  "canonical_tenant st =
     (case entra_tenant_id st of
        None \<Rightarrow> Inr st
      | Some t \<Rightarrow>
          if provider st \<noteq> Entra \<or> t = [] then Inr st
          else (case uuid_canonical t of
                  None \<Rightarrow> Inl (ValueError ''entra_tenant_id must be a tenant-specific UUID, not an alias or path'')
                | Some u \<Rightarrow> Inr (st\<lparr>entra_tenant_id := Some u\<rparr>)))"

definition missing_fields :: "settings \<Rightarrow> string list" where
  "missing_fields st =
     map fst (filter (\<lambda>(name, value). \<not> given value)
       (if provider st = Entra
        then [(''entra_tenant_id'', entra_tenant_id st), (''entra_audience'', entra_audience st),
              (''entra_application_id_uri'', entra_application_id_uri st)]
        else [(''generic_issuer_url'', generic_issuer_url st), (''generic_audience'', generic_audience st)]))"

fun provider_value :: "auth_provider \<Rightarrow> string" where
  "provider_value Entra = ''entra''"
| "provider_value Generic = ''generic''"

definition require_matching_provider_fields :: "settings \<Rightarrow> settings result" where
  "require_matching_provider_fields st =
     rbind (validate_runtime_settings st) (\<lambda>_.
     rbind (validate_resource_server_url st) (\<lambda>_.
     rbind (validate_transport_allowlists st) (\<lambda>_.
     if ''offline_access'' \<in> set (global_scopes st)
     then Inl (ValueError ''required_scopes must not include offline_access; refresh-token consent belongs to the OAuth client and authorization server'')
     else rbind (canonical_tenant st) (\<lambda>st'.
          if missing_fields st' \<noteq> []
          then Inl (ValueError (''auth_provider='' @ [CHR 0x27] @ provider_value (provider st') @ [CHR 0x27] @
                 '' requires: '' @ join '', '' (missing_fields st')))
          else rbind (validate_production_profile st') (\<lambda>_. Inr st')))))"

text \<open>\<open>Settings.model_validate\<close>: field constraints first; the validator runs when they all hold.\<close>

definition validate_settings :: "settings \<Rightarrow> settings result" where
  "validate_settings st =
     (if field_issues st \<noteq> [] then Inl (ValidationErr (field_issues st))
      else (case require_matching_provider_fields st of
              Inl (ValueError m) \<Rightarrow> Inl (ValidationErr [([], ''value_error'')])
            | r \<Rightarrow> r))"

section \<open>What accepted settings satisfy\<close>

lemma validate_settings_Inr:
  "validate_settings st = Inr st' \<longleftrightarrow> field_issues st = [] \<and> require_matching_provider_fields st = Inr st'"
  by (auto simp: validate_settings_def split: sum.splits exn.splits)

lemma range_issue_Nil [simp]: "range_issue n l h v = [] \<longleftrightarrow> l \<le> v \<and> v \<le> h"
  by (auto simp: range_issue_def)

lemma canonical_tenant_Inr:
  assumes "canonical_tenant st = Inr st'"
  shows "\<exists>t. st' = st\<lparr>entra_tenant_id := t\<rparr>"
    and "provider st = Entra \<Longrightarrow> given (entra_tenant_id st') \<Longrightarrow>
      \<exists>s u. entra_tenant_id st = Some s \<and> uuid_canonical s = Some u \<and> entra_tenant_id st' = Some u"
    and "canonical_tenant st' = Inr st'"
  using assms uuid_canonical_idem
  by (auto simp: canonical_tenant_def given_def split: option.splits if_splits intro: exI [of _ "entra_tenant_id st"])

lemma settings_frame [simp]:
  "validate_runtime_settings (st\<lparr>entra_tenant_id := t\<rparr>) = validate_runtime_settings st"
  "validate_resource_server_url (st\<lparr>entra_tenant_id := t\<rparr>) = validate_resource_server_url st"
  "validate_transport_allowlists (st\<lparr>entra_tenant_id := t\<rparr>) = validate_transport_allowlists st"
  "field_issues (st\<lparr>entra_tenant_id := t\<rparr>) = field_issues st"
  by (simp_all add: validate_runtime_settings_def validate_resource_server_url_def
      validate_transport_allowlists_def field_issues_def)

lemma require_matching_Inr:
  "require_matching_provider_fields st = Inr st' \<longleftrightarrow>
     validate_runtime_settings st = Inr () \<and> validate_resource_server_url st = Inr () \<and>
     validate_transport_allowlists st = Inr () \<and> ''offline_access'' \<notin> set (global_scopes st) \<and>
     canonical_tenant st = Inr st' \<and> missing_fields st' = [] \<and> validate_production_profile st' = Inr ()"
  by (auto simp: require_matching_provider_fields_def rbind_Inr_iff)

text \<open>Revalidating accepted settings changes nothing (\<open>validate_preflight_settings\<close>).\<close>

lemma validate_settings_idem:
  assumes "validate_settings st = Inr st'"
  shows "validate_settings st' = Inr st'"
proof -
  have h: "field_issues st = []" "validate_runtime_settings st = Inr ()" "validate_resource_server_url st = Inr ()"
    "validate_transport_allowlists st = Inr ()" "''offline_access'' \<notin> set (global_scopes st)"
    "canonical_tenant st = Inr st'" "missing_fields st' = []" "validate_production_profile st' = Inr ()"
    using assms by (simp_all add: validate_settings_Inr require_matching_Inr)
  obtain t where t: "st' = st\<lparr>entra_tenant_id := t\<rparr>" using canonical_tenant_Inr(1) [OF h(6)] by blast
  have "canonical_tenant st' = Inr st'" using canonical_tenant_Inr(3) [OF h(6)] .
  then show ?thesis
    using h(1-5,7,8) unfolding validate_settings_Inr require_matching_Inr by (simp add: t)
qed

text \<open>The Entra tenant is a canonical UUID: nothing else reaches the issuer URL.\<close>

lemma accepted_tenant:
  assumes "validate_settings st = Inr st'" and "provider st' = Entra"
  shows "\<exists>u. entra_tenant_id st' = Some u \<and> length u = 36 \<and> set u \<subseteq> insert CHR ''-'' (set hex_chars)"
proof -
  have c: "canonical_tenant st = Inr st'" "missing_fields st' = []"
    using assms(1) by (simp_all add: validate_settings_Inr require_matching_Inr)
  then have "given (entra_tenant_id st')" using assms(2) by (auto simp: missing_fields_def split: if_splits)
  moreover have "provider st = Entra" using canonical_tenant_Inr(1) [OF c(1)] assms(2) by auto
  ultimately obtain s u where "uuid_canonical s = Some u" "entra_tenant_id st' = Some u"
    using canonical_tenant_Inr(2) [OF c(1)] by blast
  then show ?thesis using uuid_canonical_chars by blast
qed

lemma check_jwks_origin_Inr:
  "check_jwks_origin origin = Inr u \<Longrightarrow> \<exists>p. urlsplit origin = Some p \<and> is_exact_origin [''https''] p"
  by (auto simp: check_jwks_origin_def rbind_Inr_iff split_url_def split: option.splits sum.splits)

text \<open>Production settings: HTTPS everywhere, no loopback opt-in, no placeholder.\<close>

definition public_url :: "string \<Rightarrow> split_url \<Rightarrow> bool" where
  "public_url url u \<longleftrightarrow> urlsplit url = Some u \<and> u_scheme u = ''https'' \<and>
     \<not> is_placeholder_hostname (url_hostname u) \<and> \<not> has_credentials_part u \<and> u_query u = [] \<and> u_fragment u = []"

lemma placeholder_None [simp]: "is_placeholder_hostname None"
  by (simp add: is_placeholder_hostname_def)

lemma check_jwks_origin_public:
  "check_jwks_origin origin = Inr () \<longleftrightarrow>
     (\<exists>u p. public_url origin u \<and> u_path u = [] \<and> url_port u = Inr p)"
  by (auto simp: check_jwks_origin_def public_url_def is_exact_origin_def rbind_Inr_iff split_url_def
      split: option.splits sum.splits intro: ccontr)

lemma check_production_generic_public:
  "check_production_generic st = Inr () \<longleftrightarrow>
     (\<exists>u p. public_url (or_empty (generic_issuer_url st)) u \<and> url_port u = Inr p) \<and>
     (\<exists>u. urlsplit (or_empty (generic_audience st)) = Some u \<and>
        (url_hostname u = None \<or> \<not> is_placeholder_hostname (url_hostname u))) \<and>
     list_all (\<lambda>origin. \<exists>u p. public_url origin u \<and> u_path u = [] \<and> url_port u = Inr p)
       (generic_jwks_allowed_origins st)"
  by (auto simp: check_production_generic_def public_url_def rbind_Inr_iff split_url_def list_all_iff
      check_jwks_origin_public split: option.splits sum.splits intro: ccontr)

lemma check_production_origin_public:
  assumes "check_allowed_origin origin = Inr ()" and "check_production_origin origin = Inr ()"
  shows "\<exists>u. public_url origin u \<and> u_path u = []"
  using assms
  by (auto simp: check_allowed_origin_def check_production_origin_def public_url_def is_exact_origin_def rbind_Inr_iff
      split_url_def split: option.splits sum.splits)

lemma production_accepted:
  assumes "validate_settings st = Inr st'" and "app_env st' = Production"
  shows "\<not> oidc_allow_insecure_loopback st'"
    and "\<exists>u. public_url (resource_server_url st') u"
    and "list_all (\<lambda>origin. \<exists>u. public_url origin u \<and> u_path u = []) (transport_allowed_origins st')"
    and "provider st' = Generic \<Longrightarrow> check_production_generic st' = Inr ()"
    and "provider st' = Entra \<Longrightarrow> check_production_entra st' = Inr ()"
proof -
  have p: "validate_production_profile st' = Inr ()"
    using assms(1) by (simp add: validate_settings_Inr require_matching_Inr)
  obtain t where t: "st' = st\<lparr>entra_tenant_id := t\<rparr>"
    using assms(1) canonical_tenant_Inr(1) by (auto simp: validate_settings_Inr require_matching_Inr)
  have r: "validate_resource_server_url st' = Inr ()" "validate_transport_allowlists st' = Inr ()"
    using assms(1) unfolding validate_settings_Inr require_matching_Inr by (simp_all add: t)
  show "\<not> oidc_allow_insecure_loopback st'"
    using p assms(2) by (auto simp: validate_production_profile_def rbind_Inr_iff split_url_def split: option.splits)
  show "\<exists>u. public_url (resource_server_url st') u"
    using p r(1) assms(2)
    by (auto simp: validate_production_profile_def validate_resource_server_url_def public_url_def rbind_Inr_iff
        split_url_def split: option.splits if_splits)
  show "list_all (\<lambda>origin. \<exists>u. public_url origin u \<and> u_path u = []) (transport_allowed_origins st')"
    using p r(2) assms(2) check_production_origin_public
    by (auto simp: validate_production_profile_def validate_transport_allowlists_def list_all_iff rbind_Inr_iff
        split_url_def split: option.splits)
  show "provider st' = Generic \<Longrightarrow> check_production_generic st' = Inr ()"
    "provider st' = Entra \<Longrightarrow> check_production_entra st' = Inr ()"
    using p assms(2) by (auto simp: validate_production_profile_def rbind_Inr_iff)
qed

end
