(* ===== verification/Mcp_Server.thy ===== *)
theory Mcp_Server
  imports Settings Http_Admission Progressive_Token_Verifier Mcp_Tool_Authorization
begin

text \<open>
  \<open>entrypoints/mcp_server.py\<close>: how the configured parts are wired into one server. The SDK's
  \<open>MCPServer\<close> and Starlette application are parameters; the model builds what the code hands to them.
\<close>

definition health_scope :: string where
  "health_scope = ''mcp:tools:health''"

definition mcp_http_path :: string where
  "mcp_http_path = ''/mcp''"

definition operational_probe_paths :: "string list" where
  "operational_probe_paths = [''/livez'', ''/readyz'']"

text \<open>\<open>list(dict.fromkeys(values))\<close> keeps the first occurrence of each value.\<close>

fun deduplicate_from :: "string list \<Rightarrow> string list \<Rightarrow> string list" where
  "deduplicate_from keys [] = keys"
| "deduplicate_from keys (v # vs) = deduplicate_from (if v \<in> set keys then keys else keys @ [v]) vs"

definition deduplicate :: "string list \<Rightarrow> string list" where
  "deduplicate values = deduplicate_from [] values"

section \<open>Host and origin allowlists\<close>

definition transport_authority :: "settings \<Rightarrow> (string list \<times> string list) result" where
  "transport_authority st =
     rbind (split_url (resource_server_url st)) (\<lambda>parsed.
     case url_hostname parsed of
       None \<Rightarrow> Inl (RuntimeErr ''resource_server_url has no host'')
     | Some host \<Rightarrow>
         let wire_host = (if CHR '':'' \<in> set host then ''['' @ host @ '']'' else host);
             scheme = u_scheme parsed;
             dflt = (if scheme = ''https'' then 443 else 80)
         in rbind (url_port parsed) (\<lambda>port.
              Inr (case port of
                None \<Rightarrow> ([wire_host, wire_host @ '':'' @ show_nat dflt], [scheme @ ''://'' @ wire_host])
              | Some p \<Rightarrow>
                  if p = dflt
                  then ([wire_host, wire_host @ '':'' @ show_nat p],
                        [scheme @ ''://'' @ wire_host, scheme @ ''://'' @ wire_host @ '':'' @ show_nat p])
                  else ([wire_host @ '':'' @ show_nat p],
                        [scheme @ ''://'' @ wire_host @ '':'' @ show_nat p]))))"

record transport_security =
  tsec_rebinding_protection :: bool
  tsec_allowed_hosts :: "string list"
  tsec_allowed_origins :: "string list"

definition build_transport_security :: "settings \<Rightarrow> transport_security result" where
  "build_transport_security st =
     rbind (transport_authority st) (\<lambda>(hosts, origins).
       Inr \<lparr>tsec_rebinding_protection = True,
            tsec_allowed_hosts = deduplicate (hosts @ transport_allowed_hosts st),
            tsec_allowed_origins = deduplicate (origins @ transport_allowed_origins st)\<rparr>)"

section \<open>The tool authorizer\<close>

definition default_registry :: "settings \<Rightarrow> tool_policy dict result" where
  "default_registry st =
     rbind (if provider st = Entra then policy_delegated_scopes [health_scope] else policy_oauth_scopes [health_scope])
       (\<lambda>health_policy. rbind policy_authenticated (\<lambda>whoami_policy.
          Inr [(''whoami'', whoami_policy), (''health'', health_policy)]))"

definition effective_policy :: "string \<Rightarrow> tool_policy \<Rightarrow> tool_policy result" where
  "effective_policy uri policy =
     (if tp_kind policy \<notin> {DELEGATED_SCOPES, OAUTH_SCOPES} then Inr policy
      else let scopes = qualify_scopes (sorted_list_of_fset (tp_permissions policy)) uri
           in if tp_kind policy = DELEGATED_SCOPES then policy_delegated_scopes scopes
              else policy_oauth_scopes scopes)"

definition build_tool_authorizer ::
    "settings \<Rightarrow> tool_policy dict option \<Rightarrow> tool_authorization_service result" where
  "build_tool_authorizer st policies =
     rbind (case policies of None \<Rightarrow> default_registry st | Some r \<Rightarrow> Inr r) (\<lambda>registry.
       case entra_application_id_uri st of
         None \<Rightarrow> Inr (make_service registry)
       | Some uri \<Rightarrow>
           if provider st \<noteq> Entra then Inr (make_service registry)
           else rbind (rmap (\<lambda>(name, policy). rbind (effective_policy uri policy) (\<lambda>p. Inr (name, p))) registry)
                  (\<lambda>effective. Inr (make_service effective)))"

section \<open>The OIDC side\<close>

definition build_oidc_network_policy :: "idna_codec \<Rightarrow> settings \<Rightarrow> string \<Rightarrow> network_policy result" where
  "build_oidc_network_policy idna st issuer_url =
     make_network_policy idna issuer_url (oidc_allow_insecure_loopback st)
       (if provider st = Generic then generic_jwks_allowed_origins st else []) 2 5 65536 524288"

text \<open>The transport of the shared HTTP client, with the default host budget.\<close>

definition build_oidc_http_client :: "'w \<Rightarrow> 'w transport_state result" where
  "build_oidc_http_client w = transport_init 8 w"

lemma build_oidc_http_client_inv: "\<exists>ts. build_oidc_http_client w = Inr ts \<and> pool_inv 8 ts"
  using transport_init_inv [of 8 w] by (auto simp: build_oidc_http_client_def transport_init_def)

definition resolve_issuer_url :: "settings \<Rightarrow> string result" where
  "resolve_issuer_url st =
     (if provider st = Entra
      then Inr (entra_issuer (case entra_tenant_id st of None \<Rightarrow> ''None'' | Some t \<Rightarrow> t))
      else (case generic_issuer_url st of
              None \<Rightarrow> Inl (RuntimeErr ''could not resolve issuer_url'')
            | Some u \<Rightarrow> Inr u))"

text \<open>The adapter the settings select, with the policy its two clients share.\<close>

datatype verifier_config =
    EntraVerifier string string string network_policy
  | GenericVerifier string string network_policy

text \<open>The two clients are created with their default cache sizes, lifetimes and cooldown.\<close>

definition build_oidc_clients :: "network_policy \<Rightarrow> network_policy result" where
  "build_oidc_clients pol =
     rbind (discovery_init 3600 8) (\<lambda>_. rbind (key_resolver_init 300 8 64 30) (\<lambda>_. Inr pol))"

lemma build_oidc_clients_Inr [simp]: "build_oidc_clients pol = Inr pol"
  by (simp add: build_oidc_clients_def discovery_init_def key_resolver_init_def)

definition build_token_verifier ::
    "idna_codec \<Rightarrow> settings \<Rightarrow> network_policy option \<Rightarrow> verifier_config result" where
  "build_token_verifier idna st network_policy =
     (if provider st = Entra
      then (if given (entra_tenant_id st) \<and> given (entra_audience st) \<and> given (entra_application_id_uri st)
            then rbind (resolve_issuer_url st) (\<lambda>issuer_url.
                 rbind (case network_policy of Some p \<Rightarrow> Inr p | None \<Rightarrow> build_oidc_network_policy idna st issuer_url)
                   (\<lambda>pol. rbind (build_oidc_clients pol) (\<lambda>pol.
                      Inr (EntraVerifier (or_empty (entra_tenant_id st)) (or_empty (entra_audience st))
                             (or_empty (entra_application_id_uri st)) pol))))
            else Inl (RuntimeErr ''auth_provider=entra requires entra_tenant_id, entra_audience, and entra_application_id_uri''))
      else if given (generic_issuer_url st) \<and> given (generic_audience st)
      then rbind (case network_policy of Some p \<Rightarrow> Inr p
                  | None \<Rightarrow> build_oidc_network_policy idna st (or_empty (generic_issuer_url st)))
             (\<lambda>pol. rbind (build_oidc_clients pol) (\<lambda>pol.
                Inr (GenericVerifier (or_empty (generic_issuer_url st)) (or_empty (generic_audience st)) pol)))
      else Inl (RuntimeErr ''auth_provider=generic requires generic_issuer_url and generic_audience''))"

text \<open>\<open>verify_token\<close> of the selected adapter, over clients with the selected policy and the defaults.\<close>

definition client_env :: "network_policy \<Rightarrow> ('w, 'k) oidc_env \<Rightarrow> ('w, 'k) oidc_env" where
  "client_env pol env = env\<lparr>e_policy := pol, e_max_keys := 64, e_refresh_cooldown := 30\<rparr>"

fun base_verify ::
    "verifier_config \<Rightarrow> ('w, 'k) oidc_env \<Rightarrow> ('w oidc_state, 'k) jwt_decoder \<Rightarrow> (pyval \<Rightarrow> string) \<Rightarrow>
     'w oidc_state verifier_state verifier" where
  "base_verify (EntraVerifier tenant audience uri pol) env jwt_decode repr_of =
     entra_verify (discovery_resolve (client_env pol env)) (resolve_key (client_env pol env))
       jwt_decode repr_of tenant audience uri"
| "base_verify (GenericVerifier issuer audience pol) env jwt_decode repr_of =
     generic_verify (discovery_resolve (client_env pol env)) (resolve_key (client_env pol env))
       jwt_decode repr_of issuer audience"

section \<open>The server\<close>

text \<open>The service identity given to the observability kit; the version is the installed package's.\<close>

record observability_settings =
  ob_service_name :: string
  ob_service_version :: string
  ob_environment :: app_env

definition build_observability_settings :: "string \<Rightarrow> settings \<Rightarrow> observability_settings" where
  "build_observability_settings service_version st =
     \<lparr>ob_service_name = service_name st, ob_service_version = service_version, ob_environment = app_env st\<rparr>"

text \<open>Freshness hints: method, lifetime in milliseconds and scope.\<close>

record cache_hint =
  ch_ttl_ms :: nat
  ch_scope :: string

definition cache_hints :: "(string \<times> cache_hint) list" where
  "cache_hints =
     [(''server/discover'', \<lparr>ch_ttl_ms = 30000, ch_scope = ''private''\<rparr>),
      (''tools/list'', \<lparr>ch_ttl_ms = 30000, ch_scope = ''private''\<rparr>)]"

definition oauth_client_credentials_extension_id :: string where
  "oauth_client_credentials_extension_id = ''io.modelcontextprotocol/oauth-client-credentials''"

record auth_settings =
  as_issuer_url :: string
  as_resource_server_url :: string
  as_required_scopes :: "string list option"
  as_validate_token_resource :: bool

text \<open>\<open>AuthSettings\<close> takes the issuer as a URL of pydantic; \<open>http_url\<close> is that conversion, which may fail.\<close>

definition build_auth_settings ::
    "(string \<Rightarrow> string result) \<Rightarrow> settings \<Rightarrow> string \<Rightarrow> auth_settings result" where
  "build_auth_settings http_url st issuer_url =
     rbind (http_url issuer_url) (\<lambda>url.
       Inr \<lparr>as_issuer_url = url, as_resource_server_url = resource_server_url st,
            as_required_scopes = (if effective_required_scopes st = [] then None else Some (effective_required_scopes st)),
            as_validate_token_resource = False\<rparr>)"

record server_config =
  sv_name :: string
  sv_policy :: network_policy
  sv_verifier :: verifier_config
  sv_authorizer :: tool_authorization_service
  sv_provider :: auth_provider
  sv_global_scopes :: "string list"
  sv_auth :: auth_settings
  sv_tools :: "string list"
  sv_extensions :: "string list"
  sv_cache_hints :: "(string \<times> cache_hint) list"

text \<open>What \<open>build_server\<close> assembles once logging is configured.\<close>

definition assemble_server :: "(string \<Rightarrow> string result) \<Rightarrow> idna_codec \<Rightarrow> settings \<Rightarrow> server_config result" where
  "assemble_server http_url idna st =
     rbind (resolve_issuer_url st) (\<lambda>issuer_url.
     rbind (build_oidc_network_policy idna st issuer_url) (\<lambda>pol.
     rbind (build_token_verifier idna st (Some pol)) (\<lambda>verifier.
     rbind (build_tool_authorizer st None) (\<lambda>authorizer.
     rbind (build_auth_settings http_url st issuer_url) (\<lambda>auth.
       Inr \<lparr>sv_name = service_name st, sv_policy = pol, sv_verifier = verifier, sv_authorizer = authorizer,
            sv_provider = provider st, sv_global_scopes = effective_required_scopes st,
            sv_auth = auth, sv_tools = [''whoami'', ''health''],
            sv_extensions = [oauth_client_credentials_extension_id], sv_cache_hints = cache_hints\<rparr>)))))"

text \<open>The token verifier and the MCP middleware of the built server.\<close>

definition server_verify ::
    "server_config \<Rightarrow> ('w, 'k) oidc_env \<Rightarrow> ('w oidc_state, 'k) jwt_decoder \<Rightarrow> (pyval \<Rightarrow> string) \<Rightarrow>
     ('w oidc_state verifier_state \<times> world) verifier" where
  "server_verify sv env jwt_decode repr_of =
     progressive_verify (base_verify (sv_verifier sv) env jwt_decode repr_of) (authorize (sv_authorizer sv))
       (sv_provider sv) repr_of (sv_global_scopes sv)"

definition server_middleware :: "server_config \<Rightarrow> (pyval \<Rightarrow> string) \<Rightarrow> 's call_next \<Rightarrow> 's call_next" where
  "server_middleware sv repr_of = tool_middleware (sv_authorizer sv) (sv_provider sv) repr_of"

text \<open>The two tools. \<open>whoami\<close> reads the SDK's access-token context variable.\<close>

definition whoami_tool :: "access_token option \<Rightarrow> pyval dict" where
  "whoami_tool tok =
     (case tok of
        None \<Rightarrow> [(''authenticated'', PBool False)]
      | Some t \<Rightarrow> [(''authenticated'', PBool True), (''client_id'', PStr (at_client_id t)),
                   (''subject'', case at_subject t of None \<Rightarrow> PNone | Some s \<Rightarrow> PStr s),
                   (''scopes'', PList (map PStr (at_scopes t)))])"

definition health_tool :: "pyval dict" where
  "health_tool = [(''status'', PStr ''ok'')]"

section \<open>Lifespan\<close>

record server_life =
  sl_status :: runtime_status
  sl_client_open :: bool
  sl_observing :: bool

text \<open>
  The context manager around serving: \<open>serve\<close> is what happens while the server runs, \<open>closing\<close> the
  outcome of closing the HTTP client. The later exception wins, as in nested \<open>finally\<close> blocks.
\<close>

definition lifespan ::
    "bool \<Rightarrow> (server_life \<Rightarrow> outcome \<times> server_life) \<Rightarrow> outcome \<Rightarrow> server_life \<Rightarrow> outcome \<times> server_life" where
  "lifespan observability serve closing st =
     (case serve (st\<lparr>sl_status := mark_ready (sl_status st)\<rparr>) of (out, st1) \<Rightarrow>
      let st2 = st1\<lparr>sl_status := mark_not_ready (sl_status st1)\<rparr>;
          st3 = st2\<lparr>sl_client_open := False\<rparr>;
          st4 = (if observability then st3\<lparr>sl_observing := False\<rparr> else st3)
      in (case closing of Raised e \<Rightarrow> Raised e | Returned \<Rightarrow> out, st4))"

section \<open>The HTTP application\<close>

text \<open>
  The ASGI stack, outermost first: admission, tracing, probes, progressive challenges, the SDK's
  application. \<open>validate\<close> is the SDK's Host/Origin check on the allowlists, \<open>tracing\<close> the kit's.
\<close>

definition admission_of ::
    "(transport_security \<Rightarrow> asgi_scope \<Rightarrow> bool \<Rightarrow> response option) \<Rightarrow> settings \<Rightarrow> transport_security \<Rightarrow> bool \<Rightarrow> admission" where
  "admission_of validate st tsec probes =
     \<lparr>ad_validate = validate tsec, ad_mcp_path = mcp_http_path,
      ad_max_header_count = nat (transport_max_header_count st),
      ad_max_header_bytes = nat (transport_max_header_bytes st),
      ad_max_concurrent = transport_max_concurrent_requests st,
      ad_operational_paths = (if probes then operational_probe_paths else [])\<rparr>"

definition streamable_http_app ::
    "(transport_security \<Rightarrow> asgi_scope \<Rightarrow> bool \<Rightarrow> response option) \<Rightarrow> string \<Rightarrow> settings \<Rightarrow>
     runtime_status option \<Rightarrow> (app \<Rightarrow> app) option \<Rightarrow> app \<Rightarrow> app result" where
  "streamable_http_app validate resource_metadata_url st status tracing sdk_app =
     rbind (build_transport_security st) (\<lambda>tsec.
       let app1 = progressive_middleware resource_metadata_url mcp_http_path sdk_app;
           app2 = (case status of None \<Rightarrow> app1 | Some s \<Rightarrow> probe_middleware s app1);
           app3 = (case tracing of None \<Rightarrow> app2 | Some t \<Rightarrow> t app2)
       in Inr (admission_middleware (admission_of validate st tsec (status \<noteq> None)) app3))"

section \<open>Facts about the wiring\<close>

lemma deduplicate_from_facts:
  "set (deduplicate_from ks vs) = set ks \<union> set vs" "distinct ks \<Longrightarrow> distinct (deduplicate_from ks vs)"
  by (induction ks vs rule: deduplicate_from.induct) auto

lemma set_deduplicate [simp]: "set (deduplicate vs) = set vs" "distinct (deduplicate vs)"
  by (simp_all add: deduplicate_def deduplicate_from_facts)

interpretation http_stack: asgi_stack "admission_middleware ad"
    "\<lambda>app. probe_middleware s (progressive_middleware url path app)" for ad s url path
  by unfold_locales
    (simp_all add: admission.non_http probes.non_http progressive.non_http)

text \<open>Scope strings in the registry and in Entra tokens are qualified the same way.\<close>

lemma effective_policy_Inr:
  assumes "effective_policy uri pol = Inr pol'"
  shows "tp_kind pol' = tp_kind pol"
    and "tp_kind pol \<in> {DELEGATED_SCOPES, OAUTH_SCOPES} \<Longrightarrow>
      fset (tp_permissions pol') = set (qualify_scopes (sorted_list_of_fset (tp_permissions pol)) uri)"
    and "tp_kind pol \<notin> {DELEGATED_SCOPES, OAUTH_SCOPES} \<Longrightarrow> pol' = pol"
  using assms
  by (auto simp: effective_policy_def Let_def policy_delegated_scopes_def policy_oauth_scopes_def
      rbind_Inr_iff make_policy_Inr qualify_scopes_set qualify_scope_nonempty
      dest!: scope_permissions_Inr split: if_splits)

lemma qualify_scopes_mono:
  "set xs \<subseteq> set ys \<Longrightarrow> set (qualify_scopes xs u) \<subseteq> set (qualify_scopes ys u)"
  by (auto simp: qualify_scopes_set)

lemma rmap_keyed_lookup:
  assumes "rmap (\<lambda>(n, p). rbind (f p) (\<lambda>p'. Inr (n, p'))) xs = Inr ys"
  shows "map_of ys n = (case map_of xs n of None \<Rightarrow> None | Some p \<Rightarrow> (case f p of Inr p' \<Rightarrow> Some p' | Inl _ \<Rightarrow> None))"
  using assms by (induction xs arbitrary: ys) (auto simp: rbind_Inr_iff)

lemma build_tool_authorizer_entra:
  assumes "build_tool_authorizer st (Some registry) = Inr svc" and "provider st = Entra"
    and "entra_application_id_uri st = Some uri" and "map_of registry t = Some pol"
  obtains pol' where "map_of svc t = Some pol'" "effective_policy uri pol = Inr pol'"
proof -
  from assms have r: "rmap (\<lambda>(n, p). rbind (effective_policy uri p) (\<lambda>p'. Inr (n, p'))) registry = Inr svc"
    by (auto simp: build_tool_authorizer_def rbind_Inr_iff make_service_def)
  have "\<exists>pol'. effective_policy uri pol = Inr pol'"
    using r assms(4) by (induction registry arbitrary: svc) (auto simp: rbind_Inr_iff split: if_splits)
  with rmap_keyed_lookup [OF r, of t] assms(4) that show thesis by auto
qed

text \<open>
  A token whose raw scopes cover the policy's raw scopes is allowed after both were qualified: the
  two normalisations cannot drift apart.
\<close>

lemma entra_qualification_agrees:
  assumes "build_tool_authorizer st (Some registry) = Inr svc" and "provider st = Entra"
    and "entra_application_id_uri st = Some uri" and "map_of registry t = Some pol"
    and "tp_kind pol = DELEGATED_SCOPES" and "fset (tp_permissions pol) \<subseteq> set raw_scopes"
    and "p_kind p = DELEGATED" and "fset (p_scopes p) = set (qualify_scopes raw_scopes uri)"
  shows "may_invoke svc t (Some p)"
proof -
  obtain pol' where p': "map_of svc t = Some pol'" "effective_policy uri pol = Inr pol'"
    using build_tool_authorizer_entra [OF assms(1-4)] .
  have "fset (tp_permissions pol') \<subseteq> fset (p_scopes p)"
    using effective_policy_Inr(2) [OF p'(2)] assms(5,6,8) qualify_scopes_mono by auto
  then show ?thesis
    using p'(1) effective_policy_Inr(1) [OF p'(2)] assms(5,7) by (simp add: may_invoke_def)
qed

text \<open>The default registry builds, and it is the whole tool surface.\<close>

lemma default_registry_ok:
  "\<exists>svc. default_registry st = Inr svc \<and> service_ok svc \<and> set (map fst svc) = {''whoami'', ''health''}"
proof -
  have v: "is_valid_oauth_scope_token health_scope"
    by (simp add: is_valid_oauth_scope_token_def health_scope_def ord_of_def)
  have "\<exists>p. policy_delegated_scopes [health_scope] = Inr p" "\<exists>p. policy_oauth_scopes [health_scope] = Inr p"
    "\<exists>p. policy_authenticated = Inr p"
    using v by (simp_all add: policy_delegated_scopes_def policy_oauth_scopes_def policy_authenticated_def
        scope_permissions_def permissions_of_def make_policy_def health_scope_def Let_def)
  then obtain d oa a where p: "policy_delegated_scopes [health_scope] = Inr d"
    "policy_oauth_scopes [health_scope] = Inr oa" "policy_authenticated = Inr a" by blast
  note ok = policy_delegated_ok [OF p(1)] policy_oauth_ok [OF p(2)] policy_authenticated_ok [OF p(3)]
  have "default_registry st = Inr [(''whoami'', a), (''health'', if provider st = Entra then d else oa)]"
    unfolding default_registry_def p by simp
  then show ?thesis using ok by (simp add: service_ok_def)
qed

lemma default_registry_build: "build_tool_authorizer st None =
    rbind (default_registry st) (\<lambda>r. build_tool_authorizer st (Some r))"
  by (cases "default_registry st") (simp_all add: build_tool_authorizer_def)

lemma assemble_server_Inr:
  assumes "assemble_server http_url idna st = Inr sv"
  obtains issuer where "resolve_issuer_url st = Inr issuer"
    "build_oidc_network_policy idna st issuer = Inr (sv_policy sv)"
    "build_token_verifier idna st (Some (sv_policy sv)) = Inr (sv_verifier sv)"
    "build_tool_authorizer st None = Inr (sv_authorizer sv)"
    "sv_provider sv = provider st" "sv_global_scopes sv = effective_required_scopes st"
    "build_auth_settings http_url st issuer = Inr (sv_auth sv)"
  using assms by (auto simp: assemble_server_def rbind_Inr_iff)

text \<open>The SDK is told the scopes the progressive verifier enforces.\<close>

lemma assemble_server_scopes:
  assumes "assemble_server http_url idna st = Inr sv"
  shows "(case as_required_scopes (sv_auth sv) of None \<Rightarrow> [] | Some ss \<Rightarrow> ss) = sv_global_scopes sv"
  using assms
  by (elim assemble_server_Inr) (auto simp: build_auth_settings_def rbind_Inr_iff dest!: sym [of _ "sv_auth sv"])

lemma lifespan_facts:
  assumes "lifespan obs serve closing st = (out, st')"
  shows "\<not> rt_ready (sl_status st')" and "\<not> sl_client_open st'" and "obs \<Longrightarrow> \<not> sl_observing st'"
  using assms by (auto simp: lifespan_def mark_not_ready_def Let_def split: prod.splits if_splits)

end
