(* ===== verification/Preflight.thy ===== *)
theory Preflight
  imports Settings
begin

text \<open>
  \<open>entrypoints/preflight.py\<close> and \<open>entrypoints/serve.py\<close>: revalidation of the settings, the
  allowlisted report, the exit code, and the arguments the launcher passes to Uvicorn. \<open>loaded\<close> is
  what \<open>Settings()\<close> yields from the environment.
\<close>

fun app_env_value :: "app_env \<Rightarrow> string" where
  "app_env_value Development = ''development''"
| "app_env_value Test = ''test''"
| "app_env_value Staging = ''staging''"
| "app_env_value Production = ''production''"

definition validate_preflight_settings :: "settings \<Rightarrow> settings result" where
  "validate_preflight_settings st = validate_settings st"

definition build_preflight_report :: "settings \<Rightarrow> pyval dict result" where
  "build_preflight_report st =
     rbind (validate_preflight_settings st) (\<lambda>v. Inr
       [(''status'', PStr ''ok''),
        (''environment'', PStr (app_env_value (app_env v))),
        (''auth_provider'', PStr (provider_value (provider v))),
        (''runtime'', PDict
          [(''port'', PInt (runtime_port v)), (''workers'', PInt (runtime_workers v)),
           (''graceful_shutdown_seconds'', PInt (runtime_graceful_shutdown_seconds v))]),
        (''limits'', PDict
          [(''max_request_body_bytes'', PInt (transport_max_request_body_bytes v)),
           (''max_header_count'', PInt (transport_max_header_count v)),
           (''max_header_bytes'', PInt (transport_max_header_bytes v)),
           (''max_concurrent_requests'', PInt (transport_max_concurrent_requests v))])])"

definition safe_validation_issues :: "issue list \<Rightarrow> pyval list" where
  "safe_validation_issues issues =
     map (\<lambda>(loc, typ).
       PDict [(''location'', PStr (if join ''.'' loc = [] then ''settings'' else join ''.'' loc)),
              (''type'', PStr typ)]) issues"

datatype printed = StdoutJson "pyval dict" | StdoutText string | StderrText string

definition failure_report :: "issue list \<Rightarrow> pyval dict" where
  "failure_report issues =
     [(''status'', PStr ''error''), (''error'', PStr ''configuration_invalid''),
      (''issues'', PList (safe_validation_issues issues))]"

definition preflight_main :: "bool \<Rightarrow> settings result \<Rightarrow> (int \<times> printed) result" where
  "preflight_main json loaded =
     (case rbind loaded validate_preflight_settings of
        Inl (ValidationErr issues) \<Rightarrow>
          Inr (2, if json then StdoutJson (failure_report issues)
                  else StderrText (''preflight: configuration invalid ('' @
                         show_nat (length (safe_validation_issues issues)) @ '' issue(s))''))
      | Inl e \<Rightarrow> Inl e
      | Inr st \<Rightarrow>
          rbind (build_preflight_report st) (\<lambda>report.
            Inr (0, if json then StdoutJson report
                    else StdoutText (''preflight: ok (environment='' @ app_env_value (app_env st) @
                           '', auth_provider='' @ provider_value (provider st) @
                           '', workers='' @ show_int (runtime_workers st) @ '')''))))"

section \<open>The launcher\<close>

record uvicorn_args =
  uv_app :: string
  uv_factory :: bool
  uv_host :: string
  uv_port :: int
  uv_workers :: int
  uv_backlog :: int
  uv_lifespan :: string
  uv_ws :: string
  uv_proxy_headers :: bool
  uv_server_header :: bool
  uv_keep_alive :: int
  uv_graceful_shutdown :: int

definition serve :: "settings \<Rightarrow> uvicorn_args result" where
  "serve settings =
     rbind (validate_preflight_settings settings) (\<lambda>st. Inr
       \<lparr>uv_app = ''mcp_server_auth_template.entrypoints.mcp_server:create_app'', uv_factory = True,
        uv_host = runtime_host st, uv_port = runtime_port st, uv_workers = runtime_workers st,
        uv_backlog = runtime_backlog st, uv_lifespan = ''on'', uv_ws = ''none'', uv_proxy_headers = False,
        uv_server_header = False, uv_keep_alive = runtime_keep_alive_seconds st,
        uv_graceful_shutdown = runtime_graceful_shutdown_seconds st\<rparr>)"

section \<open>What preflight guarantees\<close>

lemma preflight_report_idem:
  "validate_settings st = Inr st' \<Longrightarrow> \<exists>r. build_preflight_report st' = Inr r"
  by (simp add: build_preflight_report_def validate_preflight_settings_def validate_settings_idem)

text \<open>Exit code 0 exactly for settings that validate; 2 for settings that do not.\<close>

lemma preflight_exit_zero:
  assumes "preflight_main json loaded = Inr (code, out)"
  shows "(code = 0 \<longleftrightarrow> (\<exists>st st'. loaded = Inr st \<and> validate_settings st = Inr st')) \<and> code \<in> {0, 2}"
  using assms
  by (auto simp: preflight_main_def validate_preflight_settings_def rbind_Inr_iff
      split: sum.splits exn.splits)

text \<open>
  Nothing but the environment, the provider kind and the numeric limits reaches the report: two
  configurations that agree on them print the same.
\<close>

definition public_view :: "settings \<Rightarrow> app_env \<times> auth_provider \<times> int list" where
  "public_view st =
     (app_env st, provider st,
      [runtime_port st, runtime_workers st, runtime_graceful_shutdown_seconds st,
       transport_max_request_body_bytes st, transport_max_header_count st, transport_max_header_bytes st,
       transport_max_concurrent_requests st])"

lemma report_public:
  assumes "build_preflight_report a = Inr ra" and "build_preflight_report b = Inr rb"
    and "public_view a = public_view b"
  shows "ra = rb"
proof -
  obtain a' b' where v: "validate_settings a = Inr a'" "validate_settings b = Inr b'"
    using assms(1,2) by (auto simp: build_preflight_report_def validate_preflight_settings_def rbind_Inr_iff)
  have "canonical_tenant a = Inr a'" "canonical_tenant b = Inr b'"
    using v by (simp_all add: validate_settings_Inr require_matching_Inr)
  then obtain t u where "a' = a\<lparr>entra_tenant_id := t\<rparr>" "b' = b\<lparr>entra_tenant_id := u\<rparr>"
    using canonical_tenant_Inr(1) by metis
  then show ?thesis
    using assms v by (auto simp: build_preflight_report_def validate_preflight_settings_def public_view_def)
qed

text \<open>A launcher call always has a validated, bounded configuration behind it.\<close>

lemma serve_bounds:
  assumes "serve st = Inr args"
  shows "1 \<le> uv_port args \<and> uv_port args \<le> 65535 \<and> 1 \<le> uv_workers args \<and> uv_workers args \<le> 32 \<and>
    1 \<le> uv_graceful_shutdown args \<and> uv_graceful_shutdown args \<le> 300 \<and> \<not> uv_proxy_headers args"
proof -
  obtain v where v: "validate_settings st = Inr v" "uv_port args = runtime_port v"
    "uv_workers args = runtime_workers v" "uv_graceful_shutdown args = runtime_graceful_shutdown_seconds v"
    "\<not> uv_proxy_headers args"
    using assms by (auto simp: serve_def validate_preflight_settings_def rbind_Inr_iff)
  have "field_issues v = []" using validate_settings_idem [OF v(1)] by (simp add: validate_settings_Inr)
  then show ?thesis using v(2-) by (simp add: field_issues_def)
qed

end
