(* ===== verification/Logging_Redaction.thy ===== *)
theory Logging_Redaction
  imports Python_Uuid
begin

text \<open>
  The redaction processor of \<open>entrypoints/logging.py\<close>. The two regular expressions are matched by
  hand: both are scanned left to right and none of their parts needs backtracking. \<open>word_char\<close> is the
  class \<open>\w\<close> on code points below U+0100, \<open>py_isspace\<close> is \<open>\s\<close>.
\<close>

definition sensitive_log_fields :: "string list" where
  "sensitive_log_fields =
     [''access_token'', ''authorization'', ''bearer_token'', ''client_secret'', ''code_verifier'', ''id_token'',
      ''password'', ''proxy_authorization'', ''refresh_token'', ''token'']"

definition redacted :: string where
  "redacted = ''[REDACTED]''"

definition word_char :: "char \<Rightarrow> bool" where
  "word_char c =
     (let n = ord_of c in
      (48 \<le> n \<and> n \<le> 57) \<or> (65 \<le> n \<and> n \<le> 90) \<or> (97 \<le> n \<and> n \<le> 122) \<or> n = 95 \<or>
      n \<in> {170, 178, 179, 181, 185, 186, 188, 189, 190} \<or> (192 \<le> n \<and> n \<noteq> 215 \<and> n \<noteq> 247))"

definition bearer_char :: "char \<Rightarrow> bool" where
  "bearer_char c = (\<not> py_isspace c \<and> c \<noteq> CHR '','' \<and> c \<noteq> CHR '';'')"

text \<open>\<open>bearer\s+[^\s,;]+\<close> at the start: the token matched and what follows.\<close>

definition bearer_match :: "string \<Rightarrow> (string \<times> string) option" where
  "bearer_match s =
     (let r = drop 6 s;
          after = dropWhile py_isspace r;
          tok = takeWhile bearer_char after
      in if py_lower (take 6 s) = ''bearer'' \<and> length after < length r \<and> tok \<noteq> []
         then Some (tok, dropWhile bearer_char after) else None)"

lemma bearer_match_shorter: "bearer_match s = Some (tok, rest) \<Longrightarrow> length rest < length s"
proof -
  assume "bearer_match s = Some (tok, rest)"
  then have "length (dropWhile py_isspace (drop 6 s)) < length (drop 6 s)"
    and "rest = dropWhile bearer_char (dropWhile py_isspace (drop 6 s))"
    by (auto simp: bearer_match_def Let_def split: if_splits)
  then show ?thesis
    using length_dropWhile_le [of bearer_char "dropWhile py_isspace (drop 6 s)"] by simp
qed

text \<open>\<open>before\<close>: whether the previous character is a word character (so no \<open>\b\<close> here).\<close>

function redact_bearer :: "bool \<Rightarrow> string \<Rightarrow> string" where
  "redact_bearer before [] = []"
| "redact_bearer before (c # cs) =
     (case if before then None else bearer_match (c # cs) of
        Some (tok, rest) \<Rightarrow> ''Bearer [REDACTED]'' @ redact_bearer (word_char (last tok)) rest
      | None \<Rightarrow> c # redact_bearer (word_char c) cs)"
  by pat_completeness auto

termination
  by (relation "measure (\<lambda>(b, s). length s)") (auto dest: bearer_match_shorter split: if_splits)

definition query_names :: "string list" where
  "query_names = [''access_token'', ''refresh_token'', ''id_token'', ''client_secret'']"

definition query_char :: "char \<Rightarrow> bool" where
  "query_char c = (c \<noteq> CHR ''&'' \<and> \<not> py_isspace c)"

text \<open>\<open>(name)=([^&\s]+)\<close> at the start: the name as written and what follows the value.\<close>

definition query_match_name :: "string \<Rightarrow> string \<Rightarrow> (string \<times> string) option" where
  "query_match_name s name =
     (let written = take (length name) s; r = drop (length name) s
      in if py_lower written = name \<and> startswith r ''='' \<and> takeWhile query_char (tl r) \<noteq> []
         then Some (written, dropWhile query_char (tl r)) else None)"

fun first_some :: "('a \<Rightarrow> 'b option) \<Rightarrow> 'a list \<Rightarrow> 'b option" where
  "first_some f [] = None"
| "first_some f (x # xs) = (case f x of None \<Rightarrow> first_some f xs | Some y \<Rightarrow> Some y)"

definition query_match :: "string \<Rightarrow> (string \<times> string) option" where
  "query_match s = first_some (query_match_name s) query_names"

lemma first_some_Some: "first_some f xs = Some y \<Longrightarrow> \<exists>x \<in> set xs. f x = Some y"
  by (induction xs) (auto split: option.splits)

lemma query_match_shorter: "query_match s = Some (written, rest) \<Longrightarrow> length rest < length s"
proof -
  assume "query_match s = Some (written, rest)"
  then obtain name where m: "query_match_name s name = Some (written, rest)"
    by (auto simp: query_match_def dest: first_some_Some)
  then have r: "startswith (drop (length name) s) ''=''"
    "rest = dropWhile query_char (tl (drop (length name) s))"
    by (auto simp: query_match_name_def Let_def split: if_splits)
  then obtain t where t: "drop (length name) s = CHR ''='' # t" by (auto simp: startswith_iff)
  then have "length s > length t" by (metis drop_all length_Cons length_drop less_Suc_eq diff_le_self le_less_trans not_less_eq)
  then show ?thesis using length_dropWhile_le [of query_char t] r(2) t by simp
qed

function redact_query :: "string \<Rightarrow> string" where
  "redact_query [] = []"
| "redact_query (c # cs) =
     (case query_match (c # cs) of
        Some (written, rest) \<Rightarrow> written @ ''='' @ redacted @ redact_query rest
      | None \<Rightarrow> c # redact_query cs)"
  by pat_completeness auto

termination by (relation "measure length") (auto dest: query_match_shorter)

definition redact_text :: "string \<Rightarrow> string" where
  "redact_text s = redact_query (redact_bearer False s)"

definition normalized_key :: "string \<Rightarrow> string" where
  "normalized_key key = map (\<lambda>c. if c = CHR ''-'' then CHR ''_'' else c) (py_lower key)"

definition is_sensitive :: "string \<Rightarrow> bool" where
  "is_sensitive key \<longleftrightarrow> normalized_key key \<in> set sensitive_log_fields"

fun redact_log_value :: "string \<Rightarrow> pyval \<Rightarrow> pyval" and redact_items :: "pyval list \<Rightarrow> pyval list"
  and redact_members :: "(string \<times> pyval) list \<Rightarrow> (string \<times> pyval) list" where
  "redact_log_value key (PDict d) = (if is_sensitive key then PStr redacted else PDict (redact_members d))"
| "redact_log_value key (PList vs) = (if is_sensitive key then PStr redacted else PList (redact_items vs))"
| "redact_log_value key (PStr s) = (if is_sensitive key then PStr redacted else PStr (redact_text s))"
| "redact_log_value key v = (if is_sensitive key then PStr redacted else v)"
| "redact_items [] = []"
| "redact_items (v # vs) = redact_log_value [] v # redact_items vs"
| "redact_members [] = []"
| "redact_members ((k, v) # d) = (k, redact_log_value k v) # redact_members d"

definition redact_security_secrets :: "pyval dict \<Rightarrow> pyval dict" where
  "redact_security_secrets event = redact_members event"

text \<open>\<open>add_trace_context\<close>: the current span's identifiers when OpenTelemetry has a valid one.\<close>

definition without_key :: "string \<Rightarrow> pyval dict \<Rightarrow> pyval dict" where
  "without_key k d = filter (\<lambda>kv. fst kv \<noteq> k) d"

definition add_trace_context :: "(string \<times> string) option \<Rightarrow> pyval dict \<Rightarrow> pyval dict" where
  "add_trace_context current_span event =
     (let e = without_key ''span_id'' (without_key ''trace_id'' event)
      in case current_span of
           None \<Rightarrow> e
         | Some (trace_id, span_id) \<Rightarrow>
             AList.update ''span_id'' (PStr span_id) (AList.update ''trace_id'' (PStr trace_id) e))"

section \<open>The processor chain and the context\<close>

text \<open>
  The processors of structlog itself, in the order \<open>configure_logging\<close> puts them: context merge, level,
  logger name, timestamp, stack and exception rendering. What reaches the renderer is the event
  after the last shared processor.
\<close>

record log_libs =
  lb_merge :: "pyval dict \<Rightarrow> pyval dict \<Rightarrow> pyval dict"
  lb_level :: "pyval dict \<Rightarrow> pyval dict"
  lb_name :: "pyval dict \<Rightarrow> pyval dict"
  lb_stamp :: "pyval dict \<Rightarrow> pyval dict"
  lb_stack :: "pyval dict \<Rightarrow> pyval dict"
  lb_exc_info :: "pyval dict \<Rightarrow> pyval dict"

definition shared_processors ::
    "log_libs \<Rightarrow> pyval dict \<Rightarrow> (string \<times> string) option \<Rightarrow> (pyval dict \<Rightarrow> pyval dict) list" where
  "shared_processors libs ctx current_span =
     [lb_merge libs ctx, lb_level libs, lb_name libs, add_trace_context current_span, lb_stamp libs,
      lb_stack libs, lb_exc_info libs, redact_security_secrets]"

definition rendered_event ::
    "log_libs \<Rightarrow> pyval dict \<Rightarrow> (string \<times> string) option \<Rightarrow> pyval dict \<Rightarrow> pyval dict" where
  "rendered_event libs ctx current_span event = fold (\<lambda>p e. p e) (shared_processors libs ctx current_span) event"

definition json_logs :: "(string \<rightharpoonup> string) \<Rightarrow> bool" where
  "json_logs env \<longleftrightarrow>
     py_lower (py_strip (case env ''LOG_FORMAT'' of None \<Rightarrow> ''json'' | Some v \<Rightarrow> v)) \<noteq> ''console''"

text \<open>The context variables: cleared and bound at startup, then one correlation id per request.\<close>

definition configured_context :: "string \<Rightarrow> string \<Rightarrow> string \<Rightarrow> pyval dict" where
  "configured_context service environment version =
     [(''service'', PStr service), (''environment'', PStr environment), (''version'', PStr version)]"

definition bind_correlation_id :: "string \<Rightarrow> string option \<Rightarrow> pyval dict \<Rightarrow> pyval dict" where
  "bind_correlation_id correlation_id trace_id ctx = AList.update ''correlation_id'' (PStr correlation_id) ctx"

definition clear_request_context :: "pyval dict \<Rightarrow> pyval dict" where
  "clear_request_context ctx = without_key ''correlation_id'' ctx"

lemma without_key_update: "without_key k (AList.update k v d) = without_key k d"
  by (induction d) (auto simp: without_key_def)

text \<open>A request leaves the process-wide fields as they were, whatever was bound during it.\<close>

lemma request_context_cleared:
  "clear_request_context (fold (\<lambda>(c, t). bind_correlation_id c t) binds (configured_context s e v)) =
     configured_context s e v"
proof -
  have "clear_request_context (fold (\<lambda>(c, t). bind_correlation_id c t) binds ctx) = clear_request_context ctx" for ctx
    by (induction binds arbitrary: ctx)
      (auto simp: clear_request_context_def bind_correlation_id_def without_key_update)
  then show ?thesis by (simp add: clear_request_context_def without_key_def configured_context_def)
qed

lemma rendered_event_redacted:
  "rendered_event libs ctx sp event = redact_security_secrets
     (lb_exc_info libs (lb_stack libs (lb_stamp libs (add_trace_context sp (lb_name libs (lb_level libs (lb_merge libs ctx event)))))))"
  by (simp add: rendered_event_def shared_processors_def)

section \<open>No sensitive field survives\<close>

lemma sensitive_redacted: "is_sensitive k \<Longrightarrow> redact_log_value k v = PStr redacted"
  by (cases v) simp_all

text \<open>Every field whose name is sensitive holds the placeholder, at every depth.\<close>

fun clean :: "pyval \<Rightarrow> bool" where
  "clean (PDict d) = list_all (\<lambda>(k, v). (is_sensitive k \<longrightarrow> v = PStr redacted) \<and> clean v) d"
| "clean (PList vs) = list_all clean vs"
| "clean v = True"

lemma redact_clean:
  "clean (redact_log_value key v)" "list_all clean (redact_items vs)"
  "list_all (\<lambda>(k, v). (is_sensitive k \<longrightarrow> v = PStr redacted) \<and> clean v) (redact_members d)"
  by (induction key v and vs and d rule: redact_log_value_redact_items_redact_members.induct)
    (simp_all add: sensitive_redacted)

text \<open>The keys of a record are kept, in order.\<close>

lemma redact_members_keys: "map fst (redact_members d) = map fst d"
  by (induction d) auto

text \<open>Two events that differ only below sensitive fields render alike.\<close>

lemma redact_members_hides:
  "list_all2 (\<lambda>(k, v) (k', v'). k = k' \<and> (is_sensitive k \<or> v = v')) d d' \<Longrightarrow> redact_members d = redact_members d'"
  by (induction d d' rule: list_all2_induct) (auto simp: sensitive_redacted)

section \<open>Bearer strings\<close>

lemma bearer_space: "py_isspace CHR '' ''" "\<not> bearer_char CHR '' ''"
  by (simp_all add: py_isspace_def bearer_char_def ord_of_def)

text \<open>A bearer credential at a word boundary is replaced, whatever the credential is.\<close>

lemma bearer_match_credential:
  assumes "tok \<noteq> []" and "list_all bearer_char tok" and "rest = [] \<or> \<not> bearer_char (hd rest)"
    and "py_lower word = ''bearer''"
  shows "bearer_match (word @ CHR '' '' # tok @ rest) = Some (tok, rest)"
proof -
  have "length (py_lower word) = length ''bearer''" using assms(4) by simp
  then have len: "length word = 6" by (simp add: py_lower_def)
  have ns: "\<not> py_isspace (hd tok)" using assms(1,2) by (cases tok) (auto simp: bearer_char_def)
  have "dropWhile py_isspace (CHR '' '' # tok @ rest) = tok @ rest"
    using ns assms(1) bearer_space(1) by (cases tok) auto
  moreover have "takeWhile bearer_char (tok @ rest) = tok" "dropWhile bearer_char (tok @ rest) = rest"
    using assms(2,3) by (cases rest; auto simp: list_all_iff takeWhile_append dropWhile_append)+
  ultimately show ?thesis
    using len assms(1,4) by (simp add: bearer_match_def)
qed

lemma redact_bearer_credential:
  assumes "tok \<noteq> []" and "list_all bearer_char tok" and "rest = [] \<or> \<not> bearer_char (hd rest)"
    and "py_lower word = ''bearer''"
  shows "redact_bearer False (word @ CHR '' '' # tok @ rest) =
    ''Bearer [REDACTED]'' @ redact_bearer (word_char (last tok)) rest"
proof -
  obtain c cs where "word = c # cs" using assms(4) by (cases word) (auto simp: py_lower_def)
  then show ?thesis using bearer_match_credential [OF assms] by simp
qed

text \<open>Without an equals sign there is nothing to redact in a query.\<close>

lemma redact_query_plain: "CHR ''='' \<notin> set s \<Longrightarrow> redact_query s = s"
proof (induction s rule: redact_query.induct)
  case (2 c cs)
  have "query_match (c # cs) = None"
  proof (rule ccontr)
    assume "query_match (c # cs) \<noteq> None"
    then obtain name where "query_match_name (c # cs) name \<noteq> None"
      by (auto simp: query_match_def dest!: first_some_Some)
    then have "startswith (drop (length name) (c # cs)) ''=''"
      by (simp add: query_match_name_def Let_def split: if_splits)
    then have "CHR ''='' \<in> set (drop (length name) (c # cs))" by (auto simp: startswith_iff)
    then show False using 2(3) by (meson in_set_dropD)
  qed
  then show ?case using 2 by simp
qed simp

text \<open>A doubled scheme word shields the credential: the pattern consumes the second word instead.\<close>

lemma doubled_bearer_leaks: "redact_text ''bearer Bearer s3cret'' = ''Bearer [REDACTED] s3cret''"
proof -
  have "redact_bearer False (''bearer'' @ CHR '' '' # ''Bearer'' @ '' s3cret'') =
      ''Bearer [REDACTED]'' @ redact_bearer (word_char (last ''Bearer'')) '' s3cret''"
    by (rule redact_bearer_credential)
      (simp_all add: bearer_char_def py_isspace_def py_lower_def lower_char_def ord_of_def)
  moreover have "redact_bearer (word_char CHR ''r'') '' s3cret'' = '' s3cret''"
    by (simp add: bearer_match_def word_char_def py_lower_def lower_char_def ord_of_def)
  ultimately have "redact_bearer False ''bearer Bearer s3cret'' = ''Bearer [REDACTED] s3cret''"
    by (simp del: redact_bearer.simps)
  then show ?thesis by (simp add: redact_text_def redact_query_plain del: redact_bearer.simps redact_query.simps)
qed

end
