(* ===== verification/Tracing.thy ===== *)
theory Tracing
  imports Logging_Redaction
begin

text \<open>
  \<open>adapters/tracing.py\<close>: metadata sanitisation and the Langfuse observer. The Langfuse client is a
  parameter that takes the generation and may raise; its log line is the only effect of a failure.
\<close>

definition allowed_metadata_keys :: "string list" where
  "allowed_metadata_keys =
     [''correlation_id'', ''environment'', ''feature'', ''operation'', ''outcome'', ''provider'',
      ''retry_count'', ''service'', ''trace_id'']"

definition max_metadata_string_length :: nat where
  "max_metadata_string_length = 256"

fun is_trace_scalar :: "pyval \<Rightarrow> bool" where
  "is_trace_scalar (PList vs) = False"
| "is_trace_scalar (PDict d) = False"
| "is_trace_scalar v = True"

definition keeps_metadata :: "string \<Rightarrow> pyval \<Rightarrow> bool" where
  "keeps_metadata key value \<longleftrightarrow>
     key \<in> set allowed_metadata_keys \<and> is_trace_scalar value \<and>
     \<not> (case as_str value of None \<Rightarrow> False | Some s \<Rightarrow> length s > max_metadata_string_length)"

fun sanitize_items :: "pyval dict \<Rightarrow> pyval dict \<Rightarrow> pyval dict" where
  "sanitize_items [] acc = acc"
| "sanitize_items ((key, value) # items) acc =
     sanitize_items items (if keeps_metadata key value then AList.update key value acc else acc)"

definition sanitize_metadata :: "pyval dict option \<Rightarrow> pyval dict" where
  "sanitize_metadata metadata = sanitize_items (case metadata of None \<Rightarrow> [] | Some m \<Rightarrow> m) []"

record llm_call =
  lc_name :: string
  lc_model :: string
  lc_latency :: pyval
  lc_input_tokens :: "int option"
  lc_output_tokens :: "int option"
  lc_prompt :: "string option"
  lc_completion :: "string option"
  lc_metadata :: "pyval dict option"

record generation =
  gn_name :: string
  gn_model :: string
  gn_input :: "string option"
  gn_output :: "string option"
  gn_usage :: "pyval dict option"
  gn_metadata :: "pyval dict"

definition generation_of :: "bool \<Rightarrow> llm_call \<Rightarrow> generation" where
  "generation_of capture_content call =
     (let usage = (case lc_input_tokens call of None \<Rightarrow> [] | Some n \<Rightarrow> [(''input'', PInt n)]) @
                  (case lc_output_tokens call of None \<Rightarrow> [] | Some n \<Rightarrow> [(''output'', PInt n)])
      in \<lparr>gn_name = lc_name call, gn_model = lc_model call,
          gn_input = (if capture_content then lc_prompt call else None),
          gn_output = (if capture_content then lc_completion call else None),
          gn_usage = (if usage = [] then None else Some usage),
          gn_metadata = AList.update ''latency_seconds'' (lc_latency call) (sanitize_metadata (lc_metadata call))\<rparr>)"

datatype llm_observer = NullObserver | LangfuseObserver bool

text \<open>\<open>record\<close>: the state after the call and the failures logged; never an exception.\<close>

fun observer_record ::
    "llm_observer \<Rightarrow> (generation \<Rightarrow> 's \<Rightarrow> exn option \<times> 's) \<Rightarrow> llm_call \<Rightarrow> 's \<Rightarrow> exn list \<times> 's" where
  "observer_record NullObserver client call st = ([], st)"
| "observer_record (LangfuseObserver capture) client call st =
     (case client (generation_of capture call) st of
        (None, st') \<Rightarrow> ([], st')
      | (Some e, st') \<Rightarrow> ([e], st'))"

definition env_given :: "(string \<rightharpoonup> string) \<Rightarrow> string \<Rightarrow> bool" where
  "env_given env name \<longleftrightarrow> env name \<noteq> None \<and> env name \<noteq> Some []"

definition build_llm_call_observer :: "(string \<rightharpoonup> string) \<Rightarrow> bool \<Rightarrow> llm_observer" where
  "build_llm_call_observer env langfuse_installed =
     (if \<not> env_given env ''LANGFUSE_PUBLIC_KEY'' \<or> \<not> env_given env ''LANGFUSE_SECRET_KEY'' then NullObserver
      else if \<not> langfuse_installed then NullObserver
      else LangfuseObserver
             (py_lower (py_strip (case env ''LANGFUSE_CAPTURE_CONTENT'' of None \<Rightarrow> ''false'' | Some v \<Rightarrow> v)) = ''true''))"

section \<open>What leaves the process\<close>

lemma keys_sanitize_items:
  "fst ` set (sanitize_items items acc) \<subseteq> fst ` set acc \<union> set allowed_metadata_keys"
proof (induction items acc rule: sanitize_items.induct)
  case (2 key val items acc)
  have "fst ` set (AList.update key val acc) = insert key (fst ` set acc)"
    by (simp add: dom_update)
  with 2 show ?case by (auto simp: keeps_metadata_def split: if_splits)
qed simp

lemma sanitize_values:
  "(\<And>k v. (k, v) \<in> set acc \<Longrightarrow> keeps_metadata k v) \<Longrightarrow> (k, v) \<in> set (sanitize_items items acc) \<Longrightarrow>
   keeps_metadata k v"
proof (induction items acc rule: sanitize_items.induct)
  case (2 key val items acc)
  have "set (AList.update key val acc) \<subseteq> insert (key, val) (set acc)"
    by (induction acc) auto
  with 2 show ?case by (fastforce split: if_splits)
qed simp

text \<open>Without the opt-in, a generation does not depend on the content of the call.\<close>

lemma generation_without_content:
  "generation_of False (call\<lparr>lc_prompt := p, lc_completion := c\<rparr>) = generation_of False call"
  by (simp add: generation_of_def)

lemma observer_isolated:
  "length (fst (observer_record obs client call st)) \<le> 1"
  by (cases obs) (auto split: prod.splits option.splits)

end
