(* ===== verification/Auth_Transport_Contract.thy ===== *)
theory Auth_Transport_Contract
  imports Settings
begin

text \<open>
  \<open>scripts/auth_transport_contract.py\<close>: the matrix of authentication providers and transport
  profiles the server supports, each cell built as real settings and validated by them.
\<close>

datatype transport_profile = ProductionHttps | LoopbackIpv4 | LoopbackIpv6

fun transport_value :: "transport_profile \<Rightarrow> string" where
  "transport_value ProductionHttps = ''production-https''"
| "transport_value LoopbackIpv4 = ''loopback-ipv4''"
| "transport_value LoopbackIpv6 = ''loopback-ipv6''"

definition contract_error :: "string \<Rightarrow> exn" where
  "contract_error m = RuntimeErr m"

text \<open>The defaults of the settings class.\<close>

definition default_settings :: "auth_provider \<Rightarrow> string \<Rightarrow> settings" where
  "default_settings p resource =
     \<lparr>service_name = ''mcp-server-auth-template'', app_env = Development, runtime_host = ''0.0.0.0'',
      runtime_port = 8000, runtime_workers = 1, runtime_backlog = 2048, runtime_keep_alive_seconds = 5,
      runtime_graceful_shutdown_seconds = 30, resource_server_url = resource, global_scopes = [],
      oidc_allow_insecure_loopback = False, transport_max_request_body_bytes = 1024 * 1024,
      transport_max_header_count = 64, transport_max_header_bytes = 32 * 1024,
      transport_max_concurrent_requests = 64, transport_allowed_hosts = [], transport_allowed_origins = [],
      provider = p, entra_tenant_id = None, entra_audience = None, entra_application_id_uri = None,
      generic_issuer_url = None, generic_audience = None, generic_jwks_allowed_origins = []\<rparr>"

definition matrix_tenant :: string where
  "matrix_tenant = ''11111111-1111-1111-1111-111111111111''"

definition matrix_audience :: string where
  "matrix_audience = ''api://22222222-2222-2222-2222-222222222222''"

fun profile_issuer :: "transport_profile \<Rightarrow> string \<times> bool" where
  "profile_issuer LoopbackIpv4 = (''http://127.0.0.1:9000'', True)"
| "profile_issuer LoopbackIpv6 = (''http://[::1]:9000'', True)"
| "profile_issuer ProductionHttps = (''https://identity.acme.corp'', False)"

definition provider_settings :: "auth_provider \<Rightarrow> transport_profile \<Rightarrow> settings \<Rightarrow> settings" where
  "provider_settings p t st =
     (if p = Entra
      then st\<lparr>entra_tenant_id := Some matrix_tenant, entra_audience := Some matrix_audience,
              entra_application_id_uri := Some matrix_audience\<rparr>
      else st\<lparr>generic_issuer_url := Some (fst (profile_issuer t)), generic_audience := Some ''mcp-production-audience'',
              oidc_allow_insecure_loopback := snd (profile_issuer t)\<rparr>)"

fun profile_resource :: "transport_profile \<Rightarrow> string" where
  "profile_resource ProductionHttps = ''https://mcp.acme.corp/mcp''"
| "profile_resource LoopbackIpv4 = ''http://127.0.0.1:8000/mcp''"
| "profile_resource LoopbackIpv6 = ''http://[::1]:8000/mcp''"

fun transport_settings :: "transport_profile \<Rightarrow> settings \<Rightarrow> settings" where
  "transport_settings ProductionHttps st =
     st\<lparr>app_env := Production, transport_allowed_hosts := [''mcp.acme.corp''],
        transport_allowed_origins := [''https://app.acme.corp'']\<rparr>"
| "transport_settings LoopbackIpv4 st =
     st\<lparr>app_env := Test, transport_allowed_hosts := [''127.0.0.1:8000''],
        transport_allowed_origins := [''http://127.0.0.1:3000'']\<rparr>"
| "transport_settings LoopbackIpv6 st =
     st\<lparr>app_env := Test, transport_allowed_hosts := [''[::1]:8000''],
        transport_allowed_origins := [''http://[::1]:3000'']\<rparr>"

definition profile_values :: "auth_provider \<Rightarrow> transport_profile \<Rightarrow> settings" where
  "profile_values p t =
     transport_settings t (provider_settings p t (default_settings p (profile_resource t)))"

definition build_profile_settings :: "auth_provider \<Rightarrow> transport_profile \<Rightarrow> settings result" where
  "build_profile_settings p t = validate_settings (profile_values p t)"

fun address_family :: "ip_address \<Rightarrow> string" where
  "address_family (IPv4 a) = ''ipv4''"
| "address_family (IPv6 a sc) = ''ipv6''"

definition local_family :: "auth_provider \<Rightarrow> settings \<Rightarrow> split_url \<Rightarrow> string result" where
  "local_family p st parsed =
     (case url_hostname parsed of
        None \<Rightarrow> Inl (contract_error ''local transport must use HTTP on a loopback IP'')
      | Some host \<Rightarrow>
          if u_scheme parsed \<noteq> ''http'' then Inl (contract_error ''local transport must use HTTP on a loopback IP'')
          else (case ip_address host of
                  None \<Rightarrow> Inl (ValueError host)
                | Some address \<Rightarrow>
                    if \<not> is_loopback address
                    then Inl (contract_error ''local transport escaped the loopback boundary'')
                    else if p = Generic \<and> \<not> oidc_allow_insecure_loopback st
                    then Inl (contract_error ''local generic OIDC requires explicit loopback opt-in'')
                    else Inr (address_family address)))"

definition production_family :: "settings \<Rightarrow> split_url \<Rightarrow> string result" where
  "production_family st parsed =
     (if app_env st \<noteq> Production \<or> u_scheme parsed \<noteq> ''https''
      then Inl (contract_error ''production transport must use HTTPS'')
      else if oidc_allow_insecure_loopback st
      then Inl (contract_error ''production must reject insecure OIDC loopback'')
      else Inr ''n/a'')"

definition profile_evidence :: "auth_provider \<Rightarrow> transport_profile \<Rightarrow> settings \<Rightarrow> pyval dict result" where
  "profile_evidence p t st =
     rbind (split_url (resource_server_url st)) (\<lambda>parsed.
     rbind (if t = ProductionHttps then production_family st parsed else local_family p st parsed) (\<lambda>family.
       Inr [(''status'', PStr ''ok''), (''provider'', PStr (provider_value p)), (''transport'', PStr (transport_value t)),
            (''resource_scheme'', PStr (u_scheme parsed)), (''address_family'', PStr family)]))"

definition validate_transport_profile :: "auth_provider \<Rightarrow> transport_profile \<Rightarrow> pyval dict result" where
  "validate_transport_profile p t = rbind (build_profile_settings p t) (profile_evidence p t)"

section \<open>What the contract's checks ask of settings\<close>

definition supported_profile :: "auth_provider \<Rightarrow> transport_profile \<Rightarrow> settings \<Rightarrow> split_url \<Rightarrow> string \<Rightarrow> bool" where
  "supported_profile p t st u family \<longleftrightarrow>
     urlsplit (resource_server_url st) = Some u \<and>
     (if t = ProductionHttps
      then app_env st = Production \<and> u_scheme u = ''https'' \<and> \<not> oidc_allow_insecure_loopback st \<and> family = ''n/a''
      else u_scheme u = ''http'' \<and> (p = Generic \<longrightarrow> oidc_allow_insecure_loopback st) \<and>
        (\<exists>host a. url_hostname u = Some host \<and> ip_address host = Some a \<and> is_loopback a \<and> family = address_family a))"

lemma production_family_Inr:
  "production_family st u = Inr f \<longleftrightarrow>
     app_env st = Production \<and> u_scheme u = ''https'' \<and> \<not> oidc_allow_insecure_loopback st \<and> f = ''n/a''"
  by (auto simp: production_family_def)

lemma local_family_Inr:
  "local_family p st u = Inr f \<longleftrightarrow>
     u_scheme u = ''http'' \<and> (p = Generic \<longrightarrow> oidc_allow_insecure_loopback st) \<and>
     (\<exists>host a. url_hostname u = Some host \<and> ip_address host = Some a \<and> is_loopback a \<and> f = address_family a)"
  by (auto simp: local_family_def split: option.splits if_splits)

lemma profile_evidence_Inr:
  "profile_evidence p t st = Inr e \<longleftrightarrow>
     (\<exists>u family. supported_profile p t st u family \<and>
        e = [(''status'', PStr ''ok''), (''provider'', PStr (provider_value p)), (''transport'', PStr (transport_value t)),
             (''resource_scheme'', PStr (u_scheme u)), (''address_family'', PStr family)])"
proof -
  have "split_url s = Inr u \<longleftrightarrow> urlsplit s = Some u" for s u by (simp add: split_url_def split: option.splits)
  then show ?thesis
    by (cases "t = ProductionHttps")
      (auto simp: profile_evidence_def supported_profile_def rbind_Inr_iff production_family_Inr local_family_Inr)
qed

text \<open>Of accepted settings little is left to ask: the validators keep plain HTTP to loopback literals.\<close>

lemma accepted_resource:
  assumes "validate_settings raw = Inr st"
  obtains u where "urlsplit (resource_server_url st) = Some u"
    "u_scheme u = ''https'' \<or> u_scheme u = ''http'' \<and>
       (\<exists>host a. url_hostname u = Some host \<and> ip_address host = Some a \<and> is_loopback a)"
proof -
  have "validate_resource_server_url st = Inr ()"
    using validate_settings_idem [OF assms] by (simp add: validate_settings_Inr require_matching_Inr)
  with that show thesis
    by (auto simp: validate_resource_server_url_def rbind_Inr_iff split_url_def split: option.splits if_splits)
qed

lemma accepted_profile:
  assumes "validate_settings raw = Inr st"
  shows "(\<exists>e. profile_evidence p t st = Inr e) \<longleftrightarrow>
    (if t = ProductionHttps then app_env st = Production
     else (\<exists>u. urlsplit (resource_server_url st) = Some u \<and> u_scheme u = ''http'') \<and>
       (p = Generic \<longrightarrow> oidc_allow_insecure_loopback st))"
proof -
  obtain u where u: "urlsplit (resource_server_url st) = Some u"
    "u_scheme u = ''https'' \<or> u_scheme u = ''http'' \<and>
       (\<exists>host a. url_hostname u = Some host \<and> ip_address host = Some a \<and> is_loopback a)"
    using assms by (rule accepted_resource)
  show ?thesis
  proof (cases "t = ProductionHttps")
    case True
    then show ?thesis
      using production_accepted(1,2) [OF assms] u(1)
      by (auto simp: profile_evidence_Inr supported_profile_def public_url_def)
  next
    case False
    then show ?thesis using u by (auto simp: profile_evidence_Inr supported_profile_def)
  qed
qed

section \<open>The cells\<close>

fun ones :: "nat \<Rightarrow> nat" where
  "ones 0 = 0"
| "ones (Suc k) = 16 * ones k + 1"

lemma hex_fixed_ones: "hex_fixed k (ones k) = replicate k CHR ''1''"
proof (induction k)
  case (Suc k)
  have "(16 * ones k + 1) div 16 = ones k" "(16 * ones k + 1) mod 16 = 1" by simp_all
  moreover have "hex_char 1 = CHR ''1''" by code_simp
  ultimately show ?case
    using Suc by (simp add: replicate_append_same del: mult_Suc_right One_nat_def)
qed simp

lemma ones_less: "ones k < 16 ^ k"
  by (induction k) auto

lemma matrix_uuid: "uuid_canonical matrix_tenant = Some matrix_tenant"
proof -
  have "uuid_text (ones 32) =
      (let h = replicate 32 CHR ''1''
       in take 8 h @ ''-'' @ take 4 (drop 8 h) @ ''-'' @ take 4 (drop 12 h) @ ''-'' @ take 4 (drop 16 h) @ ''-'' @ drop 20 h)"
    by (simp only: uuid_text_def hex_fixed_ones)
  also have "\<dots> = matrix_tenant" by code_simp
  finally have "matrix_tenant = uuid_text (ones 32)" by simp
  moreover have "(16 :: nat) ^ 32 = 2 ^ 128" by simp
  with ones_less [of 32] have "ones 32 < 2 ^ 128" by metis
  ultimately show ?thesis using uuid_canonical_text by metis
qed

lemma loopback_literals:
  "ip_address ''::1'' = Some (IPv6 1 None)" "ip_address ''127.0.0.1'' = Some (IPv4 0x7F000001)"
  "is_loopback6 1" "is_loopback4 0x7F000001"
  by (simp_all add: ip_eval ip_class_eval)

lemma matrix_splits:
  "urlsplit ''https://mcp.acme.corp/mcp'' =
     Some \<lparr>u_scheme = ''https'', u_netloc = ''mcp.acme.corp'', u_path = ''/mcp'', u_query = [], u_fragment = []\<rparr>"
  "urlsplit ''http://127.0.0.1:8000/mcp'' =
     Some \<lparr>u_scheme = ''http'', u_netloc = ''127.0.0.1:8000'', u_path = ''/mcp'', u_query = [], u_fragment = []\<rparr>"
  "urlsplit ''http://[::1]:8000/mcp'' =
     Some \<lparr>u_scheme = ''http'', u_netloc = ''[::1]:8000'', u_path = ''/mcp'', u_query = [], u_fragment = []\<rparr>"
  "urlsplit ''https://app.acme.corp'' =
     Some \<lparr>u_scheme = ''https'', u_netloc = ''app.acme.corp'', u_path = [], u_query = [], u_fragment = []\<rparr>"
  "urlsplit ''http://127.0.0.1:3000'' =
     Some \<lparr>u_scheme = ''http'', u_netloc = ''127.0.0.1:3000'', u_path = [], u_query = [], u_fragment = []\<rparr>"
  "urlsplit ''http://[::1]:3000'' =
     Some \<lparr>u_scheme = ''http'', u_netloc = ''[::1]:3000'', u_path = [], u_query = [], u_fragment = []\<rparr>"
  "urlsplit ''https://identity.acme.corp'' =
     Some \<lparr>u_scheme = ''https'', u_netloc = ''identity.acme.corp'', u_path = [], u_query = [], u_fragment = []\<rparr>"
  "urlsplit ''mcp-production-audience'' =
     Some \<lparr>u_scheme = [], u_netloc = [], u_path = ''mcp-production-audience'', u_query = [], u_fragment = []\<rparr>"
  "urlsplit ''//mcp.acme.corp'' =
     Some \<lparr>u_scheme = [], u_netloc = ''mcp.acme.corp'', u_path = [], u_query = [], u_fragment = []\<rparr>"
  "urlsplit ''//127.0.0.1:8000'' =
     Some \<lparr>u_scheme = [], u_netloc = ''127.0.0.1:8000'', u_path = [], u_query = [], u_fragment = []\<rparr>"
  "urlsplit ''//[::1]:8000'' =
     Some \<lparr>u_scheme = [], u_netloc = ''[::1]:8000'', u_path = [], u_query = [], u_fragment = []\<rparr>"
  by (simp_all add: url_eval loopback_literals ex_bool_eq all_bool_eq)

definition matrix_netloc :: "string \<Rightarrow> split_url" where
  "matrix_netloc n = \<lparr>u_scheme = [], u_netloc = n, u_path = [], u_query = [], u_fragment = []\<rparr>"

lemma url_parts_netloc:
  "url_hostname \<lparr>u_scheme = s, u_netloc = n, u_path = p, u_query = q, u_fragment = f\<rparr> = url_hostname (matrix_netloc n)"
  "url_port \<lparr>u_scheme = s, u_netloc = n, u_path = p, u_query = q, u_fragment = f\<rparr> = url_port (matrix_netloc n)"
  "has_credentials_part \<lparr>u_scheme = s, u_netloc = n, u_path = p, u_query = q, u_fragment = f\<rparr> = has_credentials_part (matrix_netloc n)"
  by (simp_all add: matrix_netloc_def url_hostname_def url_port_def hostinfo_def has_credentials_part_def
      url_username_def url_password_def userinfo_def)

lemma matrix_hosts:
  "url_hostname (matrix_netloc ''mcp.acme.corp'') = Some ''mcp.acme.corp''"
  "url_hostname (matrix_netloc ''app.acme.corp'') = Some ''app.acme.corp''"
  "url_hostname (matrix_netloc ''identity.acme.corp'') = Some ''identity.acme.corp''"
  "url_hostname (matrix_netloc ''127.0.0.1:8000'') = Some ''127.0.0.1''"
  "url_hostname (matrix_netloc ''127.0.0.1:3000'') = Some ''127.0.0.1''"
  "url_hostname (matrix_netloc ''[::1]:8000'') = Some ''::1''"
  "url_hostname (matrix_netloc ''[::1]:3000'') = Some ''::1''"
  "url_hostname (matrix_netloc []) = None"
  "url_port (matrix_netloc ''mcp.acme.corp'') = Inr None" "url_port (matrix_netloc ''app.acme.corp'') = Inr None"
  "url_port (matrix_netloc ''identity.acme.corp'') = Inr None"
  "url_port (matrix_netloc ''127.0.0.1:8000'') = Inr (Some 8000)"
  "url_port (matrix_netloc ''127.0.0.1:3000'') = Inr (Some 3000)"
  "url_port (matrix_netloc ''[::1]:8000'') = Inr (Some 8000)"
  "url_port (matrix_netloc ''[::1]:3000'') = Inr (Some 3000)"
  by (simp_all add: url_eval matrix_netloc_def)

lemma matrix_no_credentials:
  "n \<in> {''mcp.acme.corp'', ''app.acme.corp'', ''identity.acme.corp'', ''127.0.0.1:8000'', ''127.0.0.1:3000'',
     ''[::1]:8000'', ''[::1]:3000''} \<Longrightarrow> \<not> has_credentials_part (matrix_netloc n)"
  by (auto simp: url_eval matrix_netloc_def has_credentials_part_def)

lemma matrix_names:
  "\<not> is_placeholder_hostname (Some ''mcp.acme.corp'')" "\<not> is_placeholder_hostname (Some ''app.acme.corp'')"
  "\<not> is_placeholder_hostname (Some ''identity.acme.corp'')"
  "list_all (\<lambda>s. \<not> invisible s) [''0.0.0.0'', ''mcp.acme.corp'', ''127.0.0.1:8000'', ''[::1]:8000'',
     ''https://app.acme.corp'', ''http://127.0.0.1:3000'', ''http://[::1]:3000'']"
  "matrix_tenant \<noteq> []" "matrix_audience \<noteq> []" "matrix_tenant \<noteq> zero_uuid" "\<not> contains (py_lower matrix_audience) zero_uuid"
  by code_simp+

lemmas matrix_eval =
  matrix_splits matrix_hosts matrix_no_credentials matrix_names [simplified]

text \<open>One lemma per group of checks, shared by the cells.\<close>

lemma matrix_cell_valid: "build_profile_settings p t = Inr (profile_values p t)"
  by (cases p; cases t)
    (simp_all add: build_profile_settings_def profile_values_def provider_settings_def default_settings_def
      validate_settings_Inr require_matching_Inr field_issues_def validate_runtime_settings_def
      validate_resource_server_url_def split_url_def matrix_eval validate_transport_allowlists_def visible_values_def
      check_allowed_host_def check_allowed_origin_def is_exact_origin_def endswith_def url_parts_netloc loopback_literals
      canonical_tenant_def matrix_uuid missing_fields_def given_def validate_production_profile_def
      check_production_origin_def check_production_entra_def check_production_generic_def or_empty_def ensure_def)

fun expected_family :: "transport_profile \<Rightarrow> string" where
  "expected_family ProductionHttps = ''n/a''"
| "expected_family LoopbackIpv4 = ''ipv4''"
| "expected_family LoopbackIpv6 = ''ipv6''"

lemma matrix_cell_family:
  "urlsplit (profile_resource t) = Some u \<Longrightarrow>
     (if t = ProductionHttps then production_family (profile_values p t) u else local_family p (profile_values p t) u) =
       Inr (expected_family t)"
  by (cases p; cases t)
    (auto simp: production_family_def local_family_def profile_values_def provider_settings_def default_settings_def
      matrix_eval url_parts_netloc loopback_literals)

lemma matrix_cell_resource: "resource_server_url (profile_values p t) = profile_resource t"
  by (cases p; cases t) (simp_all add: profile_values_def provider_settings_def default_settings_def)

end
