(* ===== verification/Entrypoint_Properties.thy ===== *)
theory Entrypoint_Properties
  imports Mcp_Server Preflight Tracing Auth_Transport_Contract
begin

text \<open>
  The properties of the entrypoints: settings, preflight, lifespan, log redaction and tracing, with
  one example configuration per authentication provider.
\<close>

section \<open>Example configurations\<close>

definition generic_settings :: settings where
  "generic_settings =
     \<lparr>service_name = ''mcp'', app_env = Production, runtime_host = ''0.0.0.0'', runtime_port = 8000,
      runtime_workers = 1, runtime_backlog = 2048, runtime_keep_alive_seconds = 5,
      runtime_graceful_shutdown_seconds = 30, resource_server_url = ''https://mcp.acme.io/mcp'',
      global_scopes = [''mcp:use''], oidc_allow_insecure_loopback = False,
      transport_max_request_body_bytes = 1048576, transport_max_header_count = 64,
      transport_max_header_bytes = 32768, transport_max_concurrent_requests = 64,
      transport_allowed_hosts = [], transport_allowed_origins = [''https://app.acme.io''], provider = Generic,
      entra_tenant_id = None, entra_audience = None, entra_application_id_uri = None,
      generic_issuer_url = Some ''https://id.acme.io'', generic_audience = Some ''mcp-api'',
      generic_jwks_allowed_origins = []\<rparr>"

definition entra_settings :: settings where
  "entra_settings = generic_settings
     \<lparr>provider := Entra, app_env := Staging, entra_tenant_id := Some (uuid_text 5),
      entra_audience := Some ''mcp-api'', entra_application_id_uri := Some ''api://mcp''\<rparr>"

lemma example_splits:
  "urlsplit ''https://mcp.acme.io/mcp'' =
     Some \<lparr>u_scheme = ''https'', u_netloc = ''mcp.acme.io'', u_path = ''/mcp'', u_query = [], u_fragment = []\<rparr>"
  "urlsplit ''https://app.acme.io'' =
     Some \<lparr>u_scheme = ''https'', u_netloc = ''app.acme.io'', u_path = [], u_query = [], u_fragment = []\<rparr>"
  "urlsplit ''https://id.acme.io'' =
     Some \<lparr>u_scheme = ''https'', u_netloc = ''id.acme.io'', u_path = [], u_query = [], u_fragment = []\<rparr>"
  "urlsplit ''mcp-api'' =
     Some \<lparr>u_scheme = [], u_netloc = [], u_path = ''mcp-api'', u_query = [], u_fragment = []\<rparr>"
  by (simp_all add: url_eval)

lemma example_hosts:
  "url_hostname \<lparr>u_scheme = s, u_netloc = ''mcp.acme.io'', u_path = p, u_query = q, u_fragment = f\<rparr> = Some ''mcp.acme.io''"
  "url_hostname \<lparr>u_scheme = s, u_netloc = ''app.acme.io'', u_path = p, u_query = q, u_fragment = f\<rparr> = Some ''app.acme.io''"
  "url_hostname \<lparr>u_scheme = s, u_netloc = ''id.acme.io'', u_path = p, u_query = q, u_fragment = f\<rparr> = Some ''id.acme.io''"
  "url_hostname \<lparr>u_scheme = s, u_netloc = [], u_path = p, u_query = q, u_fragment = f\<rparr> = None"
  "url_port \<lparr>u_scheme = s, u_netloc = ''app.acme.io'', u_path = p, u_query = q, u_fragment = f\<rparr> = Inr None"
  "url_port \<lparr>u_scheme = s, u_netloc = ''id.acme.io'', u_path = p, u_query = q, u_fragment = f\<rparr> = Inr None"
  "\<not> has_credentials_part \<lparr>u_scheme = s, u_netloc = ''mcp.acme.io'', u_path = p, u_query = q, u_fragment = f\<rparr>"
  "\<not> has_credentials_part \<lparr>u_scheme = s, u_netloc = ''app.acme.io'', u_path = p, u_query = q, u_fragment = f\<rparr>"
  "\<not> has_credentials_part \<lparr>u_scheme = s, u_netloc = ''id.acme.io'', u_path = p, u_query = q, u_fragment = f\<rparr>"
  by (simp_all add: url_eval has_credentials_part_def)

lemma example_names:
  "\<not> is_placeholder_hostname (Some ''mcp.acme.io'')" "\<not> is_placeholder_hostname (Some ''app.acme.io'')"
  "\<not> is_placeholder_hostname (Some ''id.acme.io'')" "\<not> invisible ''0.0.0.0''" "\<not> invisible ''https://app.acme.io''"
  by code_simp+

lemma generic_settings_named:
  "validate_settings (generic_settings\<lparr>service_name := n\<rparr>) = Inr (generic_settings\<lparr>service_name := n\<rparr>)"
  by (simp add: validate_settings_Inr require_matching_Inr field_issues_def generic_settings_def
      validate_runtime_settings_def validate_resource_server_url_def split_url_def example_splits example_hosts
      example_names validate_transport_allowlists_def visible_values_def check_allowed_origin_def is_exact_origin_def
      canonical_tenant_def missing_fields_def given_def validate_production_profile_def check_production_origin_def
      check_production_generic_def or_empty_def ensure_def)

lemma generic_settings_valid: "validate_settings generic_settings = Inr generic_settings"
  using generic_settings_named [of "''mcp''"] by (simp add: generic_settings_def)

lemma entra_settings_with_uri:
  assumes "uri \<noteq> []"
  shows "validate_settings (entra_settings\<lparr>entra_application_id_uri := Some uri\<rparr>) =
    Inr (entra_settings\<lparr>entra_application_id_uri := Some uri\<rparr>)"
proof -
  have c: "uuid_canonical (uuid_text 5) = Some (uuid_text 5)" by (rule uuid_canonical_text) simp
  then have "length (uuid_text 5) = 36" using uuid_canonical_chars by blast
  then have "uuid_text 5 \<noteq> []" by (metis list.size(3) zero_neq_numeral)
  then show ?thesis using assms
    by (simp add: validate_settings_Inr require_matching_Inr field_issues_def entra_settings_def generic_settings_def
        validate_runtime_settings_def validate_resource_server_url_def split_url_def example_splits example_hosts
        example_names validate_transport_allowlists_def visible_values_def check_allowed_origin_def is_exact_origin_def
        canonical_tenant_def missing_fields_def given_def validate_production_profile_def ensure_def c)
qed

lemma entra_settings_valid: "validate_settings entra_settings = Inr entra_settings"
  using entra_settings_with_uri [of "''api://mcp''"] by (simp add: entra_settings_def)

section \<open>Settings\<close>

text \<open>C23: Accepted production settings are hardened. The loopback exception is off. The resource, every
  allowed browser origin and, with a generic provider, the issuer and every extra JWKS origin are HTTPS
  URLs with a host that is no placeholder, without credentials, query or fragment, the origins without a
  path; the generic audience, when it is a URL with a host, names no placeholder. With Entra the tenant is
  not the all-zero one, and neither the audience nor the application URI contains it.\<close>

theorem production_settings_hardened:
  assumes "validate_settings raw = Inr st" and "app_env st = Production"
  shows "\<not> oidc_allow_insecure_loopback st \<and> (\<exists>u. public_url (resource_server_url st) u) \<and>
    list_all (\<lambda>origin. \<exists>u. public_url origin u \<and> u_path u = []) (transport_allowed_origins st) \<and>
    (case provider st of
       Generic \<Rightarrow>
         (\<exists>u. public_url (or_empty (generic_issuer_url st)) u) \<and>
         (\<exists>u. urlsplit (or_empty (generic_audience st)) = Some u \<and>
            (url_hostname u = None \<or> \<not> is_placeholder_hostname (url_hostname u))) \<and>
         list_all (\<lambda>origin. \<exists>u. public_url origin u \<and> u_path u = []) (generic_jwks_allowed_origins st)
     | Entra \<Rightarrow>
         entra_tenant_id st \<noteq> Some ''00000000-0000-0000-0000-000000000000'' \<and>
         list_all (\<lambda>v. \<not> contains (py_lower (or_empty v)) ''00000000-0000-0000-0000-000000000000'')
           [entra_audience st, entra_application_id_uri st])"
proof (cases "provider st")
  case Generic
  then show ?thesis
    using production_accepted(1-4) [OF assms]
    by (auto simp: check_production_generic_public list_all_iff)
next
  case Entra
  have e: "\<not> contains (py_lower []) zero_uuid" by (simp add: contains_def py_lower_def zero_uuid_def)
  show ?thesis
    using production_accepted(1-3,5) [OF assms] Entra e
    by (auto simp: check_production_entra_def rbind_Inr_iff zero_uuid_def or_empty_def split: option.splits)
qed

text \<open>A configuration with an extra JWKS origin; the same with a placeholder there is refused.\<close>

definition jwks_settings :: "string \<Rightarrow> settings" where
  "jwks_settings url = generic_settings\<lparr>generic_jwks_allowed_origins := [url]\<rparr>"

lemma jwks_settings_valid:
  "validate_settings (jwks_settings ''https://app.acme.io'') = Inr (jwks_settings ''https://app.acme.io'')"
  by (simp add: validate_settings_Inr require_matching_Inr field_issues_def generic_settings_def jwks_settings_def
      validate_runtime_settings_def validate_resource_server_url_def split_url_def example_splits example_hosts
      example_names validate_transport_allowlists_def visible_values_def check_allowed_origin_def is_exact_origin_def
      canonical_tenant_def missing_fields_def given_def validate_production_profile_def check_production_origin_def
      check_production_generic_def check_jwks_origin_def or_empty_def ensure_def)

theorem production_settings_hardened_witness:
  "validate_settings (jwks_settings ''https://app.acme.io'') = Inr (jwks_settings ''https://app.acme.io'') \<and>
   (\<exists>u. public_url ''https://id.acme.io'' u) \<and> (\<exists>u. public_url ''https://app.acme.io'' u \<and> u_path u = []) \<and>
   validate_settings (jwks_settings ''https://app.acme.test'') \<noteq> Inr (jwks_settings ''https://app.acme.test'')"
proof (intro conjI)
  have p: "app_env (jwks_settings url) = Production" "provider (jwks_settings url) = Generic"
    "generic_jwks_allowed_origins (jwks_settings url) = [url]"
    "or_empty (generic_issuer_url (jwks_settings url)) = ''https://id.acme.io''" for url
    by (simp_all add: jwks_settings_def generic_settings_def or_empty_def)
  note h = production_settings_hardened [OF jwks_settings_valid p(1)]
  show "validate_settings (jwks_settings ''https://app.acme.io'') = Inr (jwks_settings ''https://app.acme.io'')"
    by (rule jwks_settings_valid)
  show "\<exists>u. public_url ''https://id.acme.io'' u" "\<exists>u. public_url ''https://app.acme.io'' u \<and> u_path u = []"
    using h by (simp_all add: p)
  have "urlsplit ''https://app.acme.test'' =
     Some \<lparr>u_scheme = ''https'', u_netloc = ''app.acme.test'', u_path = [], u_query = [], u_fragment = []\<rparr>"
    "url_hostname \<lparr>u_scheme = ''https'', u_netloc = ''app.acme.test'', u_path = [], u_query = [], u_fragment = []\<rparr> =
     Some ''app.acme.test''"
    by (simp_all add: url_eval)
  moreover have "is_placeholder_hostname (Some ''app.acme.test'')" by code_simp
  ultimately have "\<not> (\<exists>u. public_url ''https://app.acme.test'' u \<and> u_path u = [])" by (simp add: public_url_def)
  then show "validate_settings (jwks_settings ''https://app.acme.test'') \<noteq> Inr (jwks_settings ''https://app.acme.test'')"
    using production_settings_hardened [OF _ p(1), of "jwks_settings ''https://app.acme.test''" "''https://app.acme.test''"]
    by (auto simp: p)
qed

text \<open>Validation is idempotent: settings that were accepted, canonicalised tenant included, are
  accepted again unchanged, so the launcher's second validation can neither fail nor alter them.\<close>

theorem settings_revalidation:
  assumes "validate_settings raw = Inr st"
  shows "validate_settings st = Inr st \<and> (\<exists>report. build_preflight_report st = Inr report)"
  using validate_settings_idem [OF assms] preflight_report_idem [OF assms] by simp

theorem settings_revalidation_witness:
  "\<exists>report. build_preflight_report entra_settings = Inr report"
  using settings_revalidation [OF entra_settings_valid] by simp

text \<open>C25: With accepted Entra settings the issuer is the Microsoft host followed by exactly one path
  segment of 36 hexadecimal digits and dashes: no configured tenant can add a path, an alias or
  another host.\<close>

theorem entra_issuer_confined:
  assumes "validate_settings raw = Inr st" and "provider st = Entra"
  shows "\<exists>tenant. resolve_issuer_url st = Inr (''https://login.microsoftonline.com/'' @ tenant @ ''/v2.0'') \<and>
    length tenant = 36 \<and> set tenant \<subseteq> set ''0123456789abcdef-''"
  using accepted_tenant [OF assms] assms(2)
  by (auto simp: resolve_issuer_url_def entra_issuer_def hex_chars_def)

theorem entra_issuer_confined_witness:
  "\<exists>tenant. resolve_issuer_url entra_settings = Inr (''https://login.microsoftonline.com/'' @ tenant @ ''/v2.0'') \<and>
    length tenant = 36"
  using entra_issuer_confined [OF entra_settings_valid] by (auto simp: entra_settings_def)

section \<open>Preflight and lifespan\<close>

text \<open>The preflight command exits with 0 exactly for a configuration that loads and validates, and
  with 2 when it does not.\<close>

theorem preflight_exit_code:
  assumes "preflight_main json loaded = Inr (code, out)"
  shows "code = (if \<exists>raw st. loaded = Inr raw \<and> validate_settings raw = Inr st then 0 else 2)"
  using preflight_exit_zero [OF assms] by auto

theorem preflight_exit_code_witness:
  "fst (2 :: int, StdoutJson (failure_report [([''auth_provider''], ''missing'')])) = 2"
proof -
  have "preflight_main True (Inl (ValidationErr [([''auth_provider''], ''missing'')])) =
      Inr (2, StdoutJson (failure_report [([''auth_provider''], ''missing'')]))"
    by (simp add: preflight_main_def)
  from preflight_exit_code [OF this] show ?thesis by simp
qed

text \<open>The lifespan makes readiness and the probe agree: while the server runs \<open>/readyz\<close> answers 200,
  and after shutdown, however serving ended and whether or not closing the client failed, it answers
  503, the client is closed and observability is stopped if it was given.\<close>

theorem readiness_lifecycle:
  "(let ready = \<lparr>sc_type = ''http'', sc_method = ''GET'', sc_path = ''/readyz'', sc_headers = hs\<rparr>;
        st' = snd (lifespan obs serving closing st)
    in probe_middleware (sl_status st') app ready send w = respond (status_response 503 ''not_ready'') send w \<and>
       probe_middleware (mark_ready (sl_status st)) app ready send w = respond (status_response 200 ''ready'') send w \<and>
       \<not> sl_client_open st' \<and> (if obs then \<not> sl_observing st' else True))"
  using lifespan_facts [of obs serving closing st "fst (lifespan obs serving closing st)" "snd (lifespan obs serving closing st)"]
  by (simp add: Let_def probe_readiness mark_ready_def)

section \<open>Logging and tracing\<close>

text \<open>In the event that reaches the renderer, whatever the processors before redaction added, every
  field with a sensitive name, at any depth of nested objects and lists, holds the placeholder;
  redaction itself adds, removes and moves no field.\<close>

theorem log_redaction_complete:
  "clean (PDict (rendered_event libs ctx current_span event)) \<and>
   map fst (redact_security_secrets event) = map fst event"
  using redact_clean(3) by (simp add: rendered_event_redacted redact_security_secrets_def redact_members_keys)

text \<open>A rendered event does not depend on what its sensitive fields held.\<close>

theorem log_redaction_noninterference:
  assumes "is_sensitive k"
  shows "redact_security_secrets (before @ (k, secret) # after) = redact_security_secrets (before @ (k, other) # after)"
  unfolding redact_security_secrets_def using assms
  by (intro redact_members_hides) (auto simp: list_all2_append intro: list_all2_refl)

text \<open>Without the explicit opt-in, what is sent to the tracing backend does not depend on the prompt
  or the completion, and with or without it every metadata entry is an allowlisted, bounded scalar
  or the latency.\<close>

theorem tracing_content_gated:
  "generation_of False (call\<lparr>lc_prompt := p, lc_completion := c\<rparr>) = generation_of False call \<and>
   list_all (\<lambda>(k, v). keeps_metadata k v) (sanitize_metadata metadata) \<and>
   set (map fst (gn_metadata (generation_of capture call))) \<subseteq> insert ''latency_seconds'' (set allowed_metadata_keys)"
proof (intro conjI)
  show "list_all (\<lambda>(k, v). keeps_metadata k v) (sanitize_metadata metadata)"
    using sanitize_values [of "[]"] by (auto simp: list_all_iff sanitize_metadata_def)
  show "set (map fst (gn_metadata (generation_of capture call))) \<subseteq> insert ''latency_seconds'' (set allowed_metadata_keys)"
    using keys_sanitize_items [of _ "[]"] by (auto simp: generation_of_def Let_def sanitize_metadata_def dom_update)
qed (rule generation_without_content)

section \<open>The compatibility matrix\<close>

text \<open>C37: The contract's checks of a profile pass exactly on settings with the promised transport: in
  production HTTPS in the production environment without the loopback exception, locally plain HTTP on a
  literal loopback address of the reported family, with the exception switched on for a generic
  provider. On settings the validators accept, only the environment is left to check in production, and
  locally the scheme and the exception, because accepted settings use plain HTTP on a loopback literal
  only and no exception in production. Every cell of the published matrix, two providers times three
  transports, is accepted unchanged by the settings validation and by these checks, with exactly the
  evidence the matrix promises.\<close>

theorem compatibility_matrix:
  assumes "validate_settings raw = Inr st"
  shows "(profile_evidence p t any = Inr e \<longleftrightarrow>
      (\<exists>u family. urlsplit (resource_server_url any) = Some u \<and>
         (if t = ProductionHttps
          then app_env any = Production \<and> u_scheme u = ''https'' \<and> \<not> oidc_allow_insecure_loopback any \<and> family = ''n/a''
          else u_scheme u = ''http'' \<and> (p = Generic \<longrightarrow> oidc_allow_insecure_loopback any) \<and>
            (\<exists>host a. url_hostname u = Some host \<and> ip_address host = Some a \<and> is_loopback a \<and> family = address_family a)) \<and>
         e = [(''status'', PStr ''ok''), (''provider'', PStr (provider_value p)), (''transport'', PStr (transport_value t)),
              (''resource_scheme'', PStr (u_scheme u)), (''address_family'', PStr family)])) \<and>
    ((\<exists>e. profile_evidence p t st = Inr e) \<longleftrightarrow>
      (if t = ProductionHttps then app_env st = Production
       else (\<exists>u. urlsplit (resource_server_url st) = Some u \<and> u_scheme u = ''http'') \<and>
         (p = Generic \<longrightarrow> oidc_allow_insecure_loopback st))) \<and>
    build_profile_settings p t = Inr (profile_values p t) \<and>
    validate_transport_profile p t = Inr
      [(''status'', PStr ''ok''), (''provider'', PStr (provider_value p)), (''transport'', PStr (transport_value t)),
       (''resource_scheme'', PStr (if t = ProductionHttps then ''https'' else ''http'')),
       (''address_family'', PStr (expected_family t))]"
proof -
  obtain u where u: "urlsplit (profile_resource t) = Some u" "u_scheme u = (if t = ProductionHttps then ''https'' else ''http'')"
    by (cases t) (simp_all add: matrix_splits)
  have "split_url (profile_resource t) = Inr u" using u(1) by (simp add: split_url_def)
  then have "validate_transport_profile p t = Inr
     [(''status'', PStr ''ok''), (''provider'', PStr (provider_value p)), (''transport'', PStr (transport_value t)),
      (''resource_scheme'', PStr (u_scheme u)), (''address_family'', PStr (expected_family t))]"
    unfolding validate_transport_profile_def profile_evidence_def
    by (simp only: matrix_cell_valid rbind_simps matrix_cell_resource matrix_cell_family [OF u(1)])
  then show ?thesis
    using matrix_cell_valid u(2)
    by (intro conjI accepted_profile [OF assms] profile_evidence_Inr [unfolded supported_profile_def conj_assoc]) simp_all
qed

theorem compatibility_matrix_witness:
  "validate_settings generic_settings = Inr generic_settings \<and>
   (\<exists>e. profile_evidence Generic ProductionHttps generic_settings = Inr e) \<and>
   \<not> (\<exists>e. profile_evidence Generic LoopbackIpv4 generic_settings = Inr e) \<and>
   \<not> (\<exists>e. profile_evidence Entra ProductionHttps entra_settings = Inr e)"
proof (intro conjI)
  show "validate_settings generic_settings = Inr generic_settings" by (rule generic_settings_valid)
  have g: "app_env generic_settings = Production" "\<not> oidc_allow_insecure_loopback generic_settings"
    by (simp_all add: generic_settings_def)
  show "\<exists>e. profile_evidence Generic ProductionHttps generic_settings = Inr e"
    using compatibility_matrix [OF generic_settings_valid, THEN conjunct2, THEN conjunct1, of Generic ProductionHttps] g by simp
  show "\<not> (\<exists>e. profile_evidence Generic LoopbackIpv4 generic_settings = Inr e)"
    using compatibility_matrix [OF generic_settings_valid, THEN conjunct2, THEN conjunct1, of Generic LoopbackIpv4] g by simp
  have "app_env entra_settings = Staging" by (simp add: entra_settings_def)
  then show "\<not> (\<exists>e. profile_evidence Entra ProductionHttps entra_settings = Inr e)"
    using compatibility_matrix [OF entra_settings_valid, THEN conjunct2, THEN conjunct1, of Entra ProductionHttps] by simp
qed

end
