(* ===== verification/Python_Date.thy ===== *)
theory Python_Date
  imports Prelude
begin

text \<open>
  The part of \<open>datetime.date\<close> the scripts use: a date is a year, a month and a day, ordered as such;
  \<open>toordinal\<close> counts days, \<open>fromisoformat\<close> accepts what the C implementation of the standard
  library accepts (calendar and week dates, with or without separators), \<open>isoformat\<close> prints
  \<open>YYYY-MM-DD\<close>. The file shows that the ordinal is strictly increasing and that printing and
  parsing are inverse.
\<close>

datatype date = Date (d_year: nat) (d_month: nat) (d_day: nat)

instantiation date :: linorder
begin

definition less_eq_date :: "date \<Rightarrow> date \<Rightarrow> bool" where
  "a \<le> b \<longleftrightarrow> [d_year a, d_month a, d_day a] \<le> [d_year b, d_month b, d_day b]"

definition less_date :: "date \<Rightarrow> date \<Rightarrow> bool" where
  "a < b \<longleftrightarrow> [d_year a, d_month a, d_day a] < [d_year b, d_month b, d_day b]"

instance
  by standard (auto simp: less_eq_date_def less_date_def intro: date.expand)

end

section \<open>The calendar\<close>

definition is_leap :: "nat \<Rightarrow> bool" where
  "is_leap y \<longleftrightarrow> y mod 4 = 0 \<and> (y mod 100 \<noteq> 0 \<or> y mod 400 = 0)"

definition month_lengths :: "nat list" where
  "month_lengths = [31, 28, 31, 30, 31, 30, 31, 31, 30, 31, 30, 31]"

definition days_in_month :: "nat \<Rightarrow> nat \<Rightarrow> nat" where
  "days_in_month y m = (if m = 2 \<and> is_leap y then 29 else month_lengths ! (m - 1))"

definition days_before_month :: "nat \<Rightarrow> nat \<Rightarrow> nat" where
  "days_before_month y m = sum_list (take (m - 1) month_lengths) + (if 2 < m \<and> is_leap y then 1 else 0)"

definition days_before_year :: "nat \<Rightarrow> nat" where
  "days_before_year y = (y - 1) * 365 + (y - 1) div 4 + (y - 1) div 400 - (y - 1) div 100"

definition valid_date :: "date \<Rightarrow> bool" where
  "valid_date d \<longleftrightarrow> 1 \<le> d_year d \<and> d_year d \<le> 9999 \<and> 1 \<le> d_month d \<and> d_month d \<le> 12 \<and>
     1 \<le> d_day d \<and> d_day d \<le> days_in_month (d_year d) (d_month d)"

definition to_ordinal :: "date \<Rightarrow> nat" where
  "to_ordinal d = days_before_year (d_year d) + days_before_month (d_year d) (d_month d) + d_day d"

text \<open>\<open>(a - b).days\<close>.\<close>

definition days_between :: "date \<Rightarrow> date \<Rightarrow> int" where
  "days_between a b = int (to_ordinal a) - int (to_ordinal b)"

text \<open>\<open>ord_to_ymd\<close>.\<close>

definition of_ordinal :: "nat \<Rightarrow> date" where
  "of_ordinal ordinal =
     (let n = ordinal - 1; n400 = n div 146097; n = n mod 146097;
          n100 = n div 36524; n = n mod 36524; n4 = n div 1461; n = n mod 1461;
          n1 = n div 365; n = n mod 365;
          year = n400 * 400 + 1 + n100 * 100 + n4 * 4 + n1
      in if n1 = 4 \<or> n100 = 4 then Date (year - 1) 12 31
         else let month = (n + 50) div 32;
                  month = (if days_before_month year month > n then month - 1 else month)
              in Date year month (n - days_before_month year month + 1))"

text \<open>Monday is 0.\<close>

definition weekday :: "nat \<Rightarrow> nat \<Rightarrow> nat \<Rightarrow> nat" where
  "weekday y m d = (to_ordinal (Date y m d) + 6) mod 7"

definition iso_week1_monday :: "nat \<Rightarrow> nat" where
  "iso_week1_monday y =
     (let first_day = to_ordinal (Date y 1 1); first_weekday = (first_day + 6) mod 7;
          week1_monday = first_day - first_weekday
      in if first_weekday > 3 then week1_monday + 7 else week1_monday)"

definition iso_to_ymd :: "nat \<Rightarrow> nat \<Rightarrow> nat \<Rightarrow> date option" where
  "iso_to_ymd y week wd =
     (if y < 1 \<or> 9999 < y then None
      else if week = 0 \<or> 53 < week then None
      else if week = 53 \<and> \<not> (weekday y 1 1 = 3 \<or> weekday y 1 1 = 2 \<and> is_leap y) then None
      else if wd = 0 \<or> 7 < wd then None
      else Some (of_ordinal (iso_week1_monday y + (week - 1) * 7 + wd - 1)))"

section \<open>Parsing and printing\<close>

text \<open>\<open>n\<close> decimal digits, then the rest.\<close>

definition parse_digits :: "nat \<Rightarrow> string \<Rightarrow> (nat \<times> string) option" where
  "parse_digits n s =
     (if length (take n s) = n \<and> list_all is_digit (take n s)
      then Some (nat_of_digits (take n s), drop n s) else None)"

text \<open>The UTF-8 length: a code point from 0x80 on takes two bytes.\<close>

definition utf8_length :: "string \<Rightarrow> nat" where
  "utf8_length s = sum_list (map (\<lambda>c. if ord_of c < 128 then 1 else 2) s)"

definition parse_week_date :: "nat \<Rightarrow> bool \<Rightarrow> string \<Rightarrow> date option" where
  "parse_week_date y sep rest =
     (case parse_digits 2 rest of
        None \<Rightarrow> None
      | Some (week, []) \<Rightarrow> iso_to_ymd y week 1
      | Some (week, c # cs) \<Rightarrow>
          if sep \<and> c \<noteq> CHR ''-'' then None
          else (case parse_digits 1 (if sep then cs else c # cs) of
                  None \<Rightarrow> None
                | Some (wd, _) \<Rightarrow> iso_to_ymd y week wd))"

definition parse_month_day :: "nat \<Rightarrow> bool \<Rightarrow> string \<Rightarrow> date option" where
  "parse_month_day y sep rest =
     (case parse_digits 2 rest of
        None \<Rightarrow> None
      | Some (m, rest1) \<Rightarrow>
          if sep \<and> \<not> startswith rest1 ''-'' then None
          else (case parse_digits 2 (if sep then tl rest1 else rest1) of
                  None \<Rightarrow> None
                | Some (d, _) \<Rightarrow> Some (Date y m d)))"

definition from_isoformat :: "string \<Rightarrow> date option" where
  "from_isoformat s =
     (if utf8_length s \<notin> {7, 8, 10} then None
      else case parse_digits 4 s of
        None \<Rightarrow> None
      | Some (y, rest) \<Rightarrow>
          let sep = startswith rest ''-''; rest1 = (if sep then tl rest else rest)
          in case (if startswith rest1 ''W'' then parse_week_date y sep (tl rest1)
                   else parse_month_day y sep rest1) of
               None \<Rightarrow> None
             | Some d \<Rightarrow> if valid_date d then Some d else None)"

definition digit_char :: "nat \<Rightarrow> char" where
  "digit_char n = char_of (48 + n mod 10)"

definition isoformat :: "date \<Rightarrow> string" where
  "isoformat d =
     [digit_char (d_year d div 1000), digit_char (d_year d div 100), digit_char (d_year d div 10),
      digit_char (d_year d), CHR ''-'', digit_char (d_month d div 10), digit_char (d_month d), CHR ''-'',
      digit_char (d_day d div 10), digit_char (d_day d)]"

section \<open>The ordinal is strictly increasing\<close>

lemma twelve_cases:
  fixes m :: nat
  assumes "1 \<le> m" "m \<le> 12"
  shows "m \<in> {1, 2, 3, 4, 5, 6, 7, 8, 9, 10, 11, 12}"
  using assms by auto presburger

lemma days_before_next_month:
  "1 \<le> m \<Longrightarrow> m < 12 \<Longrightarrow> days_before_month y (Suc m) = days_before_month y m + days_in_month y m"
  using twelve_cases [of m] by (auto simp: days_before_month_def days_in_month_def month_lengths_def)

lemma days_before_month_mono:
  assumes "1 \<le> m" "m < m'" "m' \<le> 12"
  shows "days_before_month y m + days_in_month y m \<le> days_before_month y m'"
  using assms(2,3)
proof (induction m')
  case (Suc k)
  then show ?case using assms(1) days_before_next_month [of k y] by (cases "m = k") auto
qed simp

lemma year_length:
  assumes "1 \<le> m" "m \<le> 12"
  shows "days_before_month y m + days_in_month y m \<le> 365 + (if is_leap y then 1 else 0)"
  using twelve_cases [OF assms] by (auto simp: days_before_month_def days_in_month_def month_lengths_def)

lemma days_before_next_year:
  assumes "1 \<le> y"
  shows "days_before_year (Suc y) = days_before_year y + 365 + (if is_leap y then 1 else 0)"
proof -
  obtain k where k: "y = Suc k" using assms by (cases y) auto
  define w x z :: nat where
    "w = (if Suc k mod 100 = 0 then 1 else 0)" and "x = (if Suc k mod 4 = 0 then 1 else 0)" and
    "z = (if Suc k mod 400 = 0 then 1 else 0)"
  have "Suc k mod 400 = 0 \<longrightarrow> Suc k mod 100 = 0" "Suc k mod 100 = 0 \<longrightarrow> Suc k mod 4 = 0" by presburger+
  then have wx: "w \<le> x" and leap: "(if is_leap y then 1 else 0) = x - w + z"
    unfolding k is_leap_def w_def x_def z_def by auto
  have step: "Suc k div 4 = k div 4 + x" "Suc k div 100 = k div 100 + w" "Suc k div 400 = k div 400 + z"
    by (simp_all add: div_Suc w_def x_def z_def)
  have "Suc k * 365 + (a + x) + (b + z) - (c + w) = k * 365 + a + b - c + 365 + (x - w + z)"
    if "c \<le> k" for a b c using that wx by (auto simp: le_iff_add)
  from this [of "k div 100" "k div 4" "k div 400"] show ?thesis
    by (simp only: leap, simp only: k days_before_year_def diff_Suc_1 step)
qed

lemma days_before_year_mono:
  assumes "1 \<le> y" "y < y'"
  shows "days_before_year y + 365 + (if is_leap y then 1 else 0) \<le> days_before_year y'"
  using assms(2)
proof (induction y')
  case (Suc k)
  then show ?case using assms(1) days_before_next_year [of k] by (cases "y = k") auto
qed simp

lemma to_ordinal_less:
  assumes "valid_date a" "valid_date b" "a < b"
  shows "to_ordinal a < to_ordinal b"
proof -
  consider "d_year a < d_year b" | "d_year a = d_year b" "d_month a < d_month b"
    | "d_year a = d_year b" "d_month a = d_month b" "d_day a < d_day b"
    using assms(3) by (auto simp: less_date_def)
  then show ?thesis
  proof cases
    case 1
    then show ?thesis
      using assms(1,2) days_before_year_mono [of "d_year a" "d_year b"]
        year_length [of "d_month a" "d_year a"]
      unfolding to_ordinal_def valid_date_def by linarith
  next
    case 2
    then show ?thesis
      using assms(1,2) days_before_month_mono [of "d_month a" "d_month b" "d_year a"]
      unfolding to_ordinal_def valid_date_def by simp
  next
    case 3
    then show ?thesis by (simp add: to_ordinal_def)
  qed
qed

lemma to_ordinal_less_iff:
  "valid_date a \<Longrightarrow> valid_date b \<Longrightarrow> to_ordinal a < to_ordinal b \<longleftrightarrow> a < b"
  by (metis linorder_less_linear order_less_asym to_ordinal_less)

lemma days_between_pos:
  "valid_date a \<Longrightarrow> valid_date b \<Longrightarrow> 0 < days_between b a \<longleftrightarrow> a < b"
  by (simp add: days_between_def to_ordinal_less_iff)

section \<open>Printing and parsing are inverse\<close>

lemma digit_char_facts:
  "ord_of (digit_char n) = 48 + n mod 10" "is_digit (digit_char n)"
  "digit_char n \<noteq> CHR ''-''" "digit_char n \<noteq> CHR ''W''"
proof -
  show o: "ord_of (digit_char n) = 48 + n mod 10" by (simp add: ord_of_def digit_char_def)
  then show "is_digit (digit_char n)" by (simp add: is_digit_def)
  show "digit_char n \<noteq> CHR ''-''" "digit_char n \<noteq> CHR ''W''" using o by (auto simp: ord_of_def)
qed

lemma from_isoformat_valid: "from_isoformat s = Some d \<Longrightarrow> valid_date d"
  by (auto simp: from_isoformat_def Let_def split: if_splits option.splits)

lemma from_isoformat_isoformat:
  assumes "valid_date d"
  shows "from_isoformat (isoformat d) = Some d"
proof -
  have b: "d_year d \<le> 9999" "d_month d \<le> 12" "d_day d \<le> 31"
    using assms twelve_cases [of "d_month d"]
    by (auto simp: valid_date_def days_in_month_def month_lengths_def split: if_splits)
  have four: "1000 * (y div 1000 mod 10) + 100 * (y div 100 mod 10) + 10 * (y div 10 mod 10) + y mod 10 = y"
    if "y \<le> 9999" for y :: nat
  proof -
    define a b c where "a = y div 10" and "b = a div 10" and "c = b div 10"
    have "y div 10 = a" "y div 100 = b" "y div 1000 = c"
      unfolding a_def b_def c_def by (simp_all flip: div_mult2_eq)
    moreover have "c < 10" using that unfolding a_def b_def c_def by (simp flip: div_mult2_eq)
    moreover have "10 * a + y mod 10 = y" "10 * b + a mod 10 = a" "10 * c + b mod 10 = b"
      unfolding a_def b_def c_def by simp_all
    ultimately show ?thesis by simp
  qed
  have two: "n div 10 mod 10 * 10 + n mod 10 = n" if "n \<le> 99" for n :: nat
  proof -
    have "n div 10 < 10" using that by simp
    moreover have "10 * (n div 10) + n mod 10 = n" by simp
    ultimately show ?thesis by (simp del: mult_div_mod_eq)
  qed
  have "n mod 10 < 80" for n :: nat by (rule less_trans [OF mod_less_divisor]) simp_all
  then have u: "utf8_length (isoformat d) = 10"
    by (simp add: utf8_length_def isoformat_def digit_char_facts(1)) (simp add: ord_of_def)
  have y: "parse_digits 4 (isoformat d) = Some (d_year d, drop 4 (isoformat d))"
    using four [OF b(1)] b(1) by (simp add: parse_digits_def isoformat_def digit_char_facts nat_of_digits_def)
  have md: "parse_month_day (d_year d) True (drop 5 (isoformat d)) = Some d"
    using two [of "d_month d"] two [of "d_day d"] b
    by (simp add: parse_month_day_def parse_digits_def isoformat_def digit_char_facts nat_of_digits_def startswith_def)
  have s: "startswith (drop 4 (isoformat d)) ''-''" "tl (drop 4 (isoformat d)) = drop 5 (isoformat d)"
    "\<not> startswith (drop 5 (isoformat d)) ''W''"
    using digit_char_facts(4) by (simp_all add: isoformat_def startswith_def)
  show ?thesis by (simp add: from_isoformat_def u y s md assms)
qed

lemmas date_eval =
  from_isoformat_def utf8_length_def parse_digits_def parse_week_date_def parse_month_day_def startswith_def
  nat_of_digits_def is_digit_def ord_of_def valid_date_def days_in_month_def month_lengths_def is_leap_def

text \<open>The parser accepts more than \<open>YYYY-MM-DD\<close>: the basic format and week dates.\<close>

lemma week_date_example: "iso_to_ymd 2026 2 1 = Some (Date 2026 1 5)"
proof -
  have "to_ordinal (Date 2026 1 1) = 739617"
    by (simp add: to_ordinal_def days_before_month_def days_before_year_def month_lengths_def)
  then have "iso_week1_monday 2026 = 739614" by (simp add: iso_week1_monday_def)
  moreover have "of_ordinal 739621 = Date 2026 1 5"
    by (simp add: of_ordinal_def days_before_month_def is_leap_def month_lengths_def Let_def)
  ultimately show ?thesis by (simp add: iso_to_ymd_def)
qed

lemma from_isoformat_examples:
  "from_isoformat ''20260105'' = Some (Date 2026 1 5)"
  "from_isoformat ''2026-W02-1'' = Some (Date 2026 1 5)"
  by (simp_all add: date_eval week_date_example [simplified])

end
