(* ===== verification/Vulnerability_Policy.thy ===== *)
theory Vulnerability_Policy
  imports Python_Date
begin

text \<open>
  \<open>scripts/enforce_vulnerability_policy.py\<close>: the gate that compares the scanner's report with the
  reviewed exceptions. A file is what reading and parsing it yields; \<open>repr_of\<close> is Python's \<open>repr\<close>.
\<close>

text \<open>What \<open>json.loads(path.read_text())\<close> meets: an OS error, bytes that are not UTF-8, text that is
  not JSON, or a value.\<close>

datatype json_file = Unreadable string | NotUtf8 | NotJson string | Json pyval

definition blocking_severities :: "string list" where
  "blocking_severities = [''critical'', ''high'']"

definition max_exception_window_days :: int where
  "max_exception_window_days = 90"

definition required_exception_fields :: "string list" where
  "required_exception_fields =
     [''expires_on'', ''installed_version'', ''namespace'', ''owner'', ''package'', ''package_type'', ''reason'',
      ''removal_plan'', ''reviewed_on'', ''vulnerability_id'']"

datatype finding_key = FindingKey
  (fk_vulnerability_id: string) (fk_namespace: string) (fk_package: string) (fk_package_type: string)
  (fk_installed_version: string)

definition fk_fields :: "finding_key \<Rightarrow> string list" where
  "fk_fields k = [fk_vulnerability_id k, fk_namespace k, fk_package k, fk_package_type k, fk_installed_version k]"

lemma fk_fields_inject [simp]: "fk_fields a = fk_fields b \<longleftrightarrow> a = b"
  by (auto simp: fk_fields_def intro: finding_key.expand)

instantiation finding_key :: linorder
begin

definition less_eq_finding_key :: "finding_key \<Rightarrow> finding_key \<Rightarrow> bool" where
  "a \<le> b \<longleftrightarrow> fk_fields a \<le> fk_fields b"

definition less_finding_key :: "finding_key \<Rightarrow> finding_key \<Rightarrow> bool" where
  "a < b \<longleftrightarrow> fk_fields a < fk_fields b"

instance
proof
  fix x y :: finding_key
  show "x < y \<longleftrightarrow> x \<le> y \<and> \<not> y \<le> x" by (simp add: less_eq_finding_key_def less_finding_key_def less_le_not_le)
  show "x \<le> y \<or> y \<le> x" by (auto simp: less_eq_finding_key_def)
  show "x \<le> y \<Longrightarrow> y \<le> x \<Longrightarrow> x = y"
    unfolding less_eq_finding_key_def by (metis fk_fields_inject order_antisym)
qed (auto simp: less_eq_finding_key_def)

end

definition vpe :: "string \<Rightarrow> 'a result" where
  "vpe m = Inl (VulnerabilityPolicyError m)"

lemma vpe_not_Inr [simp]: "vpe m \<noteq> Inr x"
  by (simp add: vpe_def)

definition load_object :: "(string \<Rightarrow> json_file) \<Rightarrow> string \<Rightarrow> pyval dict result" where
  "load_object files path =
     (case files path of
        Unreadable e \<Rightarrow> vpe (path @ '': invalid JSON: '' @ e)
      | NotUtf8 \<Rightarrow> Inl (OtherExn ''UnicodeDecodeError'')
      | NotJson e \<Rightarrow> vpe (path @ '': invalid JSON: '' @ e)
      | Json document \<Rightarrow>
          (case as_dict document of
             None \<Rightarrow> vpe (path @ '': document must be an object'')
           | Some d \<Rightarrow> Inr d))"

definition required_string :: "pyval dict \<Rightarrow> string \<Rightarrow> string \<Rightarrow> string result" where
  "required_string document field ctx =
     (case as_str (py_get document field) of
        None \<Rightarrow> vpe (ctx @ '': '' @ field @ '' must be a non-empty string'')
      | Some s \<Rightarrow>
          if py_strip s = [] then vpe (ctx @ '': '' @ field @ '' must be a non-empty string'')
          else Inr (py_strip s))"

text \<open>A key read from two objects, field by field, in the order of the code.\<close>

definition read_key ::
    "pyval dict \<Rightarrow> pyval dict \<Rightarrow> string \<Rightarrow> string \<Rightarrow> string \<Rightarrow> string \<Rightarrow> string \<Rightarrow> finding_key result" where
  "read_key vulnerability artifact ctx id_field name_field type_field version_field =
     rbind (required_string vulnerability id_field ctx) (\<lambda>i.
     rbind (required_string vulnerability ''namespace'' ctx) (\<lambda>ns.
     rbind (required_string artifact name_field ctx) (\<lambda>p.
     rbind (required_string artifact type_field ctx) (\<lambda>t.
     rbind (required_string artifact version_field ctx) (\<lambda>v.
       Inr (FindingKey i ns p t v))))))"

definition finding_key_of :: "pyval dict \<Rightarrow> string \<Rightarrow> finding_key result" where
  "finding_key_of m ctx =
     (case (as_dict (py_get m ''vulnerability''), as_dict (py_get m ''artifact'')) of
        (Some vulnerability, Some artifact) \<Rightarrow>
          read_key vulnerability artifact ctx ''id'' ''name'' ''type'' ''version''
      | _ \<Rightarrow> vpe (ctx @ '': finding requires vulnerability and artifact''))"

section \<open>The report\<close>

definition is_blocking :: "pyval dict \<Rightarrow> bool" where
  "is_blocking vulnerability =
     (case as_str (py_get vulnerability ''severity'') of
        None \<Rightarrow> False
      | Some s \<Rightarrow> py_lower s \<in> set blocking_severities)"

definition has_fix :: "pyval dict \<Rightarrow> bool" where
  "has_fix vulnerability =
     (case as_dict (py_get vulnerability ''fix'') of
        None \<Rightarrow> False
      | Some fx \<Rightarrow>
          (case as_list (py_get fx ''versions'') of
             None \<Rightarrow> False
           | Some versions \<Rightarrow>
               list_ex (\<lambda>v. case as_str v of None \<Rightarrow> False | Some s \<Rightarrow> py_strip s \<noteq> []) versions))"

text \<open>One match: nothing, an actionable finding or an unfixed one.\<close>

datatype classified = Ignored | Actionable finding_key | Unfixed finding_key

definition classify_match :: "string \<Rightarrow> pyval \<Rightarrow> classified result" where
  "classify_match ctx raw_match =
     (case as_dict raw_match of
        None \<Rightarrow> vpe (ctx @ '': finding must be an object'')
      | Some m \<Rightarrow>
          (case as_dict (py_get m ''vulnerability'') of
             None \<Rightarrow> vpe (ctx @ '': vulnerability must be an object'')
           | Some vulnerability \<Rightarrow>
               if \<not> is_blocking vulnerability then Inr Ignored
               else rbind (finding_key_of m ctx) (\<lambda>key.
                      Inr (if has_fix vulnerability then Actionable key else Unfixed key))))"

definition indexed :: "string \<Rightarrow> string \<Rightarrow> 'a list \<Rightarrow> (string \<times> 'a) list" where
  "indexed path member xs =
     map (\<lambda>(i, x). (path @ '': '' @ member @ ''['' @ show_nat i @ '']'', x)) (zip [0..<length xs] xs)"

fun collect_findings ::
    "(string \<times> pyval) list \<Rightarrow> finding_key list \<Rightarrow> finding_key list \<Rightarrow> (finding_key list \<times> finding_key list) result" where
  "collect_findings [] actionable unfixed = Inr (actionable, unfixed)"
| "collect_findings ((ctx, raw) # ms) actionable unfixed =
     rbind (classify_match ctx raw) (\<lambda>c. case c of
         Ignored \<Rightarrow> collect_findings ms actionable unfixed
       | Actionable k \<Rightarrow> collect_findings ms (List.insert k actionable) unfixed
       | Unfixed k \<Rightarrow> collect_findings ms actionable (List.insert k unfixed))"

text \<open>The keys of the two collections, without repetitions.\<close>

definition actionable_findings ::
    "(string \<Rightarrow> json_file) \<Rightarrow> string \<Rightarrow> (finding_key list \<times> finding_key list) result" where
  "actionable_findings files report_path =
     rbind (load_object files report_path) (\<lambda>report.
       case as_list (py_get report ''matches'') of
         None \<Rightarrow> vpe (report_path @ '': matches must be an array'')
       | Some matches \<Rightarrow> collect_findings (indexed report_path ''matches'' matches) [] [])"

section \<open>The exceptions\<close>

definition parse_policy_date :: "string \<Rightarrow> string \<Rightarrow> string \<Rightarrow> date result" where
  "parse_policy_date text_value ctx field =
     (case from_isoformat text_value of
        None \<Rightarrow> vpe (ctx @ '': '' @ field @ '' must use YYYY-MM-DD'')
      | Some d \<Rightarrow> Inr d)"

definition policy_date :: "pyval dict \<Rightarrow> string \<Rightarrow> string \<Rightarrow> date result" where
  "policy_date e field ctx = rbind (required_string e field ctx) (\<lambda>s. parse_policy_date s ctx field)"

definition field_errors :: "(pyval \<Rightarrow> string) \<Rightarrow> pyval dict \<Rightarrow> string \<Rightarrow> unit result" where
  "field_errors repr_of e ctx =
     (let actual = set (map fst e); required = set required_exception_fields
      in if actual = required then Inr ()
         else vpe (ctx @ '': invalid fields; missing='' @
                repr_of (PList (map PStr (filter (\<lambda>f. f \<notin> actual) required_exception_fields))) @
                '', unexpected='' @
                repr_of (PList (map PStr (sorted_set (filter (\<lambda>f. f \<notin> required) (map fst e)))))))"

text \<open>The checks on one exception that do not depend on the others.\<close>

definition check_window :: "string \<Rightarrow> date \<Rightarrow> date \<Rightarrow> date \<Rightarrow> unit result" where
  "check_window ctx effective reviewed expires =
     (if effective < reviewed then vpe (ctx @ '': reviewed_on cannot be in the future'')
      else if expires < effective then vpe (ctx @ '': exception expired on '' @ isoformat expires)
      else if days_between expires reviewed \<le> 0 \<or> max_exception_window_days < days_between expires reviewed
      then vpe (ctx @ '': exception window must be between 1 and '' @ show_int max_exception_window_days @ '' days'')
      else Inr ())"

definition exception_record ::
    "(pyval \<Rightarrow> string) \<Rightarrow> date \<Rightarrow> string \<Rightarrow> pyval \<Rightarrow> (finding_key \<times> date) result" where
  "exception_record repr_of effective ctx raw_exception =
     (case as_dict raw_exception of
        None \<Rightarrow> vpe (ctx @ '': exception must be an object'')
      | Some e \<Rightarrow>
          rbind (field_errors repr_of e ctx) (\<lambda>_.
          rbind (read_key e e ctx ''vulnerability_id'' ''package'' ''package_type'' ''installed_version'') (\<lambda>key.
          rbind (required_string e ''owner'' ctx) (\<lambda>_.
          rbind (required_string e ''reason'' ctx) (\<lambda>reason.
          rbind (required_string e ''removal_plan'' ctx) (\<lambda>removal_plan.
          rbind (if length reason < 40 \<or> length removal_plan < 40
                 then vpe (ctx @ '': reason and removal_plan must document meaningful review context'')
                 else Inr ()) (\<lambda>_.
          rbind (policy_date e ''reviewed_on'' ctx) (\<lambda>reviewed.
          rbind (policy_date e ''expires_on'' ctx) (\<lambda>expires.
          rbind (check_window ctx effective reviewed expires) (\<lambda>_.
            Inr (key, expires)))))))))))"

definition key_repr :: "(pyval \<Rightarrow> string) \<Rightarrow> finding_key \<Rightarrow> string" where
  "key_repr repr_of k =
     ''FindingKey(vulnerability_id='' @ repr_of (PStr (fk_vulnerability_id k)) @
     '', namespace='' @ repr_of (PStr (fk_namespace k)) @ '', package='' @ repr_of (PStr (fk_package k)) @
     '', package_type='' @ repr_of (PStr (fk_package_type k)) @
     '', installed_version='' @ repr_of (PStr (fk_installed_version k)) @ '')''"

fun collect_exceptions ::
    "(pyval \<Rightarrow> string) \<Rightarrow> date \<Rightarrow> (string \<times> pyval) list \<Rightarrow> (finding_key \<times> date) list \<Rightarrow> (finding_key \<times> date) list result" where
  "collect_exceptions repr_of effective [] records = Inr records"
| "collect_exceptions repr_of effective ((ctx, raw) # es) records =
     rbind (exception_record repr_of effective ctx raw) (\<lambda>(key, expires).
       if key \<in> set (map fst records) then vpe (ctx @ '': duplicate exception for '' @ key_repr repr_of key)
       else collect_exceptions repr_of effective es (records @ [(key, expires)]))"

definition exception_records ::
    "(pyval \<Rightarrow> string) \<Rightarrow> (string \<Rightarrow> json_file) \<Rightarrow> string \<Rightarrow> date \<Rightarrow> (finding_key \<times> date) list result" where
  "exception_records repr_of files policy_path effective =
     rbind (load_object files policy_path) (\<lambda>policy.
       if py_get policy ''schema_version'' \<noteq> PStr ''1.0''
       then vpe (policy_path @ '': schema_version must be 1.0'')
       else case as_list (py_get policy ''exceptions'') of
         None \<Rightarrow> vpe (policy_path @ '': exceptions must be an array'')
       | Some es \<Rightarrow> collect_exceptions repr_of effective (indexed policy_path ''exceptions'' es) [])"

section \<open>The evaluation\<close>

definition finding_label :: "finding_key \<Rightarrow> string" where
  "finding_label k =
     fk_vulnerability_id k @ '' ('' @ fk_namespace k @ '') on '' @ fk_package k @ '' '' @
     fk_installed_version k @ '' ['' @ fk_package_type k @ '']''"

record policy_summary =
  ps_actionable :: nat
  ps_approved :: "(date \<times> finding_key) list"
  ps_effective :: date
  ps_unfixed :: nat

definition policy_errors :: "finding_key list \<Rightarrow> finding_key list \<Rightarrow> string list" where
  "policy_errors actionable excepted =
     map (\<lambda>k. ''unapproved actionable finding: '' @ finding_label k)
       (sorted_set (filter (\<lambda>k. k \<notin> set excepted) actionable)) @
     map (\<lambda>k. ''stale exception no longer matches evidence: '' @ finding_label k)
       (sorted_set (filter (\<lambda>k. k \<notin> set actionable) excepted))"

definition evaluate_vulnerability_policy ::
    "(pyval \<Rightarrow> string) \<Rightarrow> (string \<Rightarrow> json_file) \<Rightarrow> string \<Rightarrow> string \<Rightarrow> date \<Rightarrow> policy_summary result" where
  "evaluate_vulnerability_policy repr_of files report_path policy_path today =
     rbind (actionable_findings files report_path) (\<lambda>(actionable, unfixed).
     rbind (exception_records repr_of files policy_path today) (\<lambda>exceptions.
       let errors = policy_errors actionable (map fst exceptions)
       in if errors \<noteq> [] then vpe (join ''; '' errors)
          else Inr \<lparr>ps_actionable = length actionable,
                    ps_approved = map (\<lambda>k. (the (map_of exceptions k), k)) (sorted_set actionable),
                    ps_effective = today, ps_unfixed = length unfixed\<rparr>))"

text \<open>The document \<open>main\<close> prints and its exit code; an exception of another class propagates.\<close>

definition approved_json :: "date \<times> finding_key \<Rightarrow> pyval" where
  "approved_json a =
     (case a of (expires, k) \<Rightarrow>
        PDict [(''expires_on'', PStr (isoformat expires)), (''installed_version'', PStr (fk_installed_version k)),
          (''package'', PStr (fk_package k)), (''vulnerability_id'', PStr (fk_vulnerability_id k))])"

definition summary_json :: "policy_summary \<Rightarrow> pyval dict" where
  "summary_json s =
     [(''actionable_findings'', PInt (int (ps_actionable s))),
      (''approved_exceptions'', PList (map approved_json (ps_approved s))),
      (''effective_date'', PStr (isoformat (ps_effective s))), (''status'', PStr ''passed''),
      (''unfixed_high_critical_findings'', PInt (int (ps_unfixed s)))]"

definition vulnerability_main ::
    "(pyval \<Rightarrow> string) \<Rightarrow> (string \<Rightarrow> json_file) \<Rightarrow> string \<Rightarrow> string \<Rightarrow> date \<Rightarrow> (int \<times> string + pyval dict) result" where
  "vulnerability_main repr_of files report_path policy_path today =
     (case evaluate_vulnerability_policy repr_of files report_path policy_path today of
        Inl (VulnerabilityPolicyError m) \<Rightarrow> Inr (Inl (1, ''Vulnerability policy failed: '' @ m))
      | Inl e \<Rightarrow> Inl e
      | Inr s \<Rightarrow> Inr (Inr (summary_json s)))"

section \<open>What a passing evaluation means\<close>

text \<open>A specification that does not follow the code's control flow: the text of a field, the key of a
  finding, when a finding demands an exception, and when an exception covers a key.\<close>

definition field_text :: "pyval dict \<Rightarrow> string \<Rightarrow> string option" where
  "field_text d f = (case as_str (py_get d f) of None \<Rightarrow> None | Some v \<Rightarrow> if py_strip v = [] then None else Some (py_strip v))"

definition has_key ::
    "pyval dict \<Rightarrow> pyval dict \<Rightarrow> string \<Rightarrow> string \<Rightarrow> string \<Rightarrow> string \<Rightarrow> finding_key \<Rightarrow> bool" where
  "has_key v a i n t ver k \<longleftrightarrow>
     field_text v i = Some (fk_vulnerability_id k) \<and> field_text v ''namespace'' = Some (fk_namespace k) \<and>
     field_text a n = Some (fk_package k) \<and> field_text a t = Some (fk_package_type k) \<and>
     field_text a ver = Some (fk_installed_version k)"

definition demands_exception :: "pyval \<Rightarrow> finding_key \<Rightarrow> bool" where
  "demands_exception raw k \<longleftrightarrow>
     (\<exists>m v a. raw = PDict m \<and> py_get m ''vulnerability'' = PDict v \<and> py_get m ''artifact'' = PDict a \<and>
        is_blocking v \<and> has_fix v \<and> has_key v a ''id'' ''name'' ''type'' ''version'' k)"

definition covers :: "date \<Rightarrow> pyval \<Rightarrow> finding_key \<Rightarrow> date \<Rightarrow> bool" where
  "covers today raw k expires \<longleftrightarrow>
     (\<exists>e reviewed. raw = PDict e \<and> set (map fst e) = set required_exception_fields \<and>
        has_key e e ''vulnerability_id'' ''package'' ''package_type'' ''installed_version'' k \<and>
        field_text e ''owner'' \<noteq> None \<and>
        (\<exists>r p. field_text e ''reason'' = Some r \<and> field_text e ''removal_plan'' = Some p \<and> 40 \<le> length r \<and> 40 \<le> length p) \<and>
        Option.bind (field_text e ''reviewed_on'') from_isoformat = Some reviewed \<and>
        Option.bind (field_text e ''expires_on'') from_isoformat = Some expires \<and>
        reviewed \<le> today \<and> today \<le> expires \<and> 1 \<le> days_between expires reviewed \<and>
        days_between expires reviewed \<le> 90)"

lemma required_string_Inr: "required_string d f ctx = Inr s \<longleftrightarrow> field_text d f = Some s"
  by (auto simp: required_string_def field_text_def split: option.splits)

lemma read_key_Inr: "read_key v a ctx i n t ver = Inr k \<longleftrightarrow> has_key v a i n t ver k"
  by (cases k) (auto simp: read_key_def rbind_Inr_iff required_string_Inr has_key_def)

lemma finding_key_of_Inr:
  "finding_key_of m ctx = Inr k \<longleftrightarrow>
     (\<exists>v a. py_get m ''vulnerability'' = PDict v \<and> py_get m ''artifact'' = PDict a \<and>
        has_key v a ''id'' ''name'' ''type'' ''version'' k)"
  by (auto simp: finding_key_of_def read_key_Inr split: option.splits)

lemma classify_match_Actionable: "classify_match ctx raw = Inr (Actionable k) \<longleftrightarrow> demands_exception raw k"
  by (auto simp: classify_match_def demands_exception_def finding_key_of_Inr rbind_Inr_iff
      split: option.splits if_splits)

lemma policy_date_Inr: "policy_date e f ctx = Inr d \<longleftrightarrow> Option.bind (field_text e f) from_isoformat = Some d"
  by (auto simp: policy_date_def parse_policy_date_def rbind_Inr_iff required_string_Inr
      bind_eq_Some_conv split: option.splits)

lemma check_window_Inr:
  "check_window ctx today reviewed expires = Inr u \<longleftrightarrow>
     reviewed \<le> today \<and> today \<le> expires \<and> 1 \<le> days_between expires reviewed \<and> days_between expires reviewed \<le> 90"
  by (auto simp: check_window_def max_exception_window_days_def)

lemma field_errors_Inr: "field_errors R e ctx = Inr u \<longleftrightarrow> set (map fst e) = set required_exception_fields"
  by (simp add: field_errors_def Let_def)

lemma exception_record_Inr: "exception_record R today ctx raw = Inr (k, x) \<longleftrightarrow> covers today raw k x"
  unfolding exception_record_def covers_def
  by (auto simp: rbind_Inr_iff required_string_Inr read_key_Inr policy_date_Inr check_window_Inr
      field_errors_Inr not_less split: option.splits if_splits)

lemma collect_findings_Inr:
  assumes "collect_findings ms A U = Inr (A', U')" "distinct A"
  shows "set A' = set A \<union> {k. \<exists>m \<in> set ms. demands_exception (snd m) k} \<and> distinct A'"
  using assms
proof (induction ms A U rule: collect_findings.induct)
  case (2 ctx raw ms A U)
  from "2.prems"(1) obtain c where c: "classify_match ctx raw = Inr c" by (auto simp: rbind_Inr_iff)
  have key: "demands_exception raw k \<longleftrightarrow> c = Actionable k" for k
    using classify_match_Actionable [of ctx raw k] c by auto
  show ?case
    using "2.IH" "2.prems" c key by (cases c) auto
qed simp

lemma collect_exceptions_Inr:
  assumes "collect_exceptions R today es rs = Inr rs'" "distinct (map fst rs)"
  shows "set rs' = set rs \<union> {(k, x). \<exists>m \<in> set es. covers today (snd m) k x} \<and> distinct (map fst rs') \<and>
    (\<forall>m \<in> set es. \<exists>k x. covers today (snd m) k x)"
  using assms
proof (induction R today es rs rule: collect_exceptions.induct)
  case (2 R today ctx raw es rs)
  from "2.prems"(1) obtain k x where kx: "exception_record R today ctx raw = Inr (k, x)"
    "k \<notin> set (map fst rs)" "collect_exceptions R today es (rs @ [(k, x)]) = Inr rs'"
    by (auto simp: rbind_Inr_iff split: if_splits)
  have "covers today raw k' x' \<longleftrightarrow> k' = k \<and> x' = x" for k' x'
    using exception_record_Inr [of R today ctx raw k' x'] kx(1) by auto
  then show ?case
    using "2.IH" [OF kx(2,3)] "2.prems"(2) kx(2) by auto
qed simp

lemma load_object_Inr: "load_object files path = Inr d \<longleftrightarrow> files path = Json (PDict d)"
  by (auto simp: load_object_def split: json_file.splits option.splits)

lemma snd_indexed: "snd ` set (indexed path member xs) = set xs"
proof -
  have "map snd (indexed path member xs) = map snd (zip [0..<length xs] xs)"
    by (simp add: indexed_def comp_def split_beta)
  then have "map snd (indexed path member xs) = xs" by simp
  then show ?thesis by (metis list.set_map)
qed

lemma policy_errors_Nil: "policy_errors A E = [] \<longleftrightarrow> set A = set E"
  by (auto simp: policy_errors_def filter_empty_conv)

lemma evaluate_Inr:
  assumes "evaluate_vulnerability_policy R files report_path policy_path today = Inr s"
  obtains r ms p es where "files report_path = Json (PDict r)" "py_get r ''matches'' = PList ms"
    "files policy_path = Json (PDict p)" "py_get p ''exceptions'' = PList es"
    "set (map snd (ps_approved s)) = {k. \<exists>raw \<in> set ms. demands_exception raw k}"
    "set (map snd (ps_approved s)) = {k. \<exists>raw \<in> set es. \<exists>x. covers today raw k x}"
    "\<forall>raw \<in> set es. \<exists>k x. covers today raw k x"
    "sorted (map snd (ps_approved s))" "distinct (map snd (ps_approved s))"
    "ps_actionable s = length (ps_approved s)"
    "\<forall>(x, k) \<in> set (ps_approved s). \<exists>raw \<in> set es. covers today raw k x"
proof -
  from assms obtain A U E where a: "actionable_findings files report_path = Inr (A, U)"
    and e: "exception_records R files policy_path today = Inr E" and n: "set A = set (map fst E)"
    and s: "ps_approved s = map (\<lambda>k. (the (map_of E k), k)) (sorted_set A)" "ps_actionable s = length A"
    by (auto simp: evaluate_vulnerability_policy_def rbind_Inr_iff Let_def policy_errors_Nil split: if_splits)
  from a obtain r ms where r: "files report_path = Json (PDict r)" "py_get r ''matches'' = PList ms"
    "collect_findings (indexed report_path ''matches'' ms) [] [] = Inr (A, U)"
    by (auto simp: actionable_findings_def rbind_Inr_iff load_object_Inr split: option.splits)
  from e obtain p es where p: "files policy_path = Json (PDict p)" "py_get p ''exceptions'' = PList es"
    "collect_exceptions R today (indexed policy_path ''exceptions'' es) [] = Inr E"
    by (auto simp: exception_records_def rbind_Inr_iff load_object_Inr split: option.splits if_splits)
  have A: "set A = {k. \<exists>raw \<in> set ms. demands_exception raw k}" "distinct A"
    using collect_findings_Inr [OF r(3)] snd_indexed [of report_path "''matches''" ms] by force+
  have E: "set E = {(k, x). \<exists>raw \<in> set es. covers today raw k x}" "distinct (map fst E)"
    "\<forall>raw \<in> set es. \<exists>k x. covers today raw k x"
    using collect_exceptions_Inr [OF p(3)] snd_indexed [of policy_path "''exceptions''" es] by force+
  have m: "map snd (ps_approved s) = sorted_set A" by (simp add: s(1) comp_def)
  have "length (sorted_set A) = length A" using A(2) by (simp add: sorted_set_def distinct_remdups_id)
  moreover have "\<forall>(x, k) \<in> set (ps_approved s). \<exists>raw \<in> set es. covers today raw k x"
  proof (clarsimp simp: s(1))
    fix k assume "k \<in> set A"
    with n obtain x where "(k, x) \<in> set E" by auto
    with E(1,2) show "\<exists>raw \<in> set es. covers today raw k (the (map_of E k))" by auto
  qed
  moreover have "set A = {k. \<exists>raw \<in> set es. \<exists>x. covers today raw k x}" using n E(1) by force
  ultimately show ?thesis using that [OF r(1,2) p(1,2)] m A(1) E(3) s by simp
qed

end
