(* ===== verification/Governance_Gate.thy ===== *)
theory Governance_Gate
  imports Vulnerability_Policy
begin

text \<open>
  \<open>scripts/governance_gate.py\<close>: validation of the control catalog, the selected profile, the risk
  register and the exceptions. The file system is a record of predicates on path texts. Every
  validator returns its error list; a list or object where the code tests membership in a set makes
  Python raise \<open>TypeError\<close>, which nothing catches, so the validators are fallible.
\<close>

record gate_fs =
  gf_exists :: "string \<Rightarrow> bool"
  gf_is_file :: "string \<Rightarrow> bool"
  gf_is_symlink :: "string \<Rightarrow> bool"
  gf_json :: "string \<Rightarrow> json_file"
  gf_glob_json :: "string \<Rightarrow> string list"

definition valid_assurance_types :: "string list" where
  "valid_assurance_types = [''automated'', ''inherited'', ''manual'']"

definition valid_control_statuses :: "string list" where
  "valid_control_statuses = [''implemented'', ''inherited'', ''not_applicable'', ''partially_implemented'', ''planned'']"

definition valid_coverage :: "string list" where
  "valid_coverage = [''full'', ''inherited'', ''not_applicable'', ''partial'', ''supports'']"

definition valid_risk_decisions :: "string list" where
  "valid_risk_decisions = [''accept'', ''avoid'', ''mitigate'', ''transfer'']"

definition valid_risk_severities :: "string list" where
  "valid_risk_severities = [''critical'', ''high'', ''low'', ''medium'']"

text \<open>\<open>v in S\<close> for a set of strings.\<close>

fun set_contains :: "string list \<Rightarrow> pyval \<Rightarrow> bool result" where
  "set_contains S (PStr s) = Inr (s \<in> set S)"
| "set_contains S (PList vs) = Inl (OtherExn ''TypeError'')"
| "set_contains S (PDict d) = Inl (OtherExn ''TypeError'')"
| "set_contains S v = Inr False"

definition unless :: "bool \<Rightarrow> string \<Rightarrow> string list" where
  "unless ok message = (if ok then [] else [message])"

lemma unless_Nil [simp]: "unless ok m = [] \<longleftrightarrow> ok"
  by (simp add: unless_def)

definition path_join :: "string \<Rightarrow> string \<Rightarrow> string" where
  "path_join a b = (if startswith b ''/'' then b else a @ ''/'' @ b)"

definition read_object :: "gate_fs \<Rightarrow> string \<Rightarrow> string + pyval dict" where
  "read_object fs path =
     (if \<not> gf_is_file fs path \<or> gf_is_symlink fs path then Inl (''missing or unsafe JSON document: '' @ path)
      else case gf_json fs path of
        Json v \<Rightarrow>
          (case as_dict v of
             None \<Rightarrow> Inl (''JSON document must contain an object: '' @ path)
           | Some d \<Rightarrow> Inr d)
      | _ \<Rightarrow> Inl (''invalid JSON document: '' @ path))"

text \<open>The strings of a list, when it has nothing else; likewise the string values of an object.\<close>

definition string_list :: "pyval \<Rightarrow> string list option" where
  "string_list v =
     (case as_list v of
        None \<Rightarrow> None
      | Some vs \<Rightarrow> if list_all (\<lambda>x. as_str x \<noteq> None) vs then Some [s. PStr s \<leftarrow> vs] else None)"

definition string_map :: "pyval \<Rightarrow> string dict option" where
  "string_map v =
     (case as_dict v of
        None \<Rightarrow> None
      | Some d \<Rightarrow> if list_all (\<lambda>kv. as_str (snd kv) \<noteq> None) d then Some [(k, s). (k, PStr s) \<leftarrow> d] else None)"

definition evidence_path :: "gate_fs \<Rightarrow> string \<Rightarrow> bool \<Rightarrow> string \<Rightarrow> string" where
  "evidence_path fs base source_mode relative =
     (let direct = path_join base relative
      in if gf_exists fs direct \<or> \<not> source_mode then direct else path_join (base @ ''/template'') relative)"

definition text_errors :: "string \<Rightarrow> pyval dict \<Rightarrow> string list \<Rightarrow> string list" where
  "text_errors label d names =
     concat (map (\<lambda>f. unless (nonempty_str (py_get d f)) (label @ '': '' @ f @ '' must be a non-empty string'')) names)"

definition validate_profile :: "pyval dict \<Rightarrow> string \<Rightarrow> string list" where
  "validate_profile profile label =
     text_errors label profile [''name'', ''version''] @
     (case string_list (py_get profile ''required_controls'') of
        None \<Rightarrow> [label @ '': required_controls must be a list of strings'']
      | Some required \<Rightarrow> unless (distinct required) (label @ '': required_controls contains duplicates'')) @
     (case string_map (py_get profile ''framework_versions'') of
        None \<Rightarrow> [label @ '': framework_versions must contain non-empty string versions'']
      | Some frameworks \<Rightarrow>
          unless (list_all (\<lambda>kv. snd kv \<noteq> []) frameworks)
            (label @ '': framework_versions must contain non-empty string versions'')) @
     (if py_get profile ''overlays'' = PNone then []
      else case string_list (py_get profile ''overlays'') of
        None \<Rightarrow> [label @ '': overlays must be a unique list of strings'']
      | Some overlays \<Rightarrow> unless (distinct overlays) (label @ '': overlays must be a unique list of strings''))"

definition validate_mapping :: "string \<Rightarrow> pyval \<Rightarrow> string list result" where
  "validate_mapping control_id mapping =
     (case as_dict mapping of
        None \<Rightarrow> Inr [control_id @ '': mapping must be an object'']
      | Some m \<Rightarrow>
          rbind (set_contains valid_coverage (py_get m ''coverage'')) (\<lambda>ok. Inr
            (concat (map (\<lambda>f. unless (nonempty_str (py_get m f))
                 (control_id @ '': mapping '' @ f @ '' must be a non-empty string'')) [''framework'', ''reference'', ''version'']) @
             unless ok (control_id @ '': mapping coverage is invalid''))))"

section \<open>Controls\<close>

definition safe_relative :: "string \<Rightarrow> bool" where
  "safe_relative check \<longleftrightarrow> \<not> startswith check ''/'' \<and> ''..'' \<notin> set (split_on CHR ''/'' check)"

definition check_errors :: "gate_fs \<Rightarrow> string \<Rightarrow> bool \<Rightarrow> string \<Rightarrow> string \<Rightarrow> string list" where
  "check_errors fs base source_mode control_id check =
     (if \<not> safe_relative check then [control_id @ '': unsafe evidence check path: '' @ check]
      else let path = evidence_path fs base source_mode check
           in unless (gf_is_file fs path \<and> \<not> gf_is_symlink fs path)
                (control_id @ '': evidence check does not exist: '' @ check))"

definition ownership_errors :: "string \<Rightarrow> pyval \<Rightarrow> string list" where
  "ownership_errors control_id ownership =
     (case as_dict ownership of
        None \<Rightarrow> [control_id @ '': ownership must be an object'']
      | Some d \<Rightarrow>
          concat (map (\<lambda>f. unless (nonempty_str (py_get d f)) (control_id @ '': missing ownership.'' @ f))
            [''control_owner'', ''implementation_owner'', ''evidence_owner'']))"

definition assurance_errors :: "gate_fs \<Rightarrow> string \<Rightarrow> bool \<Rightarrow> string \<Rightarrow> pyval \<Rightarrow> string list result" where
  "assurance_errors fs base source_mode control_id assurance =
     (case as_dict assurance of
        None \<Rightarrow> Inr [control_id @ '': assurance must be an object'']
      | Some d \<Rightarrow>
          rbind (set_contains valid_assurance_types (py_get d ''type'')) (\<lambda>ok. Inr
            (unless ok (control_id @ '': invalid assurance type'') @
             unless (nonempty_str (py_get d ''frequency'')) (control_id @ '': assurance frequency is required'') @
             (case string_list (py_get d ''checks'') of
                None \<Rightarrow> [control_id @ '': assurance checks must be a non-empty string list'']
              | Some ks \<Rightarrow>
                  if ks = [] then [control_id @ '': assurance checks must be a non-empty string list'']
                  else concat (map (check_errors fs base source_mode control_id) ks)))))"

definition mappings_errors :: "string \<Rightarrow> pyval \<Rightarrow> string list result" where
  "mappings_errors control_id mappings =
     (case as_list mappings of
        None \<Rightarrow> Inr [control_id @ '': mappings must be a non-empty list'']
      | Some ms \<Rightarrow>
          if ms = [] then Inr [control_id @ '': mappings must be a non-empty list'']
          else rbind (rmap (validate_mapping control_id) ms) (\<lambda>es. Inr (concat es)))"

definition validate_control ::
    "gate_fs \<Rightarrow> string \<Rightarrow> bool \<Rightarrow> pyval \<Rightarrow> (string option \<times> string list) result" where
  "validate_control fs base source_mode control =
     (case as_dict control of
        None \<Rightarrow> Inr (None, [''control catalog entry must be an object''])
      | Some c \<Rightarrow>
          if \<not> nonempty_str (py_get c ''id'') then Inr (None, [''control id must be a non-empty string''])
          else let control_id = the (as_str (py_get c ''id'')) in
            rbind (set_contains valid_control_statuses (py_get c ''status'')) (\<lambda>status_ok.
            rbind (assurance_errors fs base source_mode control_id (py_get c ''assurance'')) (\<lambda>assurance.
            rbind (mappings_errors control_id (py_get c ''mappings'')) (\<lambda>mappings.
              Inr (Some control_id,
                text_errors control_id c [''title'', ''description'', ''category''] @
                unless status_ok (control_id @ '': invalid control status'') @
                ownership_errors control_id (py_get c ''ownership'') @ assurance @ mappings)))))"

fun catalog_controls ::
    "gate_fs \<Rightarrow> string \<Rightarrow> bool \<Rightarrow> pyval list \<Rightarrow> pyval dict \<Rightarrow> (pyval dict \<times> string list) result" where
  "catalog_controls fs base source_mode [] controls = Inr (controls, [])"
| "catalog_controls fs base source_mode (control # rest) controls =
     rbind (validate_control fs base source_mode control) (\<lambda>(cid, errors).
       case cid of
         None \<Rightarrow>
           rbind (catalog_controls fs base source_mode rest controls) (\<lambda>(cs, more). Inr (cs, errors @ more))
       | Some i \<Rightarrow>
           rbind (catalog_controls fs base source_mode rest (AList.update i control controls)) (\<lambda>(cs, more).
             Inr (cs, errors @ unless (map_of controls i = None) (''duplicate control id: '' @ i) @ more)))"

definition validate_catalog ::
    "gate_fs \<Rightarrow> string \<Rightarrow> bool \<Rightarrow> pyval dict \<Rightarrow> (pyval dict \<times> string list) result" where
  "validate_catalog fs base source_mode catalog =
     (let errors = unless (nonempty_str (py_get catalog ''version'')) ''control catalog version must be a non-empty string''
      in case as_list (py_get catalog ''controls'') of
           None \<Rightarrow> Inr ([], errors @ [''control catalog controls must be a list''])
         | Some raw \<Rightarrow>
             rbind (catalog_controls fs base source_mode raw []) (\<lambda>(controls, more). Inr (controls, errors @ more)))"

definition required_of :: "pyval dict \<Rightarrow> string list" where
  "required_of profile = (case string_list (py_get profile ''required_controls'') of None \<Rightarrow> [] | Some r \<Rightarrow> r)"

definition validate_selection :: "pyval dict \<Rightarrow> pyval dict \<Rightarrow> string \<Rightarrow> string list" where
  "validate_selection profile controls label =
     validate_profile profile label @
     concat (map (\<lambda>i. unless (map_of controls i \<noteq> None)
         (label @ '': required control is missing from catalog: '' @ i)) (required_of profile))"

section \<open>Risks and exceptions\<close>

text \<open>The identifier of an entry: the error it causes, the label from then on, the identifiers seen.\<close>

definition entry_id ::
    "string \<Rightarrow> string \<Rightarrow> pyval dict \<Rightarrow> string list \<Rightarrow> string list \<times> string \<times> string list" where
  "entry_id kind label d ids =
     (case as_str (py_get d ''id'') of
        None \<Rightarrow> ([label @ '': id is required''], label, ids)
      | Some i \<Rightarrow>
          if i = [] then ([label @ '': id is required''], label, ids)
          else if i \<in> set ids then ([''duplicate '' @ kind @ '' id: '' @ i], label, ids)
          else ([], i, i # ids))"

fun risk_errors :: "(string \<times> pyval) list \<Rightarrow> string list \<Rightarrow> string list result" where
  "risk_errors [] ids = Inr []"
| "risk_errors ((label0, risk) # rest) ids =
     (case as_dict risk of
        None \<Rightarrow> rbind (risk_errors rest ids) (\<lambda>more. Inr ((label0 @ '': must be an object'') # more))
      | Some d \<Rightarrow>
          (case entry_id ''risk'' label0 d ids of (id_errors, label, ids') \<Rightarrow>
             rbind (set_contains valid_risk_severities (py_get d ''severity'')) (\<lambda>severity_ok.
             rbind (if py_get d ''severity'' \<in> {PStr ''high'', PStr ''critical''}
                    then set_contains valid_risk_decisions (py_get d ''decision'') else Inr True) (\<lambda>decision_ok.
             rbind (risk_errors rest ids') (\<lambda>more. Inr
               (id_errors @ unless severity_ok (label @ '': invalid severity'') @
                unless (nonempty_str (py_get d ''owner'')) (label @ '': owner is required'') @
                unless decision_ok (label @ '': high or critical risk requires a formal decision'') @ more))))))"

definition labelled :: "string \<Rightarrow> pyval list \<Rightarrow> (string \<times> pyval) list" where
  "labelled kind xs = map (\<lambda>(i, x). (kind @ ''['' @ show_nat i @ '']'', x)) (zip [0..<length xs] xs)"

definition validate_risks :: "gate_fs \<Rightarrow> string \<Rightarrow> string list result" where
  "validate_risks fs base =
     (case read_object fs (base @ ''/governance/risks/risk-register.json'') of
        Inl message \<Rightarrow> Inr [message]
      | Inr document \<Rightarrow>
          (case as_list (py_get document ''risks'') of
             None \<Rightarrow> Inr [''risk register risks must be a list'']
           | Some risks \<Rightarrow> risk_errors (labelled ''risk'' risks) []))"

definition expiry_errors :: "string \<Rightarrow> date \<Rightarrow> pyval dict \<Rightarrow> string list" where
  "expiry_errors label today d =
     (case Option.bind (as_str (py_get d ''expires_on'')) from_isoformat of
        None \<Rightarrow> [label @ '': expires_on must be an ISO date'']
      | Some expires \<Rightarrow>
          unless (\<not> (py_get d ''status'' = PStr ''approved'' \<and> expires < today))
            (label @ '': approved exception expired on '' @ isoformat expires))"

fun exception_errors :: "date \<Rightarrow> (string \<times> pyval) list \<Rightarrow> string list \<Rightarrow> string list result" where
  "exception_errors today [] ids = Inr []"
| "exception_errors today ((label0, e) # rest) ids =
     (case as_dict e of
        None \<Rightarrow> rbind (exception_errors today rest ids) (\<lambda>more. Inr ((label0 @ '': must be an object'') # more))
      | Some d \<Rightarrow>
          (case entry_id ''exception'' label0 d ids of (id_errors, label, ids') \<Rightarrow>
             rbind (set_contains [''approved'', ''closed''] (py_get d ''status'')) (\<lambda>status_ok.
             rbind (exception_errors today rest ids') (\<lambda>more. Inr
               (id_errors @ unless (nonempty_str (py_get d ''owner'')) (label @ '': owner is required'') @
                unless status_ok (label @ '': status must be approved or closed'') @
                expiry_errors label today d @ more)))))"

definition validate_exceptions :: "gate_fs \<Rightarrow> string \<Rightarrow> date \<Rightarrow> string list result" where
  "validate_exceptions fs base today =
     (case read_object fs (base @ ''/governance/exceptions.json'') of
        Inl message \<Rightarrow> Inr [message]
      | Inr document \<Rightarrow>
          (case as_list (py_get document ''exceptions'') of
             None \<Rightarrow> Inr [''governance exceptions must be a list'']
           | Some es \<Rightarrow> exception_errors today (labelled ''exception'' es) []))"

section \<open>Runs\<close>

definition report_for_selection ::
    "(pyval \<Rightarrow> string) \<Rightarrow> pyval dict \<Rightarrow> pyval dict \<Rightarrow> pyval dict \<Rightarrow> string list \<Rightarrow> pyval dict" where
  "report_for_selection repr_of profile catalog controls errors =
     (let required = required_of profile;
          status_of = (\<lambda>c. case as_dict c of None \<Rightarrow> ''None'' | Some d \<Rightarrow> py_str repr_of (py_get d ''status''));
          statuses = [status_of c. i \<leftarrow> required, c \<leftarrow> (case map_of controls i of None \<Rightarrow> [] | Some c \<Rightarrow> [c])]
      in [(''catalog_version'', py_get catalog ''version''),
          (''errors'', PList (map PStr errors)),
          (''framework_versions'',
             (case map_of profile ''framework_versions'' of None \<Rightarrow> PDict [] | Some v \<Rightarrow> v)),
          (''governance_profile'', py_get profile ''name''),
          (''overlays'', (case map_of profile ''overlays'' of None \<Rightarrow> PList [] | Some v \<Rightarrow> v)),
          (''required_controls'', PList (map PStr required)),
          (''status'', PStr (if errors = [] then ''pass'' else ''fail'')),
          (''status_counts'',
             PDict (map (\<lambda>s. (s, PInt (int (count_list statuses s)))) (sorted_set statuses)))])"

text \<open>A run: the report, the errors and the file the report is written to, if any.\<close>

record gate_run =
  gr_report :: "pyval dict"
  gr_errors :: "string list"
  gr_written :: "string option"

definition unreadable_run :: "string \<Rightarrow> gate_run" where
  "unreadable_run message =
     \<lparr>gr_report = [(''errors'', PList [PStr message]), (''status'', PStr ''fail'')],
      gr_errors = [message], gr_written = None\<rparr>"

definition no_governance_report :: "pyval dict" where
  "no_governance_report =
     [(''errors'', PList []), (''governance_profile'', PStr ''none''), (''overlays'', PList []),
      (''required_controls'', PList []), (''status'', PStr ''pass''), (''status_counts'', PDict [])]"

definition run_generated ::
    "(pyval \<Rightarrow> string) \<Rightarrow> gate_fs \<Rightarrow> string \<Rightarrow> date \<Rightarrow> string option \<Rightarrow> gate_run result" where
  "run_generated repr_of fs base today output =
     (let profile_path = base @ ''/governance/governance-profile.json'' in
      if \<not> gf_exists fs profile_path
      then Inr \<lparr>gr_report = no_governance_report, gr_errors = [], gr_written = output\<rparr>
      else case rbind (read_object fs profile_path) (\<lambda>profile.
                rbind (read_object fs (base @ ''/governance/control-catalog.json'')) (\<lambda>catalog. Inr (profile, catalog))) of
        Inl message \<Rightarrow> Inr (unreadable_run message)
      | Inr (profile, catalog) \<Rightarrow>
          rbind (validate_catalog fs base False catalog) (\<lambda>(controls, catalog_errors).
          rbind (validate_risks fs base) (\<lambda>risks.
          rbind (validate_exceptions fs base today) (\<lambda>exceptions.
            let errors = catalog_errors @ validate_selection profile controls ''selected profile'' @ risks @ exceptions
            in Inr \<lparr>gr_report = report_for_selection repr_of profile catalog controls errors, gr_errors = errors,
                     gr_written = Some (case output of Some p \<Rightarrow> p
                       | None \<Rightarrow> base @ ''/build/governance-evidence/governance-report.json'')\<rparr>))))"

text \<open>\<open>path.stem\<close> of a file name that ends in \<open>.json\<close>.\<close>

definition json_stem :: "string \<Rightarrow> string" where
  "json_stem name = (if name = ''.json'' then name else take (length name - 5) name)"

fun source_selections ::
    "gate_fs \<Rightarrow> string \<Rightarrow> pyval dict \<Rightarrow> string \<Rightarrow> string list \<Rightarrow> string list \<times> string list" where
  "source_selections fs base controls kind [] = ([], [])"
| "source_selections fs base controls kind (name # names) =
     (case source_selections fs base controls kind names of (errors, selections) \<Rightarrow>
        (case read_object fs (base @ ''/governance/'' @ kind @ ''/'' @ name) of
           Inl message \<Rightarrow> (message # errors, selections)
         | Inr selection \<Rightarrow>
             let label = butlast kind @ '' '' @ json_stem name
             in (validate_selection selection controls label @
                 unless (py_get selection ''name'' = PStr (json_stem name)) (label @ '': name must match file name'') @
                 errors,
                 (kind @ ''/'' @ name) # selections)))"

definition source_kind :: "gate_fs \<Rightarrow> string \<Rightarrow> pyval dict \<Rightarrow> string \<Rightarrow> string list \<times> string list" where
  "source_kind fs base controls kind =
     (let names = gf_glob_json fs (base @ ''/governance/'' @ kind)
      in case source_selections fs base controls kind names of (errors, selections) \<Rightarrow>
           (unless (names \<noteq> []) (''no governance '' @ kind @ '' found'') @ errors, selections))"

definition run_source :: "gate_fs \<Rightarrow> string \<Rightarrow> string option \<Rightarrow> gate_run result" where
  "run_source fs base output =
     (case read_object fs (base @ ''/governance/catalog/controls.json'') of
        Inl message \<Rightarrow> Inr (unreadable_run message)
      | Inr catalog \<Rightarrow>
          rbind (validate_catalog fs base True catalog) (\<lambda>(controls, catalog_errors).
            case source_kind fs base controls ''profiles'' of (e1, s1) \<Rightarrow>
            case source_kind fs base controls ''overlays'' of (e2, s2) \<Rightarrow>
            let errors = catalog_errors @ e1 @ e2
            in Inr \<lparr>gr_report =
                 [(''catalog_version'', py_get catalog ''version''),
                  (''control_count'', PInt (int (length controls))),
                  (''errors'', PList (map PStr errors)),
                  (''selections'', PList (map PStr (s1 @ s2))),
                  (''status'', PStr (if errors = [] then ''pass'' else ''fail''))],
                 gr_errors = errors, gr_written = output\<rparr>))"

text \<open>\<open>main\<close>: the exit code, the lines of the standard output and those of the error output.\<close>

definition governance_main ::
    "(pyval \<Rightarrow> string) \<Rightarrow> gate_fs \<Rightarrow> date \<Rightarrow> string + string \<Rightarrow> string option \<Rightarrow> (int \<times> string list \<times> string list) result" where
  "governance_main repr_of fs today mode output =
     rbind (case mode of
         Inl source_root \<Rightarrow> rbind (run_source fs source_root output) (\<lambda>r. Inr (r, ''source catalog''))
       | Inr base \<Rightarrow> rbind (run_generated repr_of fs base today output) (\<lambda>r.
           Inr (r, (case map_of (gr_report r) ''governance_profile'' of
                      None \<Rightarrow> ''unknown'' | Some v \<Rightarrow> py_str repr_of v)))) (\<lambda>(r, label).
       Inr (if gr_errors r = [] then 0 else 1,
            [''Governance Gate: '' @ label,
             ''Status: '' @ (case map_of (gr_report r) ''status'' of None \<Rightarrow> ''fail'' | Some v \<Rightarrow> py_str repr_of v)] @
            (case as_list (py_get (gr_report r) ''required_controls'') of
               None \<Rightarrow> [] | Some vs \<Rightarrow> [''Required controls: '' @ show_nat (length vs)]),
            map (\<lambda>e. ''FAIL '' @ e) (gr_errors r)))"

section \<open>What an empty error list means\<close>

text \<open>A control that counts: well-formed, owned, and backed by evidence that exists.\<close>

definition sound_control :: "gate_fs \<Rightarrow> string \<Rightarrow> bool \<Rightarrow> pyval \<Rightarrow> bool" where
  "sound_control fs base source_mode control \<longleftrightarrow>
     (\<exists>c ownership assurance checks.
        control = PDict c \<and> nonempty_str (py_get c ''id'') \<and>
        (\<exists>s \<in> set valid_control_statuses. py_get c ''status'' = PStr s) \<and>
        py_get c ''ownership'' = PDict ownership \<and>
        list_all (\<lambda>f. nonempty_str (py_get ownership f)) [''control_owner'', ''implementation_owner'', ''evidence_owner''] \<and>
        py_get c ''assurance'' = PDict assurance \<and> string_list (py_get assurance ''checks'') = Some checks \<and>
        checks \<noteq> [] \<and>
        list_all (\<lambda>k. safe_relative k \<and> gf_is_file fs (evidence_path fs base source_mode k) \<and>
            \<not> gf_is_symlink fs (evidence_path fs base source_mode k)) checks)"

lemma set_contains_True: "set_contains S v = Inr True \<longleftrightarrow> (\<exists>s \<in> set S. v = PStr s)"
  by (cases v) auto

lemma concat_unless_Nil: "concat (map (\<lambda>x. unless (P x) (m x)) xs) = [] \<longleftrightarrow> list_all P xs"
  by (auto simp: list_all_iff)

lemma check_errors_Nil:
  "check_errors fs base sm i k = [] \<longleftrightarrow>
     safe_relative k \<and> gf_is_file fs (evidence_path fs base sm k) \<and> \<not> gf_is_symlink fs (evidence_path fs base sm k)"
  by (auto simp: check_errors_def Let_def)

lemma validate_control_sound:
  assumes "validate_control fs base sm control = Inr (cid, [])"
  shows "sound_control fs base sm control \<and> (\<exists>c i. control = PDict c \<and> py_get c ''id'' = PStr i \<and> cid = Some i)"
proof -
  from assms obtain c where c: "control = PDict c" "nonempty_str (py_get c ''id'')"
    by (auto simp: validate_control_def split: option.splits if_splits)
  then obtain i where i: "py_get c ''id'' = PStr i" by (auto simp: nonempty_str_iff)
  with assms c have s: "set_contains valid_control_statuses (py_get c ''status'') = Inr True"
    and o: "ownership_errors i (py_get c ''ownership'') = []"
    and a: "assurance_errors fs base sm i (py_get c ''assurance'') = Inr []" and "cid = Some i"
    by (auto simp: validate_control_def Let_def rbind_Inr_iff)
  from o obtain ow where "py_get c ''ownership'' = PDict ow"
    "list_all (\<lambda>f. nonempty_str (py_get ow f)) [''control_owner'', ''implementation_owner'', ''evidence_owner'']"
    by (auto simp: ownership_errors_def concat_unless_Nil split: option.splits)
  moreover from a obtain d ks where "py_get c ''assurance'' = PDict d" "string_list (py_get d ''checks'') = Some ks"
    "ks \<noteq> []" "concat (map (check_errors fs base sm i) ks) = []"
    by (auto simp: assurance_errors_def rbind_Inr_iff split: option.splits if_splits)
  ultimately show ?thesis
    using c i s \<open>cid = Some i\<close> unfolding sound_control_def set_contains_True
    by (auto simp: check_errors_Nil list_all_iff)
qed

lemma validate_control_id: "validate_control fs base sm control = Inr (None, errors) \<Longrightarrow> errors \<noteq> []"
  by (auto simp: validate_control_def Let_def rbind_Inr_iff split: option.splits if_splits)

lemma catalog_controls_sound:
  assumes "catalog_controls fs base sm raw cs = Inr (cs', [])"
  shows "(\<forall>c \<in> set raw. sound_control fs base sm c) \<and>
    (\<forall>i v. map_of cs' i = Some v \<longrightarrow>
       map_of cs i = Some v \<or> v \<in> set raw \<and> (\<exists>c. v = PDict c \<and> py_get c ''id'' = PStr i))"
  using assms
proof (induction fs base sm raw cs arbitrary: cs' rule: catalog_controls.induct)
  case (2 fs base sm control rest cs)
  from "2.prems" obtain cid errors where v: "validate_control fs base sm control = Inr (cid, errors)"
    by (auto simp: rbind_Inr_iff)
  with "2.prems" validate_control_id have e: "errors = []" "cid \<noteq> None"
    by (auto simp: rbind_Inr_iff split: option.splits)
  then obtain i where i: "cid = Some i" by blast
  from validate_control_sound v e(1) i obtain c
    where c: "sound_control fs base sm control" "control = PDict c" "py_get c ''id'' = PStr i" by blast
  from "2.prems" v i e(1) have r: "catalog_controls fs base sm rest (AList.update i control cs) = Inr (cs', [])"
    by (auto simp: rbind_Inr_iff)
  have ih: "\<forall>c \<in> set rest. sound_control fs base sm c"
    "map_of cs' j = Some v \<Longrightarrow> j = i \<and> v = control \<or> map_of cs j = Some v \<or>
       v \<in> set rest \<and> (\<exists>c. v = PDict c \<and> py_get c ''id'' = PStr j)" for j v
    using "2.IH"(2) [OF i r] by (auto simp: update_conv split: if_splits)
  show ?case
  proof (intro conjI allI impI)
    show "\<forall>c \<in> set (control # rest). sound_control fs base sm c" using ih(1) c(1) by simp
    fix j v assume "map_of cs' j = Some v"
    from ih(2) [OF this] c(2,3)
    show "map_of cs j = Some v \<or> v \<in> set (control # rest) \<and> (\<exists>c. v = PDict c \<and> py_get c ''id'' = PStr j)"
      by auto
  qed
qed simp

text \<open>Risks and exceptions that count.\<close>

definition sound_risk :: "pyval \<Rightarrow> bool" where
  "sound_risk risk \<longleftrightarrow>
     (\<exists>d. risk = PDict d \<and> nonempty_str (py_get d ''id'') \<and> nonempty_str (py_get d ''owner'') \<and>
        (\<exists>s \<in> set valid_risk_severities. py_get d ''severity'' = PStr s \<and>
           (s \<in> {''high'', ''critical''} \<longrightarrow> (\<exists>t \<in> set valid_risk_decisions. py_get d ''decision'' = PStr t))))"

definition sound_exception :: "date \<Rightarrow> pyval \<Rightarrow> bool" where
  "sound_exception today e \<longleftrightarrow>
     (\<exists>d text_value expires. e = PDict d \<and> nonempty_str (py_get d ''id'') \<and> nonempty_str (py_get d ''owner'') \<and>
        py_get d ''expires_on'' = PStr text_value \<and> from_isoformat text_value = Some expires \<and>
        (py_get d ''status'' = PStr ''approved'' \<and> today \<le> expires \<or> py_get d ''status'' = PStr ''closed''))"

definition entry_ids :: "pyval list \<Rightarrow> string list" where
  "entry_ids es = [i. PDict d \<leftarrow> es, PStr i \<leftarrow> [py_get d ''id'']]"

lemma entry_id_Nil:
  "entry_id kind label d ids = ([], label', ids') \<longleftrightarrow>
     (\<exists>i. py_get d ''id'' = PStr i \<and> i \<noteq> [] \<and> i \<notin> set ids \<and> label' = i \<and> ids' = i # ids)"
  by (auto simp: entry_id_def split: option.splits if_splits)

lemma risk_errors_sound:
  assumes "risk_errors rs ids = Inr []"
  shows "(\<forall>r \<in> set rs. sound_risk (snd r)) \<and> distinct (entry_ids (map snd rs)) \<and>
    set (entry_ids (map snd rs)) \<inter> set ids = {}"
  using assms
proof (induction rs arbitrary: ids)
  case (Cons entry rest)
  obtain label risk where e: "entry = (label, risk)" by fastforce
  with Cons.prems obtain d where d: "risk = PDict d" by (auto simp: rbind_Inr_iff split: option.splits)
  obtain es label' ids' where "entry_id ''risk'' label d ids = (es, label', ids')" using prod_cases3 by blast
  with Cons.prems e d have i: "entry_id ''risk'' label d ids = ([], label', ids')"
    and s: "set_contains valid_risk_severities (py_get d ''severity'') = Inr True"
    and o: "nonempty_str (py_get d ''owner'')"
    and c: "py_get d ''severity'' \<in> {PStr ''high'', PStr ''critical''} \<longrightarrow>
      set_contains valid_risk_decisions (py_get d ''decision'') = Inr True"
    and r: "risk_errors rest ids' = Inr []"
    by (auto simp: rbind_Inr_iff split: if_splits)
  have "sound_risk risk"
    using d i s o c unfolding sound_risk_def set_contains_True entry_id_Nil by (auto simp: nonempty_str_iff)
  moreover have "(\<forall>r \<in> set rest. sound_risk (snd r)) \<and> distinct (entry_ids (map snd rest)) \<and>
      set (entry_ids (map snd rest)) \<inter> set ids' = {}"
    using Cons.IH [OF r] .
  ultimately show ?case using e d i unfolding entry_id_Nil by (auto simp: entry_ids_def)
qed (simp add: entry_ids_def)

lemma expiry_errors_Nil:
  "expiry_errors label today d = [] \<longleftrightarrow>
     (\<exists>t x. py_get d ''expires_on'' = PStr t \<and> from_isoformat t = Some x \<and>
        (py_get d ''status'' = PStr ''approved'' \<longrightarrow> today \<le> x))"
  by (auto simp: expiry_errors_def not_less bind_eq_Some_conv split: option.splits)

lemma exception_errors_sound:
  assumes "exception_errors today es ids = Inr []"
  shows "(\<forall>e \<in> set es. sound_exception today (snd e)) \<and> distinct (entry_ids (map snd es)) \<and>
    set (entry_ids (map snd es)) \<inter> set ids = {}"
  using assms
proof (induction es arbitrary: ids)
  case (Cons entry rest)
  obtain label e where e: "entry = (label, e)" by fastforce
  with Cons.prems obtain d where d: "e = PDict d" by (auto simp: rbind_Inr_iff split: option.splits)
  obtain xs label' ids' where "entry_id ''exception'' label d ids = (xs, label', ids')" using prod_cases3 by blast
  with Cons.prems e d have i: "entry_id ''exception'' label d ids = ([], label', ids')"
    and s: "set_contains [''approved'', ''closed''] (py_get d ''status'') = Inr True"
    and o: "nonempty_str (py_get d ''owner'')" and x: "expiry_errors label' today d = []"
    and r: "exception_errors today rest ids' = Inr []"
    by (auto simp: rbind_Inr_iff)
  have "sound_exception today e"
    using d i s o x unfolding sound_exception_def set_contains_True entry_id_Nil expiry_errors_Nil
    by (auto simp: nonempty_str_iff)
  moreover have "(\<forall>e \<in> set rest. sound_exception today (snd e)) \<and> distinct (entry_ids (map snd rest)) \<and>
      set (entry_ids (map snd rest)) \<inter> set ids' = {}"
    using Cons.IH [OF r] .
  ultimately show ?case using e d i unfolding entry_id_Nil by (auto simp: entry_ids_def)
qed (simp add: entry_ids_def)

lemma map_snd_labelled: "map snd (labelled kind xs) = xs"
  by (simp add: labelled_def comp_def split_beta)

lemma catalog_sound:
  assumes "validate_catalog fs base sm catalog = Inr (controls, [])"
  obtains raw where "py_get catalog ''controls'' = PList raw" "\<forall>c \<in> set raw. sound_control fs base sm c"
    "\<And>i v. map_of controls i = Some v \<Longrightarrow> v \<in> set raw \<and> (\<exists>c. v = PDict c \<and> py_get c ''id'' = PStr i)"
proof -
  from assms obtain raw where raw: "py_get catalog ''controls'' = PList raw"
    "catalog_controls fs base sm raw [] = Inr (controls, [])"
    by (auto simp: validate_catalog_def Let_def rbind_Inr_iff split: option.splits)
  from catalog_controls_sound [OF raw(2)] show ?thesis by (intro that [OF raw(1)]) auto
qed

lemma selection_required:
  "validate_selection profile controls label = [] \<Longrightarrow> i \<in> set (required_of profile) \<Longrightarrow> map_of controls i \<noteq> None"
  by (auto simp: validate_selection_def concat_unless_Nil list_all_iff)

lemma validate_risks_Nil:
  assumes "validate_risks fs base = Inr []"
  obtains document risks where "read_object fs (base @ ''/governance/risks/risk-register.json'') = Inr document"
    "py_get document ''risks'' = PList risks" "\<forall>r \<in> set risks. sound_risk r" "distinct (entry_ids risks)"
proof -
  from assms obtain document risks
    where d: "read_object fs (base @ ''/governance/risks/risk-register.json'') = Inr document"
      "py_get document ''risks'' = PList risks" "risk_errors (labelled ''risk'' risks) [] = Inr []"
    by (auto simp: validate_risks_def split: sum.splits option.splits)
  from risk_errors_sound [OF d(3)] have "\<forall>r \<in> set (map snd (labelled ''risk'' risks)). sound_risk r"
    "distinct (entry_ids (map snd (labelled ''risk'' risks)))" by auto
  then show ?thesis using that [OF d(1,2)] unfolding map_snd_labelled by blast
qed

lemma validate_exceptions_Nil:
  assumes "validate_exceptions fs base today = Inr []"
  obtains document es where "read_object fs (base @ ''/governance/exceptions.json'') = Inr document"
    "py_get document ''exceptions'' = PList es" "\<forall>e \<in> set es. sound_exception today e" "distinct (entry_ids es)"
proof -
  from assms obtain document es
    where d: "read_object fs (base @ ''/governance/exceptions.json'') = Inr document"
      "py_get document ''exceptions'' = PList es" "exception_errors today (labelled ''exception'' es) [] = Inr []"
    by (auto simp: validate_exceptions_def split: sum.splits option.splits)
  from exception_errors_sound [OF d(3)] have "\<forall>e \<in> set (map snd (labelled ''exception'' es)). sound_exception today e"
    "distinct (entry_ids (map snd (labelled ''exception'' es)))" by auto
  then show ?thesis using that [OF d(1,2)] unfolding map_snd_labelled by blast
qed

lemma governance_main_zero:
  assumes "governance_main R fs today (Inr base) output = Inr (code, out, err)"
  obtains r where "run_generated R fs base today output = Inr r" "code = (if gr_errors r = [] then 0 else 1)"
    "err = map (\<lambda>e. ''FAIL '' @ e) (gr_errors r)"
  using assms by (auto simp: governance_main_def rbind_Inr_iff)

lemma run_generated_clean:
  assumes "run_generated R fs base today output = Inr r" and "gr_errors r = []"
    and "gf_exists fs (base @ ''/governance/governance-profile.json'')"
  obtains profile catalog controls where
    "read_object fs (base @ ''/governance/governance-profile.json'') = Inr profile"
    "read_object fs (base @ ''/governance/control-catalog.json'') = Inr catalog"
    "validate_catalog fs base False catalog = Inr (controls, [])"
    "validate_selection profile controls ''selected profile'' = []"
    "validate_risks fs base = Inr []" "validate_exceptions fs base today = Inr []"
  using assms
  by (auto simp: run_generated_def Let_def rbind_Inr_iff unreadable_run_def split: sum.splits)

end
