(* ===== verification/Architecture_Gate.thy ===== *)
theory Architecture_Gate
  imports Governance_Gate "HOL-Library.Product_Lexorder"
begin

text \<open>
  \<open>scripts/validate_architecture.py\<close>: the layer and boundary rules on imports. Paths are lists of
  parts. A syntax tree is the list of its nodes in the order of \<open>ast.walk\<close>; reading and parsing a
  file, globbing and path resolution are a parameter, the record \<open>arch_fs\<close>.
\<close>

datatype ast_node =
    Import nat "string list"
  | ImportFrom nat "string option" "string list" nat
  | CallName nat string
  | CallAttribute nat string string
  | OtherNode

text \<open>A file whose bytes are not UTF-8 raises an exception the script does not catch.\<close>

datatype parsed = Parsed "ast_node list" | Unparsable nat string | Undecodable

record arch_fs =
  af_root :: "string list"
  af_project :: "pyval dict result"
  af_glob_dirs :: "string \<Rightarrow> string list list"
  af_resolve :: "string \<Rightarrow> string list"
  af_is_dir :: "string list \<Rightarrow> bool"
  af_python_files :: "string list \<Rightarrow> string list list"
  af_parse :: "string list \<Rightarrow> parsed"
  af_stdlib :: "string list"

definition layers :: "string list" where
  "layers = [''domain'', ''application'', ''adapters'', ''entrypoints'']"

definition forbidden_local :: "string \<Rightarrow> string list option" where
  "forbidden_local layer =
     map_of [(''domain'', [''application'', ''adapters'', ''entrypoints'']), (''application'', [''adapters'', ''entrypoints''])]
       layer"

definition infrastructure :: "string list" where
  "infrastructure =
     [''boto3'', ''botocore'', ''celery'', ''django'', ''fastapi'', ''flask'', ''httpx'', ''kafka'', ''redis'',
      ''requests'', ''sqlalchemy'']"

definition forbidden_external :: "string \<Rightarrow> string list" where
  "forbidden_external layer = (if layer = ''domain'' then ''pydantic'' # infrastructure else infrastructure)"

definition dynamic_imports :: "string list" where
  "dynamic_imports = [''__import__'', ''importlib.import_module'']"

record violation =
  vi_path :: "string list"
  vi_line :: nat
  vi_message :: string

record boundary =
  bo_path :: "string list"
  bo_allowed_imports :: "string list"
  bo_deny_dynamic_imports :: bool

section \<open>Imports of a file\<close>

definition layer_for :: "string list \<Rightarrow> string option" where
  "layer_for parts =
     (case parts of _ # layer # _ \<Rightarrow> (if layer \<in> set layers then Some layer else None) | _ \<Rightarrow> None)"

definition dotted :: "string list \<Rightarrow> string" where
  "dotted parts = join ''.'' (filter (\<lambda>p. p \<noteq> []) parts)"

definition import_base :: "string list \<Rightarrow> string option \<Rightarrow> nat \<Rightarrow> string" where
  "import_base current_package md level =
     (let own = (case md of None \<Rightarrow> [] | Some m \<Rightarrow> if m = [] then [] else split_on CHR ''.'' m);
          target = (if level \<noteq> 0 then take (length current_package - (level - 1)) current_package @ own
                    else own)
      in dotted target)"

fun node_imports :: "string list \<Rightarrow> ast_node \<Rightarrow> (nat \<times> string) list" where
  "node_imports current_package (Import line names) = map (\<lambda>n. (line, n)) names"
| "node_imports current_package (ImportFrom line md names level) =
     map (\<lambda>n. (line, dotted [import_base current_package md level, n])) names"
| "node_imports current_package _ = []"

definition imported_modules :: "ast_node list \<Rightarrow> string list \<Rightarrow> (nat \<times> string) list" where
  "imported_modules tree current_module = sort (concat (map (node_imports (butlast current_module)) tree))"

fun call_name :: "ast_node \<Rightarrow> (nat \<times> string) option" where
  "call_name (CallName line f) = Some (line, f)"
| "call_name (CallAttribute line v a) = Some (line, v @ ''.'' @ a)"
| "call_name _ = None"

text \<open>\<open>path.with_suffix('').parts\<close> of a Python file.\<close>

definition without_py :: "string \<Rightarrow> string" where
  "without_py name = (if name = ''.py'' then name else take (length name - 3) name)"

definition module_parts :: "string list \<Rightarrow> string list" where
  "module_parts parts = butlast parts @ [without_py (last parts)]"

definition top_name :: "string \<Rightarrow> string" where
  "top_name m = takeWhile (\<lambda>c. c \<noteq> CHR ''.'') m"

definition py_quote :: "(pyval \<Rightarrow> string) \<Rightarrow> string \<Rightarrow> string" where
  "py_quote repr_of s = repr_of (PStr s)"

text \<open>The violation one imported name is, if any.\<close>

definition layer_violation ::
    "(pyval \<Rightarrow> string) \<Rightarrow> string list \<Rightarrow> string \<Rightarrow> string list \<Rightarrow> string \<Rightarrow> nat \<times> string \<Rightarrow> violation list" where
  "layer_violation repr_of relative layer forbidden package entry =
     (case entry of (line, imported) \<Rightarrow>
        let parts = (if imported = [] then [] else split_on CHR ''.'' imported)
        in if 1 < length parts \<and> parts ! 0 = package \<and> parts ! 1 \<in> set forbidden
           then [\<lparr>vi_path = relative, vi_line = line,
                  vi_message = layer @ '' must not depend on local layer '' @ py_quote repr_of (parts ! 1) @ '': '' @ imported\<rparr>]
           else if top_name imported \<in> set (forbidden_external layer)
           then [\<lparr>vi_path = relative, vi_line = line,
                  vi_message = layer @ '' must not import infrastructure package '' @
                    py_quote repr_of (top_name imported) @ '': '' @ imported\<rparr>]
           else [])"

definition validate_file ::
    "(pyval \<Rightarrow> string) \<Rightarrow> arch_fs \<Rightarrow> string list \<Rightarrow> string list \<Rightarrow> violation list result" where
  "validate_file repr_of fs src_root path =
     (let relative = drop (length src_root) path in
      case layer_for relative of
        None \<Rightarrow> Inr []
      | Some layer \<Rightarrow>
          (case forbidden_local layer of
             None \<Rightarrow> Inr []
           | Some forbidden \<Rightarrow>
               (case af_parse fs path of
                  Undecodable \<Rightarrow> Inl (OtherExn ''UnicodeDecodeError'')
                | Unparsable line message \<Rightarrow>
                    Inr [\<lparr>vi_path = relative, vi_line = (if line = 0 then 1 else line),
                          vi_message = ''cannot parse file: '' @ message\<rparr>]
                | Parsed tree \<Rightarrow>
                    let md = module_parts relative
                    in Inr (concat (map (layer_violation repr_of relative layer forbidden (md ! 0))
                         (imported_modules tree md))))))"

section \<open>Boundaries\<close>

definition is_allowed :: "string list \<Rightarrow> string \<Rightarrow> string list \<Rightarrow> bool" where
  "is_allowed stdlib md allowed =
     (''stdlib'' \<in> set allowed \<and> top_name md \<in> set stdlib \<or>
      list_ex (\<lambda>item. md = item \<or> startswith md (item @ ''.'')) (filter (\<lambda>i. i \<noteq> ''stdlib'') allowed))"

definition violation_key :: "violation \<Rightarrow> string \<times> nat \<times> string" where
  "violation_key v = (join ''/'' (vi_path v), vi_line v, vi_message v)"

definition validate_boundary_file ::
    "(pyval \<Rightarrow> string) \<Rightarrow> arch_fs \<Rightarrow> boundary \<Rightarrow> string list \<Rightarrow> violation list result" where
  "validate_boundary_file repr_of fs b path =
     (let relative = drop (length (af_root fs)) path;
          current_module = last (bo_path b) # module_parts (drop (length (bo_path b)) path);
          name = join ''.'' current_module;
          mk = (\<lambda>line message. \<lparr>vi_path = relative, vi_line = line, vi_message = message\<rparr>)
      in case af_parse fs path of
           Undecodable \<Rightarrow> Inl (OtherExn ''UnicodeDecodeError'')
         | Unparsable line message \<Rightarrow>
             Inr [mk (if line = 0 then 1 else line) (''cannot parse module '' @ name @ '': '' @ message)]
         | Parsed tree \<Rightarrow>
             let denied = filter (\<lambda>(line, m). m \<noteq> [] \<and> \<not> is_allowed (af_stdlib fs) m (bo_allowed_imports b))
                   (imported_modules tree current_module);
                 dynamic = (if bo_deny_dynamic_imports b
                   then filter (\<lambda>(line, f). f \<in> set dynamic_imports) (List.map_filter call_name tree) else [])
             in Inr (sort_key violation_key
                  (map (\<lambda>(line, m). mk line (''module '' @ name @ '' imports denied module '' @ py_quote repr_of m)) denied @
                   map (\<lambda>(line, f). mk line (''module '' @ name @ '' uses denied dynamic import '' @ py_quote repr_of f)) dynamic)))"

section \<open>Configuration\<close>

definition table_get :: "pyval \<Rightarrow> string \<Rightarrow> pyval \<Rightarrow> pyval result" where
  "table_get v k fallback =
     (case as_dict v of
        None \<Rightarrow> Inl (OtherExn ''AttributeError'')
      | Some d \<Rightarrow> Inr (case map_of d k of None \<Rightarrow> fallback | Some x \<Rightarrow> x))"

text \<open>Iteration over a value.\<close>

fun py_iter :: "pyval \<Rightarrow> pyval list result" where
  "py_iter (PList vs) = Inr vs"
| "py_iter (PStr s) = Inr (map (\<lambda>c. PStr [c]) s)"
| "py_iter (PDict d) = Inr (map (\<lambda>kv. PStr (fst kv)) d)"
| "py_iter v = Inl (OtherExn ''TypeError'')"

definition load_boundary :: "(pyval \<Rightarrow> string) \<Rightarrow> arch_fs \<Rightarrow> pyval \<Rightarrow> boundary result" where
  "load_boundary repr_of fs item =
     (case as_dict item of
        None \<Rightarrow> Inl (OtherExn ''TypeError'')
      | Some d \<Rightarrow>
          (case map_of d ''path'' of
             None \<Rightarrow> Inl (OtherExn ''KeyError'')
           | Some p \<Rightarrow>
               let path = af_resolve fs (py_str repr_of p)
               in if take (length (af_root fs)) path \<noteq> af_root fs
                  then Inl (ValueError (''architecture boundary escapes project: '' @ py_str repr_of p))
                  else rbind (rbind (table_get item ''allowed-imports'' (PList [PStr ''stdlib''])) py_iter) (\<lambda>allowed.
                       rbind (table_get item ''deny-dynamic-imports'' (PBool True)) (\<lambda>deny.
                         Inr \<lparr>bo_path = path, bo_allowed_imports = map (py_str repr_of) allowed,
                              bo_deny_dynamic_imports = truthy deny\<rparr>))))"

definition load_config ::
    "(pyval \<Rightarrow> string) \<Rightarrow> arch_fs \<Rightarrow> (string list list \<times> bool \<times> boundary list) result" where
  "load_config repr_of fs =
     rbind (af_project fs) (\<lambda>project.
     rbind (table_get (PDict project) ''tool'' (PDict [])) (\<lambda>tool.
     rbind (table_get tool ''engineering-harness'' (PDict [])) (\<lambda>harness.
     rbind (table_get harness ''architecture'' (PDict [])) (\<lambda>config.
     rbind (rbind (table_get config ''source-roots'' (PList [PStr ''src''])) py_iter) (\<lambda>patterns.
     rbind (table_get config ''clean-architecture'' (PBool False)) (\<lambda>clean.
     rbind (rbind (table_get config ''boundaries'' (PList [])) py_iter) (\<lambda>items.
     rbind (rmap (load_boundary repr_of fs) items) (\<lambda>boundaries.
       Inr (sorted_set (concat (map (\<lambda>p. af_glob_dirs fs (py_str repr_of p)) patterns)), truthy clean, boundaries)))))))))"

text \<open>The exceptions \<open>main\<close> reports as an invalid configuration.\<close>

fun is_config_error :: "exn \<Rightarrow> bool" where
  "is_config_error (ValueError m) = True"
| "is_config_error (OtherExn n) = (n \<in> {''OSError'', ''KeyError'', ''TypeError'', ''UnicodeDecodeError'', ''TOMLDecodeError''})"
| "is_config_error _ = False"

section \<open>The run\<close>

datatype boundary_outcome = MissingBoundary "string list" | Violations "violation list"

fun run_boundaries ::
    "(pyval \<Rightarrow> string) \<Rightarrow> arch_fs \<Rightarrow> boundary list \<Rightarrow> violation list \<Rightarrow> boundary_outcome result" where
  "run_boundaries repr_of fs [] vs = Inr (Violations vs)"
| "run_boundaries repr_of fs (b # bs) vs =
     (if \<not> af_is_dir fs (bo_path b) then Inr (MissingBoundary (drop (length (af_root fs)) (bo_path b)))
      else rbind (rmap (validate_boundary_file repr_of fs b) (af_python_files fs (bo_path b))) (\<lambda>found.
           run_boundaries repr_of fs bs (vs @ concat found)))"

definition architecture_main ::
    "(pyval \<Rightarrow> string) \<Rightarrow> arch_fs \<Rightarrow> (int \<times> violation list) result" where
  "architecture_main repr_of fs =
     (case load_config repr_of fs of
        Inl e \<Rightarrow> if is_config_error e then Inr (2, []) else Inl e
      | Inr (source_roots, clean, boundaries) \<Rightarrow>
          rbind (if clean
                 then rbind (rmap (\<lambda>r. rbind (rmap (validate_file repr_of fs r) (af_python_files fs r)) (\<lambda>vs. Inr (concat vs)))
                        source_roots) (\<lambda>vs. Inr (concat vs))
                 else Inr []) (\<lambda>layered.
          rbind (run_boundaries repr_of fs boundaries layered) (\<lambda>outcome.
            case outcome of
              MissingBoundary p \<Rightarrow> Inr (2, [])
            | Violations vs \<Rightarrow> Inr (if vs = [] then 0 else 1, sort_key violation_key vs))))"

section \<open>What a passing run means\<close>

text \<open>The rules as a specification on the nodes of a file, in any order.\<close>

definition respects_layer :: "string \<Rightarrow> string list \<Rightarrow> string \<Rightarrow> string \<Rightarrow> bool" where
  "respects_layer layer forbidden package m \<longleftrightarrow>
     \<not> (\<exists>l rest. split_on CHR ''.'' m = package # l # rest \<and> l \<in> set forbidden) \<and>
     top_name m \<notin> set (forbidden_external layer)"

definition layered_file :: "arch_fs \<Rightarrow> string list \<Rightarrow> string list \<Rightarrow> bool" where
  "layered_file fs src_root path \<longleftrightarrow>
     (let relative = drop (length src_root) path in
      \<forall>layer forbidden. layer_for relative = Some layer \<longrightarrow> forbidden_local layer = Some forbidden \<longrightarrow>
        (\<exists>tree. af_parse fs path = Parsed tree \<and>
           (\<forall>node \<in> set tree. \<forall>(line, m) \<in> set (node_imports (butlast (module_parts relative)) node).
              respects_layer layer forbidden (module_parts relative ! 0) m)))"

definition bounded_file :: "arch_fs \<Rightarrow> boundary \<Rightarrow> string list \<Rightarrow> bool" where
  "bounded_file fs b path \<longleftrightarrow>
     (let package = butlast (last (bo_path b) # module_parts (drop (length (bo_path b)) path)) in
      \<exists>tree. af_parse fs path = Parsed tree \<and>
        (\<forall>node \<in> set tree.
           (\<forall>(line, m) \<in> set (node_imports package node). m = [] \<or> is_allowed (af_stdlib fs) m (bo_allowed_imports b)) \<and>
           (\<forall>line f. call_name node = Some (line, f) \<longrightarrow> bo_deny_dynamic_imports b \<longrightarrow> f \<notin> set dynamic_imports)))"

lemma set_imported_modules: "set (imported_modules tree md) = (\<Union>node \<in> set tree. set (node_imports (butlast md) node))"
  by (simp add: imported_modules_def)

lemma split_on_Nil: "split_on c [] = [[]]"
  by (simp add: split_on_def)

lemma layer_violation_Nil:
  "layer_violation R rel layer forbidden package (line, m) = [] \<longleftrightarrow> respects_layer layer forbidden package m"
proof -
  have "(1 < length ps \<and> ps ! 0 = package \<and> ps ! 1 \<in> set forbidden) \<longleftrightarrow>
      (\<exists>l rest. ps = package # l # rest \<and> l \<in> set forbidden)" for ps :: "string list"
    by (cases ps; cases "tl ps") auto
  then show ?thesis by (auto simp: layer_violation_def respects_layer_def Let_def split_on_Nil)
qed

lemma validate_file_Nil: "validate_file R fs src_root path = Inr [] \<longleftrightarrow> layered_file fs src_root path"
proof (cases "layer_for (drop (length src_root) path)")
  case (Some layer)
  have v: "(\<forall>e \<in> S. layer_violation R rel layer forbidden package e = []) \<longleftrightarrow>
      (\<forall>(line, m) \<in> S. respects_layer layer forbidden package m)" for S rel forbidden package
  proof (intro ball_cong refl)
    fix e
    show "layer_violation R rel layer forbidden package e = [] \<longleftrightarrow>
        (case e of (line, m) \<Rightarrow> respects_layer layer forbidden package m)"
      by (cases e) (simp add: layer_violation_Nil)
  qed
  show ?thesis
    using Some by (cases "forbidden_local layer"; cases "af_parse fs path")
      (simp_all add: validate_file_def layered_file_def Let_def v set_imported_modules)
qed (simp add: validate_file_def layered_file_def Let_def)

lemma sort_key_Nil [simp]: "sort_key f xs = [] \<longleftrightarrow> xs = []"
  by (metis length_0_conv length_sort)

lemma map_filter_Nil: "List.map_filter f xs = [] \<longleftrightarrow> (\<forall>x \<in> set xs. f x = None)"
  by (auto simp: List.map_filter_def filter_empty_conv)

lemma dynamic_calls_Nil:
  "filter (\<lambda>(line, f). f \<in> set dynamic_imports) (List.map_filter call_name tree) = [] \<longleftrightarrow>
     (\<forall>node \<in> set tree. \<forall>line f. call_name node = Some (line, f) \<longrightarrow> f \<notin> set dynamic_imports)"
  by (force simp: filter_empty_conv List.map_filter_def)

lemma validate_boundary_file_Nil: "validate_boundary_file R fs b path = Inr [] \<longleftrightarrow> bounded_file fs b path"
proof (cases "af_parse fs path")
  case (Parsed tree)
  define md where "md = last (bo_path b) # module_parts (drop (length (bo_path b)) path)"
  have "filter (\<lambda>(line, m). m \<noteq> [] \<and> \<not> is_allowed (af_stdlib fs) m (bo_allowed_imports b)) (imported_modules tree md) = [] \<longleftrightarrow>
      (\<forall>node \<in> set tree. \<forall>(line, m) \<in> set (node_imports (butlast md) node).
         m = [] \<or> is_allowed (af_stdlib fs) m (bo_allowed_imports b))"
    by (auto simp: filter_empty_conv set_imported_modules)
  with Parsed show ?thesis
    by (simp add: validate_boundary_file_def bounded_file_def Let_def dynamic_calls_Nil flip: md_def) blast
qed (simp_all add: validate_boundary_file_def bounded_file_def Let_def)

lemma rmap_concat_Nil: "(\<exists>ys. rmap f xs = Inr ys \<and> concat ys = []) \<longleftrightarrow> (\<forall>x \<in> set xs. f x = Inr [])"
proof
  assume "\<forall>x \<in> set xs. f x = Inr []"
  then have "rmap f xs = Inr (map (\<lambda>_. []) xs)"
    by (simp add: rmap_Inr_iff list_all2_conv_all_nth)
  then show "\<exists>ys. rmap f xs = Inr ys \<and> concat ys = []" by simp
qed (force simp: rmap_Inr_iff list_all2_conv_all_nth in_set_conv_nth)

lemma rconcat_Nil: "rbind (rmap f xs) (\<lambda>ys. Inr (concat ys)) = Inr [] \<longleftrightarrow> (\<forall>x \<in> set xs. f x = Inr [])"
  unfolding rmap_concat_Nil [symmetric] by (simp add: rbind_Inr_iff)

lemma run_boundaries_Nil:
  "run_boundaries R fs bs vs = Inr (Violations []) \<longleftrightarrow>
     vs = [] \<and> (\<forall>b \<in> set bs. af_is_dir fs (bo_path b) \<and>
       (\<forall>path \<in> set (af_python_files fs (bo_path b)). bounded_file fs b path))"
proof (induction bs arbitrary: vs)
  case (Cons b bs)
  define each where "each = rmap (validate_boundary_file R fs b) (af_python_files fs (bo_path b))"
  have "(\<exists>ys. each = Inr ys \<and> concat ys = []) \<longleftrightarrow> (\<forall>path \<in> set (af_python_files fs (bo_path b)). bounded_file fs b path)"
    unfolding each_def rmap_concat_Nil validate_boundary_file_Nil ..
  then show ?case by (auto simp: rbind_Inr_iff Cons.IH simp flip: each_def)
qed simp

lemma architecture_main_zero:
  "(\<exists>vs. architecture_main R fs = Inr (0, vs)) \<longleftrightarrow>
     (\<exists>roots clean bs. load_config R fs = Inr (roots, clean, bs) \<and>
        (clean \<longrightarrow> (\<forall>r \<in> set roots. \<forall>path \<in> set (af_python_files fs r). layered_file fs r path)) \<and>
        (\<forall>b \<in> set bs. af_is_dir fs (bo_path b) \<and> (\<forall>path \<in> set (af_python_files fs (bo_path b)). bounded_file fs b path)))"
proof (cases "load_config R fs")
  case (Inr config)
  then obtain roots clean bs where c: "load_config R fs = Inr (roots, clean, bs)" by (cases config) auto
  define layered where "layered =
    (if clean then rbind (rmap (\<lambda>r. rbind (rmap (validate_file R fs r) (af_python_files fs r)) (\<lambda>vs. Inr (concat vs))) roots)
       (\<lambda>vs. Inr (concat vs)) else Inr [])"
  have l: "layered = Inr [] \<longleftrightarrow> (clean \<longrightarrow> (\<forall>r \<in> set roots. \<forall>path \<in> set (af_python_files fs r). layered_file fs r path))"
    by (simp add: layered_def rconcat_Nil validate_file_Nil)
  define finish where "finish = (\<lambda>outcome. case outcome of MissingBoundary p \<Rightarrow> Inr (2, [])
      | Violations vs \<Rightarrow> (Inr (if vs = [] then 0 else 1, sort_key violation_key vs) :: (int \<times> violation list) result))"
  have o: "(\<exists>vs. finish outcome = Inr (0, vs)) \<longleftrightarrow> outcome = Violations []" for outcome
    by (cases outcome) (auto simp: finish_def)
  have "architecture_main R fs = rbind layered (\<lambda>found. rbind (run_boundaries R fs bs found) finish)"
    by (simp add: architecture_main_def c layered_def finish_def)
  then have "(\<exists>vs. architecture_main R fs = Inr (0, vs)) \<longleftrightarrow>
      (\<exists>found outcome. layered = Inr found \<and> run_boundaries R fs bs found = Inr outcome \<and> (\<exists>vs. finish outcome = Inr (0, vs)))"
    by (simp add: rbind_Inr_iff) blast
  with l show ?thesis by (auto simp: c o run_boundaries_Nil)
qed (auto simp: architecture_main_def)

end
