(* ===== verification/Governance_Properties.thy ===== *)
theory Governance_Properties
  imports Governance_Gate Architecture_Gate
begin

text \<open>What the repository's own gates guarantee when they pass.\<close>

section \<open>The vulnerability policy\<close>

text \<open>C39: When the vulnerability gate passes, the exceptions cover exactly the evidence: a finding of
  the report that is high or critical and has a fix has its key in an exception that was reviewed no
  later than today, has not expired, and runs for 1 to 90 days; every exception is well-formed and
  matches such a finding; and the summary lists those keys once, in order, each with the expiry date
  of an exception that covers it.\<close>

theorem vulnerability_gate_sound:
  assumes "evaluate_vulnerability_policy R files report_path policy_path today = Inr s"
  shows "\<exists>r ms p es. files report_path = Json (PDict r) \<and> py_get r ''matches'' = PList ms \<and>
    files policy_path = Json (PDict p) \<and> py_get p ''exceptions'' = PList es \<and>
    (\<forall>raw \<in> set ms. \<forall>k. demands_exception raw k \<longrightarrow> (\<exists>e \<in> set es. \<exists>x. covers today e k x)) \<and>
    (\<forall>e \<in> set es. \<exists>k x. covers today e k x \<and> (\<exists>raw \<in> set ms. demands_exception raw k)) \<and>
    map snd (ps_approved s) = sorted_list_of_set {k. \<exists>raw \<in> set ms. demands_exception raw k} \<and>
    ps_actionable s = length (ps_approved s) \<and>
    (\<forall>(x, k) \<in> set (ps_approved s). \<exists>e \<in> set es. covers today e k x)"
proof (rule evaluate_Inr [OF assms])
  fix r ms p es
  assume f: "files report_path = Json (PDict r)" "py_get r ''matches'' = PList ms"
    "files policy_path = Json (PDict p)" "py_get p ''exceptions'' = PList es"
    and d: "set (map snd (ps_approved s)) = {k. \<exists>raw \<in> set ms. demands_exception raw k}"
    and c: "set (map snd (ps_approved s)) = {k. \<exists>raw \<in> set es. \<exists>x. covers today raw k x}"
    and w: "\<forall>raw \<in> set es. \<exists>k x. covers today raw k x"
    and o: "sorted (map snd (ps_approved s))" "distinct (map snd (ps_approved s))"
      "ps_actionable s = length (ps_approved s)"
      "\<forall>(x, k) \<in> set (ps_approved s). \<exists>raw \<in> set es. covers today raw k x"
  have dc: "(\<exists>raw \<in> set ms. demands_exception raw k) \<longleftrightarrow> (\<exists>raw \<in> set es. \<exists>x. covers today raw k x)" for k
    using c unfolding d by blast
  have "map snd (ps_approved s) = sorted_list_of_set {k. \<exists>raw \<in> set ms. demands_exception raw k}"
    using o(1,2) d by (metis sorted_list_of_set.idem_if_sorted_distinct)
  then show ?thesis using f o(3,4) w dc by blast
qed

definition example_files :: "string \<Rightarrow> json_file" where
  "example_files path =
     (if path = ''report.json''
      then Json (PDict [(''matches'', PList [PDict
        [(''vulnerability'', PDict [(''id'', PStr ''CVE-1''), (''namespace'', PStr ''debian''), (''severity'', PStr ''high''),
            (''fix'', PDict [(''versions'', PList [PStr ''2''])])]),
         (''artifact'', PDict [(''name'', PStr ''zlib''), (''type'', PStr ''deb''), (''version'', PStr ''1'')])]])])
      else Json (PDict [(''schema_version'', PStr ''1.0''), (''exceptions'', PList [PDict
        [(''expires_on'', PStr ''2026-02-01''), (''installed_version'', PStr ''1''), (''namespace'', PStr ''debian''),
         (''owner'', PStr ''team''), (''package'', PStr ''zlib''), (''package_type'', PStr ''deb''),
         (''reason'', PStr ''aaaaaaaaaaaaaaaaaaaaaaaaaaaaaaaaaaaaaaaaaaaaa''),
         (''removal_plan'', PStr ''bbbbbbbbbbbbbbbbbbbbbbbbbbbbbbbbbbbbbbbbbbbb''),
         (''reviewed_on'', PStr ''2026-01-05''), (''vulnerability_id'', PStr ''CVE-1'')]])]))"

definition example_finding :: finding_key where
  "example_finding = FindingKey ''CVE-1'' ''debian'' ''zlib'' ''deb'' ''1''"

lemma example_strips:
  "py_strip ''CVE-1'' = ''CVE-1''" "py_strip ''debian'' = ''debian''" "py_strip ''zlib'' = ''zlib''"
  "py_strip ''deb'' = ''deb''" "py_strip ''1'' = ''1''" "py_strip ''2'' = ''2''" "py_strip ''team'' = ''team''"
  "py_strip ''2026-01-05'' = ''2026-01-05''" "py_strip ''2026-02-01'' = ''2026-02-01''"
  "py_strip ''aaaaaaaaaaaaaaaaaaaaaaaaaaaaaaaaaaaaaaaaaaaaa'' = ''aaaaaaaaaaaaaaaaaaaaaaaaaaaaaaaaaaaaaaaaaaaaa''"
  "py_strip ''bbbbbbbbbbbbbbbbbbbbbbbbbbbbbbbbbbbbbbbbbbbb'' = ''bbbbbbbbbbbbbbbbbbbbbbbbbbbbbbbbbbbbbbbbbbbb''"
  by (simp_all add: py_strip_def py_lstrip_by_def py_rstrip_by_def py_isspace_def ord_of_def)

lemma example_dates:
  "from_isoformat ''2026-01-05'' = Some (Date 2026 1 5)" "from_isoformat ''2026-02-01'' = Some (Date 2026 2 1)"
  "days_between (Date 2026 2 1) (Date 2026 1 5) = 27"
  by (simp_all add: date_eval days_between_def to_ordinal_def days_before_month_def)

lemma example_evaluation:
  "evaluate_vulnerability_policy R example_files ''report.json'' ''exceptions.json'' (Date 2026 1 20) =
     Inr \<lparr>ps_actionable = 1, ps_approved = [(Date 2026 2 1, example_finding)],
          ps_effective = Date 2026 1 20, ps_unfixed = 0\<rparr>"
proof -
  have a: "actionable_findings example_files ''report.json'' = Inr ([example_finding], [])"
    by (simp add: actionable_findings_def load_object_def example_files_def indexed_def classify_match_def
        is_blocking_def has_fix_def finding_key_of_def read_key_def required_string_def example_strips
        blocking_severities_def py_lower_def lower_char_def ord_of_def example_finding_def)
  have "Date 2026 1 5 \<le> Date 2026 1 20" "Date 2026 1 20 \<le> Date 2026 2 1"
    by (simp_all add: less_eq_date_def)
  then have w: "check_window ctx (Date 2026 1 20) (Date 2026 1 5) (Date 2026 2 1) = Inr ()" for ctx
    using example_dates(3) by (simp add: check_window_Inr)
  have e: "exception_records R example_files ''exceptions.json'' (Date 2026 1 20) =
      Inr [(example_finding, Date 2026 2 1)]"
    by (simp add: exception_records_def load_object_def example_files_def indexed_def exception_record_def
        field_errors_def required_exception_fields_def read_key_def required_string_def example_strips
        policy_date_def parse_policy_date_def example_dates w
        example_finding_def insert_commute del: One_nat_def)
  show ?thesis
    by (simp add: evaluate_vulnerability_policy_def a e policy_errors_Nil sorted_set_def Let_def del: One_nat_def)
qed

theorem vulnerability_gate_sound_witness:
  "\<exists>raw. covers (Date 2026 1 20) raw example_finding (Date 2026 2 1)"
  using vulnerability_gate_sound [OF example_evaluation] by fastforce

section \<open>The governance gate\<close>

text \<open>C40: When the governance gate exits with 0 on a project that has a profile, every control the
  profile requires is in the catalog, owned, and backed by evidence files that exist inside the
  project; every risk has an owner and a severity, a high or critical one a formal decision; every
  approved exception is unexpired; and no two risks or exceptions share an identifier.\<close>

theorem governance_gate_sound:
  assumes "governance_main R fs today (Inr base) output = Inr (0, out, err)"
    and "gf_exists fs (base @ ''/governance/governance-profile.json'')"
  shows "\<exists>profile catalog raw risk_register risks exception_register es.
    read_object fs (base @ ''/governance/governance-profile.json'') = Inr profile \<and>
    read_object fs (base @ ''/governance/control-catalog.json'') = Inr catalog \<and>
    py_get catalog ''controls'' = PList raw \<and> (\<forall>c \<in> set raw. sound_control fs base False c) \<and>
    (\<forall>i \<in> set (required_of profile). \<exists>c. PDict c \<in> set raw \<and> py_get c ''id'' = PStr i) \<and>
    read_object fs (base @ ''/governance/risks/risk-register.json'') = Inr risk_register \<and>
    py_get risk_register ''risks'' = PList risks \<and> (\<forall>r \<in> set risks. sound_risk r) \<and> distinct (entry_ids risks) \<and>
    read_object fs (base @ ''/governance/exceptions.json'') = Inr exception_register \<and>
    py_get exception_register ''exceptions'' = PList es \<and> (\<forall>e \<in> set es. sound_exception today e) \<and>
    distinct (entry_ids es) \<and> err = []"
proof -
  obtain r where r: "run_generated R fs base today output = Inr r" "gr_errors r = []" "err = []"
    using assms(1) by (rule governance_main_zero) (auto split: if_splits)
  from run_generated_clean [OF r(1,2) assms(2)] obtain profile catalog controls where
    p: "read_object fs (base @ ''/governance/governance-profile.json'') = Inr profile"
      "read_object fs (base @ ''/governance/control-catalog.json'') = Inr catalog"
    and c: "validate_catalog fs base False catalog = Inr (controls, [])"
    and v: "validate_selection profile controls ''selected profile'' = []"
    and x: "validate_risks fs base = Inr []" "validate_exceptions fs base today = Inr []" .
  from catalog_sound [OF c] obtain raw where raw: "py_get catalog ''controls'' = PList raw"
    "\<forall>c \<in> set raw. sound_control fs base False c"
    and ids: "\<And>i v. map_of controls i = Some v \<Longrightarrow> v \<in> set raw \<and> (\<exists>c. v = PDict c \<and> py_get c ''id'' = PStr i)"
    by metis
  have "\<forall>i \<in> set (required_of profile). \<exists>c. PDict c \<in> set raw \<and> py_get c ''id'' = PStr i"
    using selection_required [OF v] ids by blast
  moreover obtain rd risks where "read_object fs (base @ ''/governance/risks/risk-register.json'') = Inr rd"
    "py_get rd ''risks'' = PList risks" "\<forall>r \<in> set risks. sound_risk r" "distinct (entry_ids risks)"
    using x(1) by (rule validate_risks_Nil)
  moreover obtain ed es where "read_object fs (base @ ''/governance/exceptions.json'') = Inr ed"
    "py_get ed ''exceptions'' = PList es" "\<forall>e \<in> set es. sound_exception today e" "distinct (entry_ids es)"
    using x(2) by (rule validate_exceptions_Nil)
  ultimately show ?thesis using p raw r(3) by (intro exI conjI) assumption+
qed

definition example_control :: "pyval dict" where
  "example_control =
     [(''id'', PStr ''AC-1''), (''title'', PStr ''t''), (''description'', PStr ''d''), (''category'', PStr ''c''),
      (''status'', PStr ''implemented''),
      (''ownership'', PDict [(''control_owner'', PStr ''a''), (''implementation_owner'', PStr ''b''), (''evidence_owner'', PStr ''c'')]),
      (''assurance'', PDict [(''type'', PStr ''automated''), (''frequency'', PStr ''f''), (''checks'', PList [PStr ''ci.yml''])]),
      (''mappings'', PList [PDict [(''framework'', PStr ''x''), (''reference'', PStr ''r''), (''version'', PStr ''1''),
         (''coverage'', PStr ''full'')]])]"

definition example_gate_fs :: gate_fs where
  "example_gate_fs =
     \<lparr>gf_exists = (\<lambda>p. True), gf_is_file = (\<lambda>p. True), gf_is_symlink = (\<lambda>p. False),
      gf_json = (\<lambda>p.
        if p = ''p/governance/governance-profile.json''
        then Json (PDict [(''name'', PStr ''n''), (''version'', PStr ''1''), (''required_controls'', PList [PStr ''AC-1'']),
          (''framework_versions'', PDict [])])
        else if p = ''p/governance/control-catalog.json''
        then Json (PDict [(''version'', PStr ''1''), (''controls'', PList [PDict example_control])])
        else if p = ''p/governance/risks/risk-register.json''
        then Json (PDict [(''risks'', PList [PDict [(''id'', PStr ''R-1''), (''severity'', PStr ''high''), (''owner'', PStr ''o''),
          (''decision'', PStr ''accept'')]])])
        else Json (PDict [(''exceptions'', PList [PDict [(''id'', PStr ''E-1''), (''owner'', PStr ''o''),
          (''status'', PStr ''approved''), (''expires_on'', PStr ''2026-02-01'')]])])),
      gf_glob_json = (\<lambda>p. [])\<rparr>"

lemma example_gate_run:
  "\<exists>out. governance_main R example_gate_fs (Date 2026 1 20) (Inr ''p'') None = Inr (0, out, [])"
proof -
  have safe: "safe_relative ''ci.yml''"
    by (simp add: safe_relative_def startswith_def split_on_def)
  have "validate_control example_gate_fs ''p'' False (PDict example_control) = Inr (Some ''AC-1'', [])"
    by (simp add: validate_control_def example_control_def Let_def nonempty_str_def text_errors_def
        ownership_errors_def assurance_errors_def mappings_errors_def validate_mapping_def string_list_def
        check_errors_def safe example_gate_fs_def valid_control_statuses_def valid_assurance_types_def valid_coverage_def)
  then have c: "validate_catalog example_gate_fs ''p'' False
      [(''version'', PStr ''1''), (''controls'', PList [PDict example_control])] = Inr ([(''AC-1'', PDict example_control)], [])"
    by (simp add: validate_catalog_def nonempty_str_def)
  have s: "validate_selection [(''name'', PStr ''n''), (''version'', PStr ''1''), (''required_controls'', PList [PStr ''AC-1'']),
      (''framework_versions'', PDict [])] [(''AC-1'', PDict example_control)] l = []" for l
    by (simp add: validate_selection_def validate_profile_def text_errors_def nonempty_str_def string_list_def
        string_map_def required_of_def)
  have k: "validate_risks example_gate_fs ''p'' = Inr []"
    by (simp add: validate_risks_def read_object_def example_gate_fs_def labelled_def entry_id_def
        valid_risk_severities_def valid_risk_decisions_def nonempty_str_def)
  have "\<not> Date 2026 2 1 < Date 2026 1 20" by (simp add: less_date_def)
  then have e: "validate_exceptions example_gate_fs ''p'' (Date 2026 1 20) = Inr []"
    by (simp add: validate_exceptions_def read_object_def example_gate_fs_def labelled_def entry_id_def
        nonempty_str_def expiry_errors_def example_dates del: One_nat_def)
  have "\<exists>r. run_generated R example_gate_fs ''p'' (Date 2026 1 20) None = Inr r \<and> gr_errors r = []"
    using c s k e by (simp add: run_generated_def Let_def read_object_def example_gate_fs_def del: One_nat_def)
  then show ?thesis by (auto simp: governance_main_def)
qed

theorem governance_gate_sound_witness:
  "\<exists>raw. sound_control example_gate_fs ''p'' False raw"
proof -
  obtain out where "governance_main (\<lambda>v. []) example_gate_fs (Date 2026 1 20) (Inr ''p'') None = Inr (0, out, [])"
    using example_gate_run by blast
  moreover have "gf_exists example_gate_fs (''p'' @ ''/governance/governance-profile.json'')"
    by (simp add: example_gate_fs_def)
  ultimately obtain raw profile where r: "\<forall>c \<in> set raw. sound_control example_gate_fs ''p'' False c"
    "\<forall>i \<in> set (required_of profile). \<exists>c. PDict c \<in> set raw \<and> py_get c ''id'' = PStr i"
    "read_object example_gate_fs (''p'' @ ''/governance/governance-profile.json'') = Inr profile"
    using governance_gate_sound by metis
  then have "''AC-1'' \<in> set (required_of profile)"
    by (auto simp: read_object_def example_gate_fs_def required_of_def string_list_def)
  with r show ?thesis by blast
qed

section \<open>The architecture gate\<close>

text \<open>C38: On a readable configuration the architecture gate exits with 0 exactly when every rule holds
  at every import of every file: if the layer rules are on, each domain and application file parses,
  imports no forbidden local layer and no infrastructure package; each configured boundary exists,
  its files parse, import only allowed names, and call no dynamic import where those are denied. The
  order in which the gate visits nodes, sorts imports and merges violations does not matter.\<close>

theorem architecture_gate_exact:
  assumes "load_config R fs = Inr (roots, clean, bs)"
  shows "(\<exists>vs. architecture_main R fs = Inr (0, vs)) \<longleftrightarrow>
    (clean \<longrightarrow> (\<forall>r \<in> set roots. \<forall>path \<in> set (af_python_files fs r). layered_file fs r path)) \<and>
    (\<forall>b \<in> set bs. af_is_dir fs (bo_path b) \<and> (\<forall>path \<in> set (af_python_files fs (bo_path b)). bounded_file fs b path))"
  using assms by (simp add: architecture_main_zero)

definition example_arch_fs :: "string \<Rightarrow> arch_fs" where
  "example_arch_fs imported =
     \<lparr>af_root = [''p''],
      af_project = Inr [(''tool'', PDict [(''engineering-harness'', PDict [(''architecture'',
        PDict [(''clean-architecture'', PBool True)])])])],
      af_glob_dirs = (\<lambda>_. [[''p'', ''src'']]), af_resolve = (\<lambda>s. [''p'', s]), af_is_dir = (\<lambda>_. True),
      af_python_files = (\<lambda>_. [[''p'', ''src'', ''app'', ''domain'', ''m.py'']]),
      af_parse = (\<lambda>_. Parsed [Import 1 [imported]]), af_stdlib = [''json'']\<rparr>"

lemma example_arch_config:
  "load_config R (example_arch_fs m) = Inr ([[''p'', ''src'']], True, [])"
  by (simp add: load_config_def example_arch_fs_def table_get_def sorted_set_def)

lemma example_layered:
  "layered_file (example_arch_fs m) [''p'', ''src''] [''p'', ''src'', ''app'', ''domain'', ''m.py''] \<longleftrightarrow>
     respects_layer ''domain'' [''application'', ''adapters'', ''entrypoints''] ''app'' m"
  by (simp add: layered_file_def example_arch_fs_def layer_for_def layers_def forbidden_local_def module_parts_def)

theorem architecture_gate_exact_witness:
  "(\<exists>vs. architecture_main (\<lambda>v. []) (example_arch_fs ''json'') = Inr (0, vs)) \<and>
   \<not> (\<exists>vs. architecture_main (\<lambda>v. []) (example_arch_fs ''httpx'') = Inr (0, vs))"
proof -
  have files: "af_python_files (example_arch_fs m) r = [[''p'', ''src'', ''app'', ''domain'', ''m.py'']]" for m r
    by (simp add: example_arch_fs_def)
  have "respects_layer ''domain'' fb ''app'' ''json''" "\<not> respects_layer ''domain'' fb ''app'' ''httpx''" for fb
    by (simp_all add: respects_layer_def split_on_def top_name_def forbidden_external_def infrastructure_def)
  then show ?thesis
    using architecture_gate_exact [OF example_arch_config, of "\<lambda>v. []"] by (simp add: files example_layered)
qed

end
