(* ===== verification/Python_Text.thy ===== *)
theory Python_Text
  imports Prelude
begin

text \<open>
  What the scripts that read text use of Python: files as read by \<open>read_text\<close> or a parser,
  \<open>str.splitlines\<close>, \<open>str.count\<close>, regular-expression search, and the order of first occurrences.
\<close>

section \<open>Files\<close>

text \<open>
  A file as the code sees it: it cannot be read (an \<open>OSError\<close> with its text), is not UTF-8 (a
  \<open>UnicodeDecodeError\<close>), does not parse, or has a content.
\<close>

datatype 'a document = NoFile string | BadEncoding | BadSyntax string | Document 'a

definition undecodable :: exn where
  "undecodable = OtherExn ''UnicodeDecodeError''"

definition gate_require :: "bool \<Rightarrow> string \<Rightarrow> unit result" where
  "gate_require condition message = ensure condition (GateError message)"

lemma gate_require_Inr [simp]: "gate_require c m = Inr u \<longleftrightarrow> c"
  by (simp add: gate_require_def)

lemma list_all2_member: "list_all2 P xs ys \<Longrightarrow> x \<in> set xs \<Longrightarrow> \<exists>y \<in> set ys. P x y"
  by (induction rule: list_all2_induct) auto

lemma in_map_filter: "y \<in> set (List.map_filter f xs) \<longleftrightarrow> (\<exists>x \<in> set xs. f x = Some y)"
  by (force simp: List.map_filter_def)

section \<open>Lines and counts\<close>

text \<open>The line boundaries of \<open>str.splitlines\<close> below U+0100.\<close>

definition line_boundary :: "char \<Rightarrow> bool" where
  "line_boundary c = (ord_of c \<in> {10, 11, 12, 13, 28, 29, 30, 133})"

fun join_crlf :: "string \<Rightarrow> string" where
  "join_crlf (c # d # cs) = (if ord_of c = 13 \<and> ord_of d = 10 then join_crlf (d # cs) else c # join_crlf (d # cs))"
| "join_crlf cs = cs"

definition splitlines :: "string \<Rightarrow> string list" where
  "splitlines s =
     (let ls = split_by line_boundary (join_crlf s) in if last ls = [] then butlast ls else ls)"

function py_count :: "string \<Rightarrow> string \<Rightarrow> nat" where
  "py_count [] p = 0"
| "py_count (c # cs) p =
     (if p \<noteq> [] \<and> startswith (c # cs) p then 1 + py_count (drop (length p) (c # cs)) p else py_count cs p)"
  by pat_completeness auto

termination by (relation "measure (\<lambda>(s, p). length s)") auto

text \<open>\<open>re.search\<close> of a pattern given by its match at a position.\<close>

fun search_text :: "(string \<Rightarrow> bool) \<Rightarrow> string \<Rightarrow> bool" where
  "search_text matches [] = matches []"
| "search_text matches (c # cs) = (matches (c # cs) \<or> search_text matches cs)"

lemma search_text_iff: "search_text P s \<longleftrightarrow> (\<exists>a b. s = a @ b \<and> P b)"
proof (induction s)
  case (Cons c cs)
  have "(\<exists>a b. c # cs = a @ b \<and> P b) \<longleftrightarrow> P (c # cs) \<or> (\<exists>a b. cs = a @ b \<and> P b)"
    by (metis append_Cons append_Nil list.exhaust list.inject)
  with Cons show ?case by simp
qed simp

text \<open>A text without a line boundary but the newline splits there and nowhere else.\<close>

definition plain_lines :: "string \<Rightarrow> bool" where
  "plain_lines s \<longleftrightarrow> (\<forall>c \<in> set s. line_boundary c \<longrightarrow> c = CHR 0x0A)"

lemma split_by_cong: "(\<And>c. c \<in> set s \<Longrightarrow> P c = Q c) \<Longrightarrow> split_by P s = split_by Q s"
  by (induction s) auto

lemma join_crlf_plain: "\<forall>c \<in> set s. ord_of c \<noteq> 13 \<Longrightarrow> join_crlf s = s"
  by (induction s rule: join_crlf.induct) auto

lemma splitlines_plain:
  assumes "plain_lines s"
  shows "splitlines s = (let ls = split_on CHR 0x0A s in if last ls = [] then butlast ls else ls)"
proof -
  have "line_boundary CHR 0x0A" "ord_of CHR 0x0A = 10" by (simp_all add: line_boundary_def ord_of_def)
  moreover have "\<forall>c \<in> set s. ord_of c \<noteq> 13"
    using assms \<open>ord_of CHR 0x0A = 10\<close> by (fastforce simp: plain_lines_def line_boundary_def)
  ultimately have "join_crlf s = s" "split_by line_boundary s = split_by (\<lambda>c. c = CHR 0x0A) s"
    using assms by (auto simp: join_crlf_plain plain_lines_def intro: split_by_cong)
  then show ?thesis by (simp add: splitlines_def split_on_def)
qed

lemma join_append:
  "join [c] (xs @ ys) = (if xs = [] then join [c] ys else if ys = [] then join [c] xs else join [c] xs @ c # join [c] ys)"
proof (induction "[c]" xs rule: join.induct)
  case (2 w)
  then show ?case by (cases ys) auto
qed auto

text \<open>A line of a text, with what stands before and after it.\<close>

lemma split_on_context:
  assumes "w \<in> set (split_on c s)"
  obtains p t where "s = p @ w @ t" "p = [] \<or> last p = c" "t = [] \<or> hd t = c"
proof -
  from assms obtain xs ys where x: "split_on c s = xs @ [w] @ ys" by (metis append_Cons append_Nil split_list)
  then have "s = join [c] (xs @ [w] @ ys)" by (metis join_split_on)
  then have "s = (if xs = [] then [] else join [c] xs @ [c]) @ w @ (if ys = [] then [] else c # join [c] ys)"
    by (auto simp: join_append simp del: append_Cons)
  then show ?thesis by (rule that) auto
qed

lemma rpartition_on_True: "rpartition_on c s = (a, True, b) \<Longrightarrow> s = a @ c # b \<and> c \<notin> set b"
proof -
  assume h: "rpartition_on c s = (a, True, b)"
  then have "partition_on c (rev s) = (rev b, True, rev a)"
    by (auto simp: rpartition_on_def partition_on_def split: if_splits)
  from partition_on_True [OF this] show ?thesis by (metis append_assoc append_Cons append_Nil rev.simps(2) rev_append rev_rev_ident set_rev)
qed

text \<open>Evaluation of \<open>startswith\<close> on literals, one character at a time.\<close>

lemma startswith_eval [str_simps]:
  "startswith s []" "startswith (c # cs) (d # ds) \<longleftrightarrow> c = d \<and> startswith cs ds" "\<not> startswith [] (d # ds)"
  by (auto simp: startswith_def)

lemma contains_self [simp]: "contains p p"
  by (metis append_Nil append_Nil2 contains_iff)

section \<open>Ordered markers\<close>

text \<open>Every marker occurs, and their first occurrences are in this order.\<close>

definition in_order :: "string \<Rightarrow> string list \<Rightarrow> bool" where
  "in_order s ms =
     (list_all (contains s) ms \<and> sorted_wrt (<) (map (\<lambda>m. the (py_find s m)) ms))"

lemma py_find_least:
  assumes "s = a @ p @ b"
  shows "\<exists>n. py_find s p = Some n \<and> n \<le> length a"
  using assms
proof (induction a arbitrary: s)
  case Nil
  then have "startswith s p" "s = [] \<Longrightarrow> p = []" by (auto simp: startswith_def)
  then show ?case by (cases s) auto
next
  case (Cons c a)
  then have s: "s = c # (a @ p @ b)" by simp
  with Cons.IH obtain n where "py_find (a @ p @ b) p = Some n" "n \<le> length a" by blast
  then show ?case by (auto simp: s)
qed

lemma py_find_at: "py_find s p = Some n \<Longrightarrow> \<exists>a b. s = a @ p @ b \<and> length a = n"
proof (induction s arbitrary: n)
  case Nil
  then show ?case by (simp split: if_splits)
next
  case (Cons c cs)
  show ?case
  proof (cases "startswith (c # cs) p")
    case True
    then obtain t where "c # cs = [] @ p @ t" by (auto simp: startswith_iff)
    moreover have "n = 0" using True Cons.prems by simp
    ultimately show ?thesis by (metis list.size(3))
  next
    case False
    with Cons.prems obtain m where "py_find cs p = Some m" "n = Suc m" by auto
    with Cons.IH obtain a b where "cs = a @ p @ b" "length a = m" by blast
    then have "c # cs = (c # a) @ p @ b" "length (c # a) = n" using \<open>n = Suc m\<close> by simp_all
    then show ?thesis by blast
  qed
qed

text \<open>Wherever a later marker occurs, the earlier one has occurred before it.\<close>

lemma in_order_precedes:
  assumes "in_order s ms" and "i < j" and "j < length ms" and "s = a @ ms ! j @ b"
  shows "\<exists>a' b'. s = a' @ ms ! i @ b' \<and> length a' < length a"
proof -
  have "contains s (ms ! i)"
    using assms(1-3) by (auto simp: in_order_def list_all_length)
  then obtain n where n: "py_find s (ms ! i) = Some n" by (auto simp: contains_def)
  obtain m where m: "py_find s (ms ! j) = Some m" "m \<le> length a"
    using py_find_least [OF assms(4)] by blast
  have "n < m"
    using assms(1-3) n m(1) by (force simp: in_order_def sorted_wrt_iff_nth_less)
  with py_find_at [OF n] m(2) show ?thesis by fastforce
qed

lemma in_order_before:
  assumes "in_order s (ms @ k # ks)" and "s = a @ k @ b" and "m \<in> set ms"
  shows "\<exists>a' b'. s = a' @ m @ b' \<and> length a' < length a"
proof -
  from assms(3) obtain i where i: "i < length ms" "m = ms ! i" by (auto simp: in_set_conv_nth)
  with in_order_precedes [OF assms(1), of i "length ms" a b] assms(2) show ?thesis
    by (simp add: nth_append)
qed

text \<open>Evaluation on literals: the first occurrence, counted in integers, and the order.\<close>

fun find_from :: "int \<Rightarrow> string \<Rightarrow> string \<Rightarrow> int" where
  "find_from n [] p = (if p = [] then n else -1)"
| "find_from n (c # cs) p = (if startswith (c # cs) p then n else find_from (n + 1) cs p)"

lemma find_from_py_find:
  "0 \<le> n \<Longrightarrow> find_from n s p = (case py_find s p of None \<Rightarrow> -1 | Some k \<Rightarrow> n + int k)"
  by (induction s arbitrary: n) (auto split: option.splits)

lemma in_order_eval:
  "in_order s ms \<longleftrightarrow>
     (let ns = map (find_from 0 s) ms in list_all (\<lambda>n. 0 \<le> n) ns \<and> sorted_wrt (<) ns)"
proof -
  have c: "contains s m \<longleftrightarrow> 0 \<le> find_from 0 s m" for m
    by (auto simp: contains_def find_from_py_find split: option.splits)
  have "the (py_find s a) < the (py_find s b) \<longleftrightarrow> find_from 0 s a < find_from 0 s b" if "contains s a" "contains s b" for a b
    using that by (auto simp: contains_def find_from_py_find)
  then have "sorted_wrt (\<lambda>a b. the (py_find s a) < the (py_find s b)) ms \<longleftrightarrow>
      sorted_wrt (\<lambda>a b. find_from 0 s a < find_from 0 s b) ms" if "list_all (contains s) ms"
    using that by (intro iffI; elim sorted_wrt_mono_rel [rotated]) (auto simp: list_all_iff)
  with c show ?thesis
    by (auto simp: in_order_def Let_def sorted_wrt_map list_all_iff)
qed

end
