(* ===== verification/Registry_Metadata.thy ===== *)
theory Registry_Metadata
  imports Python_Text
begin

text \<open>
  \<open>scripts/validate_registry_metadata.py\<close>: the checks that bind \<open>server.json\<close>, the project version,
  the image label and the release workflow to each other. Files, parsed documents and the
  \<open>docker image inspect\<close> call are a parameter, the record \<open>registry_fs\<close>.
\<close>

record registry_fs =
  rf_json :: "string \<Rightarrow> pyval document"
  rf_toml :: "string \<Rightarrow> pyval dict document"
  rf_text :: "string \<Rightarrow> string document"
  rf_docker :: bool
  rf_inspect :: "string \<Rightarrow> int \<times> string \<times> string"

definition server_name :: string where
  "server_name = ''io.github.brunovicco/mcp-server-auth-template''"

definition schema_url :: string where
  "schema_url = ''https://static.modelcontextprotocol.io/schemas/2025-12-11/server.schema.json''"

definition repository_url :: string where
  "repository_url = ''https://github.com/brunovicco/mcp-server-auth-template''"

definition image_prefix :: string where
  "image_prefix = ''ghcr.io/brunovicco/mcp-server-auth-template:v''"

definition transport_url :: string where
  "transport_url = ''http://127.0.0.1:8000/mcp''"

definition mcp_label :: string where
  "mcp_label = ''io.modelcontextprotocol.server.name''"

definition publisher_checksums :: "(string \<times> string) list" where
  "publisher_checksums =
     [(''darwin_amd64'', ''88126981225e7714fcc6b7a10cdba4a80ae5901e9740a8c06d0d5195c8bc294c''),
      (''darwin_arm64'', ''e45e520892460732a4bdf37255576415d4a53ec171f8b913faf15bb1aef7cb77''),
      (''linux_amd64'', ''a06c9096dcb9727c13555b6be26c7effa707b01f06a4c561ba7a3635443cf2cc''),
      (''linux_arm64'', ''8dd75a6cf6845688b5d4e46df58d3ca26d5c8d233bb0626606e1db82c5e883e4'')]"

text \<open>\<open>SEMVER_RE.fullmatch\<close>: three numbers, and an optional pre-release or build suffix.\<close>

definition after_digits :: "string \<Rightarrow> string option" where
  "after_digits s = (if takeWhile is_digit s = [] then None else Some (dropWhile is_digit s))"

definition after_dot :: "string \<Rightarrow> string option" where
  "after_dot s = (if startswith s ''.'' then Some (tl s) else None)"

definition suffix_char :: "char \<Rightarrow> bool" where
  "suffix_char c \<longleftrightarrow> is_digit c \<or> is_alpha_ascii c \<or> c = CHR ''.'' \<or> c = CHR ''-''"

definition semver_suffix :: "string \<Rightarrow> bool" where
  "semver_suffix s =
     (case s of [] \<Rightarrow> True | c # t \<Rightarrow> (c = CHR ''-'' \<or> c = CHR ''+'') \<and> t \<noteq> [] \<and> list_all suffix_char t)"

definition is_semver :: "string \<Rightarrow> bool" where
  "is_semver s =
     (case Option.bind (Option.bind (Option.bind (Option.bind (after_digits s) after_dot) after_digits) after_dot) after_digits of
        None \<Rightarrow> False
      | Some rest \<Rightarrow> semver_suffix rest)"

definition load_json :: "registry_fs \<Rightarrow> string \<Rightarrow> pyval dict result" where
  "load_json fs path =
     (case rf_json fs path of
        NoFile e \<Rightarrow> Inl (GateError (''could not load '' @ path @ '': '' @ e))
      | BadSyntax e \<Rightarrow> Inl (GateError (''could not load '' @ path @ '': '' @ e))
      | BadEncoding \<Rightarrow> Inl undecodable
      | Document v \<Rightarrow>
          (case as_dict v of
             None \<Rightarrow> Inl (GateError (path @ '' must contain a JSON object''))
           | Some d \<Rightarrow> Inr d))"

definition project_version :: "registry_fs \<Rightarrow> string \<Rightarrow> string result" where
  "project_version fs path =
     (case rf_toml fs path of
        NoFile e \<Rightarrow> Inl (GateError (''could not load '' @ path @ '': '' @ e))
      | BadSyntax e \<Rightarrow> Inl (GateError (''could not load '' @ path @ '': '' @ e))
      | BadEncoding \<Rightarrow> Inl undecodable
      | Document project \<Rightarrow>
          (case as_dict (py_get project ''project'') of
             None \<Rightarrow> Inl (GateError ''pyproject.toml must contain [project]'')
           | Some v \<Rightarrow>
               (case as_str (py_get v ''version'') of
                  None \<Rightarrow> Inl (GateError ''project.version must be a string'')
                | Some version \<Rightarrow> if version = [] then Inl (GateError ''project.version must be a string'') else Inr version)))"

definition read_text :: "registry_fs \<Rightarrow> string \<Rightarrow> string result" where
  "read_text fs path =
     (case rf_text fs path of
        Document t \<Rightarrow> Inr t
      | NoFile e \<Rightarrow> Inl (GateError (''could not load '' @ path @ '': '' @ e))
      | BadSyntax e \<Rightarrow> Inl (GateError (''could not load '' @ path @ '': '' @ e))
      | BadEncoding \<Rightarrow> Inl undecodable)"

section \<open>The sections of server.json\<close>

definition validate_repository_metadata :: "pyval dict \<Rightarrow> unit result" where
  "validate_repository_metadata server =
     (case as_dict (py_get server ''repository'') of
        None \<Rightarrow> Inl (GateError ''repository metadata is required'')
      | Some repository \<Rightarrow>
          checks [gate_require (py_get repository ''url'' = PStr repository_url) ''repository.url must match the public repo'',
                  gate_require (py_get repository ''source'' = PStr ''github'') ''repository.source must be github'',
                  gate_require (py_get repository ''id'' = PStr ''1327263126'')
                    ''repository.id must match the stable GitHub repo ID''])"

text \<open>The items of a list keyed by their \<open>name\<close>; a later item replaces an earlier one of that name.\<close>

definition named_item :: "string \<Rightarrow> pyval \<Rightarrow> (string \<times> pyval dict) result" where
  "named_item label item =
     (case as_dict item of
        None \<Rightarrow> Inl (GateError (label @ '' entries must be objects''))
      | Some d \<Rightarrow>
          (case as_str (py_get d ''name'') of
             None \<Rightarrow> Inl (GateError (label @ '' entries must have string names''))
           | Some name \<Rightarrow> Inr (name, d)))"

fun arguments_by_name :: "pyval list \<Rightarrow> pyval dict dict \<Rightarrow> pyval dict dict result" where
  "arguments_by_name [] acc = Inr acc"
| "arguments_by_name (item # items) acc =
     rbind (named_item ''runtimeArguments'' item) (\<lambda>(name, d). arguments_by_name items (AList.update name d acc))"

definition expected_arguments :: "(string \<times> string option) list" where
  "expected_arguments =
     [(''--read-only'', None), (''--tmpfs'', Some ''/tmp:rw,noexec,nosuid,nodev,size=16m''), (''--cap-drop'', Some ''ALL''),
      (''--security-opt'', Some ''no-new-privileges:true''), (''--publish'', Some ''127.0.0.1:8000:8000'')]"

definition argument_checks :: "pyval dict dict \<Rightarrow> string \<times> string option \<Rightarrow> unit result" where
  "argument_checks by_name entry =
     (case entry of (name, expected) \<Rightarrow>
        let item = (case map_of by_name name of None \<Rightarrow> [] | Some d \<Rightarrow> d)
        in checks [gate_require (py_get item ''type'' = PStr ''named'') (name @ '' must be a named argument''),
                   (case expected of
                      None \<Rightarrow> gate_require (map_of item ''value'' = None) (name @ '' must remain a valueless flag'')
                    | Some v \<Rightarrow> gate_require (py_get item ''value'' = PStr v) (name @ '' value drifted''))])"

definition validate_runtime_arguments :: "pyval dict \<Rightarrow> unit result" where
  "validate_runtime_arguments package =
     (case as_list (py_get package ''runtimeArguments'') of
        None \<Rightarrow> Inl (GateError ''OCI package runtimeArguments are required'')
      | Some args \<Rightarrow>
          rbind (arguments_by_name args []) (\<lambda>by_name.
          rbind (gate_require (set (map fst by_name) = set (map fst expected_arguments)) ''runtime hardening arguments drifted'') (\<lambda>_.
            checks (map (argument_checks by_name) expected_arguments))))"

fun environment_by_name :: "pyval list \<Rightarrow> pyval dict dict \<Rightarrow> pyval dict dict result" where
  "environment_by_name [] acc = Inr acc"
| "environment_by_name (item # items) acc =
     rbind (named_item ''environmentVariables'' item) (\<lambda>(name, d).
     rbind (gate_require (map_of acc name = None) (''duplicate environment variable metadata: '' @ name)) (\<lambda>_.
       environment_by_name items (acc @ [(name, d)])))"

definition conditional_variables :: "(string \<times> string) list" where
  "conditional_variables =
     [(''MCP_SERVER_ENTRA_TENANT_ID'', ''entra''), (''MCP_SERVER_ENTRA_AUDIENCE'', ''entra''),
      (''MCP_SERVER_ENTRA_APPLICATION_ID_URI'', ''entra''), (''MCP_SERVER_GENERIC_ISSUER_URL'', ''generic''),
      (''MCP_SERVER_GENERIC_AUDIENCE'', ''generic'')]"

definition conditional_checks :: "pyval dict dict \<Rightarrow> string \<times> string \<Rightarrow> unit result" where
  "conditional_checks by_name entry =
     (case entry of (name, provider) \<Rightarrow>
        case map_of by_name name of
          None \<Rightarrow> Inl (GateError (''missing conditional provider metadata: '' @ name))
        | Some item \<Rightarrow>
            checks [gate_require
                      (case as_str (py_get item ''description'') of
                         None \<Rightarrow> False | Some description \<Rightarrow> contains description (''AUTH_PROVIDER='' @ provider))
                      (name @ '' must document its provider condition''),
                    gate_require (py_get item ''isRequired'' \<noteq> PBool True) (name @ '' must not be globally required'')])"

definition variable_field :: "pyval dict dict \<Rightarrow> string \<Rightarrow> string \<Rightarrow> pyval" where
  "variable_field by_name name field = py_get (case map_of by_name name of None \<Rightarrow> [] | Some d \<Rightarrow> d) field"

definition validate_environment :: "pyval dict \<Rightarrow> unit result" where
  "validate_environment package =
     (case as_list (py_get package ''environmentVariables'') of
        None \<Rightarrow> Inl (GateError ''OCI package environmentVariables are required'')
      | Some values \<Rightarrow>
          rbind (environment_by_name values []) (\<lambda>by_name.
            checks (map (\<lambda>name. gate_require (variable_field by_name name ''isRequired'' = PBool True)
                      (name @ '' must remain required''))
                 [''MCP_SERVER_RESOURCE_SERVER_URL'', ''MCP_SERVER_AUTH_PROVIDER''] @
               [gate_require (variable_field by_name ''MCP_SERVER_AUTH_PROVIDER'' ''choices'' = PList [PStr ''entra'', PStr ''generic''])
                  ''MCP_SERVER_AUTH_PROVIDER choices must remain entra/generic'',
                gate_require (variable_field by_name ''MCP_SERVER_REQUIRED_SCOPES'' ''default'' = PStr ''[\"mcp:tools:call\"]'')
                  ''baseline scope metadata drifted'',
                gate_require (variable_field by_name ''MCP_SERVER_TRANSPORT_ALLOWED_HOSTS'' ''default'' = PStr ''[\"127.0.0.1:8000\"]'')
                  ''local transport Host allowlist drifted''] @
               map (conditional_checks by_name) conditional_variables)))"

definition package_checks :: "pyval dict \<Rightarrow> string \<Rightarrow> unit result list" where
  "package_checks package version =
     [gate_require (py_get package ''registryType'' = PStr ''oci'') ''package registryType must be oci'',
      gate_require (py_get package ''runtimeHint'' = PStr ''docker'') ''OCI package runtimeHint must be docker''] @
     map (\<lambda>k. gate_require (map_of package k = None) (''OCI package must not declare '' @ k))
       [''registryBaseUrl'', ''version'', ''fileSha256''] @
     [gate_require (py_get package ''identifier'' = PStr (image_prefix @ version))
        ''OCI identifier must use the immutable release tag'',
      gate_require (\<not> contains (py_lower (image_prefix @ version)) ''latest'') ''latest is forbidden'']"

definition transport_checks :: "pyval dict \<Rightarrow> unit result" where
  "transport_checks package =
     (case as_dict (py_get package ''transport'') of
        None \<Rightarrow> Inl (GateError ''package transport is required'')
      | Some transport \<Rightarrow>
          checks [gate_require (py_get transport ''type'' = PStr ''streamable-http'') ''transport must be streamable-http'',
                  gate_require (py_get transport ''url'' = PStr transport_url) ''transport URL must remain loopback /mcp''])"

definition validate_package :: "pyval dict \<Rightarrow> string \<Rightarrow> unit result" where
  "validate_package server version =
     (case py_get server ''packages'' of
        PList [package] \<Rightarrow>
          (case as_dict package of
             None \<Rightarrow> Inl (GateError ''packages[0] must be an object'')
           | Some d \<Rightarrow>
               checks (package_checks d version @ [transport_checks d, validate_runtime_arguments d, validate_environment d]))
      | _ \<Rightarrow> Inl (GateError ''exactly one OCI package is expected''))"

section \<open>Installer, workflows and image\<close>

definition checksum_pin :: "string \<times> string \<Rightarrow> string" where
  "checksum_pin entry = fst entry @ '') expected=\"'' @ snd entry @ ''\"''"

definition installer_checks :: "string \<Rightarrow> unit result list" where
  "installer_checks installer =
     gate_require (contains installer ''VERSION=\"1.8.1\"'') ''mcp-publisher installer version pin drifted'' #
     gate_require (contains installer ''modelcontextprotocol/registry/releases/download/v${VERSION}'')
       ''mcp-publisher installer must download from the official Registry release'' #
     map (\<lambda>entry. gate_require (contains installer (checksum_pin entry))
              (''mcp-publisher checksum pin drifted for '' @ fst entry)) publisher_checksums"

definition validate_publisher_installer :: "registry_fs \<Rightarrow> unit result" where
  "validate_publisher_installer fs =
     rbind (read_text fs ''scripts/install_mcp_publisher.sh'') (\<lambda>installer. checks (installer_checks installer))"

definition quality_checks :: "string \<Rightarrow> unit result" where
  "quality_checks quality =
     checks [gate_require (contains quality ''bash scripts/install_mcp_publisher.sh'')
               ''quality workflow must install checksum-verified mcp-publisher'',
             gate_require (contains quality ''mcp-publisher validate server.json'')
               ''quality workflow must run official Registry schema/semantic validation'',
             gate_require (contains quality ''--image mcp-server-auth-template:ci'')
               ''container smoke must verify the Registry ownership label'']"

definition release_order :: "string list" where
  "release_order =
     [''Validate Registry ownership on both release candidates'', ''enforce_vulnerability_policy.py'', ''docker login'',
      ''docker push'']"

definition release_checks :: "string \<Rightarrow> unit result" where
  "release_checks release =
     checks [gate_require (contains release ''validate_registry_metadata.py --release-tag \"$GITHUB_REF_NAME\"'')
               ''release workflow must bind Registry metadata to the Git tag'',
             gate_require (contains release ''Validate Registry ownership on both release candidates'')
               ''release workflow must inspect both candidate image labels'',
             gate_require (in_order release release_order)
               ''release ordering must remain ownership -> policy -> GHCR login -> push'']"

definition validate_registry_workflows :: "registry_fs \<Rightarrow> unit result" where
  "validate_registry_workflows fs =
     rbind (read_text fs ''.github/workflows/quality.yml'') (\<lambda>quality.
     rbind (quality_checks quality) (\<lambda>_.
     rbind (read_text fs ''.github/workflows/release-artifacts.yml'') release_checks))"

text \<open>The label pattern at one position: name, equals sign, and the value in quotes of either kind.\<close>

definition quote_char :: "char \<Rightarrow> bool" where
  "quote_char c \<longleftrightarrow> ord_of c = 34 \<or> ord_of c = 39"

definition label_match :: "string \<Rightarrow> bool" where
  "label_match s =
     (startswith s mcp_label \<and>
      (case dropWhile py_isspace (drop (length mcp_label) s) of
         [] \<Rightarrow> False
       | e # t \<Rightarrow> e = CHR ''='' \<and>
           (case dropWhile py_isspace t of
              [] \<Rightarrow> False
            | q # u \<Rightarrow> quote_char q \<and> startswith u server_name \<and>
                (case drop (length server_name) u of [] \<Rightarrow> False | r # _ \<Rightarrow> quote_char r))))"

definition validate_dockerfile :: "registry_fs \<Rightarrow> unit result" where
  "validate_dockerfile fs =
     rbind (read_text fs ''Dockerfile'') (\<lambda>dockerfile.
       gate_require (search_text label_match dockerfile) ''Dockerfile MCP ownership label is missing or wrong'')"

definition validate_image_label :: "registry_fs \<Rightarrow> string \<Rightarrow> unit result" where
  "validate_image_label fs img =
     (if \<not> rf_docker fs then Inl (GateError ''docker executable is required for image-label validation'')
      else (case rf_inspect fs img of (code, out, err) \<Rightarrow>
        checks [gate_require (code = 0) (''could not inspect image '' @ img @ '': '' @ py_strip err),
                gate_require (py_strip out = server_name) (''image '' @ img @ '' has wrong MCP ownership label'')]))"

section \<open>The whole check\<close>

definition server_checks :: "pyval dict \<Rightarrow> string \<Rightarrow> unit result list" where
  "server_checks server version =
     [gate_require (py_get server ''$schema'' = PStr schema_url) ''server.json must pin the current Registry schema'',
      gate_require (py_get server ''name'' = PStr server_name) ''server.json name must match the GitHub namespace'',
      gate_require
        (case as_str (py_get server ''description'') of
           None \<Rightarrow> False | Some d \<Rightarrow> 1 \<le> length d \<and> length d \<le> 100)
        ''description must be 1..100 chars'',
      gate_require (py_get server ''version'' = PStr version) ''server.json version must match project.version'',
      gate_require (is_semver version) ''project version must be semantic'',
      gate_require (map_of server ''remotes'' = None) ''do not claim a hosted remote endpoint before one exists'',
      validate_repository_metadata server, validate_package server version]"

definition validate_metadata :: "registry_fs \<Rightarrow> string option \<Rightarrow> string option \<Rightarrow> unit result" where
  "validate_metadata fs release_tag img =
     rbind (load_json fs ''server.json'') (\<lambda>server.
     rbind (project_version fs ''pyproject.toml'') (\<lambda>version.
       checks (server_checks server version @
         [validate_dockerfile fs, validate_publisher_installer fs, validate_registry_workflows fs,
          (case release_tag of
             None \<Rightarrow> Inr ()
           | Some tag \<Rightarrow> gate_require (tag = CHR ''v'' # version) ''release tag must equal v{server.version}''),
          (case img of None \<Rightarrow> Inr () | Some i \<Rightarrow> validate_image_label fs i)])))"

definition registry_main :: "registry_fs \<Rightarrow> string option \<Rightarrow> string option \<Rightarrow> (int \<times> string) result" where
  "registry_main fs release_tag img =
     (case validate_metadata fs release_tag img of
        Inl (GateError m) \<Rightarrow> Inr (1, ''Registry metadata validation failed: '' @ m)
      | Inl e \<Rightarrow> Inl e
      | Inr u \<Rightarrow> Inr (0, ''Registry metadata validation passed.''))"

section \<open>What a passing check means\<close>

definition has_name :: "string \<Rightarrow> pyval \<Rightarrow> bool" where
  "has_name name item \<longleftrightarrow> (\<exists>d. item = PDict d \<and> py_get d ''name'' = PStr name)"

lemma named_item_Inr: "named_item l item = Inr (name, d) \<longleftrightarrow> item = PDict d \<and> py_get d ''name'' = PStr name"
  by (cases item; cases "py_get d ''name''") (auto simp: named_item_def split: option.splits)

lemma named_item_has_name: "named_item l item = Inr x \<Longrightarrow> has_name (fst x) item"
  by (cases x) (auto simp: named_item_Inr has_name_def)

text \<open>The table of arguments holds, for each name, the last item of that name.\<close>

lemma arguments_by_name_Inr:
  "arguments_by_name items acc = Inr m \<longleftrightarrow>
     (\<exists>es. rmap (named_item ''runtimeArguments'') items = Inr es \<and> m = fold (\<lambda>(k, d). AList.update k d) es acc)"
  by (induction items arbitrary: acc) (auto simp: rbind_Inr_iff split: prod.splits)

lemma fold_update_map_of: "map_of (fold (\<lambda>(k, d). AList.update k d) es acc) = map_of acc ++ map_of (rev es)"
  by (induction es arbitrary: acc) (auto simp: update_conv' map_add_def fun_eq_iff split: option.splits)

lemma map_of_rev_last:
  "map_of (rev es) k = Some d \<Longrightarrow> \<exists>bs cs. es = bs @ (k, d) # cs \<and> k \<notin> fst ` set cs"
proof (induction es rule: rev_induct)
  case (snoc e es)
  show ?case
  proof (cases "fst e = k")
    case True
    with snoc.prems have "e = (k, d)" by (cases e) simp
    then have "es @ [e] = es @ (k, d) # []" by simp
    then show ?thesis by fastforce
  next
    case False
    with snoc.prems have "map_of (rev es) k = Some d" by (cases e) simp
    with snoc.IH obtain bs cs where "es = bs @ (k, d) # cs" "k \<notin> fst ` set cs" by blast
    then have "es @ [e] = bs @ (k, d) # (cs @ [e])" "k \<notin> fst ` set (cs @ [e])" using False by auto
    then show ?thesis by blast
  qed
qed simp

definition hardened_argument :: "pyval list \<Rightarrow> string \<times> string option \<Rightarrow> bool" where
  "hardened_argument args entry \<longleftrightarrow>
     (\<exists>bs d cs. args = bs @ PDict d # cs \<and> py_get d ''name'' = PStr (fst entry) \<and> py_get d ''type'' = PStr ''named'' \<and>
        (case snd entry of None \<Rightarrow> map_of d ''value'' = None | Some v \<Rightarrow> py_get d ''value'' = PStr v) \<and>
        (\<forall>item \<in> set cs. \<not> has_name (fst entry) item))"

text \<open>The entry that is kept for a name is the last one of the list, and it passed the checks.\<close>

lemma hardened_last:
  assumes l: "list_all2 (\<lambda>item e. named_item ''runtimeArguments'' item = Inr e) args es"
    and m: "map_of by_name = map_of (rev es)"
    and c: "argument_checks by_name (name, v) = Inr ()" and k: "name \<in> set (map fst by_name)"
  shows "hardened_argument args (name, v)"
proof -
  have "map_of by_name name \<noteq> None" using k by (simp add: map_of_eq_None_iff)
  then obtain d where d: "map_of by_name name = Some d" by blast
  then obtain bs cs where s: "es = bs @ (name, d) # cs" "name \<notin> fst ` set cs"
    using map_of_rev_last m by metis
  from l [unfolded s(1)] obtain xs x ys where x: "args = xs @ x # ys"
    "named_item ''runtimeArguments'' x = Inr (name, d)"
    "list_all2 (\<lambda>item e. named_item ''runtimeArguments'' item = Inr e) ys cs"
    by (auto simp: list_all2_append2 list_all2_Cons2)
  have later: "\<not> has_name name item" if "item \<in> set ys" for item
  proof -
    from list_all2_member [OF x(3) that] obtain z where
      "z \<in> set cs" "named_item ''runtimeArguments'' item = Inr z" by blast
    with s(2) show ?thesis by (cases z) (force simp: named_item_Inr has_name_def)
  qed
  have f: "py_get d ''type'' = PStr ''named''"
    "case v of None \<Rightarrow> map_of d ''value'' = None | Some w \<Rightarrow> py_get d ''value'' = PStr w"
    using c by (auto simp: argument_checks_def d rbind_Inr_iff split: option.splits)
  show ?thesis
    unfolding hardened_argument_def fst_conv snd_conv
    using x(1,2) f later by (intro exI [of _ xs] exI [of _ d] exI [of _ ys]) (simp add: named_item_Inr)
qed

lemma runtime_arguments_sound:
  assumes "validate_runtime_arguments package = Inr ()"
  obtains args where "py_get package ''runtimeArguments'' = PList args"
    "\<forall>item \<in> set args. \<exists>entry \<in> set expected_arguments. has_name (fst entry) item"
    "\<forall>entry \<in> set expected_arguments. hardened_argument args entry"
proof -
  from assms obtain args by_name where a: "py_get package ''runtimeArguments'' = PList args"
    and b: "arguments_by_name args [] = Inr by_name"
    and k: "set (map fst by_name) = set (map fst expected_arguments)"
    and c: "\<forall>entry \<in> set expected_arguments. argument_checks by_name entry = Inr ()"
    by (auto simp: validate_runtime_arguments_def rbind_Inr_iff split: option.splits)
  from b obtain es where es: "rmap (named_item ''runtimeArguments'') args = Inr es"
    "by_name = fold (\<lambda>(k, d). AList.update k d) es []" by (auto simp: arguments_by_name_Inr)
  then have m: "map_of by_name = map_of (rev es)" by (simp add: fold_update_map_of)
  have l: "list_all2 (\<lambda>item e. named_item ''runtimeArguments'' item = Inr e) args es"
    using es(1) by (simp add: rmap_Inr_iff)
  have n: "fst ` set es = fst ` set expected_arguments"
    using k m by (metis dom_map_of_conv_image_fst list.set_map set_rev)
  have "\<exists>entry \<in> set expected_arguments. has_name (fst entry) item" if i: "item \<in> set args" for item
  proof -
    from list_all2_member [OF l i] obtain e where e: "e \<in> set es" "has_name (fst e) item"
      using named_item_has_name by blast
    then have "fst e \<in> fst ` set expected_arguments" using n by blast
    then obtain entry where "entry \<in> set expected_arguments" "fst entry = fst e" by (elim imageE) simp
    then show ?thesis using e(2) by metis
  qed
  moreover have "hardened_argument args entry" if e: "entry \<in> set expected_arguments" for entry
  proof -
    from e have "fst entry \<in> set (map fst by_name)" unfolding k by simp
    with l m show ?thesis
      using hardened_last [of args es by_name "fst entry" "snd entry"] c e by (simp del: list.set_map)
  qed
  ultimately show ?thesis using that a by blast
qed

text \<open>Nothing rejects a repeated argument, though each repetition reaches \<open>docker run\<close>.\<close>

definition argument_item :: "string \<Rightarrow> string \<Rightarrow> pyval" where
  "argument_item name v = PDict [(''name'', PStr name), (''type'', PStr ''named''), (''value'', PStr v)]"

lemma repeated_publish_accepted:
  "validate_runtime_arguments
     [(''runtimeArguments'', PList
        [argument_item ''--publish'' ''0.0.0.0:8000:8000'',
         PDict [(''name'', PStr ''--read-only''), (''type'', PStr ''named'')],
         argument_item ''--tmpfs'' ''/tmp:rw,noexec,nosuid,nodev,size=16m'', argument_item ''--cap-drop'' ''ALL'',
         argument_item ''--security-opt'' ''no-new-privileges:true'',
         argument_item ''--publish'' ''127.0.0.1:8000:8000''])] = Inr ()"
  by (simp add: validate_runtime_arguments_def named_item_def argument_item_def expected_arguments_def
      argument_checks_def gate_require_def ensure_def insert_commute)

end
