(* ===== verification/Python_Json.thy ===== *)
theory Python_Json
  imports Python_Text
begin

text \<open>
  What the release scripts use of Python: \<open>json.dumps(value, sort_keys=True)\<close> with and without an
  indentation, comparison of a JSON value with a number, hexadecimal texts, the newlines of a file in
  text mode, and package names in normal form. How a float is written is a parameter.
\<close>

text \<open>\<open>v == n\<close>: a boolean is the number 0 or 1, and a float may equal an integer.\<close>

fun eq_int :: "pyval \<Rightarrow> int \<Rightarrow> bool" where
  "eq_int (PInt i) n = (i = n)"
| "eq_int (PBool b) n = ((if b then 1 else 0) = n)"
| "eq_int (PFloat r) n = (r = of_int n)"
| "eq_int v n = False"

definition hex_digit :: "nat \<Rightarrow> char" where
  "hex_digit n = (if n < 10 then char_of (48 + n) else char_of (87 + n))"

definition json_char :: "char \<Rightarrow> string" where
  "json_char c =
     (let n = ord_of c
      in if n = 34 then [CHR 0x5C, CHR 0x22] else if n = 92 then [CHR 0x5C, CHR 0x5C]
         else if n = 10 then [CHR 0x5C, CHR ''n''] else if n = 13 then [CHR 0x5C, CHR ''r'']
         else if n = 9 then [CHR 0x5C, CHR ''t''] else if n = 8 then [CHR 0x5C, CHR ''b'']
         else if n = 12 then [CHR 0x5C, CHR ''f'']
         else if 32 \<le> n \<and> n \<le> 126 then [c]
         else [CHR 0x5C, CHR ''u'', CHR ''0'', CHR ''0'', hex_digit (n div 16), hex_digit (n mod 16)])"

definition json_string :: "string \<Rightarrow> string" where
  "json_string s = CHR 0x22 # concat (map json_char s) @ [CHR 0x22]"

text \<open>
  How \<open>json.dumps\<close> separates items: with spaces after the separators (the default), without any
  (\<open>separators=(",", ":")\<close>), or on lines of their own with an indentation.
\<close>

datatype json_style = Spaced | Compact | Indented nat

definition line_start :: "nat \<Rightarrow> string" where
  "line_start n = CHR 0x0A # replicate n CHR '' ''"

definition json_group :: "json_style \<Rightarrow> nat \<Rightarrow> string \<Rightarrow> string \<Rightarrow> string list \<Rightarrow> string" where
  "json_group style level opening closing items =
     (if items = [] then opening @ closing
      else (case style of
              Spaced \<Rightarrow> opening @ join '', '' items @ closing
            | Compact \<Rightarrow> opening @ join '','' items @ closing
            | Indented n \<Rightarrow>
                opening @ line_start (n * (level + 1)) @ join ('','' @ line_start (n * (level + 1))) items @
                line_start (n * level) @ closing))"

definition key_separator :: "json_style \<Rightarrow> string" where
  "key_separator style = (if style = Compact then '':'' else '': '')"

lemma size_list_member: "x \<in> set xs \<Longrightarrow> f x < Suc (size_list f xs)"
  by (induction xs) auto

function (sequential) json_text :: "(rat \<Rightarrow> string) \<Rightarrow> json_style \<Rightarrow> nat \<Rightarrow> pyval \<Rightarrow> string" where
  "json_text fr style level PNone = ''null''"
| "json_text fr style level (PBool b) = (if b then ''true'' else ''false'')"
| "json_text fr style level (PInt i) = show_int i"
| "json_text fr style level (PFloat r) = fr r"
| "json_text fr style level (PStr s) = json_string s"
| "json_text fr style level (PList vs) = json_group style level ''['' '']'' (map (json_text fr style (level + 1)) vs)"
| "json_text fr style level (PDict kvs) =
     json_group style level ''{'' ''}''
       (map (\<lambda>kv. json_string (fst kv) @ key_separator style @ json_text fr style (level + 1) (snd kv)) (sort_key fst kvs))"
  by pat_completeness auto

termination
proof (relation "measure (\<lambda>(fr, style, level, v). size v)")
  fix kvs :: "(string \<times> pyval) list" and kv fr style level
  assume "kv \<in> set (sort_key fst kvs)"
  then have "size_prod (\<lambda>_. 0) size kv < Suc (size_list (size_prod (\<lambda>_. 0) size) kvs)"
    by (intro size_list_member) simp
  then show "((fr, style, level + 1, snd kv), fr, style, level, PDict kvs) \<in> measure (\<lambda>(fr, style, level, v). size v)"
    by (cases kv) auto
qed (auto dest: size_list_member [where f = size] simp: less_Suc_eq_le)

definition dumps :: "(rat \<Rightarrow> string) \<Rightarrow> pyval \<Rightarrow> string" where
  "dumps fr v = json_text fr Spaced 0 v"

definition dumps_compact :: "(rat \<Rightarrow> string) \<Rightarrow> pyval \<Rightarrow> string" where
  "dumps_compact fr v = json_text fr Compact 0 v"

definition dumps_indented :: "(rat \<Rightarrow> string) \<Rightarrow> pyval \<Rightarrow> string" where
  "dumps_indented fr v = json_text fr (Indented 2) 0 v"

text \<open>\<open>re.sub(r'[...]+', c, name)\<close>: each run of separators becomes one character.\<close>

fun replace_runs :: "(char \<Rightarrow> bool) \<Rightarrow> char \<Rightarrow> bool \<Rightarrow> string \<Rightarrow> string" where
  "replace_runs P r inside [] = []"
| "replace_runs P r inside (c # cs) =
     (if P c then (if inside then [] else [r]) @ replace_runs P r True cs else c # replace_runs P r False cs)"

definition normalized_name :: "string \<Rightarrow> string" where
  "normalized_name s =
     py_lower (replace_runs (\<lambda>c. c = CHR ''-'' \<or> c = CHR ''_'' \<or> c = CHR ''.'') CHR ''-'' False s)"

text \<open>The module name of a project: \<open>re.sub(r'[-.]+', '_', name).lower()\<close>.\<close>

definition safe_module :: "string \<Rightarrow> string" where
  "safe_module s = py_lower (replace_runs (\<lambda>c. c = CHR ''-'' \<or> c = CHR ''.'') CHR ''_'' False s)"

section \<open>Digests and text files\<close>

definition is_hex :: "char \<Rightarrow> bool" where
  "is_hex c \<longleftrightarrow> is_digit c \<or> 97 \<le> ord_of c \<and> ord_of c \<le> 102"

text \<open>\<open>[0-9a-f]{n}\<close>, the whole text.\<close>

definition hex_text :: "nat \<Rightarrow> string \<Rightarrow> bool" where
  "hex_text n s \<longleftrightarrow> length s = n \<and> list_all is_hex s"

text \<open>Text mode reads \<open>\r\n\<close> and \<open>\r\<close> as a newline.\<close>

fun text_newlines :: "string \<Rightarrow> string" where
  "text_newlines [] = []"
| "text_newlines (c # cs) =
     (if ord_of c = 13 then (case cs of [] \<Rightarrow> [CHR 0x0A] | d # ds \<Rightarrow> if ord_of d = 10 then text_newlines cs else CHR 0x0A # text_newlines cs)
      else c # text_newlines cs)"

lemma text_newlines_id: "\<forall>c \<in> set s. ord_of c \<noteq> 13 \<Longrightarrow> text_newlines s = s"
  by (induction s) auto

end
