(* ===== verification/Supply_Chain.thy ===== *)
theory Supply_Chain
  imports Python_Json
begin

text \<open>
  \<open>scripts/validate_supply_chain.py\<close>: the trust baseline of the workflow files, read as text and
  regular expressions, and of the repository's policy files. The regular expressions are written as
  the matches they have: each is deterministic, because no repetition in it can give back a
  character the next part accepts.
\<close>

section \<open>Matches\<close>

definition full_commit_sha :: "string \<Rightarrow> bool" where
  "full_commit_sha s = hex_text 40 s"

definition container_digest :: "string \<Rightarrow> bool" where
  "container_digest s \<longleftrightarrow> startswith s ''sha256:'' \<and> hex_text 64 (drop 7 s)"

definition newline :: char where
  "newline = CHR 0x0A"

definition indent_of :: "string \<Rightarrow> nat" where
  "indent_of line = length (takeWhile (\<lambda>c. c = CHR '' '') line)"

text \<open>\<open>PERMISSIONS_HEADER\<close> on one line: the indentation and the value.\<close>

definition permission_header :: "string \<Rightarrow> (nat \<times> string) option" where
  "permission_header line =
     (let rest = drop (indent_of line) line
      in if startswith rest ''permissions:''
         then Some (indent_of line,
           takeWhile (\<lambda>c. c \<noteq> CHR ''#'') (dropWhile (\<lambda>c. c = CHR '' '' \<or> ord_of c = 9) (drop 12 rest)))
         else None)"

definition permission_blocks :: "string \<Rightarrow> (nat \<times> nat \<times> string) list" where
  "permission_blocks text =
     List.map_filter (\<lambda>(i, line). map_option (\<lambda>h. (i, h)) (permission_header line))
       (List.enumerate 0 (split_on newline text))"

definition permission_entry :: "string \<Rightarrow> (string \<times> string) option" where
  "permission_entry s =
     (let is_name = (\<lambda>c. 97 \<le> ord_of c \<and> ord_of c \<le> 122 \<or> c = CHR ''-'');
          name = takeWhile is_name s; rest = dropWhile is_name s
      in if name \<noteq> [] \<and> startswith rest '':'' \<and> py_strip (tl rest) \<in> {''read'', ''write'', ''none''}
         then Some (name, py_strip (tl rest)) else None)"

definition job_header :: "string \<Rightarrow> string option" where
  "job_header line =
     (let is_name = (\<lambda>c. is_alpha_ascii c \<or> is_digit c \<or> c = CHR ''_'' \<or> c = CHR ''-'');
          name = takeWhile is_name (drop 2 line); rest = dropWhile is_name (drop 2 line)
      in if startswith line ''  '' \<and> name \<noteq> [] \<and> startswith rest '':'' \<and>
            (dropWhile py_isspace (tl rest) = [] \<or> startswith (dropWhile py_isspace (tl rest)) ''#'')
         then Some name else None)"

text \<open>\<open>ACTION_REFERENCE\<close> at a line start: the reference and the text after it. White space may span lines.\<close>

definition reference_char :: "char \<Rightarrow> bool" where
  "reference_char c \<longleftrightarrow> \<not> py_isspace c \<and> c \<noteq> CHR ''#''"

definition after_dash :: "string \<Rightarrow> string" where
  "after_dash s = (if startswith s ''-'' then dropWhile py_isspace (tl s) else s)"

definition match_uses :: "string \<Rightarrow> (string \<times> string) option" where
  "match_uses s =
     (let s2 = after_dash (dropWhile py_isspace s)
      in if \<not> startswith s2 ''uses:'' then None
         else let s3 = dropWhile py_isspace (drop 5 s2)
              in if takeWhile reference_char s3 = [] then None
                 else Some (takeWhile reference_char s3, dropWhile reference_char s3))"

lemma match_uses_shorter: "match_uses s = Some (r, rest) \<Longrightarrow> length rest \<le> length s"
proof -
  assume "match_uses s = Some (r, rest)"
  then have "rest = dropWhile reference_char (dropWhile py_isspace (drop 5 (after_dash (dropWhile py_isspace s))))"
    by (auto simp: match_uses_def Let_def split: if_splits)
  moreover have "length (after_dash t) \<le> length t" for t
    by (auto simp: after_dash_def intro: order.trans [OF length_dropWhile_le])
  ultimately show ?thesis
    by (metis (no_types, opaque_lifting) diff_le_self length_drop length_dropWhile_le order.trans)
qed

text \<open>\<open>finditer\<close>: the line number of each match's start, and its reference.\<close>

definition after_newline :: "string \<Rightarrow> string option" where
  "after_newline s =
     (case dropWhile (\<lambda>c. c \<noteq> newline) s of [] \<Rightarrow> None | _ # t \<Rightarrow> Some t)"

lemma after_newline_shorter: "after_newline s = Some t \<Longrightarrow> length t < length s"
  using length_dropWhile_le [of "\<lambda>c. c \<noteq> newline" s] by (auto simp: after_newline_def split: list.splits)

definition newlines :: "string \<Rightarrow> nat" where
  "newlines s = length (filter (\<lambda>c. c = newline) s)"

function find_uses :: "nat \<Rightarrow> string \<Rightarrow> (nat \<times> string) list" where
  "find_uses n s =
     (case match_uses s of
        None \<Rightarrow> (case after_newline s of None \<Rightarrow> [] | Some t \<Rightarrow> find_uses (n + 1) t)
      | Some (r, rest) \<Rightarrow>
          (n + 1, r) #
          (case after_newline rest of
             None \<Rightarrow> [] | Some t \<Rightarrow> find_uses (n + newlines s - newlines rest + 1) t))"
  by pat_completeness auto

termination
  by (relation "measure (\<lambda>(n, s). length s)")
    (auto dest!: after_newline_shorter match_uses_shorter)

declare find_uses.simps [simp del]

section \<open>One workflow\<close>

definition release_workflow :: string where
  "release_workflow = ''.github/workflows/release-artifacts.yml''"

definition registry_workflow :: string where
  "registry_workflow = ''.github/workflows/publish-mcp-registry.yml''"

definition job_write_permissions :: "(string \<times> (string \<times> string list) list) list" where
  "job_write_permissions =
     [(release_workflow,
        [(''build-python-artifacts'', [''artifact-metadata'', ''attestations'', ''id-token'']),
         (''publish-container'', [''artifact-metadata'', ''attestations'', ''id-token'', ''packages'']),
         (''publish-github-release'', [''contents''])]),
      (registry_workflow, [(''publish'', [''id-token''])])]"

definition allowed_writes :: "string \<Rightarrow> string option \<Rightarrow> string list" where
  "allowed_writes display job =
     (case job of
        None \<Rightarrow> []
      | Some j \<Rightarrow>
          (case map_of job_write_permissions display of
             None \<Rightarrow> []
           | Some jobs \<Rightarrow> (case map_of jobs j of None \<Rightarrow> [] | Some ps \<Rightarrow> ps)))"

definition before_comment :: "string \<Rightarrow> string" where
  "before_comment s = (case py_find s '' #'' of None \<Rightarrow> s | Some n \<Rightarrow> take n s)"

definition ignorable :: "string \<Rightarrow> bool" where
  "ignorable line \<longleftrightarrow> py_strip line = [] \<or> startswith (py_strip line) ''#''"

fun collect_entries :: "nat \<Rightarrow> string list \<Rightarrow> string dict \<Rightarrow> string dict" where
  "collect_entries ind [] acc = acc"
| "collect_entries ind (line # ls) acc =
     (if ignorable line then collect_entries ind ls acc
      else if indent_of line \<le> ind then acc
      else (case permission_entry (before_comment (py_strip line)) of
              None \<Rightarrow> collect_entries ind ls acc
            | Some (name, access) \<Rightarrow> collect_entries ind ls (AList.update name access acc)))"

definition permission_entries :: "string list \<Rightarrow> nat \<Rightarrow> nat \<Rightarrow> string dict" where
  "permission_entries ls start ind = collect_entries ind (drop (start + 1) ls) []"

fun step_discards :: "nat \<Rightarrow> string list \<Rightarrow> bool" where
  "step_discards ind [] = False"
| "step_discards ind (line # ls) =
     (if ignorable line then step_discards ind ls
      else if indent_of line < ind then False
      else before_comment (py_strip line) = ''persist-credentials: false'' \<or> step_discards ind ls)"

definition checkout_discards_credentials :: "string list \<Rightarrow> nat \<Rightarrow> bool result" where
  "checkout_discards_credentials ls uses_line =
     (if length ls \<le> uses_line then Inl (OtherExn ''IndexError'')
      else Inr (step_discards (indent_of (ls ! uses_line)) (drop (uses_line + 1) ls)))"

fun job_above :: "string list \<Rightarrow> string option" where
  "job_above [] = None"
| "job_above (line # ls) =
     (if line = ''jobs:'' then None
      else (case job_header line of Some j \<Rightarrow> Some j | None \<Rightarrow> job_above ls))"

definition permission_job :: "string list \<Rightarrow> nat \<Rightarrow> nat \<Rightarrow> string option" where
  "permission_job ls start ind = (if ind \<noteq> 4 then None else job_above (rev (take start ls)))"

definition top_level_errors :: "string \<Rightarrow> string list \<Rightarrow> (nat \<times> nat \<times> string) list \<Rightarrow> string list" where
  "top_level_errors display ls blocks =
     (case find (\<lambda>(i, ind, v). ind = 0) blocks of
        None \<Rightarrow> [display @ '': top-level permissions mapping is required'']
      | Some (i, ind, v) \<Rightarrow>
          if py_strip v \<noteq> [] then [display @ '': top-level permissions must be an explicit mapping'']
          else if map_of (permission_entries ls i 0) ''contents'' \<noteq> Some ''read''
          then [display @ '': top-level permissions must include contents: read''] else [])"

definition block_errors :: "string \<Rightarrow> string list \<Rightarrow> nat \<times> nat \<times> string \<Rightarrow> string list" where
  "block_errors display ls block =
     (case block of (i, ind, v) \<Rightarrow>
        if py_strip v \<in> {''write-all'', ''read-all''}
        then [display @ '': aggregate permission '' @ [CHR 0x27] @ py_strip v @ [CHR 0x27] @ '' is not allowed'']
        else if py_strip v \<noteq> [] then [display @ '': permissions must use an explicit mapping'']
        else let job = permission_job ls i ind
             in map (\<lambda>(name, access). display @ '': write permission is outside the job allowlist ('' @
                     (case job of None \<Rightarrow> ''workflow'' | Some j \<Rightarrow> j) @ '': '' @ name @ '': write)'')
                  (filter (\<lambda>(name, access). access = ''write'' \<and> name \<notin> set (allowed_writes display job))
                     (permission_entries ls i ind)))"

definition reference_errors :: "string \<Rightarrow> string list \<Rightarrow> nat \<times> string \<Rightarrow> string list result" where
  "reference_errors display ls entry =
     (case entry of (line, ref) \<Rightarrow>
        let at_line = (\<lambda>m. display @ '':'' @ show_nat line @ '': '' @ m)
        in if startswith ref ''./'' then Inr []
           else if startswith ref ''docker://''
           then (case partition_on CHR ''@'' ref of (_, found, digest) \<Rightarrow>
                   Inr (if \<not> found \<or> \<not> container_digest digest
                        then [at_line ''container action must be pinned by sha256 digest''] else []))
           else (case rpartition_on CHR ''@'' ref of (action, found, revision) \<Rightarrow>
                   let pin = (if \<not> found \<or> CHR ''/'' \<notin> set action \<or> \<not> full_commit_sha revision
                              then [at_line ''third-party action must use a full commit SHA''] else [])
                   in if action = ''actions/checkout''
                      then rbind (checkout_discards_credentials ls (line - 1)) (\<lambda>discards.
                             Inr (pin @ (if discards then [] else [at_line ''checkout must set persist-credentials: false''])))
                      else Inr pin))"

definition validate_workflow :: "string \<Rightarrow> string document \<Rightarrow> string list result" where
  "validate_workflow display file =
     (case file of
        NoFile e \<Rightarrow> Inr [display @ '': could not read workflow: '' @ e]
      | BadSyntax e \<Rightarrow> Inr [display @ '': could not read workflow: '' @ e]
      | BadEncoding \<Rightarrow> Inl undecodable
      | Document text \<Rightarrow>
          let ls = splitlines text; blocks = permission_blocks text
          in rbind (rmap (reference_errors display ls) (find_uses 0 text)) (\<lambda>refs.
               Inr (top_level_errors display ls blocks @ concat (map (block_errors display ls) blocks) @ concat refs)))"

section \<open>Every action reference is seen\<close>

lemma newline_space: "py_isspace newline" "\<not> reference_char newline"
  by (simp_all add: newline_def py_isspace_def reference_char_def ord_of_def)

lemma dropWhile_prefix:
  "dropWhile P (p @ s) = (if \<forall>x \<in> set p. P x then dropWhile P s else dropWhile P p @ s)"
  by (induction p) auto

lemma dropWhile_last: "p \<noteq> [] \<Longrightarrow> \<exists>x \<in> set p. \<not> P x \<Longrightarrow> dropWhile P p \<noteq> [] \<and> last (dropWhile P p) = last p"
  by (metis dropWhile_eq_Nil_conv last_appendR takeWhile_dropWhile_id)

text \<open>
  How a match that starts before a line boundary can reach past it: it is the match at that line, its
  reference is the first word of the line, or it ends before the boundary.
\<close>

lemma uses_before_newline:
  assumes "startswith (q @ s) ''uses:''" and q: "q \<noteq> []" "last q = newline"
  obtains q1 where "q1 \<noteq> []" "last q1 = newline" "drop 5 (q @ s) = q1 @ s"
proof -
  have "5 < length q"
  proof (rule ccontr)
    assume "\<not> 5 < length q"
    then have "set q \<subseteq> set (take 5 (q @ s))" by auto
    moreover have "take 5 (q @ s) = ''uses:''" using assms(1) by (simp add: startswith_def numeral_eq_Suc)
    ultimately have "newline \<in> set ''uses:''" using q by (metis last_in_set subsetD)
    then show False by (simp add: newline_def)
  qed
  then have "drop 5 q \<noteq> []" "last (drop 5 q) = newline" "drop 5 (q @ s) = drop 5 q @ s"
    using q(2) by (simp_all add: last_drop)
  then show ?thesis by (rule that)
qed

text \<open>The reference of a step that starts before the newline: it ends there, or it is read from the next line.\<close>

lemma reference_across:
  assumes "startswith (q @ s) ''uses:''" and "q \<noteq> []" "last q = newline"
    and r: "r = takeWhile reference_char (dropWhile py_isspace (drop 5 (q @ s)))"
      "rest = dropWhile reference_char (dropWhile py_isspace (drop 5 (q @ s)))"
  shows "r = takeWhile reference_char (dropWhile py_isspace s) \<or> (\<exists>q. q \<noteq> [] \<and> last q = newline \<and> rest = q @ s)"
proof -
  obtain q1 where q1: "q1 \<noteq> []" "last q1 = newline" "drop 5 (q @ s) = q1 @ s"
    using assms(1-3) by (rule uses_before_newline)
  show ?thesis
  proof (cases "\<forall>x \<in> set q1. py_isspace x")
    case True
    then show ?thesis using r(1) [unfolded q1(3)] by (simp add: dropWhile_prefix)
  next
    case False
    define q2 where "q2 = dropWhile py_isspace q1"
    have q2: "q2 \<noteq> []" "last q2 = newline" "dropWhile py_isspace (q1 @ s) = q2 @ s"
      using False q1 dropWhile_last [of q1 py_isspace] by (auto simp: q2_def dropWhile_prefix)
    then have "\<exists>x \<in> set q2. \<not> reference_char x" by (metis last_in_set newline_space(2))
    with q2 show ?thesis
      using r(2) [unfolded q1(3)] dropWhile_last [of q2 reference_char] by (auto simp: dropWhile_prefix)
  qed
qed

lemma match_uses_across:
  assumes m: "match_uses (p @ s) = Some (r, rest)" and p: "p \<noteq> []" "last p = newline"
  shows "match_uses s = Some (r, rest) \<or> r = takeWhile reference_char (dropWhile py_isspace s) \<or>
    (\<exists>q. q \<noteq> [] \<and> last q = newline \<and> rest = q @ s)"
proof (cases "\<forall>x \<in> set p. py_isspace x")
  case True
  with m show ?thesis by (simp add: match_uses_def dropWhile_prefix)
next
  case False
  define p1 where "p1 = dropWhile py_isspace p"
  have p1: "p1 \<noteq> []" "last p1 = newline" "dropWhile py_isspace (p @ s) = p1 @ s"
    using False p dropWhile_last [of p py_isspace] by (auto simp: p1_def dropWhile_prefix)
  have tail: ?thesis if q: "q \<noteq> []" "last q = newline" "after_dash (p1 @ s) = q @ s" for q
    by (intro disjI2 reference_across [of q])
      (use m p1(3) q in \<open>auto simp: match_uses_def Let_def split: if_splits\<close>)
  show ?thesis
  proof (cases "startswith p1 ''-''")
    case True
    then obtain p2 where p2: "p1 = CHR ''-'' # p2" by (auto simp: startswith_iff)
    then have "p2 \<noteq> []" "last p2 = newline" using p1 by (auto simp: newline_def split: if_splits)
    have d: "after_dash (p1 @ s) = dropWhile py_isspace (p2 @ s)" by (simp add: after_dash_def p2 startswith_def)
    show ?thesis
    proof (cases "\<forall>x \<in> set p2. py_isspace x")
      case True
      then have a: "after_dash (p1 @ s) = dropWhile py_isspace s" by (simp add: d dropWhile_prefix)
      have "startswith (dropWhile py_isspace s) ''uses:''"
        using m p1(3) a by (auto simp: match_uses_def Let_def split: if_splits)
      then have "after_dash (dropWhile py_isspace s) = dropWhile py_isspace s"
        by (auto simp: after_dash_def startswith_iff)
      then show ?thesis using m p1(3) a by (simp add: match_uses_def)
    next
      case False
      with tail [of "dropWhile py_isspace p2"] dropWhile_last [of p2 py_isspace] \<open>p2 \<noteq> []\<close> \<open>last p2 = newline\<close> d
      show ?thesis by (auto simp: dropWhile_prefix)
    qed
  next
    case False
    with p1(1) have "after_dash (p1 @ s) = p1 @ s" by (cases p1) (auto simp: after_dash_def startswith_def)
    with tail p1 show ?thesis by blast
  qed
qed

lemma after_newline_across:
  assumes "q \<noteq> []" and "last q = newline"
  obtains q' where "after_newline (q @ s) = Some (q' @ s)" "length q' < length q" "q' = [] \<or> last q' = newline"
proof -
  have "\<exists>x \<in> set q. \<not> x \<noteq> newline" using assms last_in_set by blast
  from dropWhile_last [OF assms(1) this] obtain c q' where
    d: "dropWhile (\<lambda>c. c \<noteq> newline) q = c # q'" "last (c # q') = newline"
    using assms(2) by (cases "dropWhile (\<lambda>c. c \<noteq> newline) q") auto
  have "length q' < length q"
    using length_dropWhile_le [of "\<lambda>c. c \<noteq> newline" q] d(1) by simp
  moreover have "after_newline (q @ s) = Some (q' @ s)"
    using assms d(1) last_in_set [of q] by (auto simp: after_newline_def dropWhile_prefix)
  ultimately show ?thesis using that d(2) by (auto split: if_splits)
qed

definition first_word :: "string \<Rightarrow> string" where
  "first_word s = takeWhile reference_char (dropWhile py_isspace s)"

lemma find_uses_sees:
  assumes "match_uses s = Some (r, rest)" and "p = [] \<or> last p = newline"
  shows "\<exists>n r'. (n, r') \<in> set (find_uses k (p @ s)) \<and> (r' = r \<or> r' = first_word s)"
  using assms(2)
proof (induction "length p" arbitrary: k p rule: less_induct)
  case less
  show ?case
  proof (cases "p = []")
    case True
    then have "(k + 1, r) \<in> set (find_uses k (p @ s))"
      using assms(1) by (simp add: find_uses.simps [of k])
    then show ?thesis by blast
  next
    case False
    with less.prems have p: "p \<noteq> []" "last p = newline" by simp_all
    show ?thesis
    proof (cases "match_uses (p @ s)")
      case None
      obtain q where q: "after_newline (p @ s) = Some (q @ s)" "length q < length p" "q = [] \<or> last q = newline"
        using p by (rule after_newline_across)
      then have "find_uses k (p @ s) = find_uses (k + 1) (q @ s)"
        using None by (simp add: find_uses.simps [of k])
      with less.hyps [OF q(2,3)] show ?thesis by metis
    next
      case (Some m)
      then obtain r' rest' where m: "match_uses (p @ s) = Some (r', rest')" by (cases m) simp
      then have head: "(k + 1, r') \<in> set (find_uses k (p @ s))" by (simp add: find_uses.simps [of k])
      from match_uses_across [OF m p] consider "r' = r" | "r' = first_word s"
        | q where "q \<noteq> []" "last q = newline" "rest' = q @ s"
        using assms(1) by (auto simp: first_word_def)
      then show ?thesis
      proof cases
        case 3
        obtain q' where q': "after_newline (q @ s) = Some (q' @ s)" "length q' < length q" "q' = [] \<or> last q' = newline"
          using 3(1,2) by (rule after_newline_across)
        have "length q' < length p" using q'(2) match_uses_shorter [OF m] 3(3) by simp
        from less.hyps [OF this q'(3)] obtain n r'' where
          "(n, r'') \<in> set (find_uses (k + newlines (p @ s) - newlines rest' + 1) (q' @ s))" "r'' = r \<or> r'' = first_word s"
          by blast
        then have "(n, r'') \<in> set (find_uses k (p @ s))"
          using m q'(1) 3(3) by (simp add: find_uses.simps [of k])
        with \<open>r'' = r \<or> r'' = first_word s\<close> show ?thesis by blast
      qed (use head in blast)+
    qed
  qed
qed

text \<open>A line with an action reference, as workflows write it, and what its match is.\<close>

definition uses_line :: "string \<Rightarrow> string \<Rightarrow> bool" where
  "uses_line line ref \<longleftrightarrow>
     (\<exists>k dash tail. line = replicate k CHR '' '' @ dash @ ''uses: '' @ ref @ tail \<and> dash \<in> {[], ''- ''} \<and>
        ref \<noteq> [] \<and> list_all reference_char ref \<and> (tail = [] \<or> \<not> reference_char (hd tail)))"

lemma blank_replicate: "dropWhile py_isspace (replicate k CHR '' '' @ s) = dropWhile py_isspace s"
  by (induction k) (simp_all add: py_isspace_def ord_of_def)

lemma uses_line_match:
  assumes "uses_line line ref" and "t = [] \<or> hd t = newline"
  shows "\<exists>rest. match_uses (line @ t) = Some (ref, rest)" and "first_word (line @ t) \<in> {''-'', ''uses:''}"
proof -
  from assms(1) obtain k dash tail where l: "line = replicate k CHR '' '' @ dash @ ''uses: '' @ ref @ tail"
    and dash: "dash \<in> {[], ''- ''}" and ref: "ref \<noteq> []" "list_all reference_char ref"
    and tail: "tail = [] \<or> \<not> reference_char (hd tail)"
    by (auto simp: uses_line_def)
  have sp: "py_isspace CHR '' ''" "\<not> py_isspace CHR ''-''" "\<not> py_isspace CHR ''u''"
    "\<not> reference_char CHR '' ''" "list_all reference_char ''-''" "list_all reference_char ''uses:''"
    by (simp_all add: py_isspace_def reference_char_def ord_of_def)
  have word: "takeWhile reference_char (w @ u) = w" if "list_all reference_char w" "u = [] \<or> \<not> reference_char (hd u)" for w u
    using that by (induction w) (cases u; simp)+
  have u: "tail @ t = [] \<or> \<not> reference_char (hd (tail @ t))"
    using tail assms(2) newline_space(2) by (cases tail) auto
  have r: "dropWhile py_isspace (ref @ tail @ t) = ref @ tail @ t"
    using ref by (cases ref) (auto simp: reference_char_def)
  have a: "after_dash (dropWhile py_isspace (line @ t)) = ''uses: '' @ ref @ tail @ t"
    using dash sp by (auto simp: l blank_replicate after_dash_def startswith_def)
  show "\<exists>rest. match_uses (line @ t) = Some (ref, rest)"
    using ref(1) word [OF ref(2) u] by (simp add: match_uses_def a startswith_def sp r)
  have "dropWhile py_isspace (line @ t) = dash @ ''uses: '' @ ref @ tail @ t"
    using dash sp by (auto simp: l blank_replicate)
  then show "first_word (line @ t) \<in> {''-'', ''uses:''}"
    using dash sp by (auto simp: first_word_def)
qed

section \<open>What a clean workflow satisfies\<close>

definition pinned_reference :: "string \<Rightarrow> bool" where
  "pinned_reference ref \<longleftrightarrow>
     startswith ref ''./'' \<or>
     startswith ref ''docker://'' \<and> (\<exists>img d. ref = img @ ''@sha256:'' @ d \<and> hex_text 64 d) \<or>
     (\<exists>action sha. ref = action @ ''@'' @ sha \<and> CHR ''/'' \<in> set action \<and> hex_text 40 sha)"

lemma reference_errors_Nil:
  assumes "reference_errors display ls (n, ref) = Inr []"
  shows "pinned_reference ref"
proof -
  consider "startswith ref ''./''" | "\<not> startswith ref ''./''" "startswith ref ''docker://''"
    | "\<not> startswith ref ''./''" "\<not> startswith ref ''docker://''" by blast
  then show ?thesis
  proof cases
    case 2
    then obtain img digest where p: "partition_on CHR ''@'' ref = (img, True, digest)" "container_digest digest"
      using assms by (auto simp: reference_errors_def Let_def split: prod.splits if_splits)
    moreover from p(2) have "digest = ''sha256:'' @ drop 7 digest" "hex_text 64 (drop 7 digest)"
      by (auto simp: container_digest_def startswith_iff)
    ultimately have "ref = img @ ''@sha256:'' @ drop 7 digest"
      using partition_on_True [OF p(1)] by (metis append_Cons append_Nil)
    with 2(2) \<open>hex_text 64 (drop 7 digest)\<close> show ?thesis unfolding pinned_reference_def by blast
  next
    case 3
    obtain action found revision where r: "rpartition_on CHR ''@'' ref = (action, found, revision)"
      by (cases "rpartition_on CHR ''@'' ref")
    with 3 assms have "found" "CHR ''/'' \<in> set action" "full_commit_sha revision"
      by (auto simp: reference_errors_def Let_def rbind_Inr_iff split: if_splits)
    with rpartition_on_True [of "CHR ''@''" ref action revision] r
    have "ref = action @ ''@'' @ revision" "CHR ''/'' \<in> set action" "hex_text 40 revision"
      by (auto simp: full_commit_sha_def)
    then show ?thesis unfolding pinned_reference_def by blast
  qed (simp add: pinned_reference_def)
qed

lemma not_pinned: "w \<in> {''-'', ''uses:''} \<Longrightarrow> \<not> pinned_reference w"
proof -
  have "pinned_reference w \<Longrightarrow> startswith w ''./'' \<or> CHR ''@'' \<in> set w"
    by (auto simp: pinned_reference_def)
  then show "w \<in> {''-'', ''uses:''} \<Longrightarrow> \<not> pinned_reference w"
    by (auto simp: startswith_def)
qed

lemma clean_references:
  assumes "rmap (reference_errors display ls) (find_uses 0 text) = Inr refs" and "concat refs = []"
    and "line \<in> set (split_on newline text)" and "uses_line line ref"
  shows "pinned_reference ref"
proof -
  from assms(3) obtain p t where t: "text = p @ (line @ t)" "p = [] \<or> last p = newline" "t = [] \<or> hd t = newline"
    by (rule split_on_context) simp
  from uses_line_match(1) [OF assms(4) t(3)] obtain rest where "match_uses (line @ t) = Some (ref, rest)" ..
  from find_uses_sees [OF this t(2), of 0] obtain n r where
    r: "(n, r) \<in> set (find_uses 0 text)" "r = ref \<or> r = first_word (line @ t)"
    using t(1) by auto
  have "list_all2 (\<lambda>e es. reference_errors display ls e = Inr es) (find_uses 0 text) refs"
    using assms(1) by (simp add: rmap_Inr_iff)
  from list_all2_member [OF this r(1)] assms(2) have "reference_errors display ls (n, r) = Inr []" by auto
  then have "pinned_reference r" by (rule reference_errors_Nil)
  with r(2) uses_line_match(2) [OF assms(4) t(3)] not_pinned show ?thesis by blast
qed

lemma permission_blocks_iff:
  "(i, h) \<in> set (permission_blocks text) \<longleftrightarrow>
     i < length (split_on newline text) \<and> permission_header (split_on newline text ! i) = Some h"
  unfolding permission_blocks_def in_map_filter
  by (auto simp: in_set_enumerate_eq intro!: bexI [of _ "(i, split_on newline text ! i)"])

lemma validate_workflow_Nil:
  "validate_workflow display (Document text) = Inr [] \<longleftrightarrow>
     top_level_errors display (splitlines text) (permission_blocks text) = [] \<and>
     (\<forall>b \<in> set (permission_blocks text). block_errors display (splitlines text) b = []) \<and>
     (\<exists>refs. rmap (reference_errors display (splitlines text)) (find_uses 0 text) = Inr refs \<and> concat refs = [])"
  by (auto simp: validate_workflow_def Let_def rbind_Inr_iff)

lemma distinct_collect: "distinct (map fst acc) \<Longrightarrow> distinct (map fst (collect_entries ind ls acc))"
  by (induction ind ls acc rule: collect_entries.induct) (auto simp: distinct_update split: option.splits)

lemma block_errors_Nil:
  "block_errors display ls (i, ind, v) = [] \<longleftrightarrow>
     py_strip v = [] \<and>
     (\<forall>name. map_of (permission_entries ls i ind) name = Some ''write'' \<longrightarrow>
        name \<in> set (allowed_writes display (permission_job ls i ind)))"
proof -
  have "distinct (map fst (permission_entries ls i ind))"
    by (simp add: permission_entries_def distinct_collect)
  then show ?thesis
    by (auto simp: block_errors_def filter_empty_conv Let_def)
qed

end
