(* ===== verification/Supply_Chain_Baseline.thy ===== *)
theory Supply_Chain_Baseline
  imports Supply_Chain Python_Json
begin

text \<open>
  The second half of \<open>scripts/validate_supply_chain.py\<close>: the policy and automation files the repository
  must keep, checked by the markers their texts contain, and the run over all workflows. The file
  system is a parameter, the record \<open>supply_fs\<close>; \<open>sf_workflows\<close> lists the workflow files in the order
  of their paths, \<open>sf_index_error\<close> renders the exception a failed subscript raises.
\<close>

record supply_fs =
  sf_is_file :: "string \<Rightarrow> bool"
  sf_text :: "string \<Rightarrow> string document"
  sf_project :: "pyval dict document"
  sf_workflows :: "string list"
  sf_index_error :: "pyval \<Rightarrow> string \<Rightarrow> string"

section \<open>Required files and markers\<close>

definition required_files :: "string list" where
  "required_files =
     [''build-constraints.txt'', ''.github/dependabot.yml'', ''.github/workflows/dependency-review.yml'',
      release_workflow, registry_workflow, ''.github/workflows/sbom.yml'',
      ''docs/adr/0020-actionable-vulnerability-exceptions.md'',
      ''docs/adr/0021-reproducible-release-provenance.md'', ''docs/adr/0022-secure-release-publication.md'',
      ''docs/adr/0023-multi-platform-release-publication.md'',
      ''docs/adr/0026-secure-official-registry-publication.md'', ''docs/SUPPLY_CHAIN.md'',
      ''scripts/enforce_vulnerability_policy.py'', ''scripts/install_security_tools.sh'',
      ''scripts/prepare_release_artifacts.py'', ''scripts/prepare_multiarch_image_evidence.py'',
      ''scripts/prepare_release_publication.py'', ''scripts/validate_registry_publication.py'',
      ''scripts/validate_security_evidence.py'', ''security/vulnerability-exceptions.json'']"

definition denied_licenses :: "string list" where
  "denied_licenses =
     [''AGPL-3.0-only'', ''AGPL-3.0-or-later'', ''GPL-2.0-only'', ''GPL-2.0-or-later'', ''GPL-3.0-only'', ''GPL-3.0-or-later'']"

definition evidence_markers :: "(string \<times> string) list" where
  "evidence_markers =
     [(''source CycloneDX SBOM'', ''source.cdx.json''), (''image CycloneDX SBOM'', ''image.cdx.json''),
      (''complete vulnerability report'', ''grype.json''),
      (''evidence contract validation'', ''validate_security_evidence.py''),
      (''actionable vulnerability policy'', ''enforce_vulnerability_policy.py''),
      (''reviewed vulnerability exceptions'', ''vulnerability-exceptions.json''),
      (''policy decision evidence'', ''policy.json''), (''explicit source identity'', ''--source-name''),
      (''artifact upload'', ''actions/upload-artifact@'')]"

definition release_markers :: "(string \<times> string) list" where
  "release_markers =
     [(''tag-only trigger'', ''tags:''), (''serialized tag publication'', ''cancel-in-progress: false''),
      (''commit-derived timestamp'', ''SOURCE_DATE_EPOCH''),
      (''pinned isolated build environment'', ''--build-constraints build-constraints.txt''),
      (''release contract validation'', ''prepare_release_artifacts.py''),
      (''package checksum publication'', ''SHA256SUMS''),
      (''checksum-bound attestation'', ''subject-checksums: dist/SHA256SUMS''),
      (''GitHub provenance'', ''actions/attest@1e69f48acb82d1966a394da916b4c1698aa569d6''),
      (''OIDC signing permission'', ''id-token: write''),
      (''attestation permission'', ''attestations: write''),
      (''artifact metadata permission'', ''artifact-metadata: write''),
      (''package SBOM attestation'', ''subject-checksums: build/python-artifacts/SHA256SUMS''),
      (''image digest subject'', ''subject-digest:''),
      (''QEMU setup'', ''docker/setup-qemu-action@06116385d9baf250c9f4dcb4858b16962ea869c3''),
      (''Buildx setup'', ''docker/setup-buildx-action@bb05f3f5519dd87d3ba754cc423b652a5edd6d2c''),
      (''AMD64 release build'', ''--platform linux/amd64''),
      (''ARM64 release build'', ''--platform linux/arm64''),
      (''AMD64 image evidence'', ''image-amd64.cdx.json''),
      (''ARM64 image evidence'', ''image-arm64.cdx.json''),
      (''multi-platform image contract'', ''image-platforms.json''),
      (''OCI index assembly'', ''docker buildx imagetools create''),
      (''registry attestation'', ''push-to-registry: true''),
      (''pre-publication vulnerability policy'', ''enforce_vulnerability_policy.py''),
      (''GHCR publication'', ''docker push''), (''published digest record'', ''image-digest.txt''),
      (''release assembly validation'', ''scripts.prepare_release_publication''),
      (''GitHub Release publication'', ''gh release create''),
      (''existing tag verification'', ''--verify-tag''),
      (''pinned artifact restore'', ''actions/download-artifact@3e5f45b2cfb9172054b4087a40e8e0b5a5461e7c''),
      (''release evidence retention'', ''retention-days: 30'')]"

definition registry_markers :: "(string \<times> string) list" where
  "registry_markers =
     [(''secure release completion trigger'', ''workflow_run:''),
      (''secure release workflow dependency'', ''secure-release-publication''),
      (''completed-run trigger'', ''completed''),
      (''serialized Registry publication'', ''group: official-mcp-registry-publication''),
      (''successful release condition'', (''workflow_run.conclusion == '' @ [CHR 0x27] @ ''success'' @ [CHR 0x27])),
      (''tag-push condition'', (''workflow_run.event == '' @ [CHR 0x27] @ ''push'' @ [CHR 0x27])),
      (''same-repository condition'', ''workflow_run.head_repository.full_name == github.repository''),
      (''trusted default-branch checkout'', ''ref: ${{ github.event.repository.default_branch }}''),
      (''annotated tag validation'', ''git cat-file -t \"refs/tags/${RELEASE_TAG}\"''),
      (''default-branch ancestry validation'', ''git merge-base --is-ancestor''),
      (''release workflow identity validation'', ''actions/workflows/release-artifacts.yml''),
      (''published GitHub Release validation'', ''releases/tags/${RELEASE_TAG}''),
      (''release digest evidence'', ''image-digest.txt''),
      (''version OCI digest validation'', ''\"${IMAGE_NAME}:${RELEASE_TAG}\"''),
      (''commit OCI digest validation'', ''\"${IMAGE_NAME}:sha-${RELEASE_SHA}\"''),
      (''MCP OCI ownership validation'', ''io.modelcontextprotocol.server.name''),
      (''checksum-verified publisher installation'', ''install_mcp_publisher.sh''),
      (''OIDC Registry authentication'', ''login github-oidc''),
      (''Registry audience binding'', ''--registry \"$REGISTRY_URL\"''),
      (''idempotent existing-version path'', ''action=verify-only''),
      (''Registry exact-version verification'', ''/versions/${VERSION}''),
      (''Registry latest verification'', ''/versions/latest''),
      (''Registry discovery verification'', ''version=latest''),
      (''Registry response validation'', ''validate_registry_publication.py''),
      (''Registry credential cleanup'', ''logout || true'')]"

definition registry_forbidden :: "(string \<times> string) list" where
  "registry_forbidden =
     [(''pull request trigger'', ''pull_request:''),
      (''pull_request_target trigger'', ''pull_request_target:''), (''direct tag-push trigger'', ''tags:''),
      (''manual dispatch trigger'', ''workflow_dispatch:''), (''stored secret reference'', ''secrets.''),
      (''PAT Registry authentication'', ''login github --token'')]"

definition publication_markers :: "(string \<times> string) list" where
  "publication_markers =
     [(''complete release checksums'', ''RELEASE_SHA256SUMS''),
      (''machine-readable release manifest'', ''release-manifest.json''),
      (''source SBOM'', ''source.cdx.json''), (''AMD64 image SBOM'', ''image-amd64.cdx.json''),
      (''ARM64 image SBOM'', ''image-arm64.cdx.json''), (''AMD64 vulnerability report'', ''grype-amd64.json''),
      (''ARM64 vulnerability report'', ''grype-arm64.json''),
      (''AMD64 policy decision'', ''policy-amd64.json''), (''ARM64 policy decision'', ''policy-arm64.json''),
      (''multi-platform image mapping'', ''image-platforms.json''),
      (''immutable image subject'', ''image-digest.txt'')]"

definition error_if :: "bool \<Rightarrow> string \<Rightarrow> string list" where
  "error_if c m = (if c then [m] else [])"

lemma error_if_Nil [simp]: "error_if c m = [] \<longleftrightarrow> \<not> c"
  by (simp add: error_if_def)

text \<open>The errors of a file that exists, from its text.\<close>

definition checked_file :: "supply_fs \<Rightarrow> string \<Rightarrow> (string \<Rightarrow> string list) \<Rightarrow> string list result" where
  "checked_file fs path f =
     (if \<not> sf_is_file fs path then Inr []
      else (case sf_text fs path of
              Document t \<Rightarrow> Inr (f t)
            | BadEncoding \<Rightarrow> Inl undecodable
            | _ \<Rightarrow> Inl (OtherExn ''OSError'')))"

definition missing_markers :: "string \<Rightarrow> (string \<times> string) list \<Rightarrow> string \<Rightarrow> string list" where
  "missing_markers file table text =
     map (\<lambda>(control, marker). file @ '': missing '' @ control)
       (filter (\<lambda>(control, marker). \<not> contains text marker) table)"

section \<open>The checks of each file\<close>

definition missing_files :: "supply_fs \<Rightarrow> string list" where
  "missing_files fs =
     map (\<lambda>p. p @ '': required supply-chain control file is missing'') (filter (\<lambda>p. \<not> sf_is_file fs p) required_files)"

definition dependabot_errors :: "string \<Rightarrow> string list" where
  "dependabot_errors text =
     map (\<lambda>e. ''.github/dependabot.yml: missing '' @ e @ '' update configuration'')
       (filter (\<lambda>e. \<not> contains text (''package-ecosystem: '' @ e)) [''\"uv\"'', ''\"github-actions\"'']) @
     error_if (py_count text ''interval: \"weekly\"'' < 2) ''.github/dependabot.yml: both ecosystems must use a weekly cadence'' @
     error_if (py_count text ''open-pull-requests-limit:'' < 2) ''.github/dependabot.yml: each ecosystem needs an explicit PR limit''"

definition review_errors :: "string \<Rightarrow> string list" where
  "review_errors text =
     error_if (\<not> contains text ''pull_request:'') ''dependency-review.yml: workflow must run for pull requests'' @
     error_if (\<not> contains text ''actions/dependency-review-action@'') ''dependency-review.yml: dependency review action is missing'' @
     error_if (\<not> contains text ''fail-on-severity: high'') ''dependency-review.yml: vulnerability threshold must remain high'' @
     error_if (\<not> contains text ''vulnerability-check: true'') ''dependency-review.yml: vulnerability review must remain enabled'' @
     error_if (\<not> contains text ''license-check: true'') ''dependency-review.yml: license review must remain enabled'' @
     map (\<lambda>l. ''dependency-review.yml: denied license is missing: '' @ l) (filter (\<lambda>l. \<not> contains text l) denied_licenses)"

text \<open>\<open>re.findall\<close> of a 64-digit checksum assignment.\<close>

definition checksum_at :: "string \<Rightarrow> string option" where
  "checksum_at s =
     (if startswith s ''checksum=\"'' \<and> hex_text 64 (take 64 (drop 10 s)) \<and> startswith (drop 74 s) ''\"''
      then Some (take 64 (drop 10 s)) else None)"

function find_checksums :: "string \<Rightarrow> string list" where
  "find_checksums [] = []"
| "find_checksums (c # cs) =
     (case checksum_at (c # cs) of
        None \<Rightarrow> find_checksums cs
      | Some d \<Rightarrow> d # find_checksums (drop 75 (c # cs)))"
  by pat_completeness auto

termination by (relation "measure length") auto

definition installer_errors :: "string \<Rightarrow> string list" where
  "installer_errors text =
     map (\<lambda>m. ''install_security_tools.sh: missing pinned marker '' @ m)
       (filter (\<lambda>m. \<not> contains text m) [''SYFT_VERSION=\"1.50.0\"'', ''GRYPE_VERSION=\"0.116.1\"'']) @
     error_if (length (find_checksums text) \<noteq> 8 \<or> length (remdups (find_checksums text)) \<noteq> 8)
       ''install_security_tools.sh: expected eight unique platform checksums''"

definition release_errors :: "string \<Rightarrow> string list" where
  "release_errors text =
     missing_markers ''release-artifacts.yml'' release_markers text @
     error_if (py_count text ''uv build --build-constraints'' \<noteq> 2)
       ''release-artifacts.yml: exactly two reproducibility builds are required'' @
     error_if (py_count text ''sbom-path:'' \<noteq> 3)
       ''release-artifacts.yml: package plus AMD64/ARM64 SBOM attestations are required'' @
     error_if (py_count text ''push-to-registry: true'' \<noteq> 3)
       ''release-artifacts.yml: index provenance and both platform SBOM attestations must use GHCR'' @
     error_if (py_count text ''create-storage-record: false'' \<noteq> 3)
       ''release-artifacts.yml: all registry attestations must disable storage records'' @
     error_if (py_count text ''enforce_vulnerability_policy.py'' \<noteq> 1)
       ''release-artifacts.yml: one looped per-platform vulnerability-policy command is required'' @
     error_if (py_count text ''docker buildx imagetools create'' \<noteq> 2)
       ''release-artifacts.yml: version and commit OCI indexes are both required'' @
     error_if (py_count text ''contents: write'' \<noteq> 1 \<or> py_count text ''packages: write'' \<noteq> 1)
       ''release-artifacts.yml: release and registry writes must each exist in one job'' @
     error_if (contains text ''pull_request:'') ''release-artifacts.yml: publication must not run for pull requests'' @
     error_if (contains text '':latest'') ''release-artifacts.yml: mutable latest image tags are not allowed'' @
     error_if (\<not> in_order text [''enforce_vulnerability_policy.py'', ''docker login'', ''docker push''])
       ''release-artifacts.yml: both platform policies must execute before registry login/push''"

definition publish_command :: string where
  "publish_command = ''\"$PUBLISHER\" publish \"$SERVER_JSON\"''"

definition registry_order :: "string list" where
  "registry_order =
     [''Validate Registry publication preconditions'', ''login github-oidc'', publish_command,
      ''Verify Official MCP Registry publication'']"

definition registry_errors :: "string \<Rightarrow> string list" where
  "registry_errors text =
     missing_markers ''publish-mcp-registry.yml'' registry_markers text @
     map (\<lambda>(control, marker). ''publish-mcp-registry.yml: forbidden '' @ control)
       (filter (\<lambda>(control, marker). contains text marker) registry_forbidden) @
     error_if (py_count text ''id-token: write'' \<noteq> 1)
       ''publish-mcp-registry.yml: exactly one Registry OIDC write permission is required'' @
     error_if (py_count text ''login github-oidc'' \<noteq> 1)
       ''publish-mcp-registry.yml: exactly one GitHub OIDC login is required'' @
     error_if (py_count text publish_command \<noteq> 1)
       ''publish-mcp-registry.yml: exactly one Registry publish command is required'' @
     error_if (\<not> in_order text registry_order)
       ''publish-mcp-registry.yml: preflight, OIDC login, publish and verification must remain ordered''"

section \<open>The project file and the build constraints\<close>

definition py_index :: "supply_fs \<Rightarrow> pyval \<Rightarrow> string \<Rightarrow> string + pyval" where
  "py_index fs v k =
     (case as_dict v of
        None \<Rightarrow> Inl (sf_index_error fs v k)
      | Some d \<Rightarrow> (case map_of d k of None \<Rightarrow> Inl (sf_index_error fs v k) | Some x \<Rightarrow> Inr x))"

fun py_path :: "supply_fs \<Rightarrow> pyval \<Rightarrow> string list \<Rightarrow> string + pyval" where
  "py_path fs v [] = Inr v"
| "py_path fs v (k # ks) = rbind (py_index fs v k) (\<lambda>w. py_path fs w ks)"

definition module_of :: "pyval \<Rightarrow> string" where
  "module_of name = (case as_str name of None \<Rightarrow> [] | Some n \<Rightarrow> safe_module n)"

definition sdist_expected :: "pyval \<Rightarrow> string list" where
  "sdist_expected name = [''src/'' @ module_of name, ''CHANGELOG.md'', ''LICENSE'', ''README.pt-BR.md'']"

definition sdist_actual :: "pyval \<Rightarrow> string list" where
  "sdist_actual selection = (case as_list selection of None \<Rightarrow> [] | Some vs \<Rightarrow> List.map_filter as_str vs)"

definition read_build :: "supply_fs \<Rightarrow> pyval dict \<Rightarrow> string + pyval \<times> pyval \<times> pyval" where
  "read_build fs d =
     rbind (py_path fs (PDict d) [''project'', ''name'']) (\<lambda>name.
     rbind (py_path fs (PDict d) [''build-system'', ''requires'']) (\<lambda>build_requires.
     rbind (py_path fs (PDict d) [''tool'', ''hatch'', ''build'', ''targets'', ''sdist'', ''only-include'']) (\<lambda>selection.
       Inr (name, build_requires, selection))))"

definition project_errors :: "supply_fs \<Rightarrow> string list result" where
  "project_errors fs =
     (let invalid = (\<lambda>e. Inr [''pyproject.toml: invalid explicit sdist selection: '' @ e])
      in if \<not> sf_is_file fs ''pyproject.toml'' then Inr []
         else (case sf_project fs of
                 NoFile e \<Rightarrow> invalid e
               | BadSyntax e \<Rightarrow> invalid e
               | BadEncoding \<Rightarrow> Inl undecodable
               | Document d \<Rightarrow>
                   (case read_build fs d of
                      Inl e \<Rightarrow> invalid e
                    | Inr (name, build_requires, selection) \<Rightarrow>
                        Inr (error_if (set (sdist_actual selection) \<noteq> set (sdist_expected name))
                               ''pyproject.toml: sdist only-include must match the release content allowlist'' @
                             error_if (build_requires \<noteq> PList [PStr ''hatchling==1.31.0''])
                               ''pyproject.toml: Hatchling build backend must remain exactly pinned''))))"

definition expected_constraints :: "string list" where
  "expected_constraints =
     [''hatchling==1.31.0'', ''packaging==26.3'', ''pathspec==1.1.1'', ''pluggy==1.6.0'', ''trove-classifiers==2026.6.1.19'']"

definition constraint_lines :: "string \<Rightarrow> string list" where
  "constraint_lines text =
     filter (\<lambda>l. l \<noteq> [] \<and> \<not> startswith l ''#'') (map py_strip (splitlines text))"

definition constraints_errors :: "string \<Rightarrow> string list" where
  "constraints_errors text =
     error_if (set (constraint_lines text) \<noteq> set expected_constraints)
       ''build-constraints.txt: isolated build environment must remain exact''"

section \<open>The whole baseline\<close>

definition baseline_errors :: "supply_fs \<Rightarrow> string list result" where
  "baseline_errors fs =
     rbind (rmap (\<lambda>r. r)
       [Inr (missing_files fs),
        checked_file fs ''.github/dependabot.yml'' dependabot_errors,
        checked_file fs ''.github/workflows/dependency-review.yml'' review_errors,
        checked_file fs ''.github/workflows/sbom.yml'' (missing_markers ''sbom.yml'' evidence_markers),
        checked_file fs ''scripts/install_security_tools.sh'' installer_errors,
        checked_file fs release_workflow release_errors,
        checked_file fs registry_workflow registry_errors,
        checked_file fs ''scripts/prepare_release_publication.py''
          (missing_markers ''prepare_release_publication.py'' publication_markers),
        project_errors fs,
        checked_file fs ''build-constraints.txt'' constraints_errors]) (\<lambda>es. Inr (concat es))"

definition validate_supply_chain :: "supply_fs \<Rightarrow> string list result" where
  "validate_supply_chain fs =
     rbind (baseline_errors fs) (\<lambda>es.
     rbind (rmap (\<lambda>w. validate_workflow w (sf_text fs w)) (sf_workflows fs)) (\<lambda>ws.
       Inr (es @ error_if (sf_workflows fs = []) ''.github/workflows: no workflows found'' @ concat ws)))"

definition supply_chain_main :: "supply_fs \<Rightarrow> (int \<times> string list) result" where
  "supply_chain_main fs =
     rbind (validate_supply_chain fs) (\<lambda>errors.
       Inr (if errors \<noteq> [] then (1, ''Supply-chain trust baseline failed:'' # map (\<lambda>e. ''- '' @ e) errors)
            else (0, [''Supply-chain trust baseline passed.''])))"

text \<open>
  The gate passes only if every required file exists, every workflow is clean, and in the registry
  workflow every publish command comes after the preconditions and the login.
\<close>

lemma supply_chain_main_zero:
  assumes "supply_chain_main fs = Inr (0, out)"
  shows "list_all (sf_is_file fs) required_files"
    and "\<forall>w \<in> set (sf_workflows fs). validate_workflow w (sf_text fs w) = Inr []"
    and "sf_workflows fs \<noteq> []"
    and "\<exists>text. sf_text fs registry_workflow = Document text \<and>
      (\<forall>a b. text = a @ publish_command @ b \<longrightarrow>
         (\<forall>m \<in> set (take 2 registry_order). \<exists>a' b'. text = a' @ m @ b' \<and> length a' < length a))"
proof -
  obtain es ws where b: "baseline_errors fs = Inr es"
    and w: "rmap (\<lambda>w. validate_workflow w (sf_text fs w)) (sf_workflows fs) = Inr ws"
    and e: "es @ error_if (sf_workflows fs = []) ''.github/workflows: no workflows found'' @ concat ws = []"
    using assms by (auto simp: supply_chain_main_def validate_supply_chain_def rbind_Inr_iff split: if_splits)
  from b e have base: "missing_files fs = []" "checked_file fs registry_workflow registry_errors = Inr []"
    by (auto simp: baseline_errors_def rbind_Inr_iff)
  then show files: "list_all (sf_is_file fs) required_files"
    by (simp add: missing_files_def list_all_iff filter_empty_conv)
  show "sf_workflows fs \<noteq> []" using e by simp
  show "\<forall>w \<in> set (sf_workflows fs). validate_workflow w (sf_text fs w) = Inr []"
  proof
    fix v assume v: "v \<in> set (sf_workflows fs)"
    from w have "list_all2 (\<lambda>v r. validate_workflow v (sf_text fs v) = Inr r) (sf_workflows fs) ws"
      by (simp add: rmap_Inr_iff)
    from list_all2_member [OF this v] e show "validate_workflow v (sf_text fs v) = Inr []" by auto
  qed
  have "registry_workflow \<in> set required_files" by (simp add: required_files_def)
  then have "sf_is_file fs registry_workflow" using files by (simp add: list_all_iff)
  then obtain body where t: "sf_text fs registry_workflow = Document body" "registry_errors body = []"
    using base(2) by (auto simp: checked_file_def split: document.splits)
  then have "in_order body (take 2 registry_order @ publish_command # drop 3 registry_order)"
    by (simp add: registry_errors_def registry_order_def)
  with in_order_before t(1) show "\<exists>text. sf_text fs registry_workflow = Document text \<and>
      (\<forall>a b. text = a @ publish_command @ b \<longrightarrow>
         (\<forall>m \<in> set (take 2 registry_order). \<exists>a' b'. text = a' @ m @ b' \<and> length a' < length a))"
    by blast
qed

section \<open>What the workflow checks miss\<close>

text \<open>
  A checkout that keeps its credentials passes when a later step of the job drops its own: the search
  does not stop at the next step.
\<close>

lemma later_step_covers_checkout:
  assumes "sha \<noteq> []"
  shows "checkout_discards_credentials
     [''      - uses: actions/checkout@'' @ sha, ''      - uses: actions/checkout@'' @ sha, ''        with:'',
      ''          persist-credentials: false''] 0 = Inr True"
proof -
  have "\<not> ignorable (''      - uses: actions/checkout@'' @ sha)" "\<not> ignorable ''        with:''"
    "\<not> ignorable ''          persist-credentials: false''"
    using assms by (auto simp: ignorable_def py_strip_def py_lstrip_by_def py_rstrip_by_def py_isspace_def ord_of_def startswith_def
        dropWhile_append)
  moreover have "before_comment (py_strip ''          persist-credentials: false'') = ''persist-credentials: false''"
    by (simp add: before_comment_def py_strip_def py_lstrip_by_def py_rstrip_by_def py_isspace_def ord_of_def startswith_eval)
  ultimately show ?thesis by (simp add: checkout_discards_credentials_def indent_of_def)
qed

text \<open>
  A next-line character in a comment counts as a line for \<open>splitlines\<close> but not for the line number of a
  match, so the entries of a later permissions block are read from the wrong line, and none is found.
\<close>

definition shifted_workflow :: string where
  "shifted_workflow =
     ''permissions:'' @ [newline] @ ''  contents: read'' @ [newline] @ [CHR ''#'', CHR 0x85, newline] @
     ''jobs:'' @ [newline] @ ''  j:'' @ [newline] @ ''    permissions:'' @ [newline] @ ''      contents: write'' @ [newline]"

lemma shifted_permission_accepted: "validate_workflow ''w.yml'' (Document shifted_workflow) = Inr []"
proof -
  have s: "split_on newline shifted_workflow =
      [''permissions:'', ''  contents: read'', [CHR ''#'', CHR 0x85], ''jobs:'', ''  j:'', ''    permissions:'', ''      contents: write'', []]"
    by (simp add: shifted_workflow_def split_on_def newline_def)
  have l: "splitlines shifted_workflow =
      [''permissions:'', ''  contents: read'', ''#'', [], ''jobs:'', ''  j:'', ''    permissions:'', ''      contents: write'']"
    by (simp add: splitlines_def shifted_workflow_def newline_def line_boundary_def ord_of_def)
  have h: "permission_header ''permissions:'' = Some (0, [])" "permission_header ''    permissions:'' = Some (4, [])"
    "permission_header ''  contents: read'' = None" "permission_header [CHR ''#'', CHR 0x85] = None"
    "permission_header ''jobs:'' = None" "permission_header ''  j:'' = None"
    "permission_header ''      contents: write'' = None" "permission_header [] = None"
    by (simp_all add: permission_header_def indent_of_def startswith_eval numeral_eq_Suc)
  have b: "permission_blocks shifted_workflow = [(0, 0, []), (5, 4, [])]"
    by (simp add: permission_blocks_def s h List.map_filter_def)
  have strips: "py_strip ''  contents: read'' = ''contents: read''" "py_strip ''jobs:'' = ''jobs:''"
    "py_strip ''    permissions:'' = ''permissions:''" "py_strip ''#'' = ''#''" "py_strip [] = []"
    by (simp_all add: py_strip_def py_lstrip_by_def py_rstrip_by_def py_isspace_def ord_of_def)
  have "permission_entry (before_comment ''contents: read'') = Some (''contents'', ''read'')"
    by (simp add: permission_entry_def before_comment_def startswith_eval py_strip_def py_lstrip_by_def py_rstrip_by_def
        py_isspace_def ord_of_def)
  then have e: "permission_entries (splitlines shifted_workflow) 0 0 = [(''contents'', ''read'')]"
    "permission_entries (splitlines shifted_workflow) 5 4 = []"
    by (simp_all add: l permission_entries_def ignorable_def strips startswith_eval indent_of_def)
  have "find_uses 0 shifted_workflow = []"
    by (simp add: find_uses.simps match_uses_def after_dash_def shifted_workflow_def after_newline_def newline_def
        py_isspace_def ord_of_def startswith_eval)
  then show ?thesis
    by (simp add: validate_workflow_Nil b e top_level_errors_def block_errors_Nil strips)
qed

end
