(* ===== verification/Release_Properties.thy ===== *)
theory Release_Properties
  imports Registry_Metadata Supply_Chain_Baseline
begin

text \<open>What the release and registry gates guarantee when they pass.\<close>

section \<open>Registry metadata\<close>

lemma validate_package_Inr:
  assumes "validate_package server version = Inr ()"
  obtains package where "py_get server ''packages'' = PList [PDict package]"
    "py_get package ''identifier'' = PStr (image_prefix @ version)"
    "validate_runtime_arguments package = Inr ()" "validate_environment package = Inr ()"
proof -
  from assms obtain v where v: "py_get server ''packages'' = PList [v]"
    by (auto simp: validate_package_def split: pyval.splits list.splits)
  with assms obtain package where "v = PDict package" "\<forall>c \<in> set (package_checks package version). c = Inr ()"
    "validate_runtime_arguments package = Inr ()" "validate_environment package = Inr ()"
    by (auto simp: validate_package_def split: option.splits)
  with v that show ?thesis by (simp add: package_checks_def)
qed

text \<open>C34: When the registry metadata gate exits with 0, the project version is semantic, the server
  document, the image identifier and the release tag (if one is given) all carry it; the arguments
  published for \<open>docker run\<close> are the hardening ones, the last argument of each name with its pinned
  value; and an inspected image carries the server's name. Of the release workflow it says this about the
  text: the name of the ownership step, the policy script, \<open>docker login\<close> and \<open>docker push\<close> all occur, their
  first occurrences in this order, so that every occurrence of \<open>docker push\<close> stands behind one of each
  of the other three. It is no statement about what the workflow executes: an occurrence in a comment
  counts, and commands that publish in another way, such as \<open>docker buildx imagetools create\<close>, are not
  looked for.\<close>

theorem registry_metadata_sound:
  assumes "registry_main fs tag img = Inr (0, out)"
  shows "\<exists>server version package args release.
    load_json fs ''server.json'' = Inr server \<and> project_version fs ''pyproject.toml'' = Inr version \<and>
    is_semver version \<and> py_get server ''version'' = PStr version \<and>
    py_get server ''packages'' = PList [PDict package] \<and>
    py_get package ''identifier'' = PStr (image_prefix @ version) \<and> tag \<in> {None, Some (CHR ''v'' # version)} \<and>
    py_get package ''runtimeArguments'' = PList args \<and>
    (\<forall>item \<in> set args. \<exists>entry \<in> set expected_arguments. has_name (fst entry) item) \<and>
    (\<forall>entry \<in> set expected_arguments. hardened_argument args entry) \<and>
    (\<forall>i. img = Some i \<longrightarrow> py_strip (fst (snd (rf_inspect fs i))) = server_name) \<and>
    read_text fs ''.github/workflows/release-artifacts.yml'' = Inr release \<and>
    (\<exists>own pol login push. py_find release ''Validate Registry ownership on both release candidates'' = Some own \<and>
       py_find release ''enforce_vulnerability_policy.py'' = Some pol \<and> py_find release ''docker login'' = Some login \<and>
       py_find release ''docker push'' = Some push \<and> own < pol \<and> pol < login \<and> login < push) \<and>
    (\<forall>a b. release = a @ ''docker push'' @ b \<longrightarrow>
       (\<forall>m \<in> {''Validate Registry ownership on both release candidates'', ''enforce_vulnerability_policy.py'', ''docker login''}.
          \<exists>a' b'. release = a' @ m @ b' \<and> length a' < length a))"
proof -
  from assms have ok: "validate_metadata fs tag img = Inr ()"
    by (auto simp: registry_main_def split: sum.splits exn.splits)
  then obtain server version where
    s: "load_json fs ''server.json'' = Inr server" "project_version fs ''pyproject.toml'' = Inr version"
    and c: "\<forall>c \<in> set (server_checks server version). c = Inr ()" "validate_registry_workflows fs = Inr ()"
      "(case tag of None \<Rightarrow> Inr () | Some t \<Rightarrow> gate_require (t = CHR ''v'' # version) ''release tag must equal v{server.version}'') = Inr ()"
      "(case img of None \<Rightarrow> Inr () | Some i \<Rightarrow> validate_image_label fs i) = Inr ()"
    by (auto simp: validate_metadata_def rbind_Inr_iff)
  have v: "is_semver version" "py_get server ''version'' = PStr version" "validate_package server version = Inr ()"
    using c(1) by (simp_all add: server_checks_def)
  obtain package where p: "py_get server ''packages'' = PList [PDict package]"
    "py_get package ''identifier'' = PStr (image_prefix @ version)" "validate_runtime_arguments package = Inr ()"
    using v(3) by (rule validate_package_Inr)
  obtain args where a: "py_get package ''runtimeArguments'' = PList args"
    "\<forall>item \<in> set args. \<exists>entry \<in> set expected_arguments. has_name (fst entry) item"
    "\<forall>entry \<in> set expected_arguments. hardened_argument args entry"
    using p(3) by (rule runtime_arguments_sound)
  obtain release where r: "read_text fs ''.github/workflows/release-artifacts.yml'' = Inr release"
    "in_order release release_order"
    using c(2) by (auto simp: validate_registry_workflows_def release_checks_def rbind_Inr_iff)
  have "in_order release (butlast release_order @ ''docker push'' # [])"
    using r(2) by (simp add: release_order_def)
  from in_order_before [OF this] have "\<forall>a b. release = a @ ''docker push'' @ b \<longrightarrow>
      (\<forall>m \<in> {''Validate Registry ownership on both release candidates'', ''enforce_vulnerability_policy.py'', ''docker login''}.
         \<exists>a' b'. release = a' @ m @ b' \<and> length a' < length a)"
    by (simp add: release_order_def)
  moreover have "\<exists>own pol login push. py_find release ''Validate Registry ownership on both release candidates'' = Some own \<and>
       py_find release ''enforce_vulnerability_policy.py'' = Some pol \<and> py_find release ''docker login'' = Some login \<and>
       py_find release ''docker push'' = Some push \<and> own < pol \<and> pol < login \<and> login < push"
    using r(2) by (auto simp: in_order_def release_order_def contains_def)
  moreover have "tag \<in> {None, Some (CHR ''v'' # version)}" using c(3) by (cases tag) auto
  moreover have "\<forall>i. img = Some i \<longrightarrow> py_strip (fst (snd (rf_inspect fs i))) = server_name"
    using c(4) by (auto simp: validate_image_label_def rbind_Inr_iff split: if_splits prod.splits)
  ultimately show ?thesis
    using s v(1,2) p(1,2) a r(1) by (intro exI [of _ server] exI [of _ version] exI [of _ package] exI [of _ args] exI [of _ release]) simp
qed

definition example_variable :: "string \<Rightarrow> pyval dict \<Rightarrow> pyval" where
  "example_variable name fs = PDict ((''name'', PStr name) # fs)"

definition example_package :: "pyval dict" where
  "example_package =
     [(''registryType'', PStr ''oci''), (''runtimeHint'', PStr ''docker''),
      (''identifier'', PStr (image_prefix @ ''1.0.0'')),
      (''transport'', PDict [(''type'', PStr ''streamable-http''), (''url'', PStr transport_url)]),
      (''runtimeArguments'', PList
         [PDict [(''name'', PStr ''--read-only''), (''type'', PStr ''named'')],
          argument_item ''--tmpfs'' ''/tmp:rw,noexec,nosuid,nodev,size=16m'', argument_item ''--cap-drop'' ''ALL'',
          argument_item ''--security-opt'' ''no-new-privileges:true'',
          argument_item ''--publish'' ''127.0.0.1:8000:8000'']),
      (''environmentVariables'', PList
         ([example_variable ''MCP_SERVER_RESOURCE_SERVER_URL'' [(''isRequired'', PBool True)],
           example_variable ''MCP_SERVER_AUTH_PROVIDER''
             [(''isRequired'', PBool True), (''choices'', PList [PStr ''entra'', PStr ''generic''])],
           example_variable ''MCP_SERVER_REQUIRED_SCOPES'' [(''default'', PStr ''[\"mcp:tools:call\"]'')],
           example_variable ''MCP_SERVER_TRANSPORT_ALLOWED_HOSTS'' [(''default'', PStr ''[\"127.0.0.1:8000\"]'')]] @
          map (\<lambda>(name, provider). example_variable name [(''description'', PStr (''AUTH_PROVIDER='' @ provider))])
            conditional_variables))]"

definition example_server :: "pyval dict" where
  "example_server =
     [(''$schema'', PStr schema_url), (''name'', PStr server_name), (''description'', PStr ''d''),
      (''version'', PStr ''1.0.0''),
      (''repository'', PDict [(''url'', PStr repository_url), (''source'', PStr ''github''), (''id'', PStr ''1327263126'')]),
      (''packages'', PList [PDict example_package])]"

definition example_installer :: "string list" where
  "example_installer =
     ''VERSION=\"1.8.1\"'' # ''modelcontextprotocol/registry/releases/download/v${VERSION}'' #
     map checksum_pin publisher_checksums"

definition example_release :: "string list" where
  "example_release = release_order @ [''validate_registry_metadata.py --release-tag \"$GITHUB_REF_NAME\"'']"

definition example_registry_fs :: registry_fs where
  "example_registry_fs =
     \<lparr>rf_json = (\<lambda>_. Document (PDict example_server)),
      rf_toml = (\<lambda>_. Document [(''project'', PDict [(''version'', PStr ''1.0.0'')])]),
      rf_text = (\<lambda>p.
        if p = ''Dockerfile'' then Document (mcp_label @ ''=\"'' @ server_name @ ''\"'')
        else if p = ''scripts/install_mcp_publisher.sh'' then Document (concat example_installer)
        else if p = ''.github/workflows/quality.yml''
        then Document ''bash scripts/install_mcp_publisher.sh mcp-publisher validate server.json --image mcp-server-auth-template:ci''
        else Document (concat example_release)),
      rf_docker = True, rf_inspect = (\<lambda>_. (0, server_name, []))\<rparr>"

lemma example_documents:
  "load_json example_registry_fs ''server.json'' = Inr example_server"
  "project_version example_registry_fs ''pyproject.toml'' = Inr ''1.0.0''"
  by (simp_all add: load_json_def project_version_def example_registry_fs_def)

lemma example_environment: "validate_environment example_package = Inr ()"
  by (simp add: validate_environment_def example_package_def example_variable_def named_item_def rbind_Inr_iff
      gate_require_def ensure_def conditional_variables_def conditional_checks_def variable_field_def)

lemma example_arguments: "validate_runtime_arguments example_package = Inr ()"
  by (simp add: validate_runtime_arguments_def example_package_def named_item_def argument_item_def
      expected_arguments_def argument_checks_def gate_require_def ensure_def insert_commute)

lemma example_server_checks: "\<forall>c \<in> set (server_checks example_server ''1.0.0''). c = Inr ()"
proof -
  have "is_semver ''1.0.0''"
    by (simp add: is_semver_def after_digits_def after_dot_def is_digit_def ord_of_def startswith_def semver_suffix_def)
  moreover have "\<not> contains (py_lower (image_prefix @ ''1.0.0'')) ''latest''"
    unfolding image_prefix_def by code_simp
  moreover have "map_of example_package k = None" if "k \<in> {''registryBaseUrl'', ''version'', ''fileSha256''}" for k
    using that by (auto simp: example_package_def)
  moreover have "transport_checks example_package = Inr ()"
    by (simp add: transport_checks_def example_package_def rbind_Inr_iff)
  moreover have "py_get example_package ''registryType'' = PStr ''oci''" "py_get example_package ''runtimeHint'' = PStr ''docker''"
    "py_get example_package ''identifier'' = PStr (image_prefix @ ''1.0.0'')"
    by (simp_all add: example_package_def)
  ultimately show ?thesis
    by (simp add: server_checks_def example_server_def validate_repository_metadata_def validate_package_def
        package_checks_def rbind_Inr_iff example_environment example_arguments)
qed

lemma contains_concat: "p \<in> set xs \<Longrightarrow> contains (concat xs) p"
  by (metis concat.simps(2) concat_append contains_iff split_list)

lemma example_texts:
  "validate_dockerfile example_registry_fs = Inr ()" "validate_publisher_installer example_registry_fs = Inr ()"
  "validate_registry_workflows example_registry_fs = Inr ()"
proof -
  have "label_match (mcp_label @ ''=\"'' @ server_name @ ''\"'')"
    by (simp add: label_match_def py_isspace_def ord_of_def quote_char_def)
  then have "search_text label_match (mcp_label @ ''=\"'' @ server_name @ ''\"'')"
    unfolding search_text_iff by (metis append_Nil)
  then show "validate_dockerfile example_registry_fs = Inr ()"
    by (simp add: validate_dockerfile_def read_text_def example_registry_fs_def)
  have "\<forall>c \<in> set (installer_checks (concat example_installer)). c = Inr ()"
    unfolding installer_checks_def
    by (auto intro!: contains_concat simp: example_installer_def simp del: concat.simps)
  then show "validate_publisher_installer example_registry_fs = Inr ()"
    by (simp add: validate_publisher_installer_def read_text_def example_registry_fs_def)
  have "contains (concat example_release) ''validate_registry_metadata.py --release-tag \"$GITHUB_REF_NAME\"''"
    "contains (concat example_release) ''Validate Registry ownership on both release candidates''"
    by (rule contains_concat, simp add: example_release_def release_order_def)+
  moreover have "in_order (concat example_release) release_order"
    unfolding example_release_def release_order_def in_order_eval by (simp add: startswith_eval)
  moreover have "\<forall>m \<in> {''bash scripts/install_mcp_publisher.sh'', ''mcp-publisher validate server.json'', ''--image mcp-server-auth-template:ci''}.
      contains ''bash scripts/install_mcp_publisher.sh mcp-publisher validate server.json --image mcp-server-auth-template:ci'' m"
    by (simp add: contains_def startswith_eval)
  ultimately show "validate_registry_workflows example_registry_fs = Inr ()"
    by (simp add: validate_registry_workflows_def quality_checks_def release_checks_def rbind_Inr_iff read_text_def example_registry_fs_def)
qed

lemma example_registry_passes:
  "registry_main example_registry_fs (Some ''v1.0.0'') (Some ''img'') = Inr (0, ''Registry metadata validation passed.'')"
proof -
  have "py_strip server_name = server_name" unfolding server_name_def by code_simp
  then have "validate_image_label example_registry_fs ''img'' = Inr ()"
    by (simp add: validate_image_label_def example_registry_fs_def rbind_Inr_iff)
  then have "validate_metadata example_registry_fs (Some ''v1.0.0'') (Some ''img'') = Inr ()"
    using example_server_checks example_texts by (auto simp: validate_metadata_def example_documents rbind_Inr_iff)
  then show ?thesis by (simp add: registry_main_def)
qed

theorem registry_metadata_sound_witness:
  "registry_main example_registry_fs (Some ''v1.0.0'') (Some ''img'') = Inr (0, ''Registry metadata validation passed.'') \<and>
   (\<exists>args. py_get example_package ''runtimeArguments'' = PList args \<and>
      (\<forall>entry \<in> set expected_arguments. hardened_argument args entry)) \<and>
   (\<exists>login push. py_find (concat example_release) ''docker login'' = Some login \<and>
      py_find (concat example_release) ''docker push'' = Some push \<and> login < push)"
proof -
  have t: "read_text example_registry_fs ''.github/workflows/release-artifacts.yml'' = Inr (concat example_release)"
    by (simp add: read_text_def example_registry_fs_def)
  have p: "py_get example_server ''packages'' = PList [PDict example_package]" by (simp add: example_server_def)
  from registry_metadata_sound [OF example_registry_passes] show ?thesis
    unfolding t example_documents by (elim exE conjE) (use p example_registry_passes in auto)
qed

section \<open>Workflows\<close>

text \<open>C29: What a workflow the supply-chain gate finds clean looks like, line by line. Each line written
  \<open>uses: reference\<close>, with or without a dash, at any indentation and wherever it stands, names a local
  action, a container by its SHA-256 digest, or an action by a full commit hash. No line \<open>permissions:\<close>
  carries a value on the line itself, \<open>write-all\<close> or \<open>read-all\<close> included, and every write permission among
  the entries the gate reads from the indented lines below it is on the allowlist of the job. One
  such line without indentation has \<open>contents: read\<close> among its entries. The gate reads lines, not YAML:
  a value that stands on a line of its own below \<open>permissions:\<close> is no entry and is not refused.\<close>

theorem clean_workflow_pinned:
  assumes "validate_workflow w (Document body) = Inr []"
  shows "(\<forall>line ref. line \<in> set (split_on newline body) \<longrightarrow> uses_line line ref \<longrightarrow> pinned_reference ref) \<and>
    (\<forall>i ind v. i < length (split_on newline body) \<longrightarrow> permission_header (split_on newline body ! i) = Some (ind, v) \<longrightarrow>
       py_strip v = [] \<and>
       (\<forall>name. map_of (permission_entries (splitlines body) i ind) name = Some ''write'' \<longrightarrow>
          name \<in> set (allowed_writes w (permission_job (splitlines body) i ind)))) \<and>
    (\<exists>i < length (split_on newline body). \<exists>v. permission_header (split_on newline body ! i) = Some (0, v) \<and>
       map_of (permission_entries (splitlines body) i 0) ''contents'' = Some ''read'')"
proof (intro conjI allI impI)
  from assms obtain refs where r: "rmap (reference_errors w (splitlines body)) (find_uses 0 body) = Inr refs" "concat refs = []"
    by (auto simp: validate_workflow_Nil)
  fix line ref assume "line \<in> set (split_on newline body)" "uses_line line ref"
  then show "pinned_reference ref" by (rule clean_references [OF r])
next
  from assms have b: "\<forall>b \<in> set (permission_blocks body). block_errors w (splitlines body) b = []"
    by (simp add: validate_workflow_Nil)
  fix i ind v assume "i < length (split_on newline body)" "permission_header (split_on newline body ! i) = Some (ind, v)"
  then have "(i, ind, v) \<in> set (permission_blocks body)" by (simp add: permission_blocks_iff)
  with b have e: "block_errors w (splitlines body) (i, ind, v) = []" by blast
  then show "py_strip v = []" by (simp add: block_errors_Nil)
  fix name assume "map_of (permission_entries (splitlines body) i ind) name = Some ''write''"
  with e show "name \<in> set (allowed_writes w (permission_job (splitlines body) i ind))" by (simp add: block_errors_Nil)
next
  from assms obtain i ind v where "find (\<lambda>(i, ind, v). ind = 0) (permission_blocks body) = Some (i, ind, v)"
    and c: "map_of (permission_entries (splitlines body) i 0) ''contents'' = Some ''read''"
    by (auto simp: validate_workflow_Nil top_level_errors_def split: option.splits if_splits)
  then have "(i, 0, v) \<in> set (permission_blocks body)" by (auto simp: find_Some_iff in_set_conv_nth)
  with c show "\<exists>i < length (split_on newline body). \<exists>v. permission_header (split_on newline body ! i) = Some (0, v) \<and>
      map_of (permission_entries (splitlines body) i 0) ''contents'' = Some ''read''"
    unfolding permission_blocks_iff by blast
qed

definition example_reference :: string where
  "example_reference = ''actions/checkout@aaaaaaaaaaaaaaaaaaaaaaaaaaaaaaaaaaaaaaaa''"

definition example_steps :: "string list" where
  "example_steps =
     [''permissions:'', ''  contents: read'', ''jobs:'', ''  - uses: '' @ example_reference, ''    persist-credentials: false'']"

lemma example_workflow_clean: "validate_workflow w (Document (join [newline] example_steps)) = Inr []"
proof -
  have s: "split_on newline (join [newline] example_steps) = example_steps"
    unfolding split_on_def
    by (rule split_by_join) (auto simp: example_steps_def example_reference_def newline_def)
  have "plain_lines (join [newline] example_steps)"
    by (simp add: plain_lines_def example_steps_def example_reference_def newline_def line_boundary_def ord_of_def)
  then have l: "splitlines (join [newline] example_steps) = example_steps"
    by (simp add: splitlines_plain s [unfolded newline_def] newline_def) (simp add: example_steps_def)
  have h: "permission_header ''permissions:'' = Some (0, [])" "permission_header ''  contents: read'' = None"
    "permission_header ''jobs:'' = None" "permission_header (''  - uses: '' @ example_reference) = None"
    "permission_header ''    persist-credentials: false'' = None"
    by (simp_all add: permission_header_def indent_of_def startswith_eval numeral_eq_Suc)
  have b: "permission_blocks (join [newline] example_steps) = [(0, 0, [])]"
    unfolding permission_blocks_def s
    by (simp add: example_steps_def h h(4) [unfolded append_Cons append_Nil] List.map_filter_def)
  have strips: "py_strip ''  contents: read'' = ''contents: read''" "py_strip ''jobs:'' = ''jobs:''" "py_strip [] = []"
    "py_strip ''    persist-credentials: false'' = ''persist-credentials: false''"
    by (simp_all add: py_strip_def py_lstrip_by_def py_rstrip_by_def py_isspace_def ord_of_def)
  have "permission_entry (before_comment ''contents: read'') = Some (''contents'', ''read'')"
    by (simp add: permission_entry_def before_comment_def startswith_eval py_strip_def py_lstrip_by_def py_rstrip_by_def
        py_isspace_def ord_of_def)
  then have e: "permission_entries example_steps 0 0 = [(''contents'', ''read'')]"
    by (simp add: permission_entries_def example_steps_def ignorable_def strips startswith_eval indent_of_def)
  have u: "find_uses 0 (join [newline] example_steps) = [(4, example_reference)]"
    by (simp add: find_uses.simps match_uses_def after_dash_def example_steps_def example_reference_def after_newline_def
        newline_def py_isspace_def reference_char_def ord_of_def startswith_eval)
  have "rpartition_on CHR ''@'' example_reference = (''actions/checkout'', True, replicate 40 CHR ''a'')"
    by (simp add: rpartition_on_def example_reference_def numeral_eq_Suc)
  moreover have "full_commit_sha (replicate 40 CHR ''a'')"
    by (simp add: full_commit_sha_def hex_text_def is_hex_def list_all_iff ord_of_def)
  moreover have "checkout_discards_credentials example_steps 3 = Inr True"
    by (simp add: checkout_discards_credentials_def example_steps_def indent_of_def ignorable_def strips startswith_eval before_comment_def)
  ultimately have "reference_errors w example_steps (4, example_reference) = Inr []"
    by (simp add: reference_errors_def Let_def) (simp add: example_reference_def startswith_eval)
  then show ?thesis
    by (simp add: validate_workflow_Nil b e l u top_level_errors_def block_errors_Nil strips)
qed

theorem clean_workflow_pinned_witness:
  "validate_workflow ''w.yml'' (Document (join [newline] example_steps)) = Inr [] \<and>
   uses_line (''  - uses: '' @ example_reference) example_reference \<and> pinned_reference example_reference"
proof -
  have "split_on newline (join [newline] example_steps) = example_steps"
    unfolding split_on_def
    by (rule split_by_join) (auto simp: example_steps_def example_reference_def newline_def)
  moreover have u: "uses_line (''  - uses: '' @ example_reference) example_reference"
    unfolding uses_line_def
    by (rule exI [of _ 2], rule exI [of _ "''- ''"], rule exI [of _ "[]"])
      (simp add: numeral_eq_Suc example_reference_def reference_char_def py_isspace_def ord_of_def)
  ultimately have "pinned_reference example_reference"
    using clean_workflow_pinned [OF example_workflow_clean, of "''w.yml''"] by (auto simp: example_steps_def)
  with u example_workflow_clean show ?thesis by blast
qed

text \<open>
  What the gate does not see: a job whose permissions are the aggregate \<open>write-all\<close>, written on the line
  below the header.
\<close>

definition aggregate_steps :: "string list" where
  "aggregate_steps =
     [''permissions:'', ''  contents: read'', ''jobs:'', ''  build:'', ''    permissions:'', ''      write-all'']"

lemma next_line_value_accepted: "validate_workflow w (Document (join [newline] aggregate_steps)) = Inr []"
proof -
  have s: "split_on newline (join [newline] aggregate_steps) = aggregate_steps"
    unfolding split_on_def by (rule split_by_join) (auto simp: aggregate_steps_def newline_def)
  have "plain_lines (join [newline] aggregate_steps)"
    by (simp add: plain_lines_def aggregate_steps_def newline_def line_boundary_def ord_of_def)
  then have l: "splitlines (join [newline] aggregate_steps) = aggregate_steps"
    by (simp add: splitlines_plain s [unfolded newline_def] newline_def) (simp add: aggregate_steps_def)
  have h: "permission_header ''permissions:'' = Some (0, [])" "permission_header ''  contents: read'' = None"
    "permission_header ''jobs:'' = None" "permission_header ''  build:'' = None"
    "permission_header ''    permissions:'' = Some (4, [])" "permission_header ''      write-all'' = None"
    by (simp_all add: permission_header_def indent_of_def startswith_eval numeral_eq_Suc)
  have b: "permission_blocks (join [newline] aggregate_steps) = [(0, 0, []), (4, 4, [])]"
    unfolding permission_blocks_def s by (simp add: aggregate_steps_def h List.map_filter_def)
  have strips: "py_strip ''  contents: read'' = ''contents: read''" "py_strip ''jobs:'' = ''jobs:''" "py_strip [] = []"
    "py_strip ''      write-all'' = ''write-all''"
    by (simp_all add: py_strip_def py_lstrip_by_def py_rstrip_by_def py_isspace_def ord_of_def)
  have "permission_entry (before_comment ''contents: read'') = Some (''contents'', ''read'')"
    "permission_entry (before_comment ''write-all'') = None"
    by (simp_all add: permission_entry_def before_comment_def startswith_eval py_strip_def py_lstrip_by_def py_rstrip_by_def
        py_isspace_def ord_of_def)
  then have e: "permission_entries aggregate_steps 0 0 = [(''contents'', ''read'')]"
    "permission_entries aggregate_steps 4 4 = []"
    by (simp_all add: permission_entries_def aggregate_steps_def ignorable_def strips startswith_eval indent_of_def)
  have u: "find_uses 0 (join [newline] aggregate_steps) = []"
    by (simp add: find_uses.simps match_uses_def after_dash_def aggregate_steps_def after_newline_def
        newline_def py_isspace_def ord_of_def startswith_eval)
  show ?thesis
    by (simp add: validate_workflow_Nil b e l u top_level_errors_def block_errors_Nil strips)
qed

end
