(* ===== verification/Release_Artifacts.thy ===== *)
theory Release_Artifacts
  imports Python_Json "HOL-Library.Word"
begin

text \<open>
  \<open>scripts/prepare_release_artifacts.py\<close>: the checks of a wheel and of a source archive, the comparison
  of two builds, and the checksum manifest. The archive formats, the header parser and SHA-256 are a
  parameter, the record \<open>archive_lib\<close>; a directory is the list of its entries.
\<close>

unbundle bit_operations_syntax

record zip_member =
  zm_filename :: string
  zm_external_attr :: "32 word"
  zm_file_size :: nat
  zm_content :: "bytes document"

datatype tar_kind = TarFile | TarDirectory | TarSymlink | TarHardLink | TarSpecial

record tar_member =
  tm_name :: string
  tm_kind :: tar_kind
  tm_size :: nat
  tm_content :: "bytes document"

record archive_lib =
  al_zip :: "bytes \<Rightarrow> zip_member list document"
  al_tar :: "bytes \<Rightarrow> tar_member list document"
  al_header :: "bytes \<Rightarrow> string \<Rightarrow> string option"
  al_sha256 :: "bytes \<Rightarrow> string"

text \<open>A directory entry: its path, whether it is a link or a regular file, its bytes and its size.\<close>

record entry =
  en_path :: string
  en_name :: string
  en_is_symlink :: bool
  en_is_file :: bool
  en_bytes :: "bytes document"
  en_size :: "nat document"

record project_identity =
  pi_name :: string
  pi_module :: string
  pi_version :: string

definition allowed_root_files :: "string list" where
  "allowed_root_files =
     [''.gitignore'', ''CHANGELOG.md'', ''LICENSE'', ''PKG-INFO'', ''README.md'', ''README.pt-BR.md'', ''pyproject.toml'']"

definition max_archive_members :: nat where
  "max_archive_members = 10000"

definition max_metadata_bytes :: nat where
  "max_metadata_bytes = 1024 * 1024"

definition stripped_field :: "pyval dict \<Rightarrow> string \<Rightarrow> string \<Rightarrow> string result" where
  "stripped_field d field context =
     (case as_str (py_get d field) of
        None \<Rightarrow> Inl (GateError (context @ '': '' @ field @ '' must be a non-empty string''))
      | Some s \<Rightarrow>
          if py_strip s = [] then Inl (GateError (context @ '': '' @ field @ '' must be a non-empty string''))
          else Inr (py_strip s))"

definition is_module :: "string \<Rightarrow> bool" where
  "is_module s =
     (case s of
        [] \<Rightarrow> False
      | c # cs \<Rightarrow>
          97 \<le> ord_of c \<and> ord_of c \<le> 122 \<and>
          list_all (\<lambda>x. 97 \<le> ord_of x \<and> ord_of x \<le> 122 \<or> is_digit x \<or> x = CHR ''_'') cs)"

definition load_project_identity :: "pyval dict document \<Rightarrow> string \<Rightarrow> project_identity result" where
  "load_project_identity project_file path =
     (case project_file of
        NoFile e \<Rightarrow> Inl (GateError (path @ '': invalid project metadata: '' @ e))
      | BadSyntax e \<Rightarrow> Inl (GateError (path @ '': invalid project metadata: '' @ e))
      | BadEncoding \<Rightarrow> Inl undecodable
      | Document document \<Rightarrow>
          (case as_dict (py_get document ''project'') of
             None \<Rightarrow> Inl (GateError (path @ '': project table is required''))
           | Some project \<Rightarrow>
               rbind (stripped_field project ''name'' path) (\<lambda>name.
               rbind (stripped_field project ''version'' path) (\<lambda>version.
               rbind (gate_require (is_module (safe_module name)) (path @ '': project name cannot map to a safe module path'')) (\<lambda>_.
                 Inr \<lparr>pi_name = name, pi_module = safe_module name, pi_version = version\<rparr>)))))"

definition opt_value :: "string option \<Rightarrow> pyval" where
  "opt_value v = (case v of None \<Rightarrow> PNone | Some s \<Rightarrow> PStr s)"

definition validate_metadata_file ::
    "(pyval \<Rightarrow> string) \<Rightarrow> archive_lib \<Rightarrow> bytes \<Rightarrow> project_identity \<Rightarrow> string \<Rightarrow> unit result" where
  "validate_metadata_file R lib raw i context =
     checks
       [gate_require (case al_header lib raw ''Name'' of
                        None \<Rightarrow> False | Some name \<Rightarrow> normalized_name name = normalized_name (pi_name i))
          (context @ '': package Name does not match '' @ R (PStr (pi_name i))),
        gate_require (al_header lib raw ''Version'' = Some (pi_version i))
          (context @ '': package Version must be '' @ R (PStr (pi_version i)) @ '', got '' @
           R (opt_value (al_header lib raw ''Version'')))]"

definition safe_parts :: "(pyval \<Rightarrow> string) \<Rightarrow> string \<Rightarrow> string \<Rightarrow> string list result" where
  "safe_parts R name context =
     (let clean = (if endswith name ''/'' then butlast name else name);
          parts = split_on CHR ''/'' clean
      in if clean = [] \<or> startswith clean ''/'' \<or> CHR 0x5C \<in> set clean \<or>
            list_ex (\<lambda>p. p \<in> {[], ''.'', ''..''}) parts
         then Inl (GateError (context @ '': unsafe archive path '' @ R (PStr name)))
         else Inr parts)"

section \<open>The wheel\<close>

definition wheel_name :: "project_identity \<Rightarrow> string" where
  "wheel_name i = pi_module i @ ''-'' @ pi_version i @ ''-py3-none-any.whl''"

definition sdist_name :: "project_identity \<Rightarrow> string" where
  "sdist_name i = pi_module i @ ''-'' @ pi_version i @ ''.tar.gz''"

definition dist_info :: "project_identity \<Rightarrow> string" where
  "dist_info i = pi_module i @ ''-'' @ pi_version i @ ''.dist-info''"

definition is_link_attr :: "32 word \<Rightarrow> bool" where
  "is_link_attr a \<longleftrightarrow> drop_bit 16 a AND 0xF000 = 0xA000"

text \<open>Reading a member: an \<open>OSError\<close> or a bad archive is reported, another exception is not caught.\<close>

definition read_member :: "string \<Rightarrow> string \<Rightarrow> 'a document \<Rightarrow> 'a result" where
  "read_member path what d =
     (case d of
        Document b \<Rightarrow> Inr b
      | NoFile e \<Rightarrow> Inl (GateError (path @ '': invalid '' @ what @ '' archive: '' @ e))
      | BadSyntax e \<Rightarrow> Inl (GateError (path @ '': invalid '' @ what @ '' archive: '' @ e))
      | BadEncoding \<Rightarrow> Inl (OtherExn ''RuntimeError''))"

fun check_wheel_members ::
    "(pyval \<Rightarrow> string) \<Rightarrow> string \<Rightarrow> project_identity \<Rightarrow> zip_member list \<Rightarrow> string list \<Rightarrow> bytes option \<Rightarrow>
     (string list \<times> bytes option) result" where
  "check_wheel_members R path i [] seen meta = Inr (seen, meta)"
| "check_wheel_members R path i (m # ms) seen meta =
     rbind (safe_parts R (zm_filename m) path) (\<lambda>parts.
     let normalized = join ''/'' parts in
     rbind (checks
       [gate_require (normalized \<notin> set seen) (path @ '': duplicate wheel member '' @ R (PStr normalized)),
        gate_require (\<not> is_link_attr (zm_external_attr m)) (path @ '': symbolic links are not allowed''),
        gate_require (parts ! 0 \<in> {pi_module i, dist_info i})
          (path @ '': unexpected wheel content '' @ R (PStr (zm_filename m)))]) (\<lambda>_.
     rbind (if normalized = dist_info i @ ''/METADATA''
            then (if max_metadata_bytes < zm_file_size m then Inl (GateError (path @ '': wheel METADATA is too large''))
                  else rbind (read_member path ''wheel'' (zm_content m)) (\<lambda>b. Inr (Some b)))
            else Inr meta) (\<lambda>meta'.
       check_wheel_members R path i ms (normalized # seen) meta')))"

definition file_bytes :: "string \<Rightarrow> string \<Rightarrow> entry \<Rightarrow> bytes result" where
  "file_bytes path what e = read_member path what (en_bytes e)"

definition validate_wheel ::
    "(pyval \<Rightarrow> string) \<Rightarrow> archive_lib \<Rightarrow> entry \<Rightarrow> project_identity \<Rightarrow> unit result" where
  "validate_wheel R lib e i =
     (let path = en_path e in
      rbind (gate_require (en_name e = wheel_name i) (path @ '': wheel filename must be '' @ wheel_name i)) (\<lambda>_.
      rbind (file_bytes path ''wheel'' e) (\<lambda>raw.
      rbind (read_member path ''wheel'' (al_zip lib raw)) (\<lambda>members.
      rbind (gate_require (length members \<le> max_archive_members) (path @ '': wheel has too many members'')) (\<lambda>_.
      rbind (check_wheel_members R path i members [] None) (\<lambda>(seen, meta).
        (case meta of
           None \<Rightarrow> Inl (GateError (path @ '': wheel METADATA is missing''))
         | Some b \<Rightarrow>
             rbind (gate_require (list_ex (\<lambda>n. startswith n (pi_module i @ ''/'')) seen)
                      (path @ '': wheel package content is missing'')) (\<lambda>_.
               validate_metadata_file R lib b i (dist_info i @ ''/METADATA'')))))))))"

section \<open>The source archive\<close>

record sdist_scan =
  ss_seen :: "string list"
  ss_root_files :: "string list"
  ss_source_seen :: bool
  ss_metadata :: "bytes option"

definition sdist_content ::
    "(pyval \<Rightarrow> string) \<Rightarrow> string \<Rightarrow> project_identity \<Rightarrow> tar_member \<Rightarrow> string list \<Rightarrow> sdist_scan \<Rightarrow> sdist_scan result" where
  "sdist_content R path i m relative scan =
     (case relative of
        [f] \<Rightarrow>
          if f \<in> set allowed_root_files then Inr (scan\<lparr>ss_root_files := f # ss_root_files scan\<rparr>)
          else Inl (GateError (path @ '': unexpected sdist content '' @ R (PStr f)))
      | _ \<Rightarrow>
          if take 2 relative = [''src'', pi_module i]
          then Inr (scan\<lparr>ss_source_seen := ss_source_seen scan \<or> tm_kind m = TarFile\<rparr>)
          else Inl (GateError (path @ '': unexpected sdist content '' @ R (PStr (join ''/'' relative)))))"

definition sdist_metadata ::
    "string \<Rightarrow> tar_member \<Rightarrow> string list \<Rightarrow> bytes option \<Rightarrow> bytes option result" where
  "sdist_metadata path m relative meta =
     (if relative \<noteq> [''PKG-INFO''] then Inr meta
      else if max_metadata_bytes < tm_size m then Inl (GateError (path @ '': PKG-INFO is too large''))
      else if tm_kind m \<noteq> TarFile then Inl (GateError (path @ '': could not read PKG-INFO''))
      else rbind (read_member path ''sdist'' (tm_content m)) (\<lambda>b. Inr (Some b)))"

definition check_sdist_member ::
    "(pyval \<Rightarrow> string) \<Rightarrow> string \<Rightarrow> project_identity \<Rightarrow> tar_member \<Rightarrow> sdist_scan \<Rightarrow> sdist_scan result" where
  "check_sdist_member R path i m scan =
     rbind (safe_parts R (tm_name m) path) (\<lambda>parts.
     let normalized = join ''/'' parts; relative = tl parts in
     rbind (checks
       [gate_require (normalized \<notin> set (ss_seen scan)) (path @ '': duplicate sdist member '' @ R (PStr normalized)),
        gate_require (tm_kind m \<in> {TarFile, TarDirectory}) (path @ '': only regular files/directories are allowed''),
        gate_require (parts ! 0 = pi_module i @ ''-'' @ pi_version i)
          (path @ '': unexpected archive root '' @ R (PStr (parts ! 0)))]) (\<lambda>_.
     let scan' = scan\<lparr>ss_seen := normalized # ss_seen scan\<rparr> in
     if relative = [] then Inr scan'
     else rbind (sdist_content R path i m relative scan') (\<lambda>scan''.
          rbind (sdist_metadata path m relative (ss_metadata scan'')) (\<lambda>meta.
            Inr (scan''\<lparr>ss_metadata := meta\<rparr>)))))"

fun check_sdist_members ::
    "(pyval \<Rightarrow> string) \<Rightarrow> string \<Rightarrow> project_identity \<Rightarrow> tar_member list \<Rightarrow> sdist_scan \<Rightarrow> sdist_scan result" where
  "check_sdist_members R path i [] scan = Inr scan"
| "check_sdist_members R path i (m # ms) scan =
     rbind (check_sdist_member R path i m scan) (check_sdist_members R path i ms)"

definition empty_scan :: sdist_scan where
  "empty_scan = \<lparr>ss_seen = [], ss_root_files = [], ss_source_seen = False, ss_metadata = None\<rparr>"

definition str_list :: "string list \<Rightarrow> pyval" where
  "str_list ss = PList (map PStr ss)"

definition validate_sdist ::
    "(pyval \<Rightarrow> string) \<Rightarrow> archive_lib \<Rightarrow> entry \<Rightarrow> project_identity \<Rightarrow> unit result" where
  "validate_sdist R lib e i =
     (let path = en_path e in
      rbind (gate_require (en_name e = sdist_name i) (path @ '': sdist filename must be '' @ sdist_name i)) (\<lambda>_.
      rbind (file_bytes path ''sdist'' e) (\<lambda>raw.
      rbind (read_member path ''sdist'' (al_tar lib raw)) (\<lambda>members.
      rbind (gate_require (length members \<le> max_archive_members) (path @ '': sdist has too many members'')) (\<lambda>_.
      rbind (check_sdist_members R path i members empty_scan) (\<lambda>scan.
      let missing = filter (\<lambda>f. f \<notin> set (ss_root_files scan)) allowed_root_files in
      rbind (checks
        [gate_require (missing = []) (path @ '': required sdist files are missing: '' @ R (str_list (sort missing))),
         gate_require (ss_source_seen scan) (path @ '': sdist package source is missing'')]) (\<lambda>_.
        (case ss_metadata scan of
           None \<Rightarrow> Inl (GateError (path @ '': PKG-INFO is missing''))
         | Some b \<Rightarrow> validate_metadata_file R lib b i ''PKG-INFO''))))))))"


section \<open>Two builds, one set\<close>

text \<open>A directory: its path and what \<open>iterdir\<close> yields.\<close>

record directory =
  dr_path :: string
  dr_entries :: "entry list document"

text \<open>A file that is read outside every handler.\<close>

definition raw_bytes :: "entry \<Rightarrow> bytes result" where
  "raw_bytes e = (case en_bytes e of Document b \<Rightarrow> Inr b | _ \<Rightarrow> Inl (OtherExn ''OSError''))"

definition sha256_of :: "archive_lib \<Rightarrow> entry \<Rightarrow> string result" where
  "sha256_of lib e = rbind (raw_bytes e) (\<lambda>b. Inr (al_sha256 lib b))"

definition named :: "string \<Rightarrow> entry list \<Rightarrow> entry option" where
  "named n es = find (\<lambda>e. en_name e = n) es"

text \<open>\<open>sentinel.read_text(encoding="ascii")\<close> and the comparison with \<open>*\<close>.\<close>

definition check_sentinel :: "entry option \<Rightarrow> unit result" where
  "check_sentinel sentinel =
     (case sentinel of
        None \<Rightarrow> Inr ()
      | Some e \<Rightarrow>
          (case en_bytes e of
             Document b \<Rightarrow>
               if is_ascii b then gate_require (b = ''*'') (en_path e @ '': unexpected uv sentinel content'')
               else Inl undecodable
           | NoFile m \<Rightarrow> Inl (GateError (en_path e @ '': could not read uv sentinel: '' @ m))
           | _ \<Rightarrow> Inl undecodable))"

definition listing :: "string \<Rightarrow> directory \<Rightarrow> entry list result" where
  "listing what d =
     (case dr_entries d of
        Document es \<Rightarrow> Inr (sort_key en_name es)
      | NoFile e \<Rightarrow> Inl (GateError (dr_path d @ '': could not read '' @ what @ '': '' @ e))
      | _ \<Rightarrow> Inl (OtherExn ''UnicodeError''))"

definition artifact_paths ::
    "(pyval \<Rightarrow> string) \<Rightarrow> directory \<Rightarrow> project_identity \<Rightarrow> entry list result" where
  "artifact_paths R d i =
     rbind (listing ''build directory'' d) (\<lambda>all_paths.
     rbind (gate_require (\<not> list_ex en_is_symlink all_paths) (dr_path d @ '': artifact symlinks are not allowed'')) (\<lambda>_.
     rbind (check_sentinel (named ''.gitignore'' all_paths)) (\<lambda>_.
     let rest = filter (\<lambda>e. en_name e \<noteq> ''.gitignore'') all_paths;
         paths = filter en_is_file rest;
         non_files = map en_name (filter (\<lambda>e. \<not> en_is_file e) rest);
         expected = [wheel_name i, sdist_name i] in
     rbind (checks
       [gate_require (non_files = []) (dr_path d @ '': unexpected build entries: '' @ R (str_list non_files)),
        gate_require (set (map en_name paths) = set expected)
          (dr_path d @ '': expected exactly '' @ R (str_list (sorted_set expected)) @ '', got '' @
           R (str_list (sorted_set (map en_name paths))))]) (\<lambda>_.
       Inr paths))))"

definition validate_artifacts ::
    "(pyval \<Rightarrow> string) \<Rightarrow> archive_lib \<Rightarrow> project_identity \<Rightarrow> entry list \<Rightarrow> unit result" where
  "validate_artifacts R lib i es =
     (case (named (wheel_name i) es, named (sdist_name i) es) of
        (Some w, Some s) \<Rightarrow> rbind (validate_wheel R lib w i) (\<lambda>_. validate_sdist R lib s i)
      | _ \<Rightarrow> Inl (OtherExn ''KeyError''))"

definition same_digest ::
    "archive_lib \<Rightarrow> entry list \<Rightarrow> entry \<Rightarrow> (string \<times> string) result" where
  "same_digest lib second e =
     rbind (sha256_of lib e) (\<lambda>d1.
     (case named (en_name e) second of
        None \<Rightarrow> Inl (OtherExn ''KeyError'')
      | Some f \<Rightarrow>
          rbind (sha256_of lib f) (\<lambda>d2.
          if d1 \<noteq> d2 then Inl (GateError (en_name e @ '': repeated builds are not byte-for-byte reproducible''))
          else Inr (en_name e, d1))))"

text \<open>A line of a checksum manifest, and the manifest of a list of digests by name.\<close>

definition checksum_line :: "string \<times> string \<Rightarrow> string" where
  "checksum_line nd = snd nd @ ''  '' @ fst nd @ [CHR 0x0A]"

definition checksum_text :: "string dict \<Rightarrow> string" where
  "checksum_text digests = concat (map checksum_line digests)"

definition write_ascii :: "string \<Rightarrow> bytes result" where
  "write_ascii t = (if is_ascii t then Inr t else Inl (OtherExn ''UnicodeEncodeError''))"

definition copy_entry :: "entry \<Rightarrow> (string \<times> bytes) result" where
  "copy_entry e = rbind (raw_bytes e) (\<lambda>b. Inr (en_name e, b))"

text \<open>The result of a run: the value it prints and the files it leaves in the output directory.\<close>

definition prepare_release_artifacts ::
    "(pyval \<Rightarrow> string) \<Rightarrow> archive_lib \<Rightarrow> string \<Rightarrow> pyval dict document \<Rightarrow> directory \<Rightarrow> directory \<Rightarrow> directory \<Rightarrow>
     string \<Rightarrow> (pyval dict \<times> bytes dict) result" where
  "prepare_release_artifacts R lib path project_file first_build second_build output tag =
     rbind (load_project_identity project_file path) (\<lambda>i.
     rbind (gate_require (tag = CHR ''v'' # pi_version i)
              (''release tag must be '' @ R (PStr (CHR ''v'' # pi_version i)) @ '', got '' @ R (PStr tag))) (\<lambda>_.
     rbind (artifact_paths R first_build i) (\<lambda>first.
     rbind (artifact_paths R second_build i) (\<lambda>second.
     rbind (validate_artifacts R lib i first) (\<lambda>_.
     rbind (validate_artifacts R lib i second) (\<lambda>_.
     rbind (rmap (same_digest lib second) first) (\<lambda>digests.
     rbind (case dr_entries output of
              Document es \<Rightarrow> gate_require (es = []) (dr_path output @ '': output directory must be empty'')
            | _ \<Rightarrow> Inl (OtherExn ''OSError'')) (\<lambda>_.
     rbind (rmap copy_entry first) (\<lambda>copies.
     rbind (write_ascii (checksum_text digests)) (\<lambda>manifest.
       Inr ([(''artifact_count'', PInt (int (length digests))),
             (''digests'', PDict (map (\<lambda>(n, d). (n, PStr d)) digests)),
             (''project'', PStr (pi_name i)), (''status'', PStr ''passed''), (''tag'', PStr tag),
             (''version'', PStr (pi_version i))],
            copies @ [(''SHA256SUMS'', manifest)])))))))))))"

definition artifacts_main ::
    "(pyval \<Rightarrow> string) \<Rightarrow> (rat \<Rightarrow> string) \<Rightarrow> (pyval dict \<times> bytes dict) result \<Rightarrow> (int \<times> string \<times> bytes dict) result" where
  "artifacts_main R fr outcome =
     (case outcome of
        Inl (GateError m) \<Rightarrow> Inr (1, ''Release artifact validation failed: '' @ m, [])
      | Inl e \<Rightarrow> Inl e
      | Inr (result, files) \<Rightarrow> Inr (0, dumps_indented fr (PDict result), files))"

section \<open>Where the members of an accepted archive are extracted\<close>

text \<open>
  How a file system follows a path: empty components and \<open>.\<close> stay, \<open>..\<close> goes up, an absolute name
  starts at the root.
\<close>

fun follow :: "string list \<Rightarrow> string list \<Rightarrow> string list" where
  "follow dir [] = dir"
| "follow dir (p # ps) =
     follow (if p = [] \<or> p = ''.'' then dir else if p = ''..'' then butlast dir else dir @ [p]) ps"

definition extract_to :: "string list \<Rightarrow> string \<Rightarrow> string list" where
  "extract_to base name = follow (if startswith name ''/'' then [] else base) (split_on CHR ''/'' name)"

lemma follow_plain: "list_all (\<lambda>p. p \<notin> {[], ''.'', ''..''}) ps \<Longrightarrow> follow dir ps = dir @ ps"
  by (induction ps arbitrary: dir) auto

lemma follow_append: "follow dir (ps @ qs) = follow (follow dir ps) qs"
  by (induction ps arbitrary: dir) auto

lemma endswith_snoc: "endswith s [c] \<longleftrightarrow> (\<exists>t. s = t @ [c])"
  by (cases s rule: rev_cases) (auto simp: endswith_def)

lemma startswith_one: "startswith s [c] \<longleftrightarrow> (\<exists>t. s = c # t)"
  by (cases s) (auto simp: startswith_def)

lemma safe_parts_Inr:
  assumes "safe_parts R name context = Inr parts"
  shows "parts \<noteq> []" "list_all (\<lambda>p. p \<notin> {[], ''.'', ''..''}) parts" "extract_to base name = base @ parts"
proof -
  define clean where "clean = (if endswith name ''/'' then butlast name else name)"
  have a: "parts = split_on CHR ''/'' clean" "clean \<noteq> []" "\<not> startswith clean ''/''"
    "list_all (\<lambda>p. p \<notin> {[], ''.'', ''..''}) parts"
    using assms by (auto simp: safe_parts_def clean_def Let_def list_all_iff list_ex_iff split: if_splits)
  then show "parts \<noteq> []" "list_all (\<lambda>p. p \<notin> {[], ''.'', ''..''}) parts" by (simp_all add: split_on_def)
  have n: "name = clean \<or> name = clean @ ''/''"
    by (auto simp: clean_def endswith_snoc)
  then have "split_on CHR ''/'' name = parts \<or> split_on CHR ''/'' name = parts @ [[]]"
    using split_by_append [of "\<lambda>x. x = CHR ''/''" "CHR ''/''" clean "[]"] by (auto simp: a(1) split_on_def)
  moreover have "\<not> startswith name ''/''"
    using n a(2,3) by (cases clean) (auto simp: startswith_one)
  ultimately show "extract_to base name = base @ parts"
    using follow_plain [OF a(4)] by (auto simp: extract_to_def follow_append)
qed

lemma safe_parts_injective:
  assumes "safe_parts R m c = Inr ps" and "safe_parts R n c = Inr qs" and "join ''/'' ps \<noteq> join ''/'' qs"
  shows "extract_to base m \<noteq> extract_to base n"
  using assms safe_parts_Inr(3) [of R m c ps base] safe_parts_Inr(3) [of R n c qs base] by auto


definition confined :: "string list \<Rightarrow> string list \<Rightarrow> bool" where
  "confined roots names \<longleftrightarrow>
     (\<forall>base. distinct (map (extract_to base) names) \<and>
        (\<forall>n \<in> set names. \<exists>r rest. r \<in> set roots \<and> extract_to base n = base @ r # rest))"

lemma confinedI:
  assumes "list_all2 (\<lambda>n ps. safe_parts R n c = Inr ps \<and> ps ! 0 \<in> set roots) names pss"
    and "distinct (map (join ''/'') pss)"
  shows "confined roots names"
proof -
  have e: "map (extract_to base) names = map (\<lambda>ps. base @ ps) pss" for base
    using assms(1) by (induction rule: list_all2_induct) (auto simp: safe_parts_Inr(3))
  have "inj_on (\<lambda>ps. base @ ps) (set pss)" for base :: "string list" by (simp add: inj_on_def)
  moreover have "distinct pss" using assms(2) by (simp add: distinct_map)
  moreover have "\<exists>r rest. r \<in> set roots \<and> extract_to base n = base @ r # rest" if "n \<in> set names" for base n
  proof -
    from list_all2_member [OF assms(1) that] obtain ps where p: "safe_parts R n c = Inr ps" "ps ! 0 \<in> set roots" by blast
    then obtain r rest where "ps = r # rest" using safe_parts_Inr(1) [OF p(1)] by (cases ps) auto
    with p safe_parts_Inr(3) [OF p(1), of base] show ?thesis by auto
  qed
  ultimately show ?thesis unfolding confined_def by (metis distinct_map e)
qed

lemma wheel_members_checked:
  assumes "check_wheel_members R path i ms seen meta = Inr (seen', meta')"
  shows "\<exists>pss. list_all2 (\<lambda>m ps. safe_parts R (zm_filename m) path = Inr ps \<and>
             ps ! 0 \<in> {pi_module i, dist_info i} \<and> \<not> is_link_attr (zm_external_attr m)) ms pss \<and>
           seen' = rev (map (join ''/'') pss) @ seen \<and> (distinct seen \<longrightarrow> distinct seen')"
  using assms
proof (induction ms arbitrary: seen meta)
  case (Cons m ms)
  from Cons.prems obtain ps meta1 where p: "safe_parts R (zm_filename m) path = Inr ps" "join ''/'' ps \<notin> set seen"
      "\<not> is_link_attr (zm_external_attr m)" "ps ! 0 \<in> {pi_module i, dist_info i}"
      "check_wheel_members R path i ms (join ''/'' ps # seen) meta1 = Inr (seen', meta')"
    by (auto simp: rbind_Inr_iff Let_def)
  from Cons.IH [OF p(5)] obtain pss where
    "list_all2 (\<lambda>m ps. safe_parts R (zm_filename m) path = Inr ps \<and>
             ps ! 0 \<in> {pi_module i, dist_info i} \<and> \<not> is_link_attr (zm_external_attr m)) ms pss"
    "seen' = rev (map (join ''/'') pss) @ join ''/'' ps # seen" "distinct (join ''/'' ps # seen) \<longrightarrow> distinct seen'"
    by blast
  with p show ?case by (intro exI [of _ "ps # pss"]) auto
qed simp

lemma sdist_member_checked:
  assumes "check_sdist_member R path i m scan = Inr scan'"
  shows "\<exists>ps. safe_parts R (tm_name m) path = Inr ps \<and> ps ! 0 = pi_module i @ ''-'' @ pi_version i \<and>
           tm_kind m \<in> {TarFile, TarDirectory} \<and> join ''/'' ps \<notin> set (ss_seen scan) \<and>
           ss_seen scan' = join ''/'' ps # ss_seen scan"
  using assms
  by (auto simp: check_sdist_member_def sdist_content_def rbind_Inr_iff Let_def split: if_splits list.splits)

lemma sdist_members_checked:
  assumes "check_sdist_members R path i ms scan = Inr scan'"
  shows "\<exists>pss. list_all2 (\<lambda>m ps. safe_parts R (tm_name m) path = Inr ps \<and>
             ps ! 0 = pi_module i @ ''-'' @ pi_version i \<and> tm_kind m \<in> {TarFile, TarDirectory}) ms pss \<and>
           ss_seen scan' = rev (map (join ''/'') pss) @ ss_seen scan \<and>
           (distinct (ss_seen scan) \<longrightarrow> distinct (ss_seen scan'))"
  using assms
proof (induction ms arbitrary: scan)
  case (Cons m ms)
  then obtain scan1 where s: "check_sdist_member R path i m scan = Inr scan1"
    "check_sdist_members R path i ms scan1 = Inr scan'" by (auto simp: rbind_Inr_iff)
  from sdist_member_checked [OF s(1)] obtain ps where p: "safe_parts R (tm_name m) path = Inr ps"
    "ps ! 0 = pi_module i @ ''-'' @ pi_version i" "tm_kind m \<in> {TarFile, TarDirectory}"
    "join ''/'' ps \<notin> set (ss_seen scan)" "ss_seen scan1 = join ''/'' ps # ss_seen scan" by blast
  from Cons.IH [OF s(2)] obtain pss where
    "list_all2 (\<lambda>m ps. safe_parts R (tm_name m) path = Inr ps \<and>
             ps ! 0 = pi_module i @ ''-'' @ pi_version i \<and> tm_kind m \<in> {TarFile, TarDirectory}) ms pss"
    "ss_seen scan' = rev (map (join ''/'') pss) @ ss_seen scan1" "distinct (ss_seen scan1) \<longrightarrow> distinct (ss_seen scan')"
    by blast
  with p show ?case by (intro exI [of _ "ps # pss"]) auto
qed simp

lemma read_member_Inr [simp]: "read_member path what d = Inr b \<longleftrightarrow> d = Document b"
  by (cases d) (auto simp: read_member_def)

text \<open>What an accepted wheel and an accepted source archive promise to whoever unpacks them.\<close>

definition safe_wheel :: "archive_lib \<Rightarrow> project_identity \<Rightarrow> bytes \<Rightarrow> bool" where
  "safe_wheel lib i raw \<longleftrightarrow>
     (\<exists>ms. al_zip lib raw = Document ms \<and> length ms \<le> max_archive_members \<and>
        list_all (\<lambda>m. \<not> is_link_attr (zm_external_attr m)) ms \<and>
        confined [pi_module i, dist_info i] (map zm_filename ms))"

definition safe_sdist :: "archive_lib \<Rightarrow> project_identity \<Rightarrow> bytes \<Rightarrow> bool" where
  "safe_sdist lib i raw \<longleftrightarrow>
     (\<exists>ms. al_tar lib raw = Document ms \<and> length ms \<le> max_archive_members \<and>
        list_all (\<lambda>m. tm_kind m \<in> {TarFile, TarDirectory}) ms \<and>
        confined [pi_module i @ ''-'' @ pi_version i] (map tm_name ms))"

lemma validate_wheel_safe:
  assumes "validate_wheel R lib e i = Inr u"
  shows "\<exists>raw. en_bytes e = Document raw \<and> safe_wheel lib i raw \<and> en_name e = wheel_name i"
proof -
  from assms obtain raw ms seen meta where w: "en_name e = wheel_name i" "en_bytes e = Document raw" "al_zip lib raw = Document ms"
    "length ms \<le> max_archive_members" "check_wheel_members R (en_path e) i ms [] None = Inr (seen, meta)"
    by (auto simp: validate_wheel_def file_bytes_def Let_def rbind_Inr_iff)
  from wheel_members_checked [OF w(5)] obtain pss where p:
    "list_all2 (\<lambda>m ps. safe_parts R (zm_filename m) (en_path e) = Inr ps \<and>
             ps ! 0 \<in> {pi_module i, dist_info i} \<and> \<not> is_link_attr (zm_external_attr m)) ms pss"
    "seen = rev (map (join ''/'') pss)" "distinct seen" by auto
  have "confined [pi_module i, dist_info i] (map zm_filename ms)"
    by (rule confinedI [where pss = pss and R = R and c = "en_path e"])
      (use p in \<open>auto simp: list.rel_map elim: list_all2_mono\<close>)
  moreover have "list_all (\<lambda>m. \<not> is_link_attr (zm_external_attr m)) ms"
    using list_all2_member [OF p(1)] by (fastforce simp: list_all_iff)
  ultimately show ?thesis using w unfolding safe_wheel_def by blast
qed

lemma validate_sdist_safe:
  assumes "validate_sdist R lib e i = Inr u"
  shows "\<exists>raw. en_bytes e = Document raw \<and> safe_sdist lib i raw \<and> en_name e = sdist_name i"
proof -
  from assms obtain raw ms scan where w: "en_name e = sdist_name i" "en_bytes e = Document raw" "al_tar lib raw = Document ms"
    "length ms \<le> max_archive_members" "check_sdist_members R (en_path e) i ms empty_scan = Inr scan"
    by (auto simp: validate_sdist_def file_bytes_def Let_def rbind_Inr_iff)
  from sdist_members_checked [OF w(5)] obtain pss where p:
    "list_all2 (\<lambda>m ps. safe_parts R (tm_name m) (en_path e) = Inr ps \<and>
             ps ! 0 = pi_module i @ ''-'' @ pi_version i \<and> tm_kind m \<in> {TarFile, TarDirectory}) ms pss"
    "ss_seen scan = rev (map (join ''/'') pss)" "distinct (ss_seen scan)" by (auto simp: empty_scan_def)
  have "confined [pi_module i @ ''-'' @ pi_version i] (map tm_name ms)"
    by (rule confinedI [where pss = pss and R = R and c = "en_path e"])
      (use p in \<open>auto simp: list.rel_map elim: list_all2_mono\<close>)
  moreover have "list_all (\<lambda>m. tm_kind m \<in> {TarFile, TarDirectory}) ms"
    using list_all2_member [OF p(1)] by (fastforce simp: list_all_iff)
  ultimately show ?thesis using w unfolding safe_sdist_def by blast
qed

text \<open>A directory with the name of a required root file counts as that file.\<close>

lemma directory_counts_as_file:
  assumes "f \<in> set allowed_root_files" and "tm_kind m = TarDirectory"
  shows "sdist_content R path i m [f] scan = Inr (scan\<lparr>ss_root_files := f # ss_root_files scan\<rparr>)"
  using assms by (simp add: sdist_content_def)

end
