(* ===== verification/Security_Evidence.thy ===== *)
theory Security_Evidence
  imports Governance_Gate Python_Json "HOL-Library.While_Combinator"
begin

text \<open>
  \<open>scripts/validate_security_evidence.py\<close>: the checks of a CycloneDX document and of a Grype report.
  Reading and parsing a file is the parameter \<open>docs\<close>; \<open>R\<close> is \<open>repr\<close>, \<open>fr\<close> the text of a float.
\<close>

definition grype_version :: string where
  "grype_version = ''0.116.1''"

definition cyclonedx_versions :: "string list" where
  "cyclonedx_versions = [''1.5'', ''1.6'', ''1.7'']"

text \<open>\<open>SERIAL_NUMBER.fullmatch\<close>, letters in either case.\<close>

fun serial_class :: "char \<Rightarrow> char \<Rightarrow> bool" where
  "serial_class p c =
     (if p = CHR ''h'' then is_hex c
      else if p = CHR ''v'' then 49 \<le> ord_of c \<and> ord_of c \<le> 53
      else if p = CHR ''r'' then c \<in> {CHR ''8'', CHR ''9'', CHR ''a'', CHR ''b''}
      else c = p)"

definition is_serial :: "string \<Rightarrow> bool" where
  "is_serial s \<longleftrightarrow>
     startswith (bytes_lower s) ''urn:uuid:'' \<and>
     list_all2 serial_class ''hhhhhhhh-hhhh-vhhh-rhhh-hhhhhhhhhhhh'' (drop 9 (bytes_lower s))"

definition load_document :: "(string \<Rightarrow> pyval document) \<Rightarrow> string \<Rightarrow> pyval dict result" where
  "load_document docs path =
     (case docs path of
        NoFile e \<Rightarrow> Inl (GateError (path @ '': invalid JSON: '' @ e))
      | BadSyntax e \<Rightarrow> Inl (GateError (path @ '': invalid JSON: '' @ e))
      | BadEncoding \<Rightarrow> Inl undecodable
      | Document v \<Rightarrow>
          (case as_dict v of
             None \<Rightarrow> Inl (GateError (path @ '': evidence document must be an object''))
           | Some d \<Rightarrow> Inr d))"

section \<open>Component names\<close>

text \<open>The loop over \<open>pending\<close>: it takes the last component, notes its name and appends its nested ones.\<close>

definition nested_components :: "pyval dict \<Rightarrow> pyval list" where
  "nested_components d = (case as_list (py_get d ''components'') of None \<Rightarrow> [] | Some vs \<Rightarrow> vs)"

definition initial_components :: "pyval dict \<Rightarrow> pyval list" where
  "initial_components document =
     nested_components document @
     (case as_dict (py_get document ''metadata'') of
        None \<Rightarrow> []
      | Some metadata \<Rightarrow>
          (case as_dict (py_get metadata ''component'') of None \<Rightarrow> [] | Some d \<Rightarrow> [PDict d]))"

definition add_name :: "pyval dict \<Rightarrow> string list \<Rightarrow> string list" where
  "add_name d names =
     (case as_str (py_get d ''name'') of
        None \<Rightarrow> names
      | Some n \<Rightarrow> if n = [] then names else List.insert (normalized_name n) names)"

definition component_step :: "pyval list \<times> string list \<Rightarrow> pyval list \<times> string list" where
  "component_step st =
     (case st of (pending, names) \<Rightarrow>
        (case as_dict (last pending) of
           None \<Rightarrow> (butlast pending, names)
         | Some d \<Rightarrow> (butlast pending @ nested_components d, add_name d names)))"

definition component_loop :: "pyval list \<Rightarrow> (pyval list \<times> string list) option" where
  "component_loop pending = while_option (\<lambda>(p, names). p \<noteq> []) component_step (pending, [])"

definition component_names :: "pyval dict \<Rightarrow> string list" where
  "component_names document = snd (the (component_loop (initial_components document)))"

section \<open>The documents\<close>

definition validate_cyclonedx ::
    "(pyval \<Rightarrow> string) \<Rightarrow> (string \<Rightarrow> pyval document) \<Rightarrow> string \<Rightarrow> string \<Rightarrow> pyval dict result" where
  "validate_cyclonedx R docs path expected_component =
     rbind (load_document docs path) (\<lambda>document.
     rbind (gate_require (py_get document ''bomFormat'' = PStr ''CycloneDX'') (path @ '': bomFormat must be CycloneDX'')) (\<lambda>_.
     let spec_version = py_get document ''specVersion'' in
     rbind (set_contains cyclonedx_versions spec_version) (\<lambda>supported.
     let names = component_names document; expected = normalized_name expected_component in
     rbind (checks
       [gate_require supported (path @ '': unsupported CycloneDX specVersion '' @ R spec_version),
        gate_require (eq_int (py_get document ''version'') 1) (path @ '': CycloneDX document version must be 1''),
        gate_require (case as_str (py_get document ''serialNumber'') of None \<Rightarrow> False | Some s \<Rightarrow> is_serial s)
          (path @ '': valid urn:uuid serialNumber is required''),
        gate_require (expected \<in> set names)
          (path @ '': expected component '' @ R (PStr expected_component) @ '' is missing''),
        gate_require (2 \<le> length names) (path @ '': SBOM must contain the project and its dependencies'')]) (\<lambda>_.
       Inr [(''component_count'', PInt (int (length names))), (''expected_component'', PStr expected),
            (''spec_version'', spec_version)]))))"

text \<open>\<open>Counter\<close>: one more for a key.\<close>

definition count_one :: "string \<Rightarrow> int dict \<Rightarrow> int dict" where
  "count_one k c = AList.update k ((case map_of c k of None \<Rightarrow> 0 | Some n \<Rightarrow> n) + 1) c"

definition match_severity :: "pyval dict \<Rightarrow> string option" where
  "match_severity d =
     (case as_dict (py_get d ''vulnerability'') of
        None \<Rightarrow> None
      | Some v \<Rightarrow> map_option py_lower (as_str (py_get v ''severity'')))"

fun count_severities :: "string \<Rightarrow> pyval list \<Rightarrow> int dict \<Rightarrow> int dict result" where
  "count_severities path [] acc = Inr acc"
| "count_severities path (m # ms) acc =
     (case as_dict m of
        None \<Rightarrow> Inl (GateError (path @ '': every vulnerability match must be an object''))
      | Some d \<Rightarrow>
          count_severities path ms (case match_severity d of None \<Rightarrow> acc | Some s \<Rightarrow> count_one s acc))"

definition validate_grype_report ::
    "(pyval \<Rightarrow> string) \<Rightarrow> (rat \<Rightarrow> string) \<Rightarrow> (string \<Rightarrow> pyval document) \<Rightarrow> string \<Rightarrow> string \<Rightarrow> pyval dict result" where
  "validate_grype_report R fr docs path expected_image =
     rbind (load_document docs path) (\<lambda>document.
     let descriptor = (case as_dict (py_get document ''descriptor'') of None \<Rightarrow> [] | Some d \<Rightarrow> d);
         source = (case as_dict (py_get document ''source'') of None \<Rightarrow> [] | Some d \<Rightarrow> d) in
     rbind (checks
       [gate_require (py_get descriptor ''name'' = PStr ''grype'') (path @ '': report descriptor must identify Grype''),
        gate_require (py_get descriptor ''version'' = PStr grype_version)
          (path @ '': Grype version must be '' @ grype_version @ '', got '' @ R (py_get descriptor ''version'')),
        gate_require (as_list (py_get document ''matches'') \<noteq> None) (path @ '': report matches must be an array''),
        gate_require (py_get source ''type'' = PStr ''image'') (path @ '': report source must be a container image''),
        gate_require (case as_dict (py_get source ''target'') of
                        None \<Rightarrow> False | Some target \<Rightarrow> contains (dumps fr (PDict target)) expected_image)
          (path @ '': report target must identify '' @ R (PStr expected_image))]) (\<lambda>_.
     let matches = (case as_list (py_get document ''matches'') of None \<Rightarrow> [] | Some vs \<Rightarrow> vs) in
     rbind (count_severities path matches []) (\<lambda>severities.
       Inr [(''match_count'', PInt (int (length matches))),
            (''severities'', PDict (map (\<lambda>(k, n). (k, PInt n)) (sort_key fst severities))),
            (''tool_version'', PStr grype_version)])))"

definition evidence_main ::
    "(pyval \<Rightarrow> string) \<Rightarrow> (rat \<Rightarrow> string) \<Rightarrow> (string \<Rightarrow> pyval document) \<Rightarrow> string \<Rightarrow> string \<Rightarrow> string \<Rightarrow>
     string \<Rightarrow> string \<Rightarrow> (int \<times> string) result" where
  "evidence_main R fr docs source_sbom image_sbom report component image_ref =
     (case rbind (validate_cyclonedx R docs image_sbom component) (\<lambda>i.
           rbind (validate_cyclonedx R docs source_sbom component) (\<lambda>s.
           rbind (validate_grype_report R fr docs report image_ref) (\<lambda>v.
             Inr [(''status'', PStr ''ok''), (''image_sbom'', PDict i), (''source_sbom'', PDict s),
                  (''vulnerabilities'', PDict v)]))) of
        Inl (GateError m) \<Rightarrow> Inr (1, ''Supply-chain evidence validation failed: '' @ m)
      | Inl e \<Rightarrow> Inl e
      | Inr result \<Rightarrow> Inr (0, dumps_indented fr (PDict result)))"

section \<open>What the loop over components computes\<close>

text \<open>A component is in a document if it is one of its roots or nested below one, at any depth.\<close>

inductive part_of :: "pyval \<Rightarrow> pyval \<Rightarrow> bool" where
  whole: "part_of v v"
| nested: "w \<in> set (nested_components d) \<Longrightarrow> part_of w v \<Longrightarrow> part_of (PDict d) v"

inductive_simps part_of_dict: "part_of (PDict d) v"

lemma part_of_other: "part_of w v \<Longrightarrow> as_dict w = None \<Longrightarrow> v = w"
  by (cases rule: part_of.cases) auto

definition names_of :: "pyval \<Rightarrow> string set" where
  "names_of w = {normalized_name n | n d. part_of w (PDict d) \<and> py_get d ''name'' = PStr n \<and> n \<noteq> []}"

definition names_in :: "pyval list \<Rightarrow> string set" where
  "names_in roots = (\<Union>w \<in> set roots. names_of w)"

lemma names_in_simps: "names_in [] = {}" "names_in (xs @ ys) = names_in xs \<union> names_in ys" "names_in [w] = names_of w"
  by (auto simp: names_in_def)

lemma names_of_other: "as_dict v = None \<Longrightarrow> names_of v = {}"
  by (auto simp: names_of_def dest: part_of_other)

lemma own_name: "x \<in> set (add_name d []) \<longleftrightarrow> (\<exists>n. x = normalized_name n \<and> py_get d ''name'' = PStr n \<and> n \<noteq> [])"
proof (cases "as_str (py_get d ''name'')")
  case None
  then show ?thesis by (cases "py_get d ''name''") (auto simp: add_name_def)
qed (auto simp: add_name_def)

lemma names_of_dict: "names_of (PDict d) = set (add_name d []) \<union> names_in (nested_components d)"
proof (intro set_eqI iffI)
  fix x assume "x \<in> names_of (PDict d)"
  then obtain n e where x: "x = normalized_name n" "part_of (PDict d) (PDict e)" "py_get e ''name'' = PStr n" "n \<noteq> []"
    by (auto simp: names_of_def)
  from x(2) consider "e = d" | w where "w \<in> set (nested_components d)" "part_of w (PDict e)"
    unfolding part_of_dict by auto
  then show "x \<in> set (add_name d []) \<union> names_in (nested_components d)"
  proof cases
    case 1
    with x show ?thesis by (auto simp: own_name)
  next
    case 2
    with x show ?thesis unfolding names_in_def names_of_def by blast
  qed
next
  fix x assume "x \<in> set (add_name d []) \<union> names_in (nested_components d)"
  then consider n where "x = normalized_name n" "py_get d ''name'' = PStr n" "n \<noteq> []"
    | w n e where "w \<in> set (nested_components d)" "x = normalized_name n" "part_of w (PDict e)" "py_get e ''name'' = PStr n" "n \<noteq> []"
    by (auto simp: own_name names_in_def names_of_def)
  then show "x \<in> names_of (PDict d)"
  proof cases
    case 1
    then show ?thesis unfolding names_of_def using whole by blast
  next
    case 2
    then show ?thesis unfolding names_of_def using nested by blast
  qed
qed

lemma set_add_name: "set (add_name d names) = set (add_name d []) \<union> set names"
  by (auto simp: add_name_def split: option.splits)

lemma distinct_add_name: "distinct names \<Longrightarrow> distinct (add_name d names)"
  by (auto simp: add_name_def split: option.splits)

text \<open>Each turn replaces a component by smaller ones.\<close>

lemma size_nested: "size_list size (nested_components d) < Suc (size (PDict d))"
proof (cases "as_list (py_get d ''components'')")
  case (Some vs)
  then have "(''components'', PList vs) \<in> set d"
    by (auto simp: py_get_def split: option.splits dest: map_of_SomeD)
  then have "size_prod (\<lambda>_. 0) size (''components'', PList vs) < Suc (size_list (size_prod (\<lambda>_. 0) size) d)"
    by (rule size_list_member)
  with Some show ?thesis by (simp add: nested_components_def)
qed (simp add: nested_components_def)

lemma component_step_decreases:
  "pending \<noteq> [] \<Longrightarrow> size_list size (fst (component_step (pending, names))) < size_list size pending"
proof -
  assume "pending \<noteq> []"
  then obtain ps v where p: "pending = ps @ [v]" by (metis append_butlast_last_id)
  show ?thesis
  proof (cases "as_dict v")
    case (Some d)
    with size_nested [of d] show ?thesis by (simp add: component_step_def p)
  qed (simp add: component_step_def p)
qed

lemma component_step_names:
  assumes "pending \<noteq> []" and "component_step (pending, names) = (pending', names')" and "distinct names"
  shows "distinct names' \<and> set names' \<union> names_in pending' = set names \<union> names_in pending"
proof -
  from assms(1) obtain ps v where p: "pending = ps @ [v]" by (metis append_butlast_last_id)
  show ?thesis
  proof (cases "as_dict v")
    case None
    with assms(2,3) show ?thesis by (auto simp: component_step_def p names_in_simps names_of_other)
  next
    case (Some d)
    with assms(2) have "pending' = ps @ nested_components d" "names' = add_name d names" "v = PDict d"
      by (auto simp: component_step_def p)
    with assms(3) show ?thesis
      using set_add_name [of d names] by (auto simp: p names_in_simps names_of_dict distinct_add_name)
  qed
qed

lemma component_loop_result:
  "\<exists>names. component_loop roots = Some ([], names) \<and> distinct names \<and> set names = names_in roots"
proof -
  define inv where "inv st \<longleftrightarrow> distinct (snd st) \<and> set (snd st) \<union> names_in (fst st) = names_in roots"
    for st :: "pyval list \<times> string list"
  let ?b = "\<lambda>(p :: pyval list, names :: string list). p \<noteq> []"
  have step: "inv (component_step st)" if i: "inv st" and b: "?b st" for st
    using component_step_names [of "fst st" "snd st"] i b by (cases "component_step st") (auto simp: inv_def)
  have init: "inv (roots, [])" by (simp add: inv_def)
  have "\<exists>st. while_option ?b component_step (roots, []) = Some st"
  proof (rule measure_while_option_Some [where P = inv and f = "\<lambda>st. size_list size (fst st)"])
    show "inv (component_step st) \<and> size_list size (fst (component_step st)) < size_list size (fst st)"
      if "inv st" and "?b st" for st
      using step [OF that] component_step_decreases [of "fst st" "snd st"] that(2) by (cases st) auto
  qed (rule init)
  then obtain st where st: "while_option ?b component_step (roots, []) = Some st" ..
  have "inv st" by (rule while_option_rule [where P = inv, OF _ st init]) (rule step)
  moreover have "\<not> ?b st" using st by (rule while_option_stop)
  ultimately show ?thesis
    using st by (cases st) (auto simp: component_loop_def inv_def names_in_simps)
qed

lemma component_names_exact: "distinct (component_names d)" "set (component_names d) = names_in (initial_components d)"
proof -
  from component_loop_result [of "initial_components d"] obtain names where
    "component_loop (initial_components d) = Some ([], names)" "distinct names" "set names = names_in (initial_components d)" by blast
  then show "distinct (component_names d)" "set (component_names d) = names_in (initial_components d)"
    by (simp_all add: component_names_def)
qed

end
