(* ===== verification/Multiarch_Evidence.thy ===== *)
theory Multiarch_Evidence
  imports Python_Json
begin

text \<open>
  \<open>scripts/prepare_multiarch_image_evidence.py\<close>: the check of a published two-platform index and the
  evidence document made from it. Reading the manifest is the parameter \<open>manifest_file\<close>.
\<close>

definition image_digest :: "string \<Rightarrow> bool" where
  "image_digest s \<longleftrightarrow> startswith s ''sha256:'' \<and> hex_text 64 (drop 7 s)"

definition release_commit :: "string \<Rightarrow> bool" where
  "release_commit s = hex_text 40 s"

definition expected_platforms :: "(string \<times> string \<times> string) list" where
  "expected_platforms =
     [(''linux/amd64'', ''linux'', ''amd64''), (''linux/arm64'', ''linux'', ''arm64'')]"

definition load_manifest :: "pyval document \<Rightarrow> string \<Rightarrow> pyval dict result" where
  "load_manifest manifest_file path =
     (case manifest_file of
        NoFile e \<Rightarrow> Inl (GateError (path @ '': invalid JSON: '' @ e))
      | BadSyntax e \<Rightarrow> Inl (GateError (path @ '': invalid JSON: '' @ e))
      | BadEncoding \<Rightarrow> Inl undecodable
      | Document v \<Rightarrow>
          (case as_dict v of
             None \<Rightarrow> Inl (GateError (path @ '': manifest must be a JSON object''))
           | Some d \<Rightarrow> Inr d))"

definition require_digest :: "string \<Rightarrow> string \<Rightarrow> unit result" where
  "require_digest s label = gate_require (image_digest s) (label @ '' must be a sha256 digest'')"

record subject =
  sb_image :: string
  sb_index :: string
  sb_amd64 :: string
  sb_arm64 :: string
  sb_tag :: string
  sb_commit :: string

definition removeprefix :: "string \<Rightarrow> string \<Rightarrow> string" where
  "removeprefix s p = (if startswith s p then drop (length p) s else s)"

definition check_subject :: "subject \<Rightarrow> unit result" where
  "check_subject s =
     checks
       [require_digest (sb_index s) ''index digest'', require_digest (sb_amd64 s) ''amd64 digest'',
        require_digest (sb_arm64 s) ''arm64 digest'',
        gate_require (sb_amd64 s \<noteq> sb_arm64 s) ''amd64 and arm64 digests must be different'',
        gate_require (release_commit (sb_commit s)) ''source commit must be a full lowercase commit SHA'',
        gate_require (startswith (sb_tag s) ''v'' \<and> tl (sb_tag s) \<noteq> []) ''release tag must be a non-empty v-prefixed tag'',
        gate_require (startswith (sb_image s) ''ghcr.io/'' \<and> CHR ''@'' \<notin> set (sb_image s) \<and>
                      CHR '':'' \<notin> set (removeprefix (sb_image s) ''ghcr.io/''))
          ''image name must be an untagged ghcr.io repository'']"

definition expected_digests :: "subject \<Rightarrow> string dict" where
  "expected_digests s = [(''linux/amd64'', sb_amd64 s), (''linux/arm64'', sb_arm64 s)]"

text \<open>One descriptor: its platform and its digest.\<close>

definition check_descriptor :: "(pyval \<Rightarrow> string) \<Rightarrow> string dict \<Rightarrow> pyval \<Rightarrow> (string \<times> string) result" where
  "check_descriptor R found descriptor =
     (case as_dict descriptor of
        None \<Rightarrow> Inl (GateError ''every index descriptor must be an object'')
      | Some d \<Rightarrow>
          (case (as_dict (py_get d ''platform''), as_str (py_get d ''digest'')) of
             (Some platform, Some digest) \<Rightarrow>
               (let key = py_str R (py_get platform ''os'') @ ''/'' @ py_str R (py_get platform ''architecture'')
                in rbind (checks
                  [gate_require (key \<in> fst ` set expected_platforms) (''unexpected release platform: '' @ key),
                   gate_require (key \<notin> fst ` set found) (''duplicate release platform: '' @ key),
                   require_digest digest (key @ '' digest'')]) (\<lambda>_. Inr (key, digest)))
           | _ \<Rightarrow> Inl (GateError ''every descriptor requires platform and digest'')))"

fun collect_descriptors :: "(pyval \<Rightarrow> string) \<Rightarrow> pyval list \<Rightarrow> string dict \<Rightarrow> string dict result" where
  "collect_descriptors R [] found = Inr found"
| "collect_descriptors R (d # ds) found =
     rbind (check_descriptor R found d) (\<lambda>e. collect_descriptors R ds (found @ [e]))"

text \<open>Equality of dictionaries does not depend on their order.\<close>

definition dict_eq :: "string dict \<Rightarrow> string dict \<Rightarrow> bool" where
  "dict_eq a b \<longleftrightarrow>
     list_all (\<lambda>(k, v). map_of b k = Some v) a \<and> list_all (\<lambda>(k, v). map_of a k = Some v) b"

definition platform_record :: "subject \<Rightarrow> string \<Rightarrow> string \<Rightarrow> string \<Rightarrow> pyval dict" where
  "platform_record s digest os_name architecture =
     [(''architecture'', PStr architecture), (''digest'', PStr digest), (''os'', PStr os_name),
      (''reference'', PStr (sb_image s @ ''@'' @ digest)),
      (''tags'', PList [PStr (sb_tag s @ ''-'' @ architecture), PStr (''sha-'' @ sb_commit s @ ''-'' @ architecture)])]"

definition platform_records :: "subject \<Rightarrow> string dict \<Rightarrow> pyval dict" where
  "platform_records s found =
     map (\<lambda>(platform, os_name, architecture).
            (platform, PDict (platform_record s (the (map_of found platform)) os_name architecture)))
       expected_platforms"

definition image_evidence :: "subject \<Rightarrow> string dict \<Rightarrow> pyval dict" where
  "image_evidence s found =
     [(''index'', PDict [(''digest'', PStr (sb_index s)), (''reference'', PStr (sb_image s @ ''@'' @ sb_index s)),
        (''tags'', PList [PStr (sb_tag s), PStr (''sha-'' @ sb_commit s)])]),
      (''platforms'', PDict (platform_records s found)), (''schema_version'', PInt 1)]"

definition check_manifest :: "(pyval \<Rightarrow> string) \<Rightarrow> subject \<Rightarrow> pyval dict \<Rightarrow> string dict result" where
  "check_manifest R s manifest =
     rbind (gate_require (py_get manifest ''digest'' = PStr (sb_index s))
              ''registry index digest does not match the published subject'') (\<lambda>_.
     (case as_list (py_get manifest ''manifests'') of
        None \<Rightarrow> Inl (GateError ''registry index must contain exactly two platform manifests'')
      | Some ds \<Rightarrow>
          rbind (gate_require (length ds = 2) ''registry index must contain exactly two platform manifests'') (\<lambda>_.
          rbind (collect_descriptors R ds []) (\<lambda>found.
          rbind (gate_require (dict_eq found (expected_digests s))
                   ''registry platform digests do not match scanned subjects'') (\<lambda>_.
            Inr found)))))"

text \<open>
  The run: the value it prints, the evidence, and the text it writes. Writing itself is left out; a
  link in the place of the output file is a fact of the file system.
\<close>

definition prepare_multiarch_image_evidence ::
    "(pyval \<Rightarrow> string) \<Rightarrow> (rat \<Rightarrow> string) \<Rightarrow> pyval document \<Rightarrow> string \<Rightarrow> string \<Rightarrow> bool \<Rightarrow> subject \<Rightarrow>
     (pyval dict \<times> pyval dict \<times> string) result" where
  "prepare_multiarch_image_evidence R fr manifest_file path output output_is_symlink s =
     rbind (check_subject s) (\<lambda>_.
     rbind (load_manifest manifest_file path) (\<lambda>manifest.
     rbind (check_manifest R s manifest) (\<lambda>found.
     let evidence = image_evidence s found in
     rbind (gate_require (\<not> output_is_symlink) (output @ '': output cannot be a symbolic link'')) (\<lambda>_.
       Inr ([(''index_digest'', PStr (sb_index s)), (''platforms'', PList (map (PStr \<circ> fst) expected_platforms)),
             (''status'', PStr ''passed'')],
            evidence, dumps_indented fr (PDict evidence) @ [CHR 0x0A])))))"

definition image_evidence_main ::
    "(rat \<Rightarrow> string) \<Rightarrow> (pyval dict \<times> pyval dict \<times> string) result \<Rightarrow> (int \<times> string) result" where
  "image_evidence_main fr outcome =
     (case outcome of
        Inl (GateError m) \<Rightarrow> Inr (1, ''Multi-platform image evidence validation failed: '' @ m)
      | Inl e \<Rightarrow> Inl e
      | Inr (result, _) \<Rightarrow> Inr (0, dumps_indented fr (PDict result)))"

section \<open>What the descriptors establish\<close>

lemma platform_key_cases: "k \<in> fst ` set expected_platforms \<longleftrightarrow> k = ''linux/amd64'' \<or> k = ''linux/arm64''"
  by (auto simp: expected_platforms_def)

lemma prepare_multiarch_image_evidence_Inr:
  assumes "prepare_multiarch_image_evidence R fr f path output link s = Inr (result, evidence, t)"
  shows "check_subject s = Inr ()" "evidence = image_evidence s (expected_digests s)"
    "t = dumps_indented fr (PDict evidence) @ [CHR 0x0A]"
proof -
  from assms obtain manifest found where m: "check_subject s = Inr ()" "check_manifest R s manifest = Inr found"
    "evidence = image_evidence s found" "t = dumps_indented fr (PDict evidence) @ [CHR 0x0A]"
    by (auto simp: prepare_multiarch_image_evidence_def rbind_Inr_iff Let_def)
  from m(2) have "dict_eq found (expected_digests s)"
    by (auto simp: check_manifest_def rbind_Inr_iff split: option.splits)
  then have "map_of found ''linux/amd64'' = Some (sb_amd64 s)" "map_of found ''linux/arm64'' = Some (sb_arm64 s)"
    by (simp_all add: dict_eq_def expected_digests_def)
  then have "platform_records s found = platform_records s (expected_digests s)"
    by (simp add: platform_records_def expected_platforms_def expected_digests_def)
  with m show "check_subject s = Inr ()" "evidence = image_evidence s (expected_digests s)"
    "t = dumps_indented fr (PDict evidence) @ [CHR 0x0A]" by (simp_all add: image_evidence_def)
qed

end
