(* ===== verification/Release_Publication.thy ===== *)
theory Release_Publication
  imports Release_Artifacts Security_Evidence Multiarch_Evidence
begin

text \<open>
  \<open>scripts/prepare_release_publication.py\<close>: the checks of a release bundle, the copies, the release
  manifest and its checksums. \<open>parse\<close> reads a JSON file from its bytes; the archive formats and SHA-256
  are those of \<open>Release_Artifacts\<close>.
\<close>

definition max_sbom_bytes :: nat where
  "max_sbom_bytes = 16 * 1024 * 1024"

definition max_evidence_bytes :: nat where
  "max_evidence_bytes = 128 * 1024 * 1024"

definition platforms :: "(string \<times> string) list" where
  "platforms = [(''linux/amd64'', ''amd64''), (''linux/arm64'', ''arm64'')]"

definition evidence_files :: "string list" where
  "evidence_files =
     [''grype-amd64.json'', ''grype-arm64.json'', ''image-amd64.cdx.json'', ''image-arm64.cdx.json'',
      ''image-digest.txt'', ''image-platforms.json'', ''policy-amd64.json'', ''policy-arm64.json'', ''source.cdx.json'']"

definition name_char :: "char \<Rightarrow> bool" where
  "name_char c \<longleftrightarrow> is_alpha_ascii c \<or> is_digit c \<or> c \<in> {CHR ''_'', CHR ''.'', CHR ''-''}"

definition repository_name :: "string \<Rightarrow> bool" where
  "repository_name s \<longleftrightarrow>
     (case split_on CHR ''/'' s of
        [owner, name] \<Rightarrow> owner \<noteq> [] \<and> name \<noteq> [] \<and> list_all name_char owner \<and> list_all name_char name
      | _ \<Rightarrow> False)"

text \<open>\<open>PACKAGE_CHECKSUM.fullmatch\<close>: the name and the digest of a line.\<close>

definition checksum_entry :: "string \<Rightarrow> (string \<times> string) option" where
  "checksum_entry line =
     (let name = drop 66 line
      in if hex_text 64 (take 64 line) \<and> take 2 (drop 64 line) = ''  '' \<and> name \<noteq> [] \<and>
            CHR ''/'' \<notin> set name \<and> CHR 0x5C \<notin> set name
         then Some (name, take 64 line) else None)"

section \<open>Files\<close>

definition checked_sha256 :: "archive_lib \<Rightarrow> entry \<Rightarrow> string result" where
  "checked_sha256 lib e =
     (case en_bytes e of
        Document b \<Rightarrow> Inr (al_sha256 lib b)
      | NoFile m \<Rightarrow> Inl (GateError (en_path e @ '': could not calculate SHA-256: '' @ m))
      | _ \<Rightarrow> Inl (OtherExn ''OSError''))"

definition exact_regular_files :: "(pyval \<Rightarrow> string) \<Rightarrow> directory \<Rightarrow> string list \<Rightarrow> entry list result" where
  "exact_regular_files R d expected =
     rbind (listing ''release inputs'' d) (\<lambda>entries.
     rbind (checks
       [gate_require (\<not> list_ex en_is_symlink entries) (dr_path d @ '': symbolic links are not allowed''),
        gate_require (set (map en_name entries) = set expected)
          (dr_path d @ '': expected exactly '' @ R (str_list (sorted_set expected)) @ '', got '' @
           R (str_list (sorted_set (map en_name entries)))),
        gate_require (list_all en_is_file entries) (dr_path d @ '': every release input must be a regular file'')]) (\<lambda>_.
       Inr entries))"

definition bounded :: "nat \<Rightarrow> entry \<Rightarrow> unit result" where
  "bounded maximum e =
     (case en_size e of
        Document n \<Rightarrow>
          gate_require (n \<le> maximum) (en_path e @ '': release input exceeds '' @ show_nat maximum @ '' bytes'')
      | NoFile m \<Rightarrow> Inl (GateError (en_path e @ '': could not inspect release input: '' @ m))
      | _ \<Rightarrow> Inl (OtherExn ''OSError''))"

definition evidence_limit :: "entry \<Rightarrow> nat" where
  "evidence_limit e = (if endswith (en_name e) ''.cdx.json'' then max_sbom_bytes else max_evidence_bytes)"

text \<open>\<open>read_text(encoding="ascii")\<close> where an \<open>OSError\<close> and a \<open>UnicodeError\<close> are both reported.\<close>

definition ascii_text :: "entry \<Rightarrow> string \<Rightarrow> string result" where
  "ascii_text e problem =
     (case en_bytes e of
        Document b \<Rightarrow>
          if is_ascii b then Inr (text_newlines b)
          else Inl (GateError (en_path e @ '': '' @ problem @ '': not ascii''))
      | NoFile m \<Rightarrow> Inl (GateError (en_path e @ '': '' @ problem @ '': '' @ m))
      | _ \<Rightarrow> Inl (OtherExn ''OSError''))"

definition entry_of :: "entry list \<Rightarrow> string \<Rightarrow> entry result" where
  "entry_of es name = (case named name es of None \<Rightarrow> Inl (OtherExn ''KeyError'') | Some e \<Rightarrow> Inr e)"

definition docs_of :: "(bytes \<Rightarrow> pyval document) \<Rightarrow> entry \<Rightarrow> string \<Rightarrow> pyval document" where
  "docs_of parse e path =
     (case en_bytes e of
        Document b \<Rightarrow> parse b | NoFile m \<Rightarrow> NoFile m | BadEncoding \<Rightarrow> BadEncoding | BadSyntax m \<Rightarrow> BadSyntax m)"

section \<open>Package checksums\<close>

fun parse_checksums :: "string \<Rightarrow> string list \<Rightarrow> string dict \<Rightarrow> string dict result" where
  "parse_checksums path [] parsed = Inr parsed"
| "parse_checksums path (line # lines) parsed =
     (case checksum_entry line of
        None \<Rightarrow> Inl (GateError (path @ '': malformed or duplicate checksum entry''))
      | Some (name, digest) \<Rightarrow>
          if name \<in> fst ` set parsed then Inl (GateError (path @ '': malformed or duplicate checksum entry''))
          else parse_checksums path lines (parsed @ [(name, digest)]))"

definition check_digest :: "archive_lib \<Rightarrow> string \<Rightarrow> string dict \<Rightarrow> entry \<Rightarrow> unit result" where
  "check_digest lib path parsed e =
     rbind (checked_sha256 lib e) (\<lambda>digest.
       gate_require (map_of parsed (en_name e) = Some digest) (path @ '': checksum mismatch for '' @ en_name e))"

definition validate_package_checksums :: "archive_lib \<Rightarrow> entry \<Rightarrow> entry list \<Rightarrow> unit result" where
  "validate_package_checksums lib e expected =
     rbind (ascii_text e ''invalid package checksum manifest'') (\<lambda>t.
     rbind (parse_checksums (en_path e) (splitlines t) []) (\<lambda>parsed.
     rbind (gate_require (fst ` set parsed = set (map en_name expected))
              (en_path e @ '': package checksum subjects do not match artifacts'')) (\<lambda>_.
     rbind (rmap (check_digest lib (en_path e) parsed) expected) (\<lambda>_. Inr ()))))"

section \<open>Policy, identity, platforms\<close>

definition is_count :: "pyval \<Rightarrow> bool" where
  "is_count v = (case v of PInt i \<Rightarrow> 0 \<le> i | _ \<Rightarrow> False)"

definition validate_policy :: "(string \<Rightarrow> pyval document) \<Rightarrow> string \<Rightarrow> unit result" where
  "validate_policy docs path =
     rbind (load_document docs path) (\<lambda>document.
       checks
         [gate_require (py_get document ''status'' = PStr ''passed'') (path @ '': vulnerability policy status must be passed''),
          gate_require (is_count (py_get document ''actionable_findings''))
            (path @ '': actionable_findings must be a non-negative integer''),
          gate_require (is_count (py_get document ''unfixed_high_critical_findings''))
            (path @ '': unfixed_high_critical_findings must be a non-negative integer''),
          gate_require (as_list (py_get document ''approved_exceptions'') \<noteq> None)
            (path @ '': approved_exceptions must be an array'')])"

record release_identity =
  rl_tag :: string
  rl_repository :: string
  rl_commit :: string
  rl_image :: string
  rl_digest :: string

definition validate_identity ::
    "(pyval \<Rightarrow> string) \<Rightarrow> pyval dict document \<Rightarrow> string \<Rightarrow> release_identity \<Rightarrow> project_identity result" where
  "validate_identity R project_file path r =
     rbind (load_project_identity project_file path) (\<lambda>i.
     rbind (checks
       [gate_require (rl_tag r = CHR ''v'' # pi_version i)
          (''release tag must be '' @ R (PStr (CHR ''v'' # pi_version i)) @ '', got '' @ R (PStr (rl_tag r))),
        gate_require (repository_name (rl_repository r)) ''repository must use the owner/name form'',
        gate_require (rl_image r = ''ghcr.io/'' @ py_lower (rl_repository r))
          (''image name must be '' @ R (PStr (''ghcr.io/'' @ py_lower (rl_repository r))) @ '', got '' @ R (PStr (rl_image r))),
        gate_require (release_commit (rl_commit r)) ''source commit must be a full lowercase commit SHA'',
        gate_require (image_digest (rl_digest r)) ''image digest must be a sha256 digest'']) (\<lambda>_.
       Inr i))"

definition check_platform ::
    "release_identity \<Rightarrow> string \<Rightarrow> pyval dict \<Rightarrow> string list \<Rightarrow> string \<Rightarrow> string \<Rightarrow> (string \<times> pyval dict) result" where
  "check_platform r path platform_table digests platform architecture =
     (case as_dict (py_get platform_table platform) of
        None \<Rightarrow> Inl (GateError (path @ '': '' @ platform @ '' record must be an object''))
      | Some rec \<Rightarrow>
          (case as_str (py_get rec ''digest'') of
             None \<Rightarrow> Inl (GateError (path @ '': '' @ platform @ '' digest must be sha256''))
           | Some digest \<Rightarrow>
               rbind (checks
                 [gate_require (image_digest digest) (path @ '': '' @ platform @ '' digest must be sha256''),
                  gate_require (digest \<notin> set digests) (path @ '': platform digests must be unique''),
                  gate_require (py_get rec ''os'' = PStr ''linux'' \<and> py_get rec ''architecture'' = PStr architecture)
                    (path @ '': invalid platform identity for '' @ platform),
                  gate_require (py_get rec ''reference'' = PStr (rl_image r @ ''@'' @ digest))
                    (path @ '': invalid platform reference for '' @ platform),
                  gate_require (py_get rec ''tags'' =
                      PList [PStr (rl_tag r @ ''-'' @ architecture), PStr (''sha-'' @ rl_commit r @ ''-'' @ architecture)])
                    (path @ '': invalid platform tags for '' @ platform)]) (\<lambda>_.
                 Inr (digest, rec))))"

fun check_platforms ::
    "release_identity \<Rightarrow> string \<Rightarrow> pyval dict \<Rightarrow> (string \<times> string) list \<Rightarrow> string list \<Rightarrow> pyval dict dict \<Rightarrow> pyval dict dict result" where
  "check_platforms r path platform_table [] digests normalized = Inr normalized"
| "check_platforms r path platform_table ((platform, architecture) # ps) digests normalized =
     rbind (check_platform r path platform_table digests platform architecture) (\<lambda>(digest, rec).
       check_platforms r path platform_table ps (digest # digests) (normalized @ [(platform, rec)]))"

definition validate_platform_evidence ::
    "(string \<Rightarrow> pyval document) \<Rightarrow> string \<Rightarrow> release_identity \<Rightarrow> pyval dict dict result" where
  "validate_platform_evidence docs path r =
     rbind (load_document docs path) (\<lambda>document.
     rbind (gate_require (eq_int (py_get document ''schema_version'') 1) (path @ '': schema_version must be 1'')) (\<lambda>_.
     (case as_dict (py_get document ''index'') of
        None \<Rightarrow> Inl (GateError (path @ '': index must be an object''))
      | Some index \<Rightarrow>
          rbind (checks
            [gate_require (py_get index ''digest'' = PStr (rl_digest r))
               (path @ '': index digest does not match published image''),
             gate_require (py_get index ''reference'' = PStr (rl_image r @ ''@'' @ rl_digest r))
               (path @ '': index reference does not match published image''),
             gate_require (py_get index ''tags'' = PList [PStr (rl_tag r), PStr (''sha-'' @ rl_commit r)])
               (path @ '': index tags do not match release identity'')]) (\<lambda>_.
          (case as_dict (py_get document ''platforms'') of
             None \<Rightarrow> Inl (GateError (path @ '': exact amd64/arm64 platform set is required''))
           | Some platform_table \<Rightarrow>
               rbind (gate_require (set (map fst platform_table) = set (map fst platforms))
                        (path @ '': exact amd64/arm64 platform set is required'')) (\<lambda>_.
                 check_platforms r path platform_table platforms [] []))))))"

section \<open>The release\<close>

definition check_architecture ::
    "(pyval \<Rightarrow> string) \<Rightarrow> (rat \<Rightarrow> string) \<Rightarrow> (bytes \<Rightarrow> pyval document) \<Rightarrow> entry list \<Rightarrow> string \<Rightarrow> release_identity \<Rightarrow>
     pyval dict dict \<Rightarrow> string \<times> string \<Rightarrow> unit result" where
  "check_architecture R fr parse evidence project r records pa =
     (case pa of (platform, architecture) \<Rightarrow>
       rbind (entry_of evidence (''image-'' @ architecture @ ''.cdx.json'')) (\<lambda>sbom.
       rbind (validate_cyclonedx R (docs_of parse sbom) (en_path sbom) project) (\<lambda>_.
       rbind (entry_of evidence (''grype-'' @ architecture @ ''.json'')) (\<lambda>report.
       rbind (validate_grype_report R fr (docs_of parse report) (en_path report)
                (project @ '':release-'' @ rl_commit r @ ''-'' @ architecture)) (\<lambda>_.
       rbind (entry_of evidence (''policy-'' @ architecture @ ''.json'')) (\<lambda>policy.
       rbind (validate_policy (docs_of parse policy) (en_path policy)) (\<lambda>_.
       rbind (entry_of evidence ''image-platforms.json'') (\<lambda>index.
         gate_require (case map_of records platform of
                         None \<Rightarrow> False | Some rec \<Rightarrow> py_get rec ''architecture'' = PStr architecture)
           (en_path index @ '': platform evidence drift'')))))))))"

definition check_packages ::
    "(pyval \<Rightarrow> string) \<Rightarrow> archive_lib \<Rightarrow> project_identity \<Rightarrow> entry list \<Rightarrow> unit result" where
  "check_packages R lib i packages =
     rbind (entry_of packages (wheel_name i)) (\<lambda>wheel.
     rbind (entry_of packages (sdist_name i)) (\<lambda>sdist.
     rbind (entry_of packages ''SHA256SUMS'') (\<lambda>listed.
     rbind (validate_wheel R lib wheel i) (\<lambda>_.
     rbind (validate_sdist R lib sdist i) (\<lambda>_.
       validate_package_checksums lib listed [wheel, sdist])))))"

definition check_evidence ::
    "(pyval \<Rightarrow> string) \<Rightarrow> (rat \<Rightarrow> string) \<Rightarrow> (bytes \<Rightarrow> pyval document) \<Rightarrow> entry list \<Rightarrow> string \<Rightarrow> release_identity \<Rightarrow>
     pyval dict dict result" where
  "check_evidence R fr parse evidence project r =
     rbind (entry_of evidence ''source.cdx.json'') (\<lambda>source.
     rbind (validate_cyclonedx R (docs_of parse source) (en_path source) project) (\<lambda>_.
     rbind (entry_of evidence ''image-platforms.json'') (\<lambda>index.
     rbind (validate_platform_evidence (docs_of parse index) (en_path index) r) (\<lambda>records.
     rbind (rmap (check_architecture R fr parse evidence project r records) platforms) (\<lambda>_.
       Inr records)))))"

definition check_image_subject :: "entry list \<Rightarrow> release_identity \<Rightarrow> unit result" where
  "check_image_subject evidence r =
     rbind (entry_of evidence ''image-digest.txt'') (\<lambda>e.
     rbind (ascii_text e ''invalid image subject'') (\<lambda>subject.
       gate_require (subject = rl_image r @ ''@'' @ rl_digest r @ [CHR 0x0A])
         ''image-digest.txt does not match the published image subject''))"

text \<open>The output directory: a link, or what \<open>mkdir\<close> and \<open>iterdir\<close> find.\<close>

definition check_output :: "bool \<Rightarrow> directory \<Rightarrow> unit result" where
  "check_output output_is_symlink output =
     rbind (gate_require (\<not> output_is_symlink) (dr_path output @ '': output directory cannot be a symbolic link'')) (\<lambda>_.
     (case dr_entries output of
        Document es \<Rightarrow> gate_require (es = []) (dr_path output @ '': output directory must be empty'')
      | NoFile m \<Rightarrow> Inl (GateError (dr_path output @ '': could not prepare output directory: '' @ m))
      | _ \<Rightarrow> Inl (OtherExn ''OSError'')))"

definition asset_record :: "archive_lib \<Rightarrow> string \<times> bytes \<Rightarrow> string \<times> pyval" where
  "asset_record lib nb =
     (fst nb, PDict [(''sha256'', PStr (al_sha256 lib (snd nb))), (''size'', PInt (int (length (snd nb))))])"

definition release_manifest ::
    "archive_lib \<Rightarrow> bytes dict \<Rightarrow> pyval dict dict \<Rightarrow> project_identity \<Rightarrow> release_identity \<Rightarrow> pyval dict" where
  "release_manifest lib copies records i r =
     [(''assets'', PDict (map (asset_record lib) copies)),
      (''image'', PDict [(''digest'', PStr (rl_digest r)), (''name'', PStr (rl_image r)),
         (''platforms'', PDict (map (\<lambda>(k, rec). (k, PDict rec)) records)),
         (''reference'', PStr (rl_image r @ ''@'' @ rl_digest r)),
         (''tags'', PList [PStr (rl_tag r), PStr (''sha-'' @ rl_commit r)])]),
      (''project'', PStr (pi_name i)), (''schema_version'', PInt 2), (''source_commit'', PStr (rl_commit r)),
      (''source_repository'', PStr (rl_repository r)), (''tag'', PStr (rl_tag r)), (''version'', PStr (pi_version i))]"

definition file_digests :: "archive_lib \<Rightarrow> bytes dict \<Rightarrow> string dict" where
  "file_digests lib files = map (\<lambda>(n, b). (n, al_sha256 lib b)) files"

text \<open>Copies, manifest and checksums, in the order they are written.\<close>

definition assemble ::
    "(rat \<Rightarrow> string) \<Rightarrow> archive_lib \<Rightarrow> entry list \<Rightarrow> pyval dict dict \<Rightarrow> project_identity \<Rightarrow> release_identity \<Rightarrow>
     bytes dict result" where
  "assemble fr lib inputs records i r =
     rbind (rmap copy_entry (sort_key en_name inputs)) (\<lambda>copies.
     let manifest = (''release-manifest.json'',
           dumps_indented fr (PDict (release_manifest lib copies records i r)) @ [CHR 0x0A]);
         checksummed = copies @ [manifest]
     in rbind (write_ascii (checksum_text (file_digests lib checksummed))) (\<lambda>listed.
          Inr (checksummed @ [(''RELEASE_SHA256SUMS'', listed)])))"

definition prepare_release_publication ::
    "(pyval \<Rightarrow> string) \<Rightarrow> (rat \<Rightarrow> string) \<Rightarrow> archive_lib \<Rightarrow> (bytes \<Rightarrow> pyval document) \<Rightarrow> string \<Rightarrow> pyval dict document \<Rightarrow>
     directory \<Rightarrow> directory \<Rightarrow> directory \<Rightarrow> bool \<Rightarrow> release_identity \<Rightarrow> (pyval dict \<times> bytes dict) result" where
  "prepare_release_publication R fr lib parse path project_file package_dir evidence_dir output output_is_symlink r =
     rbind (validate_identity R project_file path r) (\<lambda>i.
     rbind (exact_regular_files R package_dir [''SHA256SUMS'', wheel_name i, sdist_name i]) (\<lambda>packages.
     rbind (exact_regular_files R evidence_dir evidence_files) (\<lambda>evidence.
     rbind (checks (map (\<lambda>e. bounded (evidence_limit e) e) evidence)) (\<lambda>_.
     rbind (load_project_identity project_file path) (\<lambda>i'.
     rbind (check_packages R lib i' packages) (\<lambda>_.
     rbind (check_evidence R fr parse evidence (pi_name i) r) (\<lambda>records.
     rbind (check_image_subject evidence r) (\<lambda>_.
     rbind (check_output output_is_symlink output) (\<lambda>_.
     rbind (assemble fr lib (packages @ evidence) records i r) (\<lambda>files.
       Inr ([(''asset_count'', PInt (int (length files) - 1)),
             (''image'', PStr (rl_image r @ ''@'' @ rl_digest r)),
             (''platforms'', str_list (sort (map fst records))), (''project'', PStr (pi_name i)),
             (''status'', PStr ''passed''), (''tag'', PStr (rl_tag r))],
            files)))))))))))"

definition publication_main ::
    "(rat \<Rightarrow> string) \<Rightarrow> (pyval dict \<times> bytes dict) result \<Rightarrow> (int \<times> string \<times> bytes dict) result" where
  "publication_main fr outcome =
     (case outcome of
        Inl (GateError m) \<Rightarrow> Inr (1, ''Release publication validation failed: '' @ m, [])
      | Inl e \<Rightarrow> Inl e
      | Inr (result, files) \<Rightarrow> Inr (0, dumps_indented fr (PDict result), files))"

end
