(* ===== verification/Release_Bundle.thy ===== *)
theory Release_Bundle
  imports Release_Publication
begin

text \<open>
  What the runs of the release tools establish, step by step: checksum manifests read back, acceptance of
  an archive wherever it lies, the artifact run, and the release bundle.
\<close>

section \<open>Checksum manifests\<close>

text \<open>A name that stands on one line and names no directory.\<close>

definition plain_name :: "string \<Rightarrow> bool" where
  "plain_name n \<longleftrightarrow> n \<noteq> [] \<and> (\<forall>c \<in> set n. c \<noteq> CHR ''/'' \<and> c \<noteq> CHR 0x5C \<and> \<not> line_boundary c)"

definition digest_line :: "string \<times> string \<Rightarrow> string" where
  "digest_line nd = snd nd @ ''  '' @ fst nd"

lemma split_on_lines:
  "(\<And>l. l \<in> set ls \<Longrightarrow> c \<notin> set l) \<Longrightarrow> split_on c (concat (map (\<lambda>l. l @ [c]) ls)) = ls @ [[]]"
proof (induction ls)
  case (Cons l ls)
  have "split_on c (concat (map (\<lambda>l. l @ [c]) (l # ls))) = split_on c l @ split_on c (concat (map (\<lambda>l. l @ [c]) ls))"
    using split_by_append [of "\<lambda>x. x = c" c l] by (simp add: split_on_def)
  moreover have "split_on c l = [l]"
    using Cons.prems [of l] by (auto simp: split_on_def intro: split_by_id)
  ultimately show ?case using Cons by simp
qed (simp add: split_on_def)

lemma hex_not_boundary: "is_hex c \<Longrightarrow> \<not> line_boundary c"
  by (auto simp: is_hex_def is_digit_def line_boundary_def Let_def)

lemma digest_line_plain:
  "hex_text 64 d \<Longrightarrow> plain_name n \<Longrightarrow> c \<in> set (digest_line (n, d)) \<Longrightarrow> \<not> line_boundary c"
proof -
  assume "hex_text 64 d" "plain_name n" "c \<in> set (digest_line (n, d))"
  then have "is_hex c \<or> c = CHR '' '' \<or> \<not> line_boundary c"
    by (auto simp: digest_line_def hex_text_def plain_name_def list_all_iff)
  moreover have "\<not> line_boundary CHR '' ''" by (simp add: line_boundary_def ord_of_def)
  ultimately show ?thesis using hex_not_boundary by blast
qed

lemma checksum_text_lines: "checksum_text nds = concat (map (\<lambda>l. l @ [CHR 0x0A]) (map digest_line nds))"
  by (simp add: checksum_text_def o_def) (simp add: checksum_line_def [abs_def] digest_line_def)

lemma newline_boundary: "line_boundary CHR 0x0A"
  by (simp add: line_boundary_def ord_of_def)

lemma checksum_text_plain:
  assumes "\<And>n d. (n, d) \<in> set nds \<Longrightarrow> hex_text 64 d \<and> plain_name n"
  shows "plain_lines (checksum_text nds)" "\<And>l c. l \<in> set (map digest_line nds) \<Longrightarrow> c \<in> set l \<Longrightarrow> \<not> line_boundary c"
proof -
  show b: "\<not> line_boundary c" if "l \<in> set (map digest_line nds)" "c \<in> set l" for l c
    using that assms digest_line_plain by fastforce
  then show "plain_lines (checksum_text nds)" by (auto simp: plain_lines_def checksum_text_lines)
qed

lemma plain_lines_newlines: "plain_lines s \<Longrightarrow> text_newlines s = s"
proof (rule text_newlines_id, rule ballI)
  fix c assume "plain_lines s" "c \<in> set s"
  then have "line_boundary c \<longrightarrow> c = CHR 0x0A" by (simp add: plain_lines_def)
  then show "ord_of c \<noteq> 13" by (auto simp: line_boundary_def ord_of_def)
qed

lemma splitlines_checksums:
  assumes "\<And>n d. (n, d) \<in> set nds \<Longrightarrow> hex_text 64 d \<and> plain_name n"
  shows "splitlines (checksum_text nds) = map digest_line nds"
proof -
  have "split_on CHR 0x0A (checksum_text nds) = map digest_line nds @ [[]]"
    unfolding checksum_text_lines
    by (rule split_on_lines) (use checksum_text_plain(2) [OF assms] newline_boundary in blast)
  with splitlines_plain [OF checksum_text_plain(1) [OF assms]] show ?thesis by simp
qed

lemma checksum_entry_line:
  "hex_text 64 d \<Longrightarrow> plain_name n \<Longrightarrow> checksum_entry (digest_line (n, d)) = Some (n, d)"
  by (auto simp: checksum_entry_def digest_line_def plain_name_def hex_text_def)

lemma parse_checksums_lines:
  assumes "\<And>n d. (n, d) \<in> set nds \<Longrightarrow> hex_text 64 d \<and> plain_name n" and "distinct (map fst (acc @ nds))"
  shows "parse_checksums path (map digest_line nds) acc = Inr (acc @ nds)"
  using assms
proof (induction nds arbitrary: acc)
  case (Cons nd nds)
  obtain n d where nd: "nd = (n, d)" by (cases nd)
  have "checksum_entry (digest_line nd) = Some (n, d)" "n \<notin> fst ` set acc"
    using Cons.prems(1) [of n d] Cons.prems(2) by (auto simp: nd checksum_entry_line)
  moreover have "parse_checksums path (map digest_line nds) (acc @ [(n, d)]) = Inr ((acc @ [(n, d)]) @ nds)"
    by (rule Cons.IH) (use Cons.prems nd in auto)
  ultimately show ?case by (simp add: nd)
qed simp

lemma checksum_roundtrip:
  assumes "\<And>n d. (n, d) \<in> set nds \<Longrightarrow> hex_text 64 d \<and> plain_name n" and "distinct (map fst nds)"
  shows "parse_checksums path (splitlines (checksum_text nds)) [] = Inr nds"
  using assms by (simp add: splitlines_checksums parse_checksums_lines)

section \<open>Acceptance depends on a file's name and bytes, not on where it lies\<close>

lemma safe_parts_anywhere:
  "safe_parts R n c = Inr ps \<longleftrightarrow>
     (let clean = (if endswith n ''/'' then butlast n else n) in
      \<not> (clean = [] \<or> startswith clean ''/'' \<or> CHR 0x5C \<in> set clean \<or>
         list_ex (\<lambda>p. p \<in> {[], ''.'', ''..''}) (split_on CHR ''/'' clean)) \<and> ps = split_on CHR ''/'' clean)"
  by (auto simp: safe_parts_def Let_def)

lemma validate_metadata_anywhere:
  "validate_metadata_file R lib b i c = Inr u \<longleftrightarrow>
     (\<exists>name. al_header lib b ''Name'' = Some name \<and> normalized_name name = normalized_name (pi_name i)) \<and>
     al_header lib b ''Version'' = Some (pi_version i)"
  by (auto simp: validate_metadata_file_def rbind_Inr_iff split: option.splits)

lemma check_wheel_members_anywhere:
  "check_wheel_members R p i ms seen meta = Inr y \<Longrightarrow> check_wheel_members R p' i ms seen meta = Inr y"
proof (induction ms arbitrary: seen meta)
  case (Cons m ms)
  from Cons.prems obtain ps meta1 where m: "safe_parts R (zm_filename m) p = Inr ps" "join ''/'' ps \<notin> set seen"
      "\<not> is_link_attr (zm_external_attr m)" "ps ! 0 \<in> {pi_module i, dist_info i}"
      "(if join ''/'' ps = dist_info i @ ''/METADATA''
        then (if max_metadata_bytes < zm_file_size m then Inl (GateError (p @ '': wheel METADATA is too large''))
              else rbind (read_member p ''wheel'' (zm_content m)) (\<lambda>b. Inr (Some b)))
        else Inr meta) = Inr meta1"
      "check_wheel_members R p i ms (join ''/'' ps # seen) meta1 = Inr y"
    by (auto simp: rbind_Inr_iff Let_def)
  have "safe_parts R (zm_filename m) p' = Inr ps" using m(1) unfolding safe_parts_anywhere .
  moreover have "check_wheel_members R p' i ms (join ''/'' ps # seen) meta1 = Inr y" using Cons.IH m(6) .
  ultimately show ?case using m(2-5) by (auto simp: rbind_Inr_iff Let_def split: if_splits)
qed simp

lemma sdist_content_anywhere:
  "sdist_content R p i m relative scan = Inr y \<Longrightarrow> sdist_content R p' i m relative scan = Inr y"
  by (auto simp: sdist_content_def split: if_splits list.splits)

lemma sdist_metadata_anywhere: "sdist_metadata p m relative meta = Inr y \<Longrightarrow> sdist_metadata p' m relative meta = Inr y"
  by (auto simp: sdist_metadata_def rbind_Inr_iff split: if_splits)

lemma check_sdist_member_anywhere:
  assumes "check_sdist_member R p i m scan = Inr y"
  shows "check_sdist_member R p' i m scan = Inr y"
proof -
  from assms obtain ps where ps: "safe_parts R (tm_name m) p = Inr ps"
    by (auto simp: check_sdist_member_def rbind_Inr_iff)
  then have "safe_parts R (tm_name m) p' = Inr ps" unfolding safe_parts_anywhere .
  with ps assms show ?thesis
    by (auto simp: check_sdist_member_def rbind_Inr_iff Let_def split: if_splits)
      (metis sdist_content_anywhere sdist_metadata_anywhere)+
qed

lemma check_sdist_members_anywhere:
  "check_sdist_members R p i ms scan = Inr y \<Longrightarrow> check_sdist_members R p' i ms scan = Inr y"
proof (induction ms arbitrary: scan)
  case (Cons m ms)
  then obtain scan1 where "check_sdist_member R p i m scan = Inr scan1" "check_sdist_members R p i ms scan1 = Inr y"
    by (auto simp: rbind_Inr_iff)
  then have "check_sdist_member R p' i m scan = Inr scan1" "check_sdist_members R p' i ms scan1 = Inr y"
    using Cons.IH check_sdist_member_anywhere by blast+
  then show ?case by simp
qed simp

lemma validate_wheel_anywhere:
  assumes "validate_wheel R lib e i = Inr u" and "en_name e' = en_name e" and "en_bytes e' = en_bytes e"
  shows "validate_wheel R lib e' i = Inr ()"
proof -
  from assms obtain raw ms seen meta where w: "en_name e = wheel_name i" "en_bytes e = Document raw"
    "al_zip lib raw = Document ms" "length ms \<le> max_archive_members"
    "check_wheel_members R (en_path e) i ms [] None = Inr (seen, Some meta)"
    "list_ex (\<lambda>n. startswith n (pi_module i @ ''/'')) seen"
    "validate_metadata_file R lib meta i (dist_info i @ ''/METADATA'') = Inr u"
    by (auto simp: validate_wheel_def file_bytes_def Let_def rbind_Inr_iff split: option.splits)
  from check_wheel_members_anywhere [OF w(5)] have "check_wheel_members R (en_path e') i ms [] None = Inr (seen, Some meta)" .
  with w assms(2,3) show ?thesis
    by (simp add: validate_wheel_def file_bytes_def Let_def rbind_Inr_iff)
qed

lemma validate_sdist_anywhere:
  assumes "validate_sdist R lib e i = Inr u" and "en_name e' = en_name e" and "en_bytes e' = en_bytes e"
  shows "validate_sdist R lib e' i = Inr ()"
proof -
  from assms obtain raw ms scan meta where w: "en_name e = sdist_name i" "en_bytes e = Document raw"
    "al_tar lib raw = Document ms" "length ms \<le> max_archive_members"
    "check_sdist_members R (en_path e) i ms empty_scan = Inr scan"
    "filter (\<lambda>f. f \<notin> set (ss_root_files scan)) allowed_root_files = []" "ss_source_seen scan"
    "ss_metadata scan = Some meta" "validate_metadata_file R lib meta i ''PKG-INFO'' = Inr u"
    by (auto simp: validate_sdist_def file_bytes_def Let_def rbind_Inr_iff split: option.splits)
  from check_sdist_members_anywhere [OF w(5)] have "check_sdist_members R (en_path e') i ms empty_scan = Inr scan" .
  with w assms(2,3) show ?thesis
    by (simp add: validate_sdist_def file_bytes_def Let_def rbind_Inr_iff)
qed

section \<open>The artifact run\<close>

lemma named_Some: "named n es = Some e \<Longrightarrow> e \<in> set es \<and> en_name e = n"
  by (auto simp: named_def find_Some_iff)

lemma rmap_deterministic:
  "rmap f xs = Inr ys \<Longrightarrow> (\<And>x y. f x = Inr y \<Longrightarrow> y = g x) \<Longrightarrow> ys = map g xs"
  by (induction xs arbitrary: ys) (auto simp: rbind_Inr_iff)

definition content :: "entry \<Rightarrow> bytes" where
  "content e = (case en_bytes e of Document b \<Rightarrow> b | _ \<Rightarrow> [])"

lemma content_Document: "en_bytes e = Document b \<Longrightarrow> content e = b"
  by (simp add: content_def)

lemma raw_bytes_Inr [simp]: "raw_bytes e = Inr b \<longleftrightarrow> en_bytes e = Document b"
  by (auto simp: raw_bytes_def split: document.splits)

lemma copies_are: "rmap copy_entry es = Inr copies \<Longrightarrow> copies = map (\<lambda>e. (en_name e, content e)) es"
  by (erule rmap_deterministic) (auto simp: copy_entry_def rbind_Inr_iff content_def)

lemma copied_readable: "rmap copy_entry es = Inr copies \<Longrightarrow> e \<in> set es \<Longrightarrow> en_bytes e = Document (content e)"
  by (auto simp: rmap_Inr_iff copy_entry_def rbind_Inr_iff content_def dest!: list_all2_member)

lemma digests_are: "rmap (same_digest lib second) es = Inr ds \<Longrightarrow> ds = map (\<lambda>e. (en_name e, al_sha256 lib (content e))) es"
  by (erule rmap_deterministic)
    (auto simp: same_digest_def sha256_of_def rbind_Inr_iff content_def split: option.splits if_splits)

lemma artifact_paths_Inr:
  assumes "artifact_paths R d i = Inr es"
  obtains all where "dr_entries d = Document all" "set es \<subseteq> set all" "en_name ` set es = {wheel_name i, sdist_name i}"
    "distinct (map en_name all) \<Longrightarrow> distinct (map en_name es)"
    "\<And>e. e \<in> set es \<Longrightarrow> en_is_file e \<and> \<not> en_is_symlink e"
proof -
  from assms obtain all where a: "dr_entries d = Document all"
    and n: "\<not> list_ex en_is_symlink (sort_key en_name all)"
      "es = filter en_is_file (filter (\<lambda>e. en_name e \<noteq> ''.gitignore'') (sort_key en_name all))"
      "set (map en_name es) = {wheel_name i, sdist_name i}"
    by (auto simp: artifact_paths_def listing_def rbind_Inr_iff Let_def split: document.splits)
  show ?thesis
  proof (rule that [OF a])
    show "distinct (map en_name es)" if "distinct (map en_name all)"
    proof -
      have "distinct (map en_name (sort_key en_name all))"
        using that by (simp add: distinct_map)
      then show ?thesis unfolding n(2) by (intro distinct_map_filter)
    qed
  qed (use n in \<open>auto simp: list_ex_iff\<close>)
qed

lemma release_artifacts_Inr:
  assumes "prepare_release_artifacts R lib path pf d1 d2 out tag = Inr (result, files)"
  obtains i es1 es2 where "load_project_identity pf path = Inr i" "tag = CHR ''v'' # pi_version i"
    "artifact_paths R d1 i = Inr es1" "artifact_paths R d2 i = Inr es2"
    "validate_artifacts R lib i es1 = Inr ()" "validate_artifacts R lib i es2 = Inr ()"
    "rmap (same_digest lib es2) es1 = Inr (map (\<lambda>e. (en_name e, al_sha256 lib (content e))) es1)"
    "\<forall>e \<in> set es1. en_bytes e = Document (content e)"
    "is_ascii (checksum_text (map (\<lambda>e. (en_name e, al_sha256 lib (content e))) es1))"
    "files = map (\<lambda>e. (en_name e, content e)) es1 @
       [(''SHA256SUMS'', checksum_text (map (\<lambda>e. (en_name e, al_sha256 lib (content e))) es1))]"
proof -
  from assms obtain i es1 es2 digests copies where
    r: "load_project_identity pf path = Inr i" "tag = CHR ''v'' # pi_version i"
    "artifact_paths R d1 i = Inr es1" "artifact_paths R d2 i = Inr es2"
    "validate_artifacts R lib i es1 = Inr ()" "validate_artifacts R lib i es2 = Inr ()"
    "rmap (same_digest lib es2) es1 = Inr digests" "rmap copy_entry es1 = Inr copies"
    "is_ascii (checksum_text digests)" "files = copies @ [(''SHA256SUMS'', checksum_text digests)]"
    by (auto simp: prepare_release_artifacts_def rbind_Inr_iff write_ascii_def split: if_splits)
  with copied_readable [OF r(8)] show ?thesis
    using digests_are [OF r(7)] copies_are [OF r(8)] by (intro that) simp_all
qed

text \<open>The run writes into an empty directory.\<close>

lemma release_artifacts_output:
  "prepare_release_artifacts R lib path pf d1 d2 out tag = Inr (result, files) \<Longrightarrow> dr_entries out = Document []"
  by (auto simp: prepare_release_artifacts_def rbind_Inr_iff split: document.splits)

lemma validate_artifacts_Inr:
  assumes "validate_artifacts R lib i es = Inr ()"
  obtains w s where "named (wheel_name i) es = Some w" "named (sdist_name i) es = Some s"
    "validate_wheel R lib w i = Inr ()" "validate_sdist R lib s i = Inr ()"
  using assms by (auto simp: validate_artifacts_def rbind_Inr_iff split: option.splits)

text \<open>Artifact names stand on one line when the version does.\<close>

lemma module_plain: "load_project_identity pf path = Inr i \<Longrightarrow> plain_name (pi_module i)"
proof -
  assume "load_project_identity pf path = Inr i"
  then have m: "is_module (pi_module i)"
    by (auto simp: load_project_identity_def rbind_Inr_iff split: document.splits option.splits)
  have u: "ord_of CHR ''_'' = 95" "ord_of CHR ''/'' = 47" "ord_of CHR 0x5C = 92" by (simp_all add: ord_of_def)
  obtain c cs where ccs: "pi_module i = c # cs" "97 \<le> ord_of c \<and> ord_of c \<le> 122"
    "\<And>x. x \<in> set cs \<Longrightarrow> 97 \<le> ord_of x \<and> ord_of x \<le> 122 \<or> is_digit x \<or> x = CHR ''_''"
    using m by (auto simp: is_module_def list_all_iff split: list.splits)
  have "x \<noteq> CHR ''/'' \<and> x \<noteq> CHR 0x5C \<and> \<not> line_boundary x"
    if "97 \<le> ord_of x \<and> ord_of x \<le> 122 \<or> is_digit x \<or> ord_of x = 95" for x
    using that u by (auto simp: is_digit_def Let_def line_boundary_def)
  with ccs u(1) show ?thesis unfolding plain_name_def ccs(1) by (metis list.distinct(1) set_ConsD)
qed

lemma plain_append: "plain_name a \<Longrightarrow> plain_name b \<Longrightarrow> plain_name (a @ b)"
  by (auto simp: plain_name_def)

lemma artifact_names_plain:
  assumes "load_project_identity pf path = Inr i" and "plain_name (pi_version i)"
  shows "plain_name (wheel_name i)" "plain_name (sdist_name i)"
proof -
  have "plain_name ''-''" "plain_name ''-py3-none-any.whl''" "plain_name ''.tar.gz''"
    by (simp_all add: plain_name_def line_boundary_def ord_of_def)
  with assms module_plain [OF assms(1)] show "plain_name (wheel_name i)" "plain_name (sdist_name i)"
    unfolding wheel_name_def sdist_name_def by (blast intro: plain_append)+
qed

text \<open>Names in a directory are distinct.\<close>

definition distinct_names :: "directory \<Rightarrow> bool" where
  "distinct_names d = (case dr_entries d of Document es \<Rightarrow> distinct (map en_name es) | _ \<Rightarrow> True)"

definition has_file :: "directory \<Rightarrow> string \<Rightarrow> bytes \<Rightarrow> bool" where
  "has_file d n b \<longleftrightarrow>
     (\<exists>es e. dr_entries d = Document es \<and> e \<in> set es \<and> en_name e = n \<and> en_is_file e \<and> \<not> en_is_symlink e \<and>
        en_bytes e = Document b)"

lemma artifact_has_file:
  assumes "artifact_paths R d i = Inr es" and "named n es = Some e" and "en_bytes e = Document b"
  shows "has_file d n b"
proof -
  obtain all where "dr_entries d = Document all" "set es \<subseteq> set all"
    "\<And>e. e \<in> set es \<Longrightarrow> en_is_file e \<and> \<not> en_is_symlink e"
    using assms(1) by (rule artifact_paths_Inr) blast
  with named_Some [OF assms(2)] assms(3) show ?thesis unfolding has_file_def by blast
qed

lemma artifact_entries:
  assumes "artifact_paths R d i = Inr es" and "distinct_names d"
  shows "en_name ` set es = {wheel_name i, sdist_name i}" "distinct (map en_name es)"
  using assms by (auto elim!: artifact_paths_Inr simp: distinct_names_def)

lemma wheel_sdist_names: "wheel_name i \<noteq> sdist_name i"
proof
  assume "wheel_name i = sdist_name i"
  then have "last (wheel_name i) = last (sdist_name i)" by simp
  then show False by (simp add: wheel_name_def sdist_name_def)
qed

lemma two_entries:
  assumes "en_name ` set es = {m, n}" and "m \<noteq> n" and "distinct (map en_name es)"
    and "named m es = Some v" and "named n es = Some w"
  shows "set es = {v, w}"
proof -
  have "x = v \<or> x = w" if "x \<in> set es" for x
  proof -
    have "en_name x \<in> {m, n}" using assms(1) that by blast
    then show ?thesis
      using named_Some [OF assms(4)] named_Some [OF assms(5)] that assms(3)
      by (auto simp: distinct_map inj_on_def)
  qed
  with named_Some [OF assms(4)] named_Some [OF assms(5)] show ?thesis by blast
qed

section \<open>The release bundle\<close>

lemma entry_of_Inr: "entry_of es n = Inr e \<Longrightarrow> e \<in> set es \<and> en_name e = n"
  by (auto simp: entry_of_def named_Some split: option.splits)

lemma exact_regular_files_Inr:
  assumes "exact_regular_files R d expected = Inr es"
  obtains all where "dr_entries d = Document all" "es = sort_key en_name all" "en_name ` set es = set expected"
    "list_all (\<lambda>e. en_is_file e \<and> \<not> en_is_symlink e) es"
  using assms
  by (auto simp: exact_regular_files_def listing_def rbind_Inr_iff list_ex_iff list_all_iff split: document.splits)

lemma exact_regular_files_facts:
  assumes "exact_regular_files R d expected = Inr es" and "distinct_names d"
  shows "en_name ` set es = set expected" "distinct (map en_name es)"
    "\<And>e b. e \<in> set es \<Longrightarrow> en_bytes e = Document b \<Longrightarrow> has_file d (en_name e) b"
proof -
  obtain all where a: "dr_entries d = Document all" "es = sort_key en_name all" "en_name ` set es = set expected"
    "list_all (\<lambda>e. en_is_file e \<and> \<not> en_is_symlink e) es"
    using assms(1) by (rule exact_regular_files_Inr)
  show "en_name ` set es = set expected" by (rule a(3))
  show "distinct (map en_name es)" using a(1,2) assms(2) by (simp add: distinct_names_def distinct_map)
  show "has_file d (en_name e) b" if "e \<in> set es" "en_bytes e = Document b" for e b
    using a that unfolding has_file_def list_all_iff by auto
qed

lemma evidence_names_plain: "list_all plain_name (''SHA256SUMS'' # ''release-manifest.json'' # evidence_files)"
  by (simp add: evidence_files_def plain_name_def line_boundary_def ord_of_def)

lemma bundle_names_distinct:
  "{wheel_name i, sdist_name i} \<inter> set (''SHA256SUMS'' # ''release-manifest.json'' # evidence_files) = {}"
  "''SHA256SUMS'' \<notin> set evidence_files" "''release-manifest.json'' \<notin> set evidence_files"
proof -
  have "n \<noteq> wheel_name i \<and> n \<noteq> sdist_name i" if "last n \<noteq> CHR ''l''" "last n \<noteq> CHR ''z''" for n
    using that by (auto simp: wheel_name_def sdist_name_def)
  moreover have "list_all (\<lambda>n. last n \<noteq> CHR ''l'' \<and> last n \<noteq> CHR ''z'') (''SHA256SUMS'' # ''release-manifest.json'' # evidence_files)"
    by (simp add: evidence_files_def)
  ultimately show "{wheel_name i, sdist_name i} \<inter> set (''SHA256SUMS'' # ''release-manifest.json'' # evidence_files) = {}"
    unfolding list_all_iff by blast
  show "''SHA256SUMS'' \<notin> set evidence_files" "''release-manifest.json'' \<notin> set evidence_files"
    by (simp_all add: evidence_files_def)
qed

definition manifest_text ::
    "(rat \<Rightarrow> string) \<Rightarrow> archive_lib \<Rightarrow> bytes dict \<Rightarrow> pyval dict dict \<Rightarrow> project_identity \<Rightarrow> release_identity \<Rightarrow> bytes" where
  "manifest_text fr lib copies records i r =
     dumps_indented fr (PDict (release_manifest lib copies records i r)) @ [CHR 0x0A]"

lemma assemble_Inr:
  assumes "assemble fr lib inputs records i r = Inr files"
  obtains copies manifest where "copies = map (\<lambda>e. (en_name e, content e)) (sort_key en_name inputs)"
    "manifest = manifest_text fr lib copies records i r"
    "files = (copies @ [(''release-manifest.json'', manifest)]) @
       [(''RELEASE_SHA256SUMS'', checksum_text (file_digests lib (copies @ [(''release-manifest.json'', manifest)])))]"
    "\<forall>e \<in> set inputs. en_bytes e = Document (content e)"
proof -
  from assms obtain copies where c: "rmap copy_entry (sort_key en_name inputs) = Inr copies"
    and f: "files = (copies @ [(''release-manifest.json'', manifest_text fr lib copies records i r)]) @
      [(''RELEASE_SHA256SUMS'', checksum_text (file_digests lib
         (copies @ [(''release-manifest.json'', manifest_text fr lib copies records i r)])))]"
    by (auto simp: assemble_def manifest_text_def rbind_Inr_iff Let_def write_ascii_def split: if_splits)
  show ?thesis
    by (rule that [OF copies_are [OF c] refl f]) (use copied_readable [OF c] in auto)
qed

section \<open>What checked evidence says\<close>

text \<open>An SBOM of a project: a CycloneDX document that names the project and at least one dependency.\<close>

definition sound_sbom :: "string \<Rightarrow> pyval dict \<Rightarrow> bool" where
  "sound_sbom project d \<longleftrightarrow>
     py_get d ''bomFormat'' = PStr ''CycloneDX'' \<and>
     (\<exists>v. py_get d ''specVersion'' = PStr v \<and> v \<in> {''1.5'', ''1.6'', ''1.7''}) \<and> eq_int (py_get d ''version'') 1 \<and>
     (\<exists>serial. py_get d ''serialNumber'' = PStr serial \<and> is_serial serial) \<and>
     normalized_name project \<in> names_in (initial_components d) \<and> 2 \<le> card (names_in (initial_components d))"

text \<open>A Grype report of the pinned version about an image, with a list of findings.\<close>

definition sound_report :: "(rat \<Rightarrow> string) \<Rightarrow> string \<Rightarrow> pyval dict \<Rightarrow> bool" where
  "sound_report fr img d \<longleftrightarrow>
     (\<exists>tool source target found. py_get d ''descriptor'' = PDict tool \<and> py_get tool ''name'' = PStr ''grype'' \<and>
        py_get tool ''version'' = PStr ''0.116.1'' \<and> py_get d ''source'' = PDict source \<and>
        py_get source ''type'' = PStr ''image'' \<and> py_get source ''target'' = PDict target \<and>
        contains (dumps fr (PDict target)) img \<and> py_get d ''matches'' = PList found \<and>
        list_all (\<lambda>m. \<exists>f. m = PDict f) found)"

definition sound_policy :: "pyval dict \<Rightarrow> bool" where
  "sound_policy d \<longleftrightarrow>
     py_get d ''status'' = PStr ''passed'' \<and>
     (\<exists>n \<ge> 0. py_get d ''actionable_findings'' = PInt n) \<and>
     (\<exists>n \<ge> 0. py_get d ''unfixed_high_critical_findings'' = PInt n) \<and>
     (\<exists>es. py_get d ''approved_exceptions'' = PList es)"

text \<open>The record of one platform in the platform document.\<close>

definition sound_platform :: "release_identity \<Rightarrow> pyval dict \<Rightarrow> string \<Rightarrow> string \<Rightarrow> pyval dict \<Rightarrow> bool" where
  "sound_platform r table architecture digest rec \<longleftrightarrow>
     py_get table (''linux/'' @ architecture) = PDict rec \<and> py_get rec ''digest'' = PStr digest \<and> image_digest digest \<and>
     py_get rec ''os'' = PStr ''linux'' \<and> py_get rec ''architecture'' = PStr architecture \<and>
     py_get rec ''reference'' = PStr (rl_image r @ ''@'' @ digest) \<and>
     py_get rec ''tags'' = PList [PStr (rl_tag r @ ''-'' @ architecture), PStr (''sha-'' @ rl_commit r @ ''-'' @ architecture)]"

definition sound_platforms :: "release_identity \<Rightarrow> pyval dict dict \<Rightarrow> pyval dict \<Rightarrow> bool" where
  "sound_platforms r records d \<longleftrightarrow>
     eq_int (py_get d ''schema_version'') 1 \<and>
     (\<exists>index. py_get d ''index'' = PDict index \<and> py_get index ''digest'' = PStr (rl_digest r) \<and>
        py_get index ''reference'' = PStr (rl_image r @ ''@'' @ rl_digest r) \<and>
        py_get index ''tags'' = PList [PStr (rl_tag r), PStr (''sha-'' @ rl_commit r)]) \<and>
     (\<exists>table amd arm amd_digest arm_digest. py_get d ''platforms'' = PDict table \<and>
        set (map fst table) = {''linux/amd64'', ''linux/arm64''} \<and>
        sound_platform r table ''amd64'' amd_digest amd \<and> sound_platform r table ''arm64'' arm_digest arm \<and>
        amd_digest \<noteq> arm_digest \<and> records = [(''linux/amd64'', amd), (''linux/arm64'', arm)])"

lemma load_document_Inr: "load_document docs path = Inr d \<longleftrightarrow> docs path = Document (PDict d)"
  by (auto simp: load_document_def split: document.splits option.splits)

lemma set_contains_Inr: "set_contains S v = Inr True \<longleftrightarrow> (\<exists>s. v = PStr s \<and> s \<in> set S)"
  by (cases v) auto

lemma count_severities_dicts: "count_severities path ms acc = Inr c \<Longrightarrow> list_all (\<lambda>m. \<exists>f. m = PDict f) ms"
  by (induction path ms acc rule: count_severities.induct) (auto split: option.splits)

lemma validate_cyclonedx_sound:
  assumes "validate_cyclonedx R docs path project = Inr v"
  shows "\<exists>d. docs path = Document (PDict d) \<and> sound_sbom project d"
proof -
  from assms obtain d ok where d: "docs path = Document (PDict d)" "py_get d ''bomFormat'' = PStr ''CycloneDX''"
    "set_contains cyclonedx_versions (py_get d ''specVersion'') = Inr ok" "ok" "eq_int (py_get d ''version'') 1"
    "case as_str (py_get d ''serialNumber'') of None \<Rightarrow> False | Some s \<Rightarrow> is_serial s"
    "normalized_name project \<in> set (component_names d)" "2 \<le> length (component_names d)"
    by (auto simp: validate_cyclonedx_def rbind_Inr_iff Let_def load_document_Inr)
  moreover have "card (names_in (initial_components d)) = length (component_names d)"
    using distinct_card [OF component_names_exact(1) [of d]] by (simp add: component_names_exact(2))
  moreover have "set_contains cyclonedx_versions (py_get d ''specVersion'') = Inr True" using d(3,4) by simp
  ultimately show ?thesis
    using component_names_exact(2) [of d] unfolding set_contains_Inr cyclonedx_versions_def sound_sbom_def
    by (intro exI [of _ d] conjI) (auto split: option.splits)
qed

lemma validate_report_sound:
  assumes "validate_grype_report R fr docs path img = Inr v"
  shows "\<exists>d. docs path = Document (PDict d) \<and> sound_report fr img d"
proof -
  let ?dict = "\<lambda>v. case as_dict v of None \<Rightarrow> [] | Some d \<Rightarrow> d"
  from assms obtain d c where d: "docs path = Document (PDict d)"
    "py_get (?dict (py_get d ''descriptor'')) ''name'' = PStr ''grype''"
    "py_get (?dict (py_get d ''descriptor'')) ''version'' = PStr grype_version"
    "as_list (py_get d ''matches'') \<noteq> None" "py_get (?dict (py_get d ''source'')) ''type'' = PStr ''image''"
    "case as_dict (py_get (?dict (py_get d ''source'')) ''target'') of None \<Rightarrow> False
       | Some target \<Rightarrow> contains (dumps fr (PDict target)) img"
    "count_severities path (case as_list (py_get d ''matches'') of None \<Rightarrow> [] | Some vs \<Rightarrow> vs) [] = Inr c"
    by (auto simp: validate_grype_report_def rbind_Inr_iff Let_def load_document_Inr)
  have n: "py_get [] k \<noteq> PStr x" for k x by (simp add: py_get_def)
  obtain tool where t: "py_get d ''descriptor'' = PDict tool"
    using d(2) n by (cases "as_dict (py_get d ''descriptor'')") auto
  obtain source where s: "py_get d ''source'' = PDict source"
    using d(5) n by (cases "as_dict (py_get d ''source'')") auto
  obtain target where g: "py_get source ''target'' = PDict target" "contains (dumps fr (PDict target)) img"
    using d(6) s by (auto split: option.splits)
  obtain found where m: "py_get d ''matches'' = PList found" using d(4) by auto
  have "list_all (\<lambda>m. \<exists>f. m = PDict f) found" using count_severities_dicts [OF d(7)] m by simp
  with d(1-3,5) t s g m show ?thesis unfolding sound_report_def grype_version_def by auto
qed

lemma is_count_iff: "is_count v \<longleftrightarrow> (\<exists>n \<ge> 0. v = PInt n)"
  by (cases v) (auto simp: is_count_def)

lemma validate_policy_sound:
  "validate_policy docs path = Inr () \<longleftrightarrow> (\<exists>d. docs path = Document (PDict d) \<and> sound_policy d)"
proof -
  have "as_list v \<noteq> None \<longleftrightarrow> (\<exists>es. v = PList es)" for v by (cases v) auto
  then show ?thesis
    unfolding validate_policy_def sound_policy_def rbind_Inr_iff load_document_Inr checks_Inr is_count_iff by auto
qed

lemma check_platform_sound:
  assumes "check_platform r path table digests (''linux/'' @ a) a = Inr (digest, rec)"
  shows "sound_platform r table a digest rec \<and> digest \<notin> set digests"
  using assms by (auto simp: check_platform_def sound_platform_def rbind_Inr_iff split: option.splits)

lemma validate_platform_evidence_sound:
  assumes "validate_platform_evidence docs path r = Inr records"
  shows "\<exists>d. docs path = Document (PDict d) \<and> sound_platforms r records d"
proof -
  from assms obtain d index table where d: "docs path = Document (PDict d)" "eq_int (py_get d ''schema_version'') 1"
    "py_get d ''index'' = PDict index" "py_get index ''digest'' = PStr (rl_digest r)"
    "py_get index ''reference'' = PStr (rl_image r @ ''@'' @ rl_digest r)"
    "py_get index ''tags'' = PList [PStr (rl_tag r), PStr (''sha-'' @ rl_commit r)]"
    "py_get d ''platforms'' = PDict table" "set (map fst table) = set (map fst platforms)"
    "check_platforms r path table platforms [] [] = Inr records"
    by (auto simp: validate_platform_evidence_def rbind_Inr_iff load_document_Inr split: option.splits)
  from d(9) obtain p q where q: "check_platform r path table [] ''linux/amd64'' ''amd64'' = Inr p"
    "check_platform r path table [fst p] ''linux/arm64'' ''arm64'' = Inr q"
    "records = [(''linux/amd64'', snd p), (''linux/arm64'', snd q)]"
    by (auto simp: platforms_def rbind_Inr_iff split: prod.splits)
  have "sound_platform r table ''amd64'' (fst p) (snd p)"
    using check_platform_sound [of r path table "[]" "''amd64''" "fst p" "snd p"] q(1) by simp
  moreover have "sound_platform r table ''arm64'' (fst q) (snd q)" "fst q \<noteq> fst p"
    using check_platform_sound [of r path table "[fst p]" "''arm64''" "fst q" "snd q"] q(2) by simp_all
  moreover have "set (map fst table) = {''linux/amd64'', ''linux/arm64''}" using d(8) by (simp add: platforms_def)
  ultimately show ?thesis using d(1-7) q(3) unfolding sound_platforms_def by metis
qed

lemma publication_Inr:
  assumes "prepare_release_publication R fr lib parse path pf pd ed out link r = Inr (result, files)"
  obtains i packages evidence records where "validate_identity R pf path r = Inr i" "load_project_identity pf path = Inr i"
    "exact_regular_files R pd [''SHA256SUMS'', wheel_name i, sdist_name i] = Inr packages"
    "exact_regular_files R ed evidence_files = Inr evidence"
    "check_packages R lib i packages = Inr ()" "check_evidence R fr parse evidence (pi_name i) r = Inr records"
    "check_image_subject evidence r = Inr ()" "assemble fr lib (packages @ evidence) records i r = Inr files"
    "checks (map (\<lambda>e. bounded (evidence_limit e) e) evidence) = Inr ()" "\<not> link" "dr_entries out = Document []"
proof -
  from assms obtain i i' packages evidence records where a: "validate_identity R pf path r = Inr i"
    "load_project_identity pf path = Inr i'"
    "exact_regular_files R pd [''SHA256SUMS'', wheel_name i, sdist_name i] = Inr packages"
    "exact_regular_files R ed evidence_files = Inr evidence"
    "check_packages R lib i' packages = Inr ()" "check_evidence R fr parse evidence (pi_name i) r = Inr records"
    "check_image_subject evidence r = Inr ()" "assemble fr lib (packages @ evidence) records i r = Inr files"
    "checks (map (\<lambda>e. bounded (evidence_limit e) e) evidence) = Inr ()" "check_output link out = Inr ()"
    unfolding prepare_release_publication_def rbind_Inr_iff by auto
  moreover have "i' = i" using a(1,2) by (auto simp: validate_identity_def rbind_Inr_iff)
  moreover have "\<not> link" "dr_entries out = Document []"
    using a(10) by (auto simp: check_output_def rbind_Inr_iff split: document.splits)
  ultimately show ?thesis by (intro that) simp_all
qed

text \<open>The published checksum file lists the digests of the two archives, and nothing else.\<close>

definition sound_sums :: "archive_lib \<Rightarrow> bytes \<Rightarrow> string \<Rightarrow> bytes \<Rightarrow> string \<Rightarrow> bytes \<Rightarrow> bool" where
  "sound_sums lib b wheel_file wheel sdist_file sdist \<longleftrightarrow>
     (\<exists>path parsed. parse_checksums path (splitlines (text_newlines b)) [] = Inr parsed \<and>
        fst ` set parsed = {wheel_file, sdist_file} \<and> map_of parsed wheel_file = Some (al_sha256 lib wheel) \<and>
        map_of parsed sdist_file = Some (al_sha256 lib sdist))"

lemma package_checksums_sound:
  assumes "validate_package_checksums lib e [w, s] = Inr ()" and "en_bytes w = Document wheel" and "en_bytes s = Document sdist"
    and "en_bytes e = Document b"
  shows "sound_sums lib b (en_name w) wheel (en_name s) sdist"
  using assms
  by (auto simp: validate_package_checksums_def sound_sums_def rbind_Inr_iff ascii_text_def check_digest_def
      checked_sha256_def split: if_splits)

lemma check_packages_Inr:
  assumes "check_packages R lib i packages = Inr ()"
  obtains w s e where "w \<in> set packages" "en_name w = wheel_name i" "validate_wheel R lib w i = Inr ()"
    "s \<in> set packages" "en_name s = sdist_name i" "validate_sdist R lib s i = Inr ()"
    "e \<in> set packages" "en_name e = ''SHA256SUMS''" "validate_package_checksums lib e [w, s] = Inr ()"
  using assms by (auto simp: check_packages_def rbind_Inr_iff dest!: entry_of_Inr)

text \<open>The evidence a published bundle carries, in terms of the published bytes.\<close>

definition published ::
    "(bytes \<Rightarrow> pyval document) \<Rightarrow> bytes dict \<Rightarrow> string \<Rightarrow> (pyval dict \<Rightarrow> bool) \<Rightarrow> bool" where
  "published parse files n sound \<longleftrightarrow> (\<exists>b d. (n, b) \<in> set files \<and> parse b = Document (PDict d) \<and> sound d)"

definition evidence_published ::
    "(rat \<Rightarrow> string) \<Rightarrow> (bytes \<Rightarrow> pyval document) \<Rightarrow> string \<Rightarrow> release_identity \<Rightarrow> pyval dict dict \<Rightarrow> bytes dict \<Rightarrow> bool" where
  "evidence_published fr parse project r records files \<longleftrightarrow>
     published parse files ''source.cdx.json'' (sound_sbom project) \<and>
     (\<forall>a \<in> {''amd64'', ''arm64''}.
        published parse files (''image-'' @ a @ ''.cdx.json'') (sound_sbom project) \<and>
        published parse files (''grype-'' @ a @ ''.json'')
          (sound_report fr (project @ '':release-'' @ rl_commit r @ ''-'' @ a)) \<and>
        published parse files (''policy-'' @ a @ ''.json'') sound_policy) \<and>
     published parse files ''image-platforms.json'' (sound_platforms r records) \<and>
     (\<exists>b. (''image-digest.txt'', b) \<in> set files \<and> text_newlines b = rl_image r @ ''@'' @ rl_digest r @ [CHR 0x0A])"

lemma evidence_publishedI:
  assumes c: "check_evidence R fr parse evidence project r = Inr records" "check_image_subject evidence r = Inr ()"
    and b: "\<forall>e \<in> set evidence. en_bytes e = Document (content e) \<and> (en_name e, content e) \<in> set files"
  shows "evidence_published fr parse project r records files"
proof -
  have pub: "published parse files n sound"
    if "entry_of evidence n = Inr e" "\<exists>d. docs_of parse e (en_path e) = Document (PDict d) \<and> sound d" for n e sound
    using that entry_of_Inr [OF that(1)] b unfolding published_def by (auto simp: docs_of_def)
  from c(1) obtain source index v us where a: "entry_of evidence ''source.cdx.json'' = Inr source"
    "validate_cyclonedx R (docs_of parse source) (en_path source) project = Inr v"
    "entry_of evidence ''image-platforms.json'' = Inr index"
    "validate_platform_evidence (docs_of parse index) (en_path index) r = Inr records"
    "rmap (check_architecture R fr parse evidence project r records) platforms = Inr us"
    unfolding check_evidence_def rbind_Inr_iff by auto
  have arch: "published parse files (''image-'' @ a @ ''.cdx.json'') (sound_sbom project) \<and>
      published parse files (''grype-'' @ a @ ''.json'') (sound_report fr (project @ '':release-'' @ rl_commit r @ ''-'' @ a)) \<and>
      published parse files (''policy-'' @ a @ ''.json'') sound_policy" if "a \<in> {''amd64'', ''arm64''}" for a
  proof -
    have "(''linux/'' @ a, a) \<in> set platforms" using that by (elim insertE emptyE) (simp_all add: platforms_def)
    then obtain u where "check_architecture R fr parse evidence project r records (''linux/'' @ a, a) = Inr u"
      using list_all2_member [OF a(5) [unfolded rmap_Inr_iff]] by blast
    then obtain sbom v report w policy where e: "entry_of evidence (''image-'' @ a @ ''.cdx.json'') = Inr sbom"
      "validate_cyclonedx R (docs_of parse sbom) (en_path sbom) project = Inr v"
      "entry_of evidence (''grype-'' @ a @ ''.json'') = Inr report"
      "validate_grype_report R fr (docs_of parse report) (en_path report) (project @ '':release-'' @ rl_commit r @ ''-'' @ a) = Inr w"
      "entry_of evidence (''policy-'' @ a @ ''.json'') = Inr policy"
      "validate_policy (docs_of parse policy) (en_path policy) = Inr ()"
      unfolding check_architecture_def prod.case rbind_Inr_iff by auto
    show ?thesis
      by (intro conjI pub [OF e(1) validate_cyclonedx_sound [OF e(2)]] pub [OF e(3) validate_report_sound [OF e(4)]]
          pub [OF e(5) validate_policy_sound [THEN iffD1, OF e(6)]])
  qed
  have "\<exists>b. (''image-digest.txt'', b) \<in> set files \<and> text_newlines b = rl_image r @ ''@'' @ rl_digest r @ [CHR 0x0A]"
  proof -
    from c(2) obtain e t where e: "entry_of evidence ''image-digest.txt'' = Inr e"
      "ascii_text e ''invalid image subject'' = Inr t" "t = rl_image r @ ''@'' @ rl_digest r @ [CHR 0x0A]"
      by (auto simp: check_image_subject_def rbind_Inr_iff)
    moreover have "e \<in> set evidence" "en_name e = ''image-digest.txt''" using entry_of_Inr [OF e(1)] by simp_all
    ultimately show ?thesis using b by (fastforce simp: ascii_text_def split: document.splits if_splits)
  qed
  then show ?thesis
    unfolding evidence_published_def
    by (intro conjI ballI arch pub [OF a(1) validate_cyclonedx_sound [OF a(2)]]
        pub [OF a(3) validate_platform_evidence_sound [OF a(4)]])
qed

text \<open>The sizes of the evidence files.\<close>

lemma bounded_Inr: "bounded n e = Inr () \<longleftrightarrow> (\<exists>k. en_size e = Document k \<and> k \<le> n)"
  by (auto simp: bounded_def split: document.splits)

end
