(* ===== verification/Release_Example.thy ===== *)
theory Release_Example
  imports Release_Bundle
begin

text \<open>
  A concrete project, its two builds, a published image and a release bundle: inputs on which the
  release tools succeed.
\<close>

section \<open>An example project\<close>

definition example_id :: project_identity where
  "example_id = \<lparr>pi_name = ''app'', pi_module = ''app'', pi_version = ''1''\<rparr>"

definition example_pyproject :: "pyval dict document" where
  "example_pyproject = Document [(''project'', PDict [(''name'', PStr ''app''), (''version'', PStr ''1'')])]"

definition example_zip :: "string \<Rightarrow> zip_member" where
  "example_zip n = \<lparr>zm_filename = n, zm_external_attr = 0, zm_file_size = 1, zm_content = Document ''M''\<rparr>"

definition example_tar :: "string \<Rightarrow> tar_member" where
  "example_tar n = \<lparr>tm_name = n, tm_kind = TarFile, tm_size = 1, tm_content = Document ''M''\<rparr>"

definition example_lib :: archive_lib where
  "example_lib = \<lparr>
     al_zip = (\<lambda>b. Document (map example_zip [''app/a.py'', ''app-1.dist-info/METADATA''])),
     al_tar = (\<lambda>b. Document (map example_tar (map ((@) ''app-1/'') (''src/app/a.py'' # allowed_root_files)))),
     al_header = (\<lambda>b f. if f = ''Name'' then Some ''app'' else Some ''1''),
     al_sha256 = (\<lambda>b. replicate 64 CHR ''0'')\<rparr>"

definition example_file :: "string \<Rightarrow> bytes \<Rightarrow> entry" where
  "example_file n b = \<lparr>en_path = n, en_name = n, en_is_symlink = False, en_is_file = True,
     en_bytes = Document b, en_size = Document (length b)\<rparr>"

definition example_builds :: directory where
  "example_builds = \<lparr>dr_path = ''dist'', dr_entries = Document
     [example_file ''app-1-py3-none-any.whl'' ''W'', example_file ''app-1.tar.gz'' ''S'']\<rparr>"

definition empty_dir :: directory where
  "empty_dir = \<lparr>dr_path = ''out'', dr_entries = Document []\<rparr>"

lemma example_load: "load_project_identity example_pyproject p = Inr example_id"
  by (simp add: load_project_identity_def example_pyproject_def example_id_def stripped_field_def) code_simp

lemmas parts_eval = safe_parts_def Let_def endswith_def startswith_def split_on_def

lemma example_metadata:
  "validate_metadata_file R example_lib b example_id c = Inr ()"
  by (simp add: validate_metadata_anywhere example_lib_def example_id_def)

lemma example_wheel: "validate_wheel R example_lib (example_file ''app-1-py3-none-any.whl'' ''W'') example_id = Inr ()"
proof -
  have "al_zip example_lib ''W'' = Document (map example_zip [''app/a.py'', ''app-1.dist-info/METADATA''])"
    by (simp add: example_lib_def)
  moreover have "dist_info example_id = ''app-1.dist-info''" "wheel_name example_id = ''app-1-py3-none-any.whl''"
    by (simp_all add: dist_info_def wheel_name_def example_id_def)
  moreover have "pi_module example_id = ''app''" by (simp add: example_id_def)
  moreover have "safe_parts R ''app/a.py'' c = Inr [''app'', ''a.py'']"
    "safe_parts R ''app-1.dist-info/METADATA'' c = Inr [''app-1.dist-info'', ''METADATA'']" for c
    by (simp_all add: parts_eval)
  ultimately show ?thesis
    by (simp add: validate_wheel_def file_bytes_def read_member_def example_file_def example_zip_def is_link_attr_def
        max_archive_members_def max_metadata_bytes_def startswith_eval gate_require_def ensure_def example_metadata)
qed

lemma example_sdist: "validate_sdist R example_lib (example_file ''app-1.tar.gz'' ''S'') example_id = Inr ()"
proof -
  have "al_tar example_lib ''S'' = Document (map example_tar (map ((@) ''app-1/'') (''src/app/a.py'' # allowed_root_files)))"
    by (simp add: example_lib_def)
  moreover have "sdist_name example_id = ''app-1.tar.gz''" "pi_module example_id = ''app''" "pi_version example_id = ''1''"
    by (simp_all add: sdist_name_def example_id_def)
  moreover have "safe_parts R (''app-1/'' @ ''src/app/a.py'') c = Inr [''app-1'', ''src'', ''app'', ''a.py'']" for c
    by (simp add: parts_eval)
  moreover have "safe_parts R (''app-1/'' @ f) c = Inr [''app-1'', f]" if "f \<in> set allowed_root_files" for f c
    using that unfolding allowed_root_files_def by (simp add: parts_eval) (elim disjE; simp)
  ultimately show ?thesis
    apply (simp add: validate_sdist_def file_bytes_def read_member_def example_file_def example_tar_def 
        max_archive_members_def max_metadata_bytes_def gate_require_def ensure_def example_metadata allowed_root_files_def check_sdist_member_def sdist_content_def sdist_metadata_def empty_scan_def)
    done
qed

lemma example_paths: "artifact_paths (\<lambda>v. []) example_builds example_id = Inr [example_file ''app-1-py3-none-any.whl'' ''W'', example_file ''app-1.tar.gz'' ''S'']"
  by code_simp


definition example_sums :: string where
  "example_sums = checksum_text [(''app-1-py3-none-any.whl'', replicate 64 CHR ''0''), (''app-1.tar.gz'', replicate 64 CHR ''0'')]"

definition released_files :: "bytes dict" where
  "released_files = [(''app-1-py3-none-any.whl'', ''W''), (''app-1.tar.gz'', ''S''), (''SHA256SUMS'', example_sums)]"

lemma example_hex: "hex_text 64 (al_sha256 example_lib b)"
  by (simp add: example_lib_def hex_text_def is_hex_def is_digit_def ord_of_def list_all_iff)

lemma ascii_simps: "is_ascii [] = True" "is_ascii (c # cs) = (ord_of c < 128 \<and> is_ascii cs)"
  "is_ascii (a @ b) = (is_ascii a \<and> is_ascii b)" "is_ascii (replicate n c) = (n = 0 \<or> ord_of c < 128)"
  by (auto simp: is_ascii_def list_all_iff)

lemma example_sums_ascii: "is_ascii example_sums"
  by (simp add: example_sums_def checksum_text_def checksum_line_def ascii_simps ord_of_def)

lemma example_run:
  "\<exists>result. prepare_release_artifacts (\<lambda>v. []) example_lib ''pyproject.toml'' example_pyproject example_builds example_builds
     empty_dir ''v1'' = Inr (result, released_files)"
proof -
  let ?es = "[example_file ''app-1-py3-none-any.whl'' ''W'', example_file ''app-1.tar.gz'' ''S'']"
  have n: "named (wheel_name example_id) ?es = Some (example_file ''app-1-py3-none-any.whl'' ''W'')"
    "named (sdist_name example_id) ?es = Some (example_file ''app-1.tar.gz'' ''S'')"
    by (simp_all add: named_def example_file_def wheel_name_def sdist_name_def example_id_def)
  have v: "validate_artifacts (\<lambda>v. []) example_lib example_id ?es = Inr ()"
    by (simp add: validate_artifacts_def n example_wheel example_sdist)
  have d: "rmap (same_digest example_lib ?es) ?es =
      Inr [(''app-1-py3-none-any.whl'', replicate 64 CHR ''0''), (''app-1.tar.gz'', replicate 64 CHR ''0'')]"
    by (simp add: same_digest_def sha256_of_def raw_bytes_def named_def example_file_def example_lib_def)
  have c: "rmap copy_entry ?es = Inr [(''app-1-py3-none-any.whl'', ''W''), (''app-1.tar.gz'', ''S'')]"
    by (simp add: copy_entry_def raw_bytes_def example_file_def)
  have "(''v1'' = CHR ''v'' # pi_version example_id) = True" by (simp add: example_id_def)
  then show ?thesis
    by (simp add: prepare_release_artifacts_def example_load example_paths v d c empty_dir_def write_ascii_def
        example_sums_ascii [unfolded example_sums_def] released_files_def example_sums_def gate_require_def ensure_def
        del: rmap.simps)
qed

lemma example_distinct: "distinct_names example_builds"
  by (simp add: distinct_names_def example_builds_def example_file_def)

definition example_packages :: "entry list" where
  "example_packages = map (\<lambda>(n, b). example_file n b) released_files"

lemma example_plain: "plain_name (pi_version example_id)"
  by (simp add: example_id_def plain_name_def line_boundary_def ord_of_def)

section \<open>An example release\<close>

definition example_digest :: "char \<Rightarrow> string" where
  "example_digest c = ''sha256:'' @ replicate 64 c"

definition example_subject :: subject where
  "example_subject = \<lparr>sb_image = ''ghcr.io/o/app'', sb_index = example_digest CHR ''a'', sb_amd64 = example_digest CHR ''b'',
     sb_arm64 = example_digest CHR ''c'', sb_tag = ''v1'', sb_commit = replicate 40 CHR ''a''\<rparr>"

definition example_descriptor :: "string \<Rightarrow> string \<Rightarrow> pyval" where
  "example_descriptor architecture digest = PDict [(''digest'', PStr digest),
     (''platform'', PDict [(''os'', PStr ''linux''), (''architecture'', PStr architecture)])]"

definition example_manifest :: "pyval document" where
  "example_manifest = Document (PDict [(''digest'', PStr (example_digest CHR ''a'')),
     (''manifests'', PList [example_descriptor ''amd64'' (example_digest CHR ''b''), example_descriptor ''arm64'' (example_digest CHR ''c'')])])"

definition released_version :: release_identity where
  "released_version = \<lparr>rl_tag = ''v1'', rl_repository = ''o/app'', rl_commit = replicate 40 CHR ''a'',
     rl_image = ''ghcr.io/o/app'', rl_digest = example_digest CHR ''a''\<rparr>"

lemma example_digest_ok: "is_hex c \<Longrightarrow> image_digest (example_digest c)"
  by (simp add: image_digest_def example_digest_def startswith_def hex_text_def list_all_iff)

lemma example_digest_inj: "example_digest c = example_digest d \<longleftrightarrow> c = d"
  by (auto simp: example_digest_def replicate_eq_replicate)

lemma example_subject_ok: "check_subject example_subject = Inr ()"
proof -
  have "is_hex CHR ''a''" "is_hex CHR ''b''" "is_hex CHR ''c''" by (simp_all add: is_hex_def ord_of_def)
  moreover have "release_commit (replicate 40 CHR ''a'')"
    by (simp add: release_commit_def hex_text_def list_all_iff is_hex_def ord_of_def)
  ultimately show ?thesis
    by (simp add: check_subject_def example_subject_def require_digest_def example_digest_ok example_digest_inj
        startswith_eval removeprefix_def gate_require_def ensure_def)
qed

lemma example_descriptors:
  "check_descriptor (\<lambda>v. []) [] (example_descriptor ''amd64'' (example_digest CHR ''b'')) = Inr (''linux/amd64'', example_digest CHR ''b'')"
  "check_descriptor (\<lambda>v. []) [(''linux/amd64'', example_digest CHR ''b'')] (example_descriptor ''arm64'' (example_digest CHR ''c'')) =
     Inr (''linux/arm64'', example_digest CHR ''c'')"
proof -
  have "is_hex CHR ''b''" "is_hex CHR ''c''" by (simp_all add: is_hex_def ord_of_def)
  then show "check_descriptor (\<lambda>v. []) [] (example_descriptor ''amd64'' (example_digest CHR ''b'')) = Inr (''linux/amd64'', example_digest CHR ''b'')"
    "check_descriptor (\<lambda>v. []) [(''linux/amd64'', example_digest CHR ''b'')] (example_descriptor ''arm64'' (example_digest CHR ''c'')) =
     Inr (''linux/arm64'', example_digest CHR ''c'')"
    by (simp_all add: check_descriptor_def example_descriptor_def expected_platforms_def require_digest_def example_digest_ok
        gate_require_def ensure_def)
qed

lemma example_evidence:
  "\<exists>result t. prepare_multiarch_image_evidence (\<lambda>v. []) (\<lambda>q. []) example_manifest ''m.json'' ''image-platforms.json'' False example_subject =
     Inr (result, image_evidence example_subject (expected_digests example_subject), t)"
proof -
  obtain m where m: "load_manifest example_manifest ''m.json'' = Inr m" and d: "py_get m ''digest'' = PStr (sb_index example_subject)"
    and l: "py_get m ''manifests'' = PList [example_descriptor ''amd64'' (example_digest CHR ''b''), example_descriptor ''arm64'' (example_digest CHR ''c'')]"
    by (simp add: load_manifest_def example_manifest_def example_subject_def)
  have e: "expected_digests example_subject = [(''linux/amd64'', example_digest CHR ''b''), (''linux/arm64'', example_digest CHR ''c'')]"
    by (simp add: expected_digests_def example_subject_def)
  have "dict_eq (expected_digests example_subject) (expected_digests example_subject)" unfolding e by (simp add: dict_eq_def)
  then have "check_manifest (\<lambda>v. []) example_subject m = Inr (expected_digests example_subject)"
    unfolding check_manifest_def d l by (simp add: example_descriptors e gate_require_def ensure_def)
  then show ?thesis
    unfolding prepare_multiarch_image_evidence_def example_subject_ok m rbind_simps Let_def by (simp add: gate_require_def ensure_def)
qed

text \<open>JSON files of the example: the first byte tells what a file holds.\<close>

definition example_sbom :: "pyval dict" where
  "example_sbom = [(''bomFormat'', PStr ''CycloneDX''), (''specVersion'', PStr ''1.6''), (''version'', PInt 1),
     (''serialNumber'', PStr ''urn:uuid:00000000-0000-1000-8000-000000000000''),
     (''components'', PList [PDict [(''name'', PStr ''app'')], PDict [(''name'', PStr ''dep'')]])]"

definition example_image :: "string \<Rightarrow> string" where
  "example_image a = ''app:release-'' @ replicate 40 CHR ''a'' @ ''-'' @ a"

definition example_report :: "string \<Rightarrow> pyval dict" where
  "example_report a = [(''descriptor'', PDict [(''name'', PStr ''grype''), (''version'', PStr ''0.116.1'')]), (''matches'', PList []),
     (''source'', PDict [(''type'', PStr ''image''), (''target'', PDict [(''userInput'', PStr (example_image a))])])]"

definition released_policy :: "pyval dict" where
  "released_policy = [(''status'', PStr ''passed''), (''actionable_findings'', PInt 0), (''unfixed_high_critical_findings'', PInt 0),
     (''approved_exceptions'', PList [])]"

definition example_parse :: "bytes \<Rightarrow> pyval document" where
  "example_parse b = Document (PDict
     (if b = ''sbom'' then example_sbom else if b = ''amd64'' then example_report ''amd64'' else if b = ''arm64'' then example_report ''arm64''
      else if b = ''index'' then image_evidence example_subject (expected_digests example_subject) else released_policy))"

definition example_evidence_dir :: "entry list" where
  "example_evidence_dir = map (\<lambda>(n, b). example_file n b)
     [(''grype-amd64.json'', ''amd64''), (''grype-arm64.json'', ''arm64''), (''image-amd64.cdx.json'', ''sbom''),
      (''image-arm64.cdx.json'', ''sbom''), (''image-digest.txt'', ''ghcr.io/o/app@'' @ example_digest CHR ''a'' @ [CHR 0x0A]),
      (''image-platforms.json'', ''index''), (''policy-amd64.json'', ''ok''), (''policy-arm64.json'', ''ok''), (''source.cdx.json'', ''sbom'')]"

lemma example_component_names: "component_names example_sbom = [''app'', ''dep''] \<or> component_names example_sbom = [''dep'', ''app'']"
  by (simp add: component_names_def component_loop_def while_option_unfold component_step_def initial_components_def
      nested_components_def example_sbom_def add_name_def normalized_name_def py_lower_def lower_char_def ord_of_def)

lemma example_cyclonedx: "\<exists>v. validate_cyclonedx R (\<lambda>p. example_parse ''sbom'') path ''app'' = Inr v"
proof -
  have n: "normalized_name ''app'' = ''app''" by (simp add: normalized_name_def py_lower_def lower_char_def ord_of_def)
  have m: "''app'' \<in> set (component_names example_sbom)" "length (component_names example_sbom) = 2"
    using example_component_names by auto
  have s: "is_serial ''urn:uuid:00000000-0000-1000-8000-000000000000''"
    by (simp add: is_serial_def bytes_lower_def ord_of_def startswith_eval is_hex_def is_digit_def)
  have d: "py_get example_sbom ''bomFormat'' = PStr ''CycloneDX''" "py_get example_sbom ''specVersion'' = PStr ''1.6''"
    "py_get example_sbom ''version'' = PInt 1" "py_get example_sbom ''serialNumber'' = PStr ''urn:uuid:00000000-0000-1000-8000-000000000000''"
    by (simp_all add: example_sbom_def)
  show ?thesis
    by (simp add: validate_cyclonedx_def load_document_def example_parse_def d n m s cyclonedx_versions_def gate_require_def ensure_def)
qed

lemma json_string_plain: "list_all (\<lambda>c. json_char c = [c]) s \<Longrightarrow> json_string s = CHR 0x22 # s @ [CHR 0x22]"
proof -
  assume "list_all (\<lambda>c. json_char c = [c]) s"
  then have "concat (map json_char s) = s" by (induction s) auto
  then show ?thesis by (simp add: json_string_def)
qed

lemma example_grype:
  assumes "a = ''amd64'' \<or> a = ''arm64''"
  shows "\<exists>v. validate_grype_report R fr (\<lambda>p. example_parse a) path (example_image a) = Inr v"
proof -
  have "list_all (\<lambda>c. json_char c = [c]) (example_image a)"
    using assms by (auto simp: example_image_def json_char_def ord_of_def list_all_iff)
  then have "dumps fr (PDict [(''userInput'', PStr (example_image a))]) =
      (CHR 0x7B # json_string ''userInput'' @ '': '' @ [CHR 0x22]) @ example_image a @ [CHR 0x22, CHR 0x7D]"
    by (simp add: dumps_def json_group_def key_separator_def json_string_plain)
  then have "contains (dumps fr (PDict [(''userInput'', PStr (example_image a))])) (example_image a)"
    unfolding contains_iff by blast
  with assms show ?thesis
    by (auto simp: validate_grype_report_def load_document_def example_parse_def example_report_def grype_version_def
        gate_require_def ensure_def)
qed

lemma released_policy_ok: "validate_policy (\<lambda>p. example_parse ''ok'') path = Inr ()"
  by (simp add: validate_policy_def load_document_def example_parse_def released_policy_def is_count_def gate_require_def ensure_def)

lemma example_platforms:
  "\<exists>records. validate_platform_evidence (\<lambda>p. example_parse ''index'') path released_version = Inr records \<and>
     map fst records = map fst platforms \<and>
     (\<forall>(p, a) \<in> set platforms. \<exists>rec. map_of records p = Some rec \<and> py_get rec ''architecture'' = PStr a)"
proof -
  have "is_hex CHR ''b''" "is_hex CHR ''c''" by (simp_all add: is_hex_def ord_of_def)
  then show ?thesis
    by (simp add: validate_platform_evidence_def load_document_def example_parse_def image_evidence_def platform_records_def
        expected_platforms_def expected_digests_def platforms_def check_platform_def platform_record_def
        example_subject_def released_version_def example_digest_ok example_digest_inj gate_require_def ensure_def)
qed


definition example_package_dir :: directory where
  "example_package_dir = \<lparr>dr_path = ''packages'', dr_entries = Document example_packages\<rparr>"

definition example_evidence_directory :: directory where
  "example_evidence_directory = \<lparr>dr_path = ''evidence'', dr_entries = Document example_evidence_dir\<rparr>"

lemma example_docs [simp]: "docs_of example_parse (example_file n b) = (\<lambda>p. example_parse b)"
  by (rule ext) (simp add: docs_of_def example_file_def)

lemma example_entries:
  "entry_of example_evidence_dir ''source.cdx.json'' = Inr (example_file ''source.cdx.json'' ''sbom'')"
  "entry_of example_evidence_dir ''image-platforms.json'' = Inr (example_file ''image-platforms.json'' ''index'')"
  "entry_of example_evidence_dir ''image-digest.txt'' =
     Inr (example_file ''image-digest.txt'' (''ghcr.io/o/app@'' @ example_digest CHR ''a'' @ [CHR 0x0A]))"
  "a = ''amd64'' \<or> a = ''arm64'' \<Longrightarrow>
     entry_of example_evidence_dir (''image-'' @ a @ ''.cdx.json'') = Inr (example_file (''image-'' @ a @ ''.cdx.json'') ''sbom'')"
  "a = ''amd64'' \<or> a = ''arm64'' \<Longrightarrow>
     entry_of example_evidence_dir (''grype-'' @ a @ ''.json'') = Inr (example_file (''grype-'' @ a @ ''.json'') a)"
  "a = ''amd64'' \<or> a = ''arm64'' \<Longrightarrow>
     entry_of example_evidence_dir (''policy-'' @ a @ ''.json'') = Inr (example_file (''policy-'' @ a @ ''.json'') ''ok'')"
  by (auto simp: entry_of_def named_def example_evidence_dir_def example_file_def)

lemma example_architecture:
  assumes "(p, a) \<in> set platforms" and "map_of records p = Some rec" and "py_get rec ''architecture'' = PStr a"
  shows "check_architecture R fr example_parse example_evidence_dir ''app'' released_version records (p, a) = Inr ()"
proof -
  have a: "a = ''amd64'' \<or> a = ''arm64''" using assms(1) by (auto simp: platforms_def)
  obtain v w where v: "validate_cyclonedx R (\<lambda>p. example_parse ''sbom'') (en_path (example_file (''image-'' @ a @ ''.cdx.json'') ''sbom'')) ''app'' = Inr v"
    and w: "validate_grype_report R fr (\<lambda>p. example_parse a) (en_path (example_file (''grype-'' @ a @ ''.json'') a)) (example_image a) = Inr w"
    using example_cyclonedx example_grype [OF a] by metis
  have g: "''app'' @ '':release-'' @ rl_commit released_version @ ''-'' @ a = example_image a"
    by (simp add: released_version_def example_image_def)
  show ?thesis
    unfolding check_architecture_def prod.case example_entries(2) example_entries(4-6) [OF a] rbind_simps example_docs v w g
      released_policy_ok assms(2,3) option.case
    by (simp add: gate_require_def ensure_def)
qed

lemma example_check_evidence:
  "\<exists>records. check_evidence R fr example_parse example_evidence_dir ''app'' released_version = Inr records"
proof -
  obtain records where r: "validate_platform_evidence (\<lambda>p. example_parse ''index'')
      (en_path (example_file ''image-platforms.json'' ''index'')) released_version = Inr records"
    "\<forall>(p, a) \<in> set platforms. \<exists>rec. map_of records p = Some rec \<and> py_get rec ''architecture'' = PStr a"
    using example_platforms [of "en_path (example_file ''image-platforms.json'' ''index'')"] by blast
  have "check_architecture R fr example_parse example_evidence_dir ''app'' released_version records x = Inr ()"
    if "x \<in> set platforms" for x
  proof -
    obtain p a where x: "x = (p, a)" by (cases x)
    with that r(2) obtain rec where "map_of records p = Some rec" "py_get rec ''architecture'' = PStr a" by blast
    with that show ?thesis unfolding x by (intro example_architecture)
  qed
  then have "rmap (check_architecture R fr example_parse example_evidence_dir ''app'' released_version records) platforms = Inr (map (\<lambda>_. ()) platforms)"
    by (simp add: rmap_Inr_iff list.rel_map list_all2_same)
  moreover obtain v where "validate_cyclonedx R (\<lambda>p. example_parse ''sbom'') (en_path (example_file ''source.cdx.json'' ''sbom'')) ''app'' = Inr v"
    using example_cyclonedx by blast
  ultimately show ?thesis using r(1) by (simp add: check_evidence_def example_entries)
qed

lemma example_names_of: "wheel_name example_id = ''app-1-py3-none-any.whl''" "sdist_name example_id = ''app-1.tar.gz''"
  by (simp_all add: wheel_name_def sdist_name_def example_id_def)

definition by_name :: "entry list \<Rightarrow> entry list" where
  "by_name es = sort_key en_name es"

lemma by_name_set [simp]: "set (by_name es) = set es"
  by (simp add: by_name_def)

lemma example_exact:
  assumes "dr_entries d = Document (map (\<lambda>(n, b). example_file n b) nbs)" and "set expected = fst ` set nbs"
  shows "exact_regular_files R d expected = Inr (by_name (map (\<lambda>(n, b). example_file n b) nbs))"
proof -
  have "en_name ` set (map (\<lambda>(n, b). example_file n b) nbs) = set expected"
    unfolding assms(2) by (force simp: example_file_def)
  moreover have "list_all en_is_file (by_name (map (\<lambda>(n, b). example_file n b) nbs))"
    "\<not> list_ex en_is_symlink (by_name (map (\<lambda>(n, b). example_file n b) nbs))"
    by (auto simp: list_all_iff list_ex_iff example_file_def)
  ultimately show ?thesis
    using assms(1) by (simp add: exact_regular_files_def listing_def by_name_def [symmetric] gate_require_def ensure_def)
qed

text \<open>Among distinct names the order of the entries does not matter.\<close>

lemma named_by_name: "distinct (map en_name es) \<Longrightarrow> named n (by_name es) = named n es"
proof -
  assume d: "distinct (map en_name es)"
  have u: "named n xs = Some e" if "e \<in> set xs" "en_name e = n" "distinct (map en_name xs)" for xs e
    using that by (induction xs) (auto simp: named_def)
  have d': "distinct (map en_name (by_name es))"
    using d by (simp only: by_name_def distinct_map distinct_sort set_sort)
  show ?thesis
  proof (cases "named n es")
    case None
    then have "\<forall>e \<in> set es. en_name e \<noteq> n" by (auto simp: named_def find_None_iff)
    then have "named n (by_name es) = None" by (auto simp: named_def find_None_iff)
    then show ?thesis using None by simp
  next
    case (Some e)
    with named_Some [OF Some] u [of e "by_name es"] d' show ?thesis by simp
  qed
qed


lemma entry_of_by_name: "distinct (map en_name es) \<Longrightarrow> entry_of (by_name es) = entry_of es"
  by (rule ext) (simp add: entry_of_def named_by_name)

lemma example_packages_distinct: "distinct (map en_name example_packages)"
  by (simp add: example_packages_def released_files_def example_file_def)

lemma example_evidence_distinct: "distinct (map en_name example_evidence_dir)"
  by (simp add: example_evidence_dir_def example_file_def)

lemma example_check_packages: "check_packages (\<lambda>v. []) example_lib example_id (by_name example_packages) = Inr ()"
proof -
  let ?nds = "[(''app-1-py3-none-any.whl'', replicate 64 CHR ''0''), (''app-1.tar.gz'', replicate 64 CHR ''0'')]"
  have h: "hex_text 64 d \<and> plain_name n" if "(n, d) \<in> set ?nds" for n d
    using that artifact_names_plain [OF example_load example_plain] example_hex [of "[]"]
    by (auto simp: example_names_of example_lib_def simp del: replicate_eq_replicate)
  have "text_newlines example_sums = example_sums"
    unfolding example_sums_def by (rule plain_lines_newlines, rule checksum_text_plain(1)) (rule h)
  then have a: "ascii_text (example_file ''SHA256SUMS'' example_sums) m = Inr example_sums" for m
    using example_sums_ascii by (simp add: ascii_text_def example_file_def)
  have p: "parse_checksums q (splitlines example_sums) [] = Inr ?nds" for q
    unfolding example_sums_def by (rule checksum_roundtrip) (erule h, simp)
  have c: "check_digest example_lib q ?nds (example_file ''app-1-py3-none-any.whl'' ''W'') = Inr ()"
    "check_digest example_lib q ?nds (example_file ''app-1.tar.gz'' ''S'') = Inr ()" for q
    by (simp_all add: check_digest_def checked_sha256_def example_file_def example_lib_def)
  have n: "en_name (example_file k b) = k" for k b by (simp add: example_file_def)
  have v: "validate_package_checksums example_lib (example_file ''SHA256SUMS'' example_sums)
      [example_file ''app-1-py3-none-any.whl'' ''W'', example_file ''app-1.tar.gz'' ''S''] = Inr ()"
    by (simp add: validate_package_checksums_def a p c n gate_require_def ensure_def)
  have e: "entry_of example_packages (wheel_name example_id) = Inr (example_file ''app-1-py3-none-any.whl'' ''W'')"
    "entry_of example_packages (sdist_name example_id) = Inr (example_file ''app-1.tar.gz'' ''S'')"
    "entry_of example_packages ''SHA256SUMS'' = Inr (example_file ''SHA256SUMS'' example_sums)"
    by (simp_all add: example_names_of entry_of_def named_def example_packages_def released_files_def example_file_def)
  show ?thesis
    by (simp add: check_packages_def entry_of_by_name example_packages_distinct e example_wheel example_sdist v)
qed

lemma example_evidence_by_name:
  "check_evidence R fr parse (by_name example_evidence_dir) project r = check_evidence R fr parse example_evidence_dir project r"
proof -
  have "check_architecture R fr parse (by_name example_evidence_dir) project r records =
      check_architecture R fr parse example_evidence_dir project r records" for records
    by (rule ext) (simp add: check_architecture_def entry_of_by_name example_evidence_distinct)
  then show ?thesis by (simp add: check_evidence_def entry_of_by_name example_evidence_distinct)
qed

lemma example_identity_ok: "validate_identity (\<lambda>v. []) example_pyproject p released_version = Inr example_id"
proof -
  have h: "is_hex CHR ''a''" by (simp add: is_hex_def ord_of_def)
  have "repository_name ''o/app''"
    by (simp add: repository_name_def split_on_def name_char_def is_alpha_ascii_def ord_of_def)
  moreover have "py_lower ''o/app'' = ''o/app''" by (simp add: py_lower_def lower_char_def ord_of_def)
  moreover have "release_commit (replicate 40 CHR ''a'')" using h by (simp add: release_commit_def hex_text_def list_all_iff)
  ultimately show ?thesis
    using example_digest_ok [OF h] by (simp add: validate_identity_def example_load released_version_def example_id_def gate_require_def ensure_def)
qed

lemma checksum_text_ascii: "list_all (\<lambda>nd. is_ascii (fst nd) \<and> is_ascii (snd nd)) nds \<Longrightarrow> is_ascii (checksum_text nds)"
  by (induction nds) (auto simp: checksum_text_def checksum_line_def ascii_simps ord_of_def)

lemma example_assemble:
  assumes "\<And>e. e \<in> set es \<Longrightarrow> (\<exists>b. en_bytes e = Document b) \<and> is_ascii (en_name e)"
  shows "\<exists>files. assemble fr example_lib es records i r = Inr files"
proof -
  have "rmap copy_entry (sort_key en_name es) = Inr (map (\<lambda>e. (en_name e, content e)) (sort_key en_name es))"
    using assms by (force simp: rmap_Inr_iff list.rel_map list_all2_same copy_entry_def raw_bytes_def content_def intro!: list_all2_refl)
  moreover have "is_ascii (checksum_text (file_digests example_lib
      (map (\<lambda>e. (en_name e, content e)) (sort_key en_name es) @ [(''release-manifest.json'', m)])))" for m
    by (rule checksum_text_ascii) (use assms in \<open>auto simp: list_all_iff file_digests_def example_lib_def ascii_simps ord_of_def\<close>)
  ultimately show ?thesis by (simp add: assemble_def write_ascii_def Let_def)
qed

lemma example_publication:
  "\<exists>result files. prepare_release_publication (\<lambda>v. []) (\<lambda>q. []) example_lib example_parse ''pyproject.toml'' example_pyproject
     example_package_dir example_evidence_directory empty_dir False released_version = Inr (result, files)"
proof -
  have p: "exact_regular_files (\<lambda>v. []) example_package_dir [''SHA256SUMS'', wheel_name example_id, sdist_name example_id] =
      Inr (by_name example_packages)"
    unfolding example_packages_def
    by (rule example_exact) (auto simp: example_package_dir_def example_packages_def example_names_of released_files_def)
  have e: "exact_regular_files (\<lambda>v. []) example_evidence_directory evidence_files = Inr (by_name example_evidence_dir)"
    unfolding example_evidence_dir_def
    by (rule example_exact) (auto simp: example_evidence_directory_def example_evidence_dir_def evidence_files_def)
  have "\<forall>x \<in> set example_evidence_dir. bounded (evidence_limit x) x = Inr ()"
    by (simp add: example_evidence_dir_def bounded_def example_file_def evidence_limit_def max_sbom_bytes_def max_evidence_bytes_def
        example_digest_def gate_require_def ensure_def)
  then have b: "checks (map (\<lambda>x. bounded (evidence_limit x) x) (by_name example_evidence_dir)) = Inr ()" by auto
  obtain records where r: "check_evidence (\<lambda>v. []) (\<lambda>q. []) example_parse (by_name example_evidence_dir) (pi_name example_id) released_version = Inr records"
    using example_check_evidence example_evidence_by_name by (metis example_id_def project_identity.select_convs(1))
  have s: "check_image_subject (by_name example_evidence_dir) released_version = Inr ()"
    by (simp add: check_image_subject_def entry_of_by_name example_evidence_distinct example_entries ascii_text_def example_file_def
        ascii_simps example_digest_def ord_of_def text_newlines_id released_version_def gate_require_def ensure_def)
  have o: "check_output False empty_dir = Inr ()" by (simp add: check_output_def empty_dir_def gate_require_def ensure_def)
  have "\<exists>files. assemble (\<lambda>q. []) example_lib (by_name example_packages @ by_name example_evidence_dir) records example_id released_version = Inr files"
    by (rule example_assemble) (auto simp: example_packages_def released_files_def example_evidence_dir_def example_file_def ascii_simps ord_of_def)
  then show ?thesis
    by (auto simp: prepare_release_publication_def example_identity_ok p e b example_load example_check_packages r s o)
qed

end
