(* ===== verification/Publication_Properties.thy ===== *)
theory Publication_Properties
  imports Release_Example
begin

text \<open>What the release tools guarantee, and that each accepts what the one before it makes.\<close>

section \<open>The artifacts\<close>

text \<open>C24: When the artifact tool accepts two builds, the tag is the project's version, and the output
  directory was empty; into it the tool writes the wheel, the source archive and the checksums and nothing
  else. Each archive is a regular file of the first build with the same digest in the second, no archive
  member is a link, and extracting either archive anywhere writes distinct paths below the project's own
  directories only.\<close>

theorem release_artifacts_sound:
  assumes "prepare_release_artifacts R lib path pf d1 d2 out tag = Inr (result, files)"
    and "distinct_names d1"
  shows "\<exists>i wheel sdist wheel2 sdist2. load_project_identity pf path = Inr i \<and> tag = CHR ''v'' # pi_version i \<and>
    dr_entries out = Document [] \<and> distinct (map fst files) \<and>
    set files = {(wheel_name i, wheel), (sdist_name i, sdist),
      (''SHA256SUMS'', checksum_text (file_digests lib (butlast files)))} \<and>
    has_file d1 (wheel_name i) wheel \<and> has_file d2 (wheel_name i) wheel2 \<and> al_sha256 lib wheel = al_sha256 lib wheel2 \<and>
    has_file d1 (sdist_name i) sdist \<and> has_file d2 (sdist_name i) sdist2 \<and> al_sha256 lib sdist = al_sha256 lib sdist2 \<and>
    safe_wheel lib i wheel \<and> safe_sdist lib i sdist \<and> safe_wheel lib i wheel2 \<and> safe_sdist lib i sdist2"
proof -
  obtain i es1 es2 where r: "load_project_identity pf path = Inr i" "tag = CHR ''v'' # pi_version i"
    "artifact_paths R d1 i = Inr es1" "artifact_paths R d2 i = Inr es2"
    "validate_artifacts R lib i es1 = Inr ()" "validate_artifacts R lib i es2 = Inr ()"
    "rmap (same_digest lib es2) es1 = Inr (map (\<lambda>e. (en_name e, al_sha256 lib (content e))) es1)"
    "\<forall>e \<in> set es1. en_bytes e = Document (content e)"
    "is_ascii (checksum_text (map (\<lambda>e. (en_name e, al_sha256 lib (content e))) es1))"
    "files = map (\<lambda>e. (en_name e, content e)) es1 @
       [(''SHA256SUMS'', checksum_text (map (\<lambda>e. (en_name e, al_sha256 lib (content e))) es1))]"
    using assms(1) by (rule release_artifacts_Inr)
  have e: "en_name ` set es1 = {wheel_name i, sdist_name i}" "distinct (map en_name es1)"
    using artifact_entries [OF r(3) assms(2)] .
  obtain w s where ws: "named (wheel_name i) es1 = Some w" "named (sdist_name i) es1 = Some s"
    "validate_wheel R lib w i = Inr ()" "validate_sdist R lib s i = Inr ()"
    using r(5) by (rule validate_artifacts_Inr)
  obtain w2 s2 where ws2: "named (wheel_name i) es2 = Some w2" "named (sdist_name i) es2 = Some s2"
    "validate_wheel R lib w2 i = Inr ()" "validate_sdist R lib s2 i = Inr ()"
    using r(6) by (rule validate_artifacts_Inr)
  obtain wheel sdist where b: "en_bytes w = Document wheel" "safe_wheel lib i wheel" "en_name w = wheel_name i"
    "en_bytes s = Document sdist" "safe_sdist lib i sdist" "en_name s = sdist_name i"
    using validate_wheel_safe [OF ws(3)] validate_sdist_safe [OF ws(4)] by blast
  obtain wheel2 sdist2 where b2: "en_bytes w2 = Document wheel2" "safe_wheel lib i wheel2"
    "en_bytes s2 = Document sdist2" "safe_sdist lib i sdist2"
    using validate_wheel_safe [OF ws2(3)] validate_sdist_safe [OF ws2(4)] by blast
  have es: "set es1 = {w, s}" using e wheel_sdist_names ws(1,2) by (intro two_entries)
  then have "same_digest lib es2 w = Inr (wheel_name i, al_sha256 lib wheel)" "same_digest lib es2 s = Inr (sdist_name i, al_sha256 lib sdist)"
    using r(7) b by (auto simp: rmap_Inr_iff list.rel_map list.rel_eq list_all2_same content_def)
  then have d: "al_sha256 lib wheel = al_sha256 lib wheel2" "al_sha256 lib sdist = al_sha256 lib sdist2"
    using b b2 ws2(1,2) by (simp_all add: same_digest_def sha256_of_def raw_bytes_def rbind_Inr_iff split: if_splits)
  have h: "has_file d1 (wheel_name i) wheel" "has_file d1 (sdist_name i) sdist" "has_file d2 (wheel_name i) wheel2" "has_file d2 (sdist_name i) sdist2"
    using artifact_has_file [OF r(3) ws(1) b(1)] artifact_has_file [OF r(3) ws(2) b(4)]
      artifact_has_file [OF r(4) ws2(1) b2(1)] artifact_has_file [OF r(4) ws2(2) b2(3)] .
  have "set files = {(wheel_name i, wheel), (sdist_name i, sdist), (''SHA256SUMS'', checksum_text (file_digests lib (butlast files)))}"
    using es b by (auto simp: r(10) file_digests_def o_def content_def)
  moreover have "distinct (map fst files)"
    using e bundle_names_distinct(1) [of i] by (auto simp: r(10) o_def)
  ultimately show ?thesis using r(1,2) h d b(2,5) b2(2,4) release_artifacts_output [OF assms(1)] by blast
qed

text \<open>Witness of C24 on the example project.\<close>

theorem release_artifacts_sound_witness:
  "\<exists>result wheel. prepare_release_artifacts (\<lambda>v. []) example_lib ''pyproject.toml'' example_pyproject example_builds
     example_builds empty_dir ''v1'' = Inr (result, released_files) \<and> distinct_names example_builds \<and>
     set (map fst released_files) = {''app-1-py3-none-any.whl'', ''app-1.tar.gz'', ''SHA256SUMS''} \<and>
     has_file example_builds ''app-1-py3-none-any.whl'' wheel \<and> safe_wheel example_lib example_id wheel"
proof -
  obtain result where r: "prepare_release_artifacts (\<lambda>v. []) example_lib ''pyproject.toml'' example_pyproject example_builds example_builds
     empty_dir ''v1'' = Inr (result, released_files)" using example_run ..
  from release_artifacts_sound [OF r example_distinct] obtain i wheel where
    "load_project_identity example_pyproject ''pyproject.toml'' = Inr i" "has_file example_builds (wheel_name i) wheel" "safe_wheel example_lib i wheel"
    by blast
  then have "has_file example_builds ''app-1-py3-none-any.whl'' wheel" "safe_wheel example_lib example_id wheel"
    by (simp_all add: example_load example_names_of)
  moreover have "set (map fst released_files) = {''app-1-py3-none-any.whl'', ''app-1.tar.gz'', ''SHA256SUMS''}"
    by (simp add: released_files_def)
  ultimately show ?thesis using r example_distinct by blast
qed

section \<open>From the artifacts to the release\<close>

text \<open>A checksum file that was written over a list of files is accepted for two of them.\<close>

lemma own_checksums_accepted:
  fixes lib es
  defines "nds \<equiv> map (\<lambda>e. (en_name e, al_sha256 lib (content e))) es"
  assumes "en_name ` set es = {wheel_name i, sdist_name i}" and "distinct (map en_name es)"
    and "\<forall>b. hex_text 64 (al_sha256 lib b)" and "\<forall>k \<in> {wheel_name i, sdist_name i}. plain_name k"
    and "en_bytes m = Document (checksum_text nds)" and "is_ascii (checksum_text nds)"
    and w: "w \<in> set es" "en_name w' = wheel_name i" "en_name w = wheel_name i" "en_bytes w' = Document (content w)"
    and s: "s \<in> set es" "en_name s' = sdist_name i" "en_name s = sdist_name i" "en_bytes s' = Document (content s)"
  shows "validate_package_checksums lib m [w', s'] = Inr ()"
proof -
  have plain: "hex_text 64 d \<and> plain_name k" if "(k, d) \<in> set nds" for k d
  proof -
    from that obtain x where x: "x \<in> set es" "k = en_name x" "d = al_sha256 lib (content x)" by (auto simp: nds_def)
    then have "k \<in> {wheel_name i, sdist_name i}" using assms(2) by blast
    with x(3) assms(4,5) show ?thesis by auto
  qed
  then have "text_newlines (checksum_text nds) = checksum_text nds"
    by (intro plain_lines_newlines checksum_text_plain)
  then have t: "ascii_text m problem = Inr (checksum_text nds)" for problem
    using assms(6,7) by (simp add: ascii_text_def)
  have d: "distinct (map fst nds)" using assms(3) by (simp add: nds_def o_def)
  have parsed: "parse_checksums (en_path m) (splitlines (checksum_text nds)) [] = Inr nds"
    using plain d by (rule checksum_roundtrip)
  have "(wheel_name i, al_sha256 lib (content w)) \<in> set nds" "(sdist_name i, al_sha256 lib (content s)) \<in> set nds"
    using w s by (force simp: nds_def)+
  then have "check_digest lib (en_path m) nds w' = Inr ()" "check_digest lib (en_path m) nds s' = Inr ()"
    using d w s by (simp_all add: check_digest_def checked_sha256_def map_of_is_SomeI)
  moreover have "fst ` set nds = {wheel_name i, sdist_name i}" using assms(2) by (simp add: nds_def image_image)
  ultimately show ?thesis
    using w s by (simp add: validate_package_checksums_def t parsed gate_require_def ensure_def)
qed

text \<open>C36: The package files the artifact tool writes are the package files the publication tool accepts:
  wheel, source archive and \<open>SHA256SUMS\<close> pass its checks, wherever the directory lies, when the version
  stands on one line and SHA-256 yields 64 hexadecimal digits.\<close>

theorem packages_accepted:
  assumes "prepare_release_artifacts R lib path pf d1 d2 out tag = Inr (result, files)"
    and "load_project_identity pf path = Inr i" and "plain_name (pi_version i)"
    and "distinct_names d1" and "\<forall>b. hex_text 64 (al_sha256 lib b)"
    and "\<forall>(n, b) \<in> set files. \<exists>e. named n packages = Some e \<and> en_bytes e = Document b"
  shows "check_packages R lib i packages = Inr ()"
proof -
  obtain i' es1 es2 where r': "load_project_identity pf path = Inr i'" "tag = CHR ''v'' # pi_version i'"
    "artifact_paths R d1 i' = Inr es1" "artifact_paths R d2 i' = Inr es2"
    "validate_artifacts R lib i' es1 = Inr ()" "validate_artifacts R lib i' es2 = Inr ()"
    "rmap (same_digest lib es2) es1 = Inr (map (\<lambda>e. (en_name e, al_sha256 lib (content e))) es1)"
    "\<forall>e \<in> set es1. en_bytes e = Document (content e)"
    "is_ascii (checksum_text (map (\<lambda>e. (en_name e, al_sha256 lib (content e))) es1))"
    "files = map (\<lambda>e. (en_name e, content e)) es1 @
       [(''SHA256SUMS'', checksum_text (map (\<lambda>e. (en_name e, al_sha256 lib (content e))) es1))]"
    using assms(1) by (rule release_artifacts_Inr)
  define nds where "nds = map (\<lambda>e. (en_name e, al_sha256 lib (content e))) es1"
  have "i' = i" using r'(1) assms(2) by simp
  with r' have r: "artifact_paths R d1 i = Inr es1" "validate_artifacts R lib i es1 = Inr ()"
    "\<forall>e \<in> set es1. en_bytes e = Document (content e)" "is_ascii (checksum_text nds)"
    "files = map (\<lambda>e. (en_name e, content e)) es1 @ [(''SHA256SUMS'', checksum_text nds)]"
    by (simp_all add: nds_def)
  have e: "en_name ` set es1 = {wheel_name i, sdist_name i}" "distinct (map en_name es1)"
    using artifact_entries [OF r(1) assms(4)] .
  obtain w s where ws: "named (wheel_name i) es1 = Some w" "named (sdist_name i) es1 = Some s"
    "validate_wheel R lib w i = Inr ()" "validate_sdist R lib s i = Inr ()"
    using r(2) by (rule validate_artifacts_Inr)
  have in1: "w \<in> set es1" "en_name w = wheel_name i" "s \<in> set es1" "en_name s = sdist_name i"
    using named_Some [OF ws(1)] named_Some [OF ws(2)] by simp_all
  have f: "\<exists>e. named n packages = Some e \<and> en_bytes e = Document b" if "(n, b) \<in> set files" for n b
    using assms(6) that by auto
  have "(en_name w, content w) \<in> set files" "(en_name s, content s) \<in> set files"
    "(''SHA256SUMS'', checksum_text nds) \<in> set files" using in1(1,3) by (simp_all add: r(5))
  from this [THEN f] obtain w' s' m where p: "named (wheel_name i) packages = Some w'" "en_bytes w' = Document (content w)"
    "named (sdist_name i) packages = Some s'" "en_bytes s' = Document (content s)"
    "named ''SHA256SUMS'' packages = Some m" "en_bytes m = Document (checksum_text nds)"
    unfolding in1(2,4) by blast
  have n: "en_name w' = wheel_name i" "en_name s' = sdist_name i"
    using named_Some [OF p(1)] named_Some [OF p(3)] by simp_all
  have a: "validate_wheel R lib w' i = Inr ()" "validate_sdist R lib s' i = Inr ()"
    using validate_wheel_anywhere [OF ws(3)] validate_sdist_anywhere [OF ws(4)] n in1 p r(3) by simp_all
  have "validate_package_checksums lib m [w', s'] = Inr ()"
    using own_checksums_accepted [OF e assms(5) _ p(6) [unfolded nds_def] r(4) [unfolded nds_def], of w w' s s']
      artifact_names_plain [OF assms(2,3)] n p in1 by blast
  with a p show ?thesis by (simp add: check_packages_def entry_of_def)
qed

text \<open>Witness of C36: the example artifacts pass the checks of the publication tool.\<close>

theorem packages_accepted_witness: "check_packages (\<lambda>v. []) example_lib example_id example_packages = Inr ()"
proof -
  obtain result where r: "prepare_release_artifacts (\<lambda>v. []) example_lib ''pyproject.toml'' example_pyproject example_builds example_builds
     empty_dir ''v1'' = Inr (result, released_files)" using example_run ..
  have "\<forall>(n, b) \<in> set released_files. \<exists>e. named n example_packages = Some e \<and> en_bytes e = Document b"
    by (simp add: example_packages_def released_files_def named_def example_file_def)
  with packages_accepted [OF r example_load example_plain example_distinct] example_hex show ?thesis by blast
qed

section \<open>Platform evidence\<close>

text \<open>C35: Evidence made from a published index is accepted by the publication tool for exactly the image,
  the index digest, the tag and the commit it was made for, with the platform records it was made with.\<close>

theorem image_evidence_bound:
  assumes "prepare_multiarch_image_evidence R fr manifest mpath out link s = Inr (result, evidence, written)"
    and "docs path = Document (PDict evidence)"
  shows "validate_platform_evidence docs path r = Inr records \<longleftrightarrow>
    rl_image r = sb_image s \<and> rl_digest r = sb_index s \<and> rl_tag r = sb_tag s \<and> rl_commit r = sb_commit s \<and>
    records = [(''linux/amd64'', platform_record s (sb_amd64 s) ''linux'' ''amd64''),
               (''linux/arm64'', platform_record s (sb_arm64 s) ''linux'' ''arm64'')]"
proof -
  have c: "image_digest (sb_amd64 s)" "image_digest (sb_arm64 s)" "sb_amd64 s \<noteq> sb_arm64 s"
    and e: "evidence = image_evidence s (expected_digests s)"
    using prepare_multiarch_image_evidence_Inr [OF assms(1)] by (auto simp: check_subject_def require_digest_def rbind_Inr_iff)
  have p: "platform_records s (expected_digests s) =
    [(''linux/amd64'', PDict (platform_record s (sb_amd64 s) ''linux'' ''amd64'')),
     (''linux/arm64'', PDict (platform_record s (sb_arm64 s) ''linux'' ''arm64''))]"
    by (simp add: platform_records_def expected_platforms_def expected_digests_def)
  show ?thesis
    using c by (auto simp: validate_platform_evidence_def load_document_def assms(2) e image_evidence_def p rbind_Inr_iff
        platforms_def check_platform_def platform_record_def)
qed

text \<open>Witness of C35 for the example release.\<close>

theorem image_evidence_bound_witness:
  "\<exists>docs records. validate_platform_evidence docs ''image-platforms.json'' released_version = Inr records"
proof -
  let ?e = "image_evidence example_subject (expected_digests example_subject)"
  obtain result t where e: "prepare_multiarch_image_evidence (\<lambda>v. []) (\<lambda>q. []) example_manifest ''m.json'' ''image-platforms.json'' False
     example_subject = Inr (result, ?e, t)" using example_evidence by blast
  show ?thesis
    by (intro exI, rule image_evidence_bound [OF e, of "\<lambda>p. Document (PDict ?e)", THEN iffD2])
      (simp_all add: released_version_def example_subject_def)
qed


section \<open>Component names\<close>

text \<open>C28: The loop that collects the component names of an SBOM ends on every document, and then it holds
  exactly the normalized names of the components the document contains at any depth, each once.\<close>

theorem component_names_complete:
  "\<exists>names. component_loop (initial_components document) = Some ([], names) \<and> component_names document = names \<and>
     distinct names \<and>
     set names = {normalized_name n | n d w. w \<in> set (initial_components document) \<and> part_of w (PDict d) \<and>
       py_get d ''name'' = PStr n \<and> n \<noteq> []}"
proof -
  obtain names where "component_loop (initial_components document) = Some ([], names)" "distinct names"
    "set names = names_in (initial_components document)" using component_loop_result by blast
  moreover have "names_in roots = {normalized_name n | n d w. w \<in> set roots \<and> part_of w (PDict d) \<and>
       py_get d ''name'' = PStr n \<and> n \<noteq> []}" for roots
    by (auto simp: names_in_def names_of_def)
  ultimately show ?thesis by (simp add: component_names_def)
qed

section \<open>The release\<close>

text \<open>The copies and the manifest have different, plain names, so their checksum file can be read back.\<close>

lemma bundle_checksums:
  fixes packages evidence manifest
  defines "inputs \<equiv> map (\<lambda>e. (en_name e, content e)) (sort_key en_name (packages @ evidence)) @
      [(''release-manifest.json'', manifest)]"
  assumes "load_project_identity pf path = Inr i" and "plain_name (pi_version i)" and "\<forall>b. hex_text 64 (al_sha256 lib b)"
    and pk: "en_name ` set packages = set [''SHA256SUMS'', wheel_name i, sdist_name i]" "distinct (map en_name packages)"
    and ev: "en_name ` set evidence = set evidence_files" "distinct (map en_name evidence)"
  shows "distinct (map fst inputs)"
    and "parse_checksums ''RELEASE_SHA256SUMS'' (splitlines (checksum_text (file_digests lib inputs))) [] = Inr (file_digests lib inputs)"
proof -
  have names: "set (map fst inputs) = {''SHA256SUMS'', wheel_name i, sdist_name i, ''release-manifest.json''} \<union> set evidence_files"
    using pk(1) ev(1) by (auto simp: inputs_def image_image image_Un)
  have "{''SHA256SUMS'', wheel_name i, sdist_name i} \<inter> set evidence_files = {}" using bundle_names_distinct by auto
  then have "distinct (map en_name (packages @ evidence))" using pk ev by auto
  then have "distinct (map en_name (sort_key en_name (packages @ evidence)))"
    by (simp only: distinct_map distinct_sort set_sort)
  moreover have "''release-manifest.json'' \<notin> en_name ` (set packages \<union> set evidence)"
    using bundle_names_distinct pk(1) ev(1) by (auto simp: image_Un)
  ultimately show d: "distinct (map fst inputs)" by (simp add: inputs_def o_def)
  have "plain_name n" if "n \<in> set (map fst inputs)" for n
    using that names evidence_names_plain artifact_names_plain [OF assms(2,3)] by (auto simp: list_all_iff)
  then show "parse_checksums ''RELEASE_SHA256SUMS'' (splitlines (checksum_text (file_digests lib inputs))) [] = Inr (file_digests lib inputs)"
    using assms(4) d by (intro checksum_roundtrip) (force simp: file_digests_def o_def case_prod_beta)+
qed

text \<open>C32: When the publication tool assembles a release, tag, repository, image, commit and digest have their form and
  agree with the project and the repository; the output directory was empty and no link. Every file but
  the manifest and the checksums is a regular input file, unchanged, and the evidence files are within
  their size limits. The wheel and the source archive extract below the project's directories, and the
  published package checksums are theirs. The published evidence is evidence about this release: the
  SBOMs of the source and of both images are CycloneDX documents naming the project and a dependency,
  each Grype report is one of the pinned version about the release image of its architecture, each policy
  report passed, the platform document binds index and platforms to image, digest, tags and commit with
  distinct platform digests, and \<open>image-digest.txt\<close> names the published image. The manifest describes these
  files and platforms, and the checksum file, read back, lists the SHA-256 of every other file, each once.\<close>

theorem publication_sound:
  assumes "prepare_release_publication R fr lib parse path pf pd ed out link r = Inr (result, files)"
    and "distinct_names pd" and "distinct_names ed"
    and "\<forall>b. hex_text 64 (al_sha256 lib b)"
    and "\<forall>i. load_project_identity pf path = Inr i \<longrightarrow> plain_name (pi_version i)"
  shows "\<exists>i records copies listed wheel sdist sums_file inputs.
    load_project_identity pf path = Inr i \<and> rl_tag r = CHR ''v'' # pi_version i \<and>
    repository_name (rl_repository r) \<and> rl_image r = ''ghcr.io/'' @ py_lower (rl_repository r) \<and>
    release_commit (rl_commit r) \<and> image_digest (rl_digest r) \<and>
    \<not> link \<and> dr_entries out = Document [] \<and>
    files = copies @ [(''release-manifest.json'', manifest_text fr lib copies records i r), (''RELEASE_SHA256SUMS'', listed)] \<and>
    set (map fst copies) = {''SHA256SUMS'', wheel_name i, sdist_name i} \<union> set evidence_files \<and>
    (\<forall>(n, b) \<in> set copies. has_file pd n b \<or> has_file ed n b) \<and>
    dr_entries ed = Document inputs \<and> list_all (\<lambda>e. \<exists>k. en_size e = Document k \<and> k \<le> evidence_limit e) inputs \<and>
    parse_checksums ''RELEASE_SHA256SUMS'' (splitlines listed) [] = Inr (file_digests lib (butlast files)) \<and>
    distinct (map fst (butlast files)) \<and>
    (wheel_name i, wheel) \<in> set copies \<and> safe_wheel lib i wheel \<and>
    (sdist_name i, sdist) \<in> set copies \<and> safe_sdist lib i sdist \<and>
    (''SHA256SUMS'', sums_file) \<in> set copies \<and> sound_sums lib sums_file (wheel_name i) wheel (sdist_name i) sdist \<and>
    evidence_published fr parse (pi_name i) r records copies"
proof -
  obtain i packages evidence records where p: "validate_identity R pf path r = Inr i" "load_project_identity pf path = Inr i"
    "exact_regular_files R pd [''SHA256SUMS'', wheel_name i, sdist_name i] = Inr packages"
    "exact_regular_files R ed evidence_files = Inr evidence"
    "check_packages R lib i packages = Inr ()" "check_evidence R fr parse evidence (pi_name i) r = Inr records"
    "check_image_subject evidence r = Inr ()" "assemble fr lib (packages @ evidence) records i r = Inr files"
    "checks (map (\<lambda>e. bounded (evidence_limit e) e) evidence) = Inr ()" "\<not> link" "dr_entries out = Document []"
    using assms(1) by (rule publication_Inr)
  obtain copies manifest where copies: "copies = map (\<lambda>e. (en_name e, content e)) (sort_key en_name (packages @ evidence))"
    and m: "manifest = manifest_text fr lib copies records i r"
    and f: "files = (copies @ [(''release-manifest.json'', manifest)]) @
      [(''RELEASE_SHA256SUMS'', checksum_text (file_digests lib (copies @ [(''release-manifest.json'', manifest)])))]"
    and readable: "\<forall>e \<in> set (packages @ evidence). en_bytes e = Document (content e)"
    using p(8) by (rule assemble_Inr)
  note pk = exact_regular_files_facts [OF p(3) assms(2)] and ev = exact_regular_files_facts [OF p(4) assms(3)]
  have c: "set copies = (\<lambda>e. (en_name e, content e)) ` (set packages \<union> set evidence)" by (simp add: copies)
  have names: "set (map fst copies) = {''SHA256SUMS'', wheel_name i, sdist_name i} \<union> set evidence_files"
    using pk(1) ev(1) by (simp add: c image_image image_Un)
  define checksummed where "checksummed = copies @ [(''release-manifest.json'', manifest)]"
  have d: "distinct (map fst checksummed)"
    and listed: "parse_checksums ''RELEASE_SHA256SUMS'' (splitlines (checksum_text (file_digests lib checksummed))) [] =
      Inr (file_digests lib checksummed)"
    using bundle_checksums [OF p(2) _ assms(4) pk(1,2) ev(1,2), of manifest] assms(5) p(2)
    by (simp_all add: checksummed_def copies)
  have regular: "\<forall>(n, b) \<in> set copies. has_file pd n b \<or> has_file ed n b"
    using pk(3) ev(3) readable by (auto simp: c)
  obtain inputs where inputs: "dr_entries ed = Document inputs" "evidence = sort_key en_name inputs"
    using p(4) by (rule exact_regular_files_Inr)
  have limits: "list_all (\<lambda>e. \<exists>k. en_size e = Document k \<and> k \<le> evidence_limit e) inputs"
    using p(9) by (simp add: inputs(2) bounded_Inr list_all_iff)
  obtain w s e where ws: "w \<in> set packages" "en_name w = wheel_name i" "validate_wheel R lib w i = Inr ()"
    "s \<in> set packages" "en_name s = sdist_name i" "validate_sdist R lib s i = Inr ()"
    "e \<in> set packages" "en_name e = ''SHA256SUMS''" "validate_package_checksums lib e [w, s] = Inr ()"
    using p(5) by (rule check_packages_Inr)
  have safe: "safe_wheel lib i (content w)" "safe_sdist lib i (content s)"
    using validate_wheel_safe [OF ws(3)] validate_sdist_safe [OF ws(6)] by (auto simp: content_def)
  have member: "(wheel_name i, content w) \<in> set copies" "(sdist_name i, content s) \<in> set copies"
    "(''SHA256SUMS'', content e) \<in> set copies"
    using ws by (force simp: c)+
  have summed: "sound_sums lib (content e) (wheel_name i) (content w) (sdist_name i) (content s)"
    using package_checksums_sound [OF ws(9), of "content w" "content s" "content e"] readable ws by simp
  have "evidence_published fr parse (pi_name i) r records copies"
    using p(6,7) by (rule evidence_publishedI) (use readable in \<open>auto simp: c\<close>)
  moreover have "rl_tag r = CHR ''v'' # pi_version i" "rl_image r = ''ghcr.io/'' @ py_lower (rl_repository r)"
    "release_commit (rl_commit r)" "image_digest (rl_digest r)" "repository_name (rl_repository r)"
    using p(1,2) by (auto simp: validate_identity_def rbind_Inr_iff)
  moreover have "files = copies @ [(''release-manifest.json'', manifest_text fr lib copies records i r),
      (''RELEASE_SHA256SUMS'', checksum_text (file_digests lib checksummed))]"
    by (simp add: f checksummed_def m)
  moreover have b: "butlast files = checksummed" unfolding f checksummed_def by (rule butlast_snoc)
  note facts = calculation p(2,10,11) names regular inputs(1) limits listed d member safe summed
  show ?thesis
    unfolding b
    by (rule exI [of _ i], rule exI [of _ records], rule exI [of _ copies],
        rule exI [of _ "checksum_text (file_digests lib checksummed)"], rule exI [of _ "content w"],
        rule exI [of _ "content s"], rule exI [of _ "content e"], rule exI [of _ inputs]) (use facts in simp)
qed

text \<open>Witness of C32 for the example release.\<close>

theorem publication_sound_witness:
  "\<exists>result files copies records. prepare_release_publication (\<lambda>v. []) (\<lambda>q. []) example_lib example_parse ''pyproject.toml''
     example_pyproject example_package_dir example_evidence_directory empty_dir False released_version = Inr (result, files) \<and>
   set copies \<subseteq> set files \<and> evidence_published (\<lambda>q. []) example_parse ''app'' released_version records copies"
proof -
  obtain result files where r: "prepare_release_publication (\<lambda>v. []) (\<lambda>q. []) example_lib example_parse ''pyproject.toml'' example_pyproject
     example_package_dir example_evidence_directory empty_dir False released_version = Inr (result, files)"
    using example_publication by blast
  have d: "distinct_names example_package_dir" "distinct_names example_evidence_directory"
    using example_packages_distinct example_evidence_distinct
    by (simp_all add: distinct_names_def example_package_dir_def example_evidence_directory_def)
  have "\<forall>i. load_project_identity example_pyproject ''pyproject.toml'' = Inr i \<longrightarrow> plain_name (pi_version i)"
    using example_plain by (simp add: example_load)
  moreover have "\<forall>b. hex_text 64 (al_sha256 example_lib b)" using example_hex by blast
  ultimately show ?thesis
    using publication_sound [OF r d]
  proof (elim meta_impE exE conjE, goal_cases)
    case (3 i records copies listed wheel sdist sums_file inputs)
    have "pi_name i = ''app''" using 3(3) by (auto simp: example_load example_id_def)
    moreover have "set copies \<subseteq> set files" by (subst 3(11)) auto
    ultimately have "prepare_release_publication (\<lambda>v. []) (\<lambda>q. []) example_lib example_parse ''pyproject.toml'' example_pyproject
        example_package_dir example_evidence_directory empty_dir False released_version = Inr (result, files) \<and>
      set copies \<subseteq> set files \<and> evidence_published (\<lambda>q. []) example_parse ''app'' released_version records copies"
      using r 3(24) by simp
    then show ?case by blast
  qed
qed

end
