(* ===== verification/Cross_Repository.thy ===== *)
theory Cross_Repository
  imports Python_Json
begin

text \<open>
  \<open>scripts/cross_repository_contract.py\<close>: the interoperability contract shared with the client
  repository. Its errors are \<open>RuntimeError\<close>s and end the run, because \<open>main\<close> catches none of them.
\<close>

definition protocol_version :: string where
  "protocol_version = ''2026-07-28''"

definition client_repository :: string where
  "client_repository = ''brunovicco/mcp-client-auth-template''"

definition server_repository :: string where
  "server_repository = ''brunovicco/mcp-server-auth-template''"

definition required_positive_evidence :: "string list" where
  "required_positive_evidence =
     [''protected-resource-metadata'', ''authorization-server-discovery'', ''client-id-metadata-document'',
      ''dynamic-client-registration'', ''pkce-s256'', ''authorization-response-issuer'', ''resource-indicator'',
      ''bearer-access-token'', ''oauth-client-credentials-extension'', ''client-secret-basic'',
      ''non-interactive-token-acquisition'', ''client-credentials-scope-step-up'', ''self-describing-request-envelope'',
      ''mcp-method-and-name-headers'', ''sessionless-streamable-http'', ''runtime-scope-step-up'',
      ''scope-union-reauthorization'', ''pre-dispatch-step-up-retry'', ''server-discover'', ''tools/call:whoami'',
      ''mcp-sdk-2.2'', ''oauth-private-key-jwt'', ''tools/list:authorization-filtered'']"

definition required_negative_evidence :: "string list" where
  "required_negative_evidence =
     [''authorization-server-binding'', ''wrong-audience'', ''wrong-issuer'', ''expired-token'', ''insufficient-scope'',
      ''invalid-client-credential'', ''request-header-envelope-mismatch'', ''unsupported-protocol-version'',
      ''authorization-response-issuer-mismatch'', ''authorization-server-issuer-binding'',
      ''oauth-cross-origin-redirect-rejection'', ''oauth-prm-fail-closed'', ''token-audience-validation'']"

record shared_contract =
  sc_schema_version :: pyval
  sc_protocol_version :: string
  sc_transport :: string
  sc_auth_profile :: string
  sc_required_scope :: string
  sc_client :: string
  sc_server :: string
  sc_positive :: "string list"
  sc_negative :: "string list"

definition contract_string :: "pyval \<Rightarrow> string \<Rightarrow> string result" where
  "contract_string v field =
     (case as_str v of
        Some s \<Rightarrow> if s = [] then Inl (RuntimeErr (field @ '' must be a non-empty string'')) else Inr s
      | None \<Rightarrow> Inl (RuntimeErr (field @ '' must be a non-empty string'')))"

definition contract_strings :: "pyval \<Rightarrow> string \<Rightarrow> string list result" where
  "contract_strings v field =
     (case as_list v of
        None \<Rightarrow> Inl (RuntimeErr (field @ '' must be a non-empty string list''))
      | Some vs \<Rightarrow>
          if vs = [] \<or> list_ex (\<lambda>x. as_str x = None) vs
          then Inl (RuntimeErr (field @ '' must be a non-empty string list''))
          else (let items = List.map_filter as_str vs in
                if distinct items then Inr items else Inl (RuntimeErr (field @ '' must not contain duplicates''))))"

definition load_contract :: "pyval document \<Rightarrow> shared_contract result" where
  "load_contract file =
     (case file of
        NoFile _ \<Rightarrow> Inl (RuntimeErr ''unable to read compatibility contract'')
      | BadSyntax _ \<Rightarrow> Inl (RuntimeErr ''unable to read compatibility contract'')
      | BadEncoding \<Rightarrow> Inl undecodable
      | Document v \<Rightarrow>
          (case as_dict v of
             None \<Rightarrow> Inl (RuntimeErr ''compatibility contract must be a JSON object'')
           | Some raw \<Rightarrow>
               rbind (ensure (eq_int (py_get raw ''schema_version'') 1) (RuntimeErr ''unsupported compatibility contract schema'')) (\<lambda>_.
               (case as_dict (py_get raw ''repositories'') of
                  None \<Rightarrow> Inl (RuntimeErr ''repositories must be a JSON object'')
                | Some repositories \<Rightarrow>
                    rbind (contract_string (py_get repositories ''client'') ''repositories.client'') (\<lambda>client.
                    rbind (contract_string (py_get repositories ''server'') ''repositories.server'') (\<lambda>server.
                    rbind (contract_string (py_get raw ''protocol_version'') ''protocol_version'') (\<lambda>protocol.
                    rbind (contract_string (py_get raw ''transport'') ''transport'') (\<lambda>transport.
                    rbind (contract_string (py_get raw ''auth_profile'') ''auth_profile'') (\<lambda>profile.
                    rbind (contract_string (py_get raw ''required_scope'') ''required_scope'') (\<lambda>required.
                    rbind (contract_strings (py_get raw ''positive_evidence'') ''positive_evidence'') (\<lambda>positive.
                    rbind (contract_strings (py_get raw ''negative_evidence'') ''negative_evidence'') (\<lambda>negative.
                      Inr \<lparr>sc_schema_version = py_get raw ''schema_version'', sc_protocol_version = protocol,
                        sc_transport = transport, sc_auth_profile = profile, sc_required_scope = required,
                        sc_client = client, sc_server = server, sc_positive = positive, sc_negative = negative\<rparr>))))))))))))"

definition validate_commitments :: "shared_contract \<Rightarrow> unit result" where
  "validate_commitments c =
     checks
       [ensure (sc_protocol_version c = protocol_version) (RuntimeErr ''unexpected MCP protocol version''),
        ensure (sc_transport c = ''streamable-http'') (RuntimeErr ''unexpected MCP transport''),
        ensure (sc_auth_profile c = ''generic-oidc-oauth-2.1'') (RuntimeErr ''unexpected authorization profile''),
        ensure (sc_required_scope c = ''mcp:tools:call'') (RuntimeErr ''unexpected required scope''),
        ensure (sc_client c = client_repository \<and> sc_server c = server_repository) (RuntimeErr ''unexpected repository pair''),
        ensure (set (sc_positive c) = set required_positive_evidence)
          (RuntimeErr ''positive interoperability evidence is incomplete''),
        ensure (set (sc_negative c) = set required_negative_evidence)
          (RuntimeErr ''negative interoperability evidence is incomplete'')]"

definition contract_value :: "shared_contract \<Rightarrow> pyval" where
  "contract_value c = PDict
     [(''schema_version'', sc_schema_version c), (''protocol_version'', PStr (sc_protocol_version c)),
      (''transport'', PStr (sc_transport c)), (''auth_profile'', PStr (sc_auth_profile c)),
      (''required_scope'', PStr (sc_required_scope c)),
      (''repositories'', PDict [(''client'', PStr (sc_client c)), (''server'', PStr (sc_server c))]),
      (''positive_evidence'', PList (map PStr (sc_positive c))), (''negative_evidence'', PList (map PStr (sc_negative c)))]"

definition canonical_bytes :: "(rat \<Rightarrow> string) \<Rightarrow> shared_contract \<Rightarrow> bytes" where
  "canonical_bytes fr c = dumps_compact fr (contract_value c)"

definition validate_pair ::
    "(rat \<Rightarrow> string) \<Rightarrow> (bytes \<Rightarrow> string) \<Rightarrow> pyval document \<Rightarrow> pyval document option \<Rightarrow> pyval dict result" where
  "validate_pair fr sha256 local_file peer_file =
     rbind (load_contract local_file) (\<lambda>local.
     rbind (validate_commitments local) (\<lambda>_.
     let local_bytes = canonical_bytes fr local in
     rbind (case peer_file of
              None \<Rightarrow> Inr ()
            | Some file \<Rightarrow>
                rbind (load_contract file) (\<lambda>peer.
                checks [validate_commitments peer,
                        ensure (canonical_bytes fr peer = local_bytes)
                          (RuntimeErr ''peer compatibility contract does not match'')])) (\<lambda>_.
       Inr [(''status'', PStr ''ok''), (''protocol_version'', PStr (sc_protocol_version local)),
            (''transport'', PStr (sc_transport local)), (''auth_profile'', PStr (sc_auth_profile local)),
            (''peer_match'', PBool (peer_file \<noteq> None)), (''contract_sha256'', PStr (sha256 local_bytes))])))"

definition cross_repository_main ::
    "(rat \<Rightarrow> string) \<Rightarrow> (bytes \<Rightarrow> string) \<Rightarrow> pyval document \<Rightarrow> pyval document option \<Rightarrow> string result" where
  "cross_repository_main fr sha256 local_file peer_file =
     rbind (validate_pair fr sha256 local_file peer_file) (\<lambda>payload. Inr (dumps fr (PDict payload)))"

section \<open>The canonical form determines the contract\<close>

text \<open>A JSON string is read back, up to its closing quote.\<close>

definition hex_digit_value :: "char \<Rightarrow> nat" where
  "hex_digit_value c = (if is_digit c then ord_of c - 48 else ord_of c - 87)"

definition short_escape :: "char \<Rightarrow> nat" where
  "short_escape c =
     (if c = CHR ''n'' then 10 else if c = CHR ''r'' then 13 else if c = CHR ''t'' then 9
      else if c = CHR ''b'' then 8 else if c = CHR ''f'' then 12 else ord_of c)"

fun read_json_string :: "string \<Rightarrow> string \<times> string" where
  "read_json_string [] = ([], [])"
| "read_json_string (c # cs) =
     (if c = CHR 0x22 then ([], cs)
      else if c \<noteq> CHR 0x5C then (let (s, r) = read_json_string cs in (c # s, r))
      else (case cs of
              [] \<Rightarrow> ([], [])
            | d # ds \<Rightarrow>
                if d = CHR ''u''
                then (let (s, r) = read_json_string (drop 4 ds) in (char_of (16 * hex_digit_value (ds ! 2) + hex_digit_value (ds ! 3)) # s, r))
                else (let (s, r) = read_json_string ds in (char_of (short_escape d) # s, r))))"

lemma hex_digit_value_digit: "n < 16 \<Longrightarrow> hex_digit_value (hex_digit n) = n"
  by (simp add: hex_digit_value_def hex_digit_def is_digit_def ord_of_def Let_def)

lemma read_json_char:
  "read_json_string (json_char c @ r) = (let (s, r') = read_json_string r in (c # s, r'))"
proof -
  have c: "char_of (ord_of c) = c" "ord_of c < 256" using ord_of_def by auto
  consider "ord_of c = 34" | "ord_of c = 92" | "ord_of c = 10" | "ord_of c = 13" | "ord_of c = 9" | "ord_of c = 8" | "ord_of c = 12"
    | (plain) "ord_of c \<notin> {34, 92, 10, 13, 9, 8, 12}" "32 \<le> ord_of c \<and> ord_of c \<le> 126"
    | (other) "ord_of c \<notin> {34, 92, 10, 13, 9, 8, 12}" "\<not> (32 \<le> ord_of c \<and> ord_of c \<le> 126)" by auto
  then show ?thesis
  proof cases
    case plain
    then have "c \<noteq> CHR 0x22" "c \<noteq> CHR 0x5C" by (auto simp: ord_of_def)
    with plain show ?thesis by (simp add: json_char_def Let_def)
  next
    case other
    then have "json_char c = [CHR 0x5C, CHR ''u'', CHR ''0'', CHR ''0'', hex_digit (ord_of c div 16), hex_digit (ord_of c mod 16)]"
      by (simp add: json_char_def Let_def)
    moreover have "16 * hex_digit_value (hex_digit (ord_of c div 16)) + hex_digit_value (hex_digit (ord_of c mod 16)) = ord_of c"
      using c(2) by (simp add: hex_digit_value_digit)
    ultimately show ?thesis using c(1) by (simp add: Let_def)
  qed (use c(1) in \<open>simp_all add: json_char_def short_escape_def ord_of_def Let_def\<close>)
qed

lemma read_json_chars: "read_json_string (concat (map json_char s) @ CHR 0x22 # r) = (s, r)"
  by (induction s) (simp_all add: read_json_char Let_def)

lemma json_string_delimited: "json_string s @ x = json_string t @ y \<longleftrightarrow> s = t \<and> x = y"
proof
  assume "json_string s @ x = json_string t @ y"
  then have "concat (map json_char s) @ CHR 0x22 # x = concat (map json_char t) @ CHR 0x22 # y"
    by (simp add: json_string_def)
  then show "s = t \<and> x = y" using read_json_chars by (metis prod.inject)
qed simp

definition strings_text :: "string list \<Rightarrow> string" where
  "strings_text xs = CHR ''['' # join '','' (map json_string xs) @ [CHR '']'']"

lemma strings_text_json: "json_text fr Compact n (PList (map PStr xs)) = strings_text xs"
  by (cases xs) (simp_all add: strings_text_def json_group_def o_def)

lemma items_text:
  "join '','' (map json_string (z # zs)) @ CHR '']'' # t =
     json_string z @ (if zs = [] then CHR '']'' # t else CHR '','' # join '','' (map json_string zs) @ CHR '']'' # t)"
  by (cases zs) simp_all

lemma items_delimited:
  "join '','' (map json_string xs) @ CHR '']'' # r = join '','' (map json_string ys) @ CHR '']'' # q \<longleftrightarrow> xs = ys \<and> r = q"
proof (induction xs arbitrary: ys)
  case Nil
  then show ?case
  proof (cases ys)
    case (Cons y zs)
    then show ?thesis unfolding Cons items_text by (simp add: json_string_def)
  qed simp
next
  case (Cons x xs)
  show ?case
  proof (cases ys)
    case Nil
    then show ?thesis unfolding Nil items_text by (simp add: json_string_def)
  next
    case (Cons y zs)
    then show ?thesis
      unfolding Cons items_text json_string_delimited using Cons.IH [of zs] by (cases xs; cases zs) auto
  qed
qed

lemma strings_text_delimited: "strings_text xs @ r = strings_text ys @ q \<longleftrightarrow> xs = ys \<and> r = q"
  by (simp add: strings_text_def items_delimited)

lemma text_before_comma:
  "CHR '','' \<notin> set a \<Longrightarrow> CHR '','' \<notin> set b \<Longrightarrow> a @ CHR '','' # r = b @ CHR '','' # q \<longleftrightarrow> a = b \<and> r = q"
proof (induction a arbitrary: b)
  case Nil
  then show ?case by (cases b) auto
next
  case (Cons x a)
  then show ?case by (cases b) auto
qed

text \<open>The contract as it is written, keys in order.\<close>

lemma canonical_form:
  "canonical_bytes fr c =
     (CHR 0x7B # json_string ''auth_profile'' @ [CHR '':'']) @ json_string (sc_auth_profile c) @
     (CHR '','' # json_string ''negative_evidence'' @ [CHR '':'']) @ strings_text (sc_negative c) @
     (CHR '','' # json_string ''positive_evidence'' @ [CHR '':'']) @ strings_text (sc_positive c) @
     (CHR '','' # json_string ''protocol_version'' @ [CHR '':'']) @ json_string (sc_protocol_version c) @
     (CHR '','' # json_string ''repositories'' @ CHR '':'' # CHR 0x7B # json_string ''client'' @ [CHR '':'']) @ json_string (sc_client c) @
     (CHR '','' # json_string ''server'' @ [CHR '':'']) @ json_string (sc_server c) @
     (CHR 0x7D # CHR '','' # json_string ''required_scope'' @ [CHR '':'']) @ json_string (sc_required_scope c) @
     (CHR '','' # json_string ''schema_version'' @ [CHR '':'']) @ json_text fr Compact 1 (sc_schema_version c) @
     CHR '','' # (json_string ''transport'' @ [CHR '':'']) @ json_string (sc_transport c) @ [CHR 0x7D]"
proof -
  have "sort_key fst
     [(''schema_version'', sc_schema_version c), (''protocol_version'', PStr (sc_protocol_version c)),
      (''transport'', PStr (sc_transport c)), (''auth_profile'', PStr (sc_auth_profile c)),
      (''required_scope'', PStr (sc_required_scope c)),
      (''repositories'', PDict [(''client'', PStr (sc_client c)), (''server'', PStr (sc_server c))]),
      (''positive_evidence'', PList (map PStr (sc_positive c))), (''negative_evidence'', PList (map PStr (sc_negative c)))] =
     [(''auth_profile'', PStr (sc_auth_profile c)), (''negative_evidence'', PList (map PStr (sc_negative c))),
      (''positive_evidence'', PList (map PStr (sc_positive c))), (''protocol_version'', PStr (sc_protocol_version c)),
      (''repositories'', PDict [(''client'', PStr (sc_client c)), (''server'', PStr (sc_server c))]),
      (''required_scope'', PStr (sc_required_scope c)), (''schema_version'', sc_schema_version c),
      (''transport'', PStr (sc_transport c))]"
    by (simp add: less_list_code less_eq_list_code ord_of_def)
  moreover have "sort_key fst [(''client'', PStr (sc_client c)), (''server'', PStr (sc_server c))] =
      [(''client'', PStr (sc_client c)), (''server'', PStr (sc_server c))]"
    by (simp add: less_list_code less_eq_list_code ord_of_def)
  ultimately show ?thesis
    by (simp add: canonical_bytes_def dumps_compact_def contract_value_def json_group_def key_separator_def strings_text_json
        del: sort_key_simps json_text.simps(6))
qed

lemma eq_int_cases: "eq_int v 1 \<Longrightarrow> v = PInt 1 \<or> v = PBool True \<or> v = PFloat 1"
  by (cases v) (auto split: if_splits)

lemma show_one: "show_int 1 = ''1''"
  by code_simp

lemma version_text:
  assumes "fr 1 = ''1.0''" and "eq_int v 1"
  shows "CHR '','' \<notin> set (json_text fr Compact n v)"
    "eq_int w 1 \<Longrightarrow> json_text fr Compact n v = json_text fr Compact n w \<Longrightarrow> v = w"
proof -
  show "CHR '','' \<notin> set (json_text fr Compact n v)"
    using eq_int_cases [OF assms(2)] assms(1) by (auto simp: show_one)
  show "v = w" if "eq_int w 1" "json_text fr Compact n v = json_text fr Compact n w"
    using eq_int_cases [OF assms(2)] eq_int_cases [OF that(1)] that(2) assms(1) by (elim disjE) (simp_all add: show_one)
qed

lemma canonical_bytes_inject:
  assumes "fr 1 = ''1.0''" and "eq_int (sc_schema_version c) 1" and "eq_int (sc_schema_version d) 1"
    and "canonical_bytes fr c = canonical_bytes fr d"
  shows "c = d"
proof -
  have v: "json_text fr Compact 1 (sc_schema_version c) @ CHR '','' # r = json_text fr Compact 1 (sc_schema_version d) @ CHR '','' # q \<longleftrightarrow>
      json_text fr Compact 1 (sc_schema_version c) = json_text fr Compact 1 (sc_schema_version d) \<and> r = q" for r q
    using version_text(1) assms by (intro text_before_comma) blast+
  from assms(4) have e: "sc_auth_profile c = sc_auth_profile d" "sc_negative c = sc_negative d" "sc_positive c = sc_positive d"
    "sc_protocol_version c = sc_protocol_version d" "sc_client c = sc_client d" "sc_server c = sc_server d"
    "sc_required_scope c = sc_required_scope d" "sc_transport c = sc_transport d"
    "json_text fr Compact 1 (sc_schema_version c) = json_text fr Compact 1 (sc_schema_version d)"
    by (simp_all only: canonical_form same_append_eq json_string_delimited strings_text_delimited v)
  moreover have "sc_schema_version c = sc_schema_version d" using version_text(2) [OF assms(1,2,3) e(9)] .
  ultimately show ?thesis by simp
qed

lemma load_contract_version: "load_contract file = Inr c \<Longrightarrow> eq_int (sc_schema_version c) 1"
  by (auto simp: load_contract_def rbind_Inr_iff split: document.splits option.splits)

lemma validate_pair_agrees:
  assumes "fr 1 = ''1.0''"
  shows "(\<exists>payload. validate_pair fr sha256 local_file (Some peer_file) = Inr payload) \<longleftrightarrow>
    (\<exists>c. load_contract local_file = Inr c \<and> load_contract peer_file = Inr c \<and> validate_commitments c = Inr ())"
proof
  assume "\<exists>payload. validate_pair fr sha256 local_file (Some peer_file) = Inr payload"
  then obtain c d where cd: "load_contract local_file = Inr c" "validate_commitments c = Inr ()"
    "load_contract peer_file = Inr d" "canonical_bytes fr d = canonical_bytes fr c"
    by (auto simp: validate_pair_def rbind_Inr_iff Let_def)
  have "d = c"
    by (rule canonical_bytes_inject [OF assms load_contract_version [OF cd(3)] load_contract_version [OF cd(1)] cd(4)])
  with cd show "\<exists>c. load_contract local_file = Inr c \<and> load_contract peer_file = Inr c \<and> validate_commitments c = Inr ()" by blast
qed (auto simp: validate_pair_def rbind_Inr_iff Let_def)

end
