(* ===== verification/Registry_Publication.thy ===== *)
theory Registry_Publication
  imports Python_Json
begin

text \<open>
  \<open>scripts/validate_registry_publication.py\<close>: the checks of the source document and of the Registry's
  responses after a publication. Its \<open>ValueError\<close>s are the validation error \<open>GateError\<close>, as for the
  other scripts; a JSON payload is a value, its file a parameter.
\<close>

definition published_schema :: string where
  "published_schema = ''https://static.modelcontextprotocol.io/schemas/2025-12-11/server.schema.json''"

definition published_name :: string where
  "published_name = ''io.github.brunovicco/mcp-server-auth-template''"

definition published_repository :: string where
  "published_repository = ''https://github.com/brunovicco/mcp-server-auth-template''"

definition repository_id :: string where
  "repository_id = ''1327263126''"

definition official_meta :: string where
  "official_meta = ''io.modelcontextprotocol.registry/official''"

definition as_object :: "pyval \<Rightarrow> string \<Rightarrow> pyval dict result" where
  "as_object v label =
     (case as_dict v of None \<Rightarrow> Inl (GateError (label @ '' must be an object'')) | Some d \<Rightarrow> Inr d)"

definition as_array :: "pyval \<Rightarrow> string \<Rightarrow> pyval list result" where
  "as_array v label =
     (case as_list v of None \<Rightarrow> Inl (GateError (label @ '' must be an array'')) | Some vs \<Rightarrow> Inr vs)"

definition has_field :: "pyval dict \<Rightarrow> string \<Rightarrow> bool" where
  "has_field d k \<longleftrightarrow> k \<in> fst ` set d"

definition forbidden_fields :: "string list" where
  "forbidden_fields = [''registryBaseUrl'', ''version'', ''fileSha256'']"

definition check_published_repository :: "pyval dict \<Rightarrow> unit result" where
  "check_published_repository server =
     rbind (as_object (py_get server ''repository'') ''repository'') (\<lambda>repository.
       checks
         [gate_require (py_get repository ''url'' = PStr published_repository) ''unexpected repository URL'',
          gate_require (py_get repository ''source'' = PStr ''github'') ''unexpected repository source'',
          gate_require (py_get repository ''id'' = PStr repository_id) ''unexpected repository ID''])"

definition check_published_package :: "pyval \<Rightarrow> string \<Rightarrow> unit result" where
  "check_published_package v version =
     rbind (as_object v ''packages[0]'') (\<lambda>package.
     rbind (checks
       [gate_require (py_get package ''registryType'' = PStr ''oci'') ''Registry package must remain OCI'',
        gate_require (py_get package ''identifier'' = PStr (''ghcr.io/brunovicco/mcp-server-auth-template:v'' @ version))
          ''unexpected OCI identifier'']) (\<lambda>_.
     rbind (as_object (py_get package ''transport'') ''packages[0].transport'') (\<lambda>transport.
       checks
         ([gate_require (py_get transport ''type'' = PStr ''streamable-http'') ''unexpected transport type'',
           gate_require (py_get transport ''url'' = PStr ''http://127.0.0.1:8000/mcp'') ''unexpected transport URL''] @
          map (\<lambda>f. gate_require (\<not> has_field package f) (''OCI package must not declare '' @ f)) forbidden_fields))))"

definition validate_server :: "pyval dict \<Rightarrow> string \<Rightarrow> unit result" where
  "validate_server server version =
     rbind (checks
       [gate_require (py_get server ''$schema'' = PStr published_schema) ''unexpected server schema'',
        gate_require (py_get server ''name'' = PStr published_name) ''unexpected server name'',
        gate_require (py_get server ''version'' = PStr version) ''unexpected server version'',
        check_published_repository server]) (\<lambda>_.
     rbind (as_array (py_get server ''packages'') ''packages'') (\<lambda>packages.
       (case packages of
          [v] \<Rightarrow>
            rbind (check_published_package v version) (\<lambda>_.
              gate_require (\<not> has_field server ''remotes'') ''hosted remotes must remain absent'')
        | _ \<Rightarrow> Inl (GateError ''exactly one Registry package is required''))))"

definition validate_meta :: "pyval \<Rightarrow> string \<Rightarrow> unit result" where
  "validate_meta meta latest_state =
     rbind (as_object meta ''_meta'') (\<lambda>response_meta.
     rbind (as_object (py_get response_meta official_meta) (''_meta.'' @ official_meta)) (\<lambda>official.
     rbind (gate_require (py_get official ''status'' = PStr ''active'') ''Registry status must be active'') (\<lambda>_.
     (case py_get official ''isLatest'' of
        PBool is_latest \<Rightarrow>
          if latest_state = ''true'' then gate_require is_latest ''Registry entry must be latest''
          else if latest_state = ''false'' then gate_require (\<not> is_latest) ''Registry entry must not be latest''
          else gate_require (latest_state = ''any'') (''unsupported latest-state: '' @ latest_state)
      | _ \<Rightarrow> Inl (GateError ''Registry isLatest must be boolean'')))))"

text \<open>The entries of a discovery response for this server and version, in order.\<close>

fun matching_entries :: "pyval list \<Rightarrow> string \<Rightarrow> pyval dict list result" where
  "matching_entries [] version = Inr []"
| "matching_entries (v # vs) version =
     rbind (as_object v ''servers[]'') (\<lambda>entry.
     rbind (as_object (py_get entry ''server'') ''servers[].server'') (\<lambda>server.
     rbind (matching_entries vs version) (\<lambda>rest.
       Inr (if py_get server ''name'' = PStr published_name \<and> py_get server ''version'' = PStr version
            then entry # rest else rest))))"

definition check_selected :: "pyval dict \<Rightarrow> pyval dict \<Rightarrow> string \<Rightarrow> string \<Rightarrow> unit result" where
  "check_selected response selected version latest_state =
     rbind (as_object (py_get selected ''server'') ''servers[].server'') (\<lambda>server.
     rbind (checks [validate_server server version, validate_meta (py_get selected ''_meta'') latest_state]) (\<lambda>_.
     rbind (as_object (py_get response ''metadata'') ''metadata'') (\<lambda>metadata.
       gate_require (case py_get metadata ''count'' of PInt _ \<Rightarrow> True | PBool _ \<Rightarrow> True | _ \<Rightarrow> False)
         ''metadata.count must be an integer'')))"

definition validate_discovery :: "pyval dict \<Rightarrow> string \<Rightarrow> string \<Rightarrow> unit result" where
  "validate_discovery response version latest_state =
     rbind (as_array (py_get response ''servers'') ''servers'') (\<lambda>entries.
     rbind (matching_entries entries version) (\<lambda>found.
     (case found of
        [selected] \<Rightarrow> check_selected response selected version latest_state
      | _ \<Rightarrow> Inl (GateError ''discovery must contain exactly one matching server/version''))))"

definition validate_payload :: "string \<Rightarrow> pyval \<Rightarrow> string \<Rightarrow> string \<Rightarrow> unit result" where
  "validate_payload kind payload version latest_state =
     (if kind = ''source'' then rbind (as_object payload ''server.json'') (\<lambda>server. validate_server server version)
      else rbind (as_object payload ''Registry response'') (\<lambda>response.
        if kind = ''exact'' \<or> kind = ''latest''
        then rbind (as_object (py_get response ''server'') ''server'') (\<lambda>server.
             checks [validate_server server version, validate_meta (py_get response ''_meta'') latest_state])
        else if kind = ''discovery'' then validate_discovery response version latest_state
        else Inl (GateError (''unsupported validation kind: '' @ kind))))"

text \<open>The run: every failure to read, decode or parse the file is reported like a failed check.\<close>

definition registry_publication_main ::
    "pyval document \<Rightarrow> string \<Rightarrow> string \<Rightarrow> string \<Rightarrow> (int \<times> string) result" where
  "registry_publication_main input kind version latest_state =
     (let failed = (\<lambda>m. Inr (1, ''Registry publication validation failed: '' @ m)) in
      (case input of
         NoFile e \<Rightarrow> failed e
       | BadSyntax e \<Rightarrow> failed e
       | BadEncoding \<Rightarrow> failed ''not utf-8''
       | Document payload \<Rightarrow>
           (case validate_payload kind payload version latest_state of
              Inl (GateError m) \<Rightarrow> failed m
            | Inl e \<Rightarrow> Inl e
            | Inr _ \<Rightarrow> Inr (0, ''Registry publication '' @ kind @ '' validation passed.''))))"

section \<open>What an accepted response says\<close>

text \<open>The server document that is published, as a specification.\<close>

definition published_document :: "pyval dict \<Rightarrow> string \<Rightarrow> bool" where
  "published_document server version \<longleftrightarrow>
     py_get server ''$schema'' = PStr published_schema \<and> py_get server ''name'' = PStr published_name \<and>
     py_get server ''version'' = PStr version \<and> \<not> has_field server ''remotes'' \<and>
     (\<exists>repository. py_get server ''repository'' = PDict repository \<and> py_get repository ''url'' = PStr published_repository \<and>
        py_get repository ''source'' = PStr ''github'' \<and> py_get repository ''id'' = PStr repository_id) \<and>
     (\<exists>package transport. py_get server ''packages'' = PList [PDict package] \<and>
        py_get package ''registryType'' = PStr ''oci'' \<and>
        py_get package ''identifier'' = PStr (''ghcr.io/brunovicco/mcp-server-auth-template:v'' @ version) \<and>
        py_get package ''transport'' = PDict transport \<and> py_get transport ''type'' = PStr ''streamable-http'' \<and>
        py_get transport ''url'' = PStr ''http://127.0.0.1:8000/mcp'' \<and> (\<forall>f \<in> set forbidden_fields. \<not> has_field package f))"

lemma as_object_Inr [simp]: "as_object v label = Inr d \<longleftrightarrow> v = PDict d"
  by (cases v) (auto simp: as_object_def)

lemma as_array_Inr [simp]: "as_array v label = Inr vs \<longleftrightarrow> v = PList vs"
  by (cases v) (auto simp: as_array_def)

lemma check_published_package_iff:
  "check_published_package v version = Inr u \<longleftrightarrow>
     (\<exists>package transport. v = PDict package \<and> py_get package ''registryType'' = PStr ''oci'' \<and>
        py_get package ''identifier'' = PStr (''ghcr.io/brunovicco/mcp-server-auth-template:v'' @ version) \<and>
        py_get package ''transport'' = PDict transport \<and> py_get transport ''type'' = PStr ''streamable-http'' \<and>
        py_get transport ''url'' = PStr ''http://127.0.0.1:8000/mcp'' \<and> (\<forall>f \<in> set forbidden_fields. \<not> has_field package f))"
  unfolding check_published_package_def rbind_Inr_iff as_object_Inr checks_Inr by (auto simp: rbind_Inr_iff)

lemma validate_server_iff: "validate_server server version = Inr u \<longleftrightarrow> published_document server version"
proof -
  have "(case packages of [v] \<Rightarrow> rbind (check_published_package v version) f | _ \<Rightarrow> Inl e) = Inr u \<longleftrightarrow>
      (\<exists>v. packages = [v] \<and> check_published_package v version = Inr () \<and> f () = Inr u)"
    for packages and f :: "unit \<Rightarrow> unit result" and e
    by (auto simp: rbind_Inr_iff split: list.splits)
  then show ?thesis
    unfolding validate_server_def published_document_def rbind_Inr_iff checks_Inr as_array_Inr
    by (auto simp: check_published_repository_def rbind_Inr_iff check_published_package_iff)
qed

end
