(* ===== verification/Compatibility_Contract.thy ===== *)
theory Compatibility_Contract
  imports Python_Json
begin

text \<open>
  \<open>scripts/compatibility_contract.py\<close>: one cell of the matrix of Python and SDK versions. The project
  file, the running interpreter and the installed package are parameters.
\<close>

definition supported_python_minors :: "string list" where
  "supported_python_minors = [''3.13'', ''3.14'']"

definition requires_python_range :: string where
  "requires_python_range = ''>=3.13,<3.15''"

definition mcp_minimum_version :: string where
  "mcp_minimum_version = ''2.2.0''"

definition mcp_requirement :: string where
  "mcp_requirement = ''mcp'' @ ''>=2.2,<3''"

text \<open>\<open>dependency.replace(" ", "")\<close>, and \<open>_MCP_DEPENDENCY.match\<close>: the name, then an operator or the end.\<close>

definition without_spaces :: "string \<Rightarrow> string" where
  "without_spaces s = filter (\<lambda>c. c \<noteq> CHR '' '') s"

definition mcp_dependency :: "string \<Rightarrow> bool" where
  "mcp_dependency s \<longleftrightarrow>
     bytes_lower (take 3 s) = ''mcp'' \<and>
     (case drop 3 s of
        [] \<Rightarrow> True
      | c # cs \<Rightarrow> c \<in> set ''<>=!~;['' \<or> c = CHR 0x0A \<and> cs = [])"

definition project_contract :: "pyval dict document \<Rightarrow> (string \<times> string) result" where
  "project_contract pyproject =
     (case pyproject of
        NoFile e \<Rightarrow> Inl (GateError e)
      | BadSyntax e \<Rightarrow> Inl (GateError e)
      | BadEncoding \<Rightarrow> Inl undecodable
      | Document document \<Rightarrow>
          (case (if map_of document ''project'' = None then Some [] else as_dict (py_get document ''project'')) of
             None \<Rightarrow> Inl (OtherExn ''AttributeError'')
           | Some project \<Rightarrow>
               (case (as_str (py_get project ''requires-python''), as_list (py_get project ''dependencies'')) of
                  (Some requires_python, Some dependencies) \<Rightarrow>
                    (case filter mcp_dependency (map without_spaces (List.map_filter as_str dependencies)) of
                       [requirement] \<Rightarrow> Inr (without_spaces requires_python, requirement)
                     | _ \<Rightarrow> Inl (GateError ''project must declare exactly one MCP SDK requirement''))
                | _ \<Rightarrow> Inl (GateError ''project compatibility metadata is incomplete''))))"

text \<open>\<open>_RELEASE_PREFIX.match\<close>: the three numbers as texts, the last one possibly missing.\<close>

definition digits_of :: "string \<Rightarrow> string" where
  "digits_of s = takeWhile is_digit s"

definition release_prefix :: "string \<Rightarrow> (string \<times> string \<times> string) option" where
  "release_prefix s =
     (let major = digits_of s; rest = drop (length major) s;
          minor = digits_of (tl rest); more = drop (length minor) (tl rest)
      in if major \<noteq> [] \<and> startswith rest ''.'' \<and> minor \<noteq> []
         then Some (major, minor, if startswith more ''.'' then digits_of (tl more) else [])
         else None)"

definition release_number :: "string \<Rightarrow> int result" where
  "release_number digits =
     (if length digits \<le> 4300 then Inr (int (nat_of_digits digits)) else Inl (ValueError ''digits''))"

definition release_triplet :: "string \<Rightarrow> (int \<times> int \<times> int) result" where
  "release_triplet raw =
     (case release_prefix raw of
        None \<Rightarrow> Inl (GateError ''installed MCP SDK version is not parseable'')
      | Some (major, minor, patch) \<Rightarrow>
          rbind (release_number major) (\<lambda>a. rbind (release_number minor) (\<lambda>b.
          rbind (if patch = [] then Inr 0 else release_number patch) (\<lambda>c. Inr (a, b, c)))))"

definition before_release :: "int \<times> int \<times> int \<Rightarrow> int \<times> int \<times> int \<Rightarrow> bool" where
  "before_release r s \<longleftrightarrow>
     (case (r, s) of ((a, b, c), (a', b', c')) \<Rightarrow> a < a' \<or> a = a' \<and> (b < b' \<or> b = b' \<and> c < c'))"

text \<open>The running interpreter, and the version of the installed package if there is one.\<close>

record environment =
  ev_major :: nat
  ev_minor :: nat
  ev_installed :: "string option"

definition validate_contract ::
    "environment \<Rightarrow> pyval dict document \<Rightarrow> string \<Rightarrow> string \<Rightarrow> string option \<Rightarrow> string option \<Rightarrow> pyval dict result" where
  "validate_contract env pyproject expected_python profile active_python installed_version =
     rbind (checks
       [gate_require (expected_python \<in> set supported_python_minors) ''requested Python version is outside support policy'',
        gate_require (profile \<in> {''minimum'', ''latest''}) ''unknown MCP compatibility profile'']) (\<lambda>_.
     rbind (project_contract pyproject) (\<lambda>(requires_python, requirement).
     let current = (case active_python of Some p \<Rightarrow> if p = [] then show_nat (ev_major env) @ ''.'' @ show_nat (ev_minor env) else p
                    | None \<Rightarrow> show_nat (ev_major env) @ ''.'' @ show_nat (ev_minor env)) in
     rbind (checks
       [gate_require (requires_python = requires_python_range) ''requires-python drifted from compatibility policy'',
        gate_require (requirement = mcp_requirement) ''MCP SDK requirement drifted from compatibility policy'',
        gate_require (current = expected_python) ''active Python interpreter does not match matrix cell'']) (\<lambda>_.
     (case (if installed_version = None then ev_installed env else installed_version) of
        None \<Rightarrow> Inl (GateError ''MCP SDK is not installed'')
      | Some installed \<Rightarrow>
          rbind (release_triplet installed) (\<lambda>release.
          rbind (if profile = ''minimum''
                 then gate_require (installed = mcp_minimum_version) ''minimum profile did not install the support floor''
                 else gate_require (fst release = 2 \<and> \<not> before_release release (2, 0, 0))
                        ''latest profile resolved outside the supported MCP 2.x range'') (\<lambda>_.
            Inr [(''mcp_profile'', PStr profile), (''mcp_version'', PStr installed), (''python'', PStr current),
                 (''status'', PStr ''ok'')]))))))"

definition compatibility_main ::
    "(rat \<Rightarrow> string) \<Rightarrow> environment \<Rightarrow> pyval dict document \<Rightarrow> string \<Rightarrow> string \<Rightarrow> (int \<times> string) result" where
  "compatibility_main fr env pyproject expected_python profile =
     (case validate_contract env pyproject expected_python profile None None of
        Inl (GateError reason) \<Rightarrow>
          Inr (1, dumps fr (PDict [(''error'', PStr ''compatibility_contract_failed''), (''reason'', PStr reason)]))
      | Inl e \<Rightarrow> Inl e
      | Inr payload \<Rightarrow> Inr (0, dumps fr (PDict payload)))"

section \<open>What a cell establishes\<close>

lemma first_comparison_dead: "fst r = 2 \<Longrightarrow> 0 \<le> fst (snd r) \<Longrightarrow> 0 \<le> snd (snd r) \<Longrightarrow> \<not> before_release r (2, 0, 0)"
  by (cases r) (auto simp: before_release_def)

lemma release_triplet_nonneg: "release_triplet s = Inr (a, b, c) \<Longrightarrow> 0 \<le> a \<and> 0 \<le> b \<and> 0 \<le> c"
  by (auto simp: release_triplet_def release_number_def rbind_Inr_iff split: option.splits if_splits)

text \<open>
  The cells that pass: the interpreter and the project file agree with the policy, and the installed
  SDK is the floor itself, or any release whose major number is 2.
\<close>

lemma validate_contract_iff:
  "(\<exists>payload. validate_contract env pyproject py profile None None = Inr payload) \<longleftrightarrow>
     py \<in> set supported_python_minors \<and> profile \<in> {''minimum'', ''latest''} \<and>
     project_contract pyproject = Inr (requires_python_range, mcp_requirement) \<and>
     py = show_nat (ev_major env) @ ''.'' @ show_nat (ev_minor env) \<and>
     (\<exists>installed r. ev_installed env = Some installed \<and> release_triplet installed = Inr r \<and>
        (if profile = ''minimum'' then installed = mcp_minimum_version else fst r = 2))"
proof -
  have l: "\<not> before_release (2, b, c) (2, 0, 0)" if "release_triplet s = Inr (2, b, c)" for s b c
    using release_triplet_nonneg [OF that] first_comparison_dead [of "(2, b, c)"] by simp
  show ?thesis
    by (auto simp: validate_contract_def rbind_Inr_iff Let_def split: option.splits dest: l)
qed

text \<open>The policy says at least 2.2, yet the \<open>latest\<close> profile takes 2.0.0.\<close>

lemma latest_below_floor:
  "release_triplet ''2.0.0'' = Inr (2, 0, 0)" "\<not> before_release (2, 0, 0) (2, 0, 0)"
  by (simp_all add: release_triplet_def release_prefix_def digits_of_def is_digit_def ord_of_def startswith_def
      release_number_def nat_of_digits_def before_release_def Let_def)

end
