(* ===== verification/Loop_Schema_Vendor.thy ===== *)
theory Loop_Schema_Vendor
  imports Python_Json
begin

text \<open>
  \<open>scripts/validate_loop_schema_vendor.py\<close>: integrity and provenance of the vendored schema bundle. The
  bundle is a table of files by name; parsing the manifest and SHA-256 are parameters.
\<close>

definition required_vendor_files :: "string list" where
  "required_vendor_files = [''__init__.py'', ''models.py'', ''validate_contract.py'']"

definition vendor_repository :: string where
  "vendor_repository = ''brunovicco/engineering-loop-schemas''"

text \<open>\<open>\d+\.\d+\.\d+\<close>, the whole text.\<close>

definition is_release_number :: "string \<Rightarrow> bool" where
  "is_release_number s \<longleftrightarrow>
     (case split_on CHR ''.'' s of
        [a, b, c] \<Rightarrow> list_all (\<lambda>w. w \<noteq> [] \<and> list_all is_digit w) [a, b, c]
      | _ \<Rightarrow> False)"

text \<open>A file of the bundle that exists: its bytes, and its text if it is UTF-8.\<close>

record vendor_file =
  vf_bytes :: "bytes document"
  vf_text :: "string document"

type_synonym vendor_bundle = "string \<Rightarrow> vendor_file option"

definition complain :: "bool \<Rightarrow> string \<Rightarrow> string list" where
  "complain ok message = (if ok then [] else [message])"

lemma complain_Nil [simp]: "complain ok m = [] \<longleftrightarrow> ok"
  by (simp add: complain_def)

definition load_vendor_manifest :: "pyval document \<Rightarrow> pyval dict + string" where
  "load_vendor_manifest file =
     (case file of
        NoFile e \<Rightarrow> Inr e
      | BadSyntax e \<Rightarrow> Inr e
      | BadEncoding \<Rightarrow> Inr ''not utf-8''
      | Document v \<Rightarrow> (case as_dict v of None \<Rightarrow> Inr ''manifest.json must contain an object'' | Some d \<Rightarrow> Inl d))"

definition source_errors :: "(pyval \<Rightarrow> string) \<Rightarrow> pyval dict \<Rightarrow> string list" where
  "source_errors R source =
     complain (py_get source ''repository'' = PStr vendor_repository)
       (''unexpected source repository: '' @ R (py_get source ''repository'')) @
     complain (case as_str (py_get source ''version'') of None \<Rightarrow> False | Some v \<Rightarrow> is_release_number v)
       (''invalid source version: '' @ R (py_get source ''version'')) @
     complain (case as_str (py_get source ''commit'') of None \<Rightarrow> False | Some c \<Rightarrow> hex_text 40 c)
       (''invalid source commit: '' @ R (py_get source ''commit''))"

text \<open>\<open>isinstance(v, int)\<close> and its value; a boolean is an integer.\<close>

definition as_size :: "pyval \<Rightarrow> int option" where
  "as_size v = (case v of PInt i \<Rightarrow> Some i | PBool b \<Rightarrow> Some (if b then 1 else 0) | _ \<Rightarrow> None)"

definition file_errors :: "(bytes \<Rightarrow> string) \<Rightarrow> vendor_bundle \<Rightarrow> pyval dict \<Rightarrow> string \<Rightarrow> string list result" where
  "file_errors sha256 b files name =
     (case as_dict (py_get files name) of
        None \<Rightarrow> Inr [name @ '': metadata must be an object'']
      | Some metadata \<Rightarrow>
          (case as_str (py_get metadata ''sha256'') of
             None \<Rightarrow> Inr [name @ '': invalid sha256 in manifest'']
           | Some expected_hash \<Rightarrow>
               if \<not> hex_text 64 expected_hash then Inr [name @ '': invalid sha256 in manifest'']
               else (case as_size (py_get metadata ''size_bytes'') of
                  None \<Rightarrow> Inr [name @ '': invalid size_bytes in manifest'']
                | Some expected_size \<Rightarrow>
                    if expected_size < 0 then Inr [name @ '': invalid size_bytes in manifest'']
                    else (case b name of
                       None \<Rightarrow> Inr [name @ '': file is missing'']
                     | Some f \<Rightarrow>
                         (case vf_bytes f of
                            Document raw \<Rightarrow>
                              Inr (complain (sha256 raw = expected_hash)
                                     (name @ '': sha256 mismatch; expected '' @ expected_hash @ '', got '' @ sha256 raw) @
                                   complain (int (length raw) = expected_size)
                                     (name @ '': size mismatch; expected '' @ show_int expected_size @ '', got '' @ show_nat (length raw)))
                          | _ \<Rightarrow> Inl (OtherExn ''OSError''))))))"

definition vendor_text :: "vendor_file \<Rightarrow> string result" where
  "vendor_text f =
     (case vf_text f of Document t \<Rightarrow> Inr t | BadEncoding \<Rightarrow> Inl undecodable | _ \<Rightarrow> Inl (OtherExn ''OSError''))"

definition adapted_import :: string where
  "adapted_import = ''from _vendor_loop_schemas.models import Contract''"

definition original_import :: string where
  "original_import = ''from loop_schemas.models import Contract''"

definition import_errors :: "vendor_bundle \<Rightarrow> string list result" where
  "import_errors b =
     (case b ''validate_contract.py'' of
        None \<Rightarrow> Inr []
      | Some f \<Rightarrow>
          rbind (vendor_text f) (\<lambda>t. Inr
            (complain (contains t adapted_import) ''validate_contract.py: vendored package import is missing'' @
             complain (\<not> contains t original_import) ''validate_contract.py: source package import was not adapted'')))"

definition header_errors :: "vendor_bundle \<Rightarrow> pyval dict \<Rightarrow> string \<Rightarrow> string list result" where
  "header_errors b source name =
     (case (b name, as_str (py_get source ''version''), as_str (py_get source ''commit'')) of
        (Some f, Some version, Some commit) \<Rightarrow>
          rbind (vendor_text f) (\<lambda>t. Inr
            (complain (contains t (''# Version: '' @ version)) (name @ '': provenance version header is missing'') @
             complain (contains t (''# Commit: '' @ commit)) (name @ '': provenance commit header is missing'')))
      | _ \<Rightarrow> Inr [])"

definition validate_manifest ::
    "(pyval \<Rightarrow> string) \<Rightarrow> (bytes \<Rightarrow> string) \<Rightarrow> pyval document \<Rightarrow> vendor_bundle \<Rightarrow> string list result" where
  "validate_manifest R sha256 manifest_file b =
     (case load_vendor_manifest manifest_file of
        Inr e \<Rightarrow> Inr [''could not load manifest.json: '' @ e]
      | Inl manifest \<Rightarrow>
          (let source = (case as_dict (py_get manifest ''source'') of None \<Rightarrow> [] | Some d \<Rightarrow> d);
               first = complain (py_get manifest ''manifest_version'' = PStr ''1.0.0'')
                   (''unsupported manifest_version: '' @ R (py_get manifest ''manifest_version'')) @
                 complain (as_dict (py_get manifest ''source'') \<noteq> None) ''source must be an object'' @ source_errors R source
           in (case as_dict (py_get manifest ''files'') of
                 None \<Rightarrow> Inr (first @ [''files must be an object''])
               | Some files \<Rightarrow>
                   rbind (rmap (file_errors sha256 b files) required_vendor_files) (\<lambda>fs.
                   rbind (import_errors b) (\<lambda>imports.
                   rbind (rmap (header_errors b source) [''models.py'', ''validate_contract.py'']) (\<lambda>hs.
                     Inr (first @
                       complain (fst ` set files = set required_vendor_files)
                         (''manifest files must be exactly: '' @ join '', '' required_vendor_files) @
                       concat fs @ imports @ concat hs)))))))"

definition vendor_main ::
    "(pyval \<Rightarrow> string) \<Rightarrow> (bytes \<Rightarrow> string) \<Rightarrow> pyval document \<Rightarrow> vendor_bundle \<Rightarrow> (int \<times> string list) result" where
  "vendor_main R sha256 manifest_file b =
     rbind (validate_manifest R sha256 manifest_file b) (\<lambda>errors. Inr (if errors = [] then 0 else 1, errors))"

section \<open>A clean bundle\<close>

lemma rmap_concat_clean: "rmap f xs = Inr yss \<Longrightarrow> concat yss = [] \<Longrightarrow> x \<in> set xs \<Longrightarrow> f x = Inr []"
  by (induction xs arbitrary: yss) (auto simp: rbind_Inr_iff)

lemma file_errors_clean:
  assumes "file_errors sha256 b files name = Inr []"
  shows "\<exists>metadata h f raw n. py_get files name = PDict metadata \<and> py_get metadata ''sha256'' = PStr h \<and>
    as_size (py_get metadata ''size_bytes'') = Some n \<and> b name = Some f \<and> vf_bytes f = Document raw \<and>
    sha256 raw = h \<and> int (length raw) = n"
  using assms
  by (auto simp: file_errors_def complain_def split: option.splits if_splits document.splits)

lemma header_errors_clean:
  assumes "header_errors b source name = Inr []" and "b name = Some f"
    and "py_get source ''version'' = PStr v" and "py_get source ''commit'' = PStr c"
  shows "\<exists>t. vf_text f = Document t \<and> contains t (''# Version: '' @ v) \<and> contains t (''# Commit: '' @ c)"
  using assms
  by (auto simp: header_errors_def vendor_text_def rbind_Inr_iff complain_def split: document.splits if_splits)

text \<open>
  Exit code 0: the manifest names a release and a full commit of the expected repository, each of the
  required files has the recorded digest and size, and the sources carry both in their headers.
\<close>

lemma vendor_main_zero:
  assumes "vendor_main R sha256 manifest_file b = Inr (0, errors)"
  shows "\<exists>manifest source files v c. manifest_file = Document (PDict manifest) \<and>
    py_get manifest ''source'' = PDict source \<and> py_get source ''repository'' = PStr vendor_repository \<and>
    py_get source ''version'' = PStr v \<and> is_release_number v \<and> py_get source ''commit'' = PStr c \<and> hex_text 40 c \<and>
    py_get manifest ''files'' = PDict files \<and> fst ` set files = set required_vendor_files \<and>
    (\<forall>name \<in> set required_vendor_files. file_errors sha256 b files name = Inr []) \<and>
    (\<forall>name \<in> {''models.py'', ''validate_contract.py''}. header_errors b source name = Inr [])"
proof -
  from assms have e: "validate_manifest R sha256 manifest_file b = Inr []"
    by (auto simp: vendor_main_def rbind_Inr_iff split: if_splits)
  then obtain manifest where m: "load_vendor_manifest manifest_file = Inl manifest"
    by (cases "load_vendor_manifest manifest_file") (auto simp: validate_manifest_def)
  then have mf: "manifest_file = Document (PDict manifest)"
    by (auto simp: load_vendor_manifest_def split: document.splits option.splits)
  from e m obtain source files fs hs where s: "py_get manifest ''source'' = PDict source"
    "source_errors R source = []" "py_get manifest ''files'' = PDict files" "fst ` set files = set required_vendor_files"
    "rmap (file_errors sha256 b files) required_vendor_files = Inr fs" "concat fs = []"
    "rmap (header_errors b source) [''models.py'', ''validate_contract.py''] = Inr hs" "concat hs = []"
    unfolding validate_manifest_def by (auto simp: Let_def rbind_Inr_iff simp del: rmap.simps concat_eq_Nil_conv split: option.splits)
  obtain v c where "py_get source ''repository'' = PStr vendor_repository" "py_get source ''version'' = PStr v" "is_release_number v"
    "py_get source ''commit'' = PStr c" "hex_text 40 c"
    using s(2) by (auto simp: source_errors_def complain_def split: option.splits if_splits)
  moreover have "\<forall>name \<in> set required_vendor_files. file_errors sha256 b files name = Inr []"
    using rmap_concat_clean [OF s(5,6)] by blast
  moreover have "\<forall>name \<in> {''models.py'', ''validate_contract.py''}. header_errors b source name = Inr []"
    using rmap_concat_clean [OF s(7,8)] by simp
  ultimately show ?thesis using mf s(1,3,4) by (intro exI [of _ manifest] exI [of _ source] exI [of _ files]) auto
qed

end
