(* ===== verification/Loop_Contracts.thy ===== *)
theory Loop_Contracts
  imports Python_Text
begin

text \<open>
  \<open>scripts/validate_loop_contracts.py\<close> and the bundle it calls, \<open>_vendor_loop_schemas\<close>: building a contract
  from a decoded document, the checks across its fields, and the run over all contract files. Values of a
  contract keep the type they were decoded with; an operation Python refuses on them is a \<open>TypeError\<close>.
  Reading and parsing a file is a parameter, PyYAML may be missing.
\<close>

definition type_error :: exn where
  "type_error = OtherExn ''TypeError''"

definition single_quoted :: "string \<Rightarrow> string" where
  "single_quoted s = CHR 0x27 # s @ [CHR 0x27]"

section \<open>The contract\<close>

text \<open>\<open>tuple(v)\<close>: lists keep their items, a string gives its characters, an object its keys.\<close>

definition tuple_of :: "pyval \<Rightarrow> pyval list result" where
  "tuple_of v =
     (case v of
        PList vs \<Rightarrow> Inr vs
      | PStr s \<Rightarrow> Inr (map (\<lambda>c. PStr [c]) s)
      | PDict kvs \<Rightarrow> Inr (map (PStr \<circ> fst) kvs)
      | _ \<Rightarrow> Inl type_error)"

text \<open>
  \<open>_required\<close>: the value of a key. Membership is also defined on strings and lists, whose subscript then
  fails; on other values the membership test fails already.
\<close>

definition required :: "pyval \<Rightarrow> string \<Rightarrow> string \<Rightarrow> pyval result" where
  "required data key context =
     (let missing = Inl (ValueError (context @ '': missing required field '' @ single_quoted key)) in
      (case data of
         PDict d \<Rightarrow> (case map_of d key of None \<Rightarrow> missing | Some v \<Rightarrow> Inr v)
       | PList vs \<Rightarrow> if PStr key \<in> set vs then Inl type_error else missing
       | PStr s \<Rightarrow> if contains s key then Inl type_error else missing
       | _ \<Rightarrow> Inl type_error))"

definition optional :: "pyval \<Rightarrow> string \<Rightarrow> pyval" where
  "optional data key = (case as_dict data of None \<Rightarrow> PNone | Some d \<Rightarrow> py_get d key)"

text \<open>\<open>tuple(data.get(key, ()))\<close>\<close>

definition optional_tuple :: "pyval \<Rightarrow> string \<Rightarrow> pyval list result" where
  "optional_tuple data key =
     (case as_dict data of
        None \<Rightarrow> Inr []
      | Some d \<Rightarrow> (case map_of d key of None \<Rightarrow> Inr [] | Some v \<Rightarrow> tuple_of v))"

definition required_tuple :: "pyval \<Rightarrow> string \<Rightarrow> string \<Rightarrow> pyval list result" where
  "required_tuple data key context = rbind (required data key context) tuple_of"

record trigger =
  tr_type :: pyval
  tr_schedule :: pyval
  tr_event :: pyval

record selection =
  sl_strategy :: pyval
  sl_max_items :: pyval
  sl_filters :: "pyval list"

record budgets =
  bd_max_tokens :: pyval
  bd_max_cost_usd :: pyval
  bd_max_wall_clock_minutes :: pyval
  bd_max_commands :: pyval

record loop_scope =
  sp_allowlist :: "pyval list"
  sp_denylist :: "pyval list"

record loop_actions =
  la_allowed :: "pyval list"
  la_denied :: "pyval list"

record human_review =
  hr_required :: pyval
  hr_reviewers :: "pyval list"

record loop_contract =
  lc_version :: pyval
  lc_id :: pyval
  lc_objective :: pyval
  lc_trigger :: trigger
  lc_selection :: selection
  lc_baseline :: "pyval list"
  lc_hard_gates :: "pyval list"
  lc_budgets :: budgets
  lc_scope :: loop_scope
  lc_actions :: loop_actions
  lc_human_review :: human_review

definition trigger_of :: "pyval \<Rightarrow> trigger result" where
  "trigger_of data =
     rbind (required data ''type'' ''trigger'') (\<lambda>t.
       Inr \<lparr>tr_type = t, tr_schedule = optional data ''schedule'', tr_event = optional data ''event''\<rparr>)"

definition selection_of :: "pyval \<Rightarrow> selection result" where
  "selection_of data =
     rbind (required data ''strategy'' ''selection'') (\<lambda>s.
     rbind (optional_tuple data ''filters'') (\<lambda>fs.
       Inr \<lparr>sl_strategy = s, sl_max_items = optional data ''max_items'', sl_filters = fs\<rparr>))"

definition budgets_of :: "pyval \<Rightarrow> budgets result" where
  "budgets_of data =
     rbind (required data ''max_tokens'' ''budgets'') (\<lambda>t.
       Inr \<lparr>bd_max_tokens = t, bd_max_cost_usd = optional data ''max_cost_usd'',
         bd_max_wall_clock_minutes = optional data ''max_wall_clock_minutes'', bd_max_commands = optional data ''max_commands''\<rparr>)"

definition scope_of :: "pyval \<Rightarrow> loop_scope result" where
  "scope_of data =
     rbind (required_tuple data ''allowlist'' ''scope'') (\<lambda>a.
     rbind (required_tuple data ''denylist'' ''scope'') (\<lambda>d. Inr \<lparr>sp_allowlist = a, sp_denylist = d\<rparr>))"

definition actions_of :: "pyval \<Rightarrow> loop_actions result" where
  "actions_of data =
     rbind (required_tuple data ''allowed'' ''actions'') (\<lambda>a.
     rbind (required_tuple data ''denied'' ''actions'') (\<lambda>d. Inr \<lparr>la_allowed = a, la_denied = d\<rparr>))"

definition human_review_of :: "pyval \<Rightarrow> human_review result" where
  "human_review_of data =
     rbind (required data ''required'' ''human_review'') (\<lambda>r.
     rbind (optional_tuple data ''reviewers'') (\<lambda>rs. Inr \<lparr>hr_required = r, hr_reviewers = rs\<rparr>))"

definition section_of :: "pyval dict \<Rightarrow> string \<Rightarrow> (pyval \<Rightarrow> 'a result) \<Rightarrow> 'a result" where
  "section_of data key build = rbind (required (PDict data) key ''contract'') build"

definition contract_of :: "pyval dict \<Rightarrow> loop_contract result" where
  "contract_of data =
     rbind (section_of data ''version'' Inr) (\<lambda>version.
     rbind (section_of data ''id'' Inr) (\<lambda>cid.
     rbind (section_of data ''objective'' Inr) (\<lambda>objective.
     rbind (section_of data ''trigger'' trigger_of) (\<lambda>t.
     rbind (section_of data ''selection'' selection_of) (\<lambda>s.
     rbind (section_of data ''baseline'' (\<lambda>v. required_tuple v ''commands'' ''baseline'')) (\<lambda>b.
     rbind (section_of data ''acceptance'' (\<lambda>v. required_tuple v ''hard_gates'' ''acceptance'')) (\<lambda>g.
     rbind (section_of data ''budgets'' budgets_of) (\<lambda>bd.
     rbind (section_of data ''scope'' scope_of) (\<lambda>sc.
     rbind (section_of data ''actions'' actions_of) (\<lambda>a.
     rbind (section_of data ''human_review'' human_review_of) (\<lambda>h.
       Inr \<lparr>lc_version = version, lc_id = cid, lc_objective = objective, lc_trigger = t, lc_selection = s,
         lc_baseline = b, lc_hard_gates = g, lc_budgets = bd, lc_scope = sc, lc_actions = a, lc_human_review = h\<rparr>)))))))))))"

section \<open>Checks across fields\<close>

definition supported_hard_gates :: "string list" where
  "supported_hard_gates =
     [''lock'', ''lint'', ''format'', ''typing'', ''tests'', ''security'', ''dependencies'', ''architecture'', ''mcp'', ''governance'']"

text \<open>\<open>bool(pattern) and "\x00" not in pattern\<close>\<close>

definition valid_glob :: "pyval \<Rightarrow> bool result" where
  "valid_glob p =
     (if \<not> truthy p then Inr False
      else (case p of
              PStr s \<Rightarrow> Inr (CHR 0x00 \<notin> set s)
            | PList vs \<Rightarrow> Inr (PStr [CHR 0x00] \<notin> set vs)
            | PDict kvs \<Rightarrow> Inr ([CHR 0x00] \<notin> fst ` set kvs)
            | _ \<Rightarrow> Inl type_error))"

definition glob_errors :: "(pyval \<Rightarrow> string) \<Rightarrow> pyval \<Rightarrow> string list result" where
  "glob_errors R p =
     rbind (valid_glob p) (\<lambda>ok. Inr (if ok then [] else [''scope: '' @ R p @ '' is not a syntactically valid glob'']))"

definition hashable :: "pyval \<Rightarrow> bool" where
  "hashable v = (as_list v = None \<and> as_dict v = None)"

text \<open>Equality of hashable values: numbers and booleans by their value.\<close>

definition number_of :: "pyval \<Rightarrow> rat option" where
  "number_of v = (case v of PInt i \<Rightarrow> Some (of_int i) | PBool b \<Rightarrow> Some (if b then 1 else 0) | PFloat r \<Rightarrow> Some r | _ \<Rightarrow> None)"

definition same_value :: "pyval \<Rightarrow> pyval \<Rightarrow> bool" where
  "same_value v w \<longleftrightarrow> v = w \<or> number_of v \<noteq> None \<and> number_of v = number_of w"

definition globs_disjoint :: "pyval list \<Rightarrow> pyval list \<Rightarrow> string list result" where
  "globs_disjoint allow deny =
     (if \<not> list_all hashable (allow @ deny) then Inl type_error
      else (let overlap = filter (\<lambda>v. list_ex (same_value v) deny) allow in
            if overlap = [] then Inr []
            else if list_ex (\<lambda>v. as_str v = None) overlap then Inl type_error
            else Inr [''scope.allowlist and scope.denylist both contain: '' @
                      join '', '' (sorted_set (List.map_filter as_str overlap))]))"

text \<open>\<open>value is not None and value <= 0\<close>\<close>

definition budget_errors :: "(pyval \<Rightarrow> string) \<Rightarrow> string \<times> pyval \<Rightarrow> string list result" where
  "budget_errors R nv =
     (if snd nv = PNone then Inr []
      else (case number_of (snd nv) of
              None \<Rightarrow> Inl type_error
            | Some r \<Rightarrow> Inr (if r \<le> 0 then [fst nv @ '' must be positive, got '' @ R (snd nv)] else [])))"

definition gate_errors :: "pyval list \<Rightarrow> string list result" where
  "gate_errors gates =
     (if list_ex (\<lambda>g. as_str g = None) gates then Inl type_error
      else (let unsupported = sorted_set (filter (\<lambda>g. g \<notin> set supported_hard_gates) (List.map_filter as_str gates)) in
            Inr (if unsupported = [] then []
                 else [''acceptance.hard_gates contains unsupported gate(s): '' @ join '', '' unsupported @
                       ''. Supported: '' @ join '', '' (sorted_set supported_hard_gates)])))"

definition trigger_errors :: "trigger \<Rightarrow> string list" where
  "trigger_errors t =
     (if tr_type t = PStr ''schedule'' \<and> \<not> truthy (tr_schedule t)
      then [''trigger.schedule is required when trigger.type is '' @ single_quoted ''schedule''] else []) @
     (if tr_type t = PStr ''event'' \<and> \<not> truthy (tr_event t)
      then [''trigger.event is required when trigger.type is '' @ single_quoted ''event''] else [])"

definition contract_errors :: "(pyval \<Rightarrow> string) \<Rightarrow> loop_contract \<Rightarrow> string list result" where
  "contract_errors R c =
     (let sc = lc_scope c; bd = lc_budgets c in
      rbind (rmap (glob_errors R) (sp_allowlist sc @ sp_denylist sc)) (\<lambda>globs.
      rbind (globs_disjoint (sp_allowlist sc) (sp_denylist sc)) (\<lambda>overlap.
      rbind (rmap (budget_errors R)
               [(''budgets.max_tokens'', bd_max_tokens bd), (''budgets.max_cost_usd'', bd_max_cost_usd bd),
                (''budgets.max_wall_clock_minutes'', bd_max_wall_clock_minutes bd), (''budgets.max_commands'', bd_max_commands bd)])
        (\<lambda>limits.
      rbind (gate_errors (lc_hard_gates c)) (\<lambda>gates.
        Inr (concat globs @ overlap @ concat limits @ gates @ trigger_errors (lc_trigger c)))))))"

text \<open>\<open>validate\<close>: errors of the construction are one message (the text of a \<open>TypeError\<close> is left
  out), a \<open>TypeError\<close> of the later checks escapes.\<close>

definition exn_text :: "exn \<Rightarrow> string" where
  "exn_text e = (case e of ValueError m \<Rightarrow> m | _ \<Rightarrow> [])"

definition validate_loop_contract :: "(pyval \<Rightarrow> string) \<Rightarrow> pyval dict \<Rightarrow> string list result" where
  "validate_loop_contract R data =
     (case contract_of data of
        Inl e \<Rightarrow> Inr [''structural error: '' @ exn_text e]
      | Inr c \<Rightarrow> contract_errors R c)"

section \<open>The runs\<close>

text \<open>
  What reading a contract file depends on: its path, suffix and text, and the parsers (no YAML parser without
  PyYAML). A parser gives a value or the text of its error.
\<close>

record contract_file =
  cf_path :: string
  cf_suffix :: string
  cf_text :: "string document"

record contract_parsers =
  cp_json :: "string \<Rightarrow> string + pyval"
  cp_yaml :: "(string \<Rightarrow> string + pyval) option"
  cp_repr :: "pyval \<Rightarrow> string"

definition yaml_missing :: string where
  "yaml_missing = '': reading YAML contracts requires PyYAML ('' @ single_quoted ''pip install pyyaml'' @ '' or '' @ single_quoted ''uv add pyyaml'' @
     ''); pass a .json contract instead if you cannot add that dependency here.''"

text \<open>A \<open>ContractValidationError\<close> is the validation error \<open>GateError\<close>.\<close>

definition parse_document :: "contract_parsers \<Rightarrow> contract_file \<Rightarrow> string \<Rightarrow> pyval result" where
  "parse_document lib f t =
     (if cf_suffix f \<in> {''.yaml'', ''.yml''}
      then (case cp_yaml lib of
              None \<Rightarrow> Inl (GateError (cf_path f @ yaml_missing))
            | Some parse \<Rightarrow> (case parse t of Inl e \<Rightarrow> Inl (OtherExn ''YAMLError'') | Inr v \<Rightarrow> Inr v))
      else (case cp_json lib t of Inl e \<Rightarrow> Inl (ValueError e) | Inr v \<Rightarrow> Inr v))"

definition load_contract_document :: "contract_parsers \<Rightarrow> contract_file \<Rightarrow> pyval dict result" where
  "load_contract_document lib f =
     (case cf_text f of
        NoFile e \<Rightarrow> Inl (OtherExn ''OSError'')
      | BadEncoding \<Rightarrow> Inl undecodable
      | BadSyntax e \<Rightarrow> Inl undecodable
      | Document t \<Rightarrow>
          rbind (parse_document lib f t) (\<lambda>v.
          (case as_dict v of
             None \<Rightarrow> Inl (GateError (cf_path f @ '': top-level document must be a mapping/object''))
           | Some d \<Rightarrow> Inr d)))"

text \<open>The command of the bundle: 2 for a file that gives no object, 1 for an invalid contract.\<close>

definition contract_main :: "contract_parsers \<Rightarrow> contract_file \<Rightarrow> (int \<times> string list) result" where
  "contract_main lib f =
     (let unreadable = (\<lambda>e. Inr (2, [cf_path f @ '': could not read or parse: '' @ e])) in
      (case (cf_text f, load_contract_document lib f) of
         (NoFile e, _) \<Rightarrow> unreadable e
       | (_, Inl (GateError m)) \<Rightarrow> Inr (2, [m])
       | (_, Inl (ValueError e)) \<Rightarrow> unreadable e
       | (_, Inl e) \<Rightarrow> Inl e
       | (_, Inr d) \<Rightarrow>
           rbind (validate_loop_contract (cp_repr lib) d) (\<lambda>errors.
             Inr (if errors = [] then (0, [cf_path f @ '': valid''])
                  else (1, (cf_path f @ '': INVALID'') # map (\<lambda>e. ''  - '' @ e) errors)))))"

text \<open>The run over all contract files of the repository.\<close>

definition contract_suffixes :: "string list" where
  "contract_suffixes = [''.json'', ''.yaml'', ''.yml'']"

definition find_contracts :: "contract_file list \<Rightarrow> contract_file list" where
  "find_contracts found =
     sort_key (\<lambda>f. split_on CHR ''/'' (cf_path f)) (filter (\<lambda>f. cf_suffix f \<in> set contract_suffixes) found)"

definition check_contract_file :: "contract_parsers \<Rightarrow> contract_file \<Rightarrow> string list result" where
  "check_contract_file lib f =
     (case load_contract_document lib f of
        Inl (GateError m) \<Rightarrow> Inr [cf_path f @ '': '' @ m]
      | Inl e \<Rightarrow> Inl e
      | Inr d \<Rightarrow>
          rbind (validate_loop_contract (cp_repr lib) d) (\<lambda>errors.
            Inr (if errors = [] then [] else [cf_path f @ '': '' @ join ''; '' errors])))"

definition loop_contracts_main :: "contract_parsers \<Rightarrow> contract_file list \<Rightarrow> (int \<times> string list) result" where
  "loop_contracts_main lib found =
     rbind (rmap (check_contract_file lib) (find_contracts found)) (\<lambda>failures.
       Inr (if concat failures = [] then 0 else 1, concat failures))"

section \<open>A contract that passes\<close>

lemma rmap_concat_Nil_iff: "rmap f xs = Inr yss \<Longrightarrow> concat yss = [] \<longleftrightarrow> (\<forall>x \<in> set xs. f x = Inr [])"
  by (induction xs arbitrary: yss) (auto simp: rbind_Inr_iff)

definition glob_text :: "pyval \<Rightarrow> bool" where
  "glob_text p \<longleftrightarrow> (\<exists>s. p = PStr s \<and> s \<noteq> [] \<and> CHR 0x00 \<notin> set s)"

definition within_budget :: "pyval \<Rightarrow> bool" where
  "within_budget v \<longleftrightarrow> v = PNone \<or> (\<exists>r > 0. number_of v = Some r)"

definition sound_contract :: "loop_contract \<Rightarrow> bool" where
  "sound_contract c \<longleftrightarrow>
     list_all glob_text (sp_allowlist (lc_scope c) @ sp_denylist (lc_scope c)) \<and>
     set (sp_allowlist (lc_scope c)) \<inter> set (sp_denylist (lc_scope c)) = {} \<and>
     set (lc_hard_gates c) \<subseteq> PStr ` set supported_hard_gates \<and>
     list_all within_budget [bd_max_tokens (lc_budgets c), bd_max_cost_usd (lc_budgets c),
       bd_max_wall_clock_minutes (lc_budgets c), bd_max_commands (lc_budgets c)] \<and>
     (tr_type (lc_trigger c) = PStr ''schedule'' \<longrightarrow> truthy (tr_schedule (lc_trigger c))) \<and>
     (tr_type (lc_trigger c) = PStr ''event'' \<longrightarrow> truthy (tr_event (lc_trigger c)))"

lemma glob_errors_Nil: "glob_errors R p = Inr [] \<Longrightarrow> hashable p \<Longrightarrow> glob_text p"
  by (cases p) (auto simp: glob_errors_def valid_glob_def glob_text_def hashable_def type_error_def split: if_splits)

lemma budget_errors_Nil: "budget_errors R (n, v) = Inr [] \<longleftrightarrow> within_budget v"
  by (auto simp: budget_errors_def within_budget_def type_error_def not_le number_of_def split: option.splits if_splits)

lemma gate_errors_Nil: "gate_errors gates = Inr [] \<longleftrightarrow> set gates \<subseteq> PStr ` set supported_hard_gates"
proof -
  have "gate_errors gates = Inr [] \<longleftrightarrow> (\<forall>g \<in> set gates. \<exists>s. g = PStr s \<and> s \<in> set supported_hard_gates)"
  proof (cases "list_ex (\<lambda>g. as_str g = None) gates")
    case True
    then obtain g where "g \<in> set gates" "as_str g = None" by (auto simp: list_ex_iff)
    then have "\<not> (\<forall>g \<in> set gates. \<exists>s. g = PStr s \<and> s \<in> set supported_hard_gates)"
      by (metis as_str.simps(1) option.distinct(1))
    with True show ?thesis by (simp add: gate_errors_def)
  next
    case False
    then have "\<forall>g \<in> set gates. \<exists>s. g = PStr s" by (auto simp: list_ex_iff)
    with False show ?thesis
      by (auto simp: gate_errors_def Let_def filter_empty_conv in_map_filter)
  qed
  then show ?thesis by blast
qed

lemma globs_disjoint_Nil:
  assumes "globs_disjoint allow deny = Inr []"
  shows "list_all hashable (allow @ deny)" "set allow \<inter> set deny = {}"
proof -
  show "list_all hashable (allow @ deny)"
    using assms by (auto simp: globs_disjoint_def type_error_def split: if_splits)
  have "filter (\<lambda>v. list_ex (same_value v) deny) allow = []"
    using assms by (auto simp: globs_disjoint_def type_error_def Let_def split: if_splits)
  then show "set allow \<inter> set deny = {}" by (auto simp: filter_empty_conv list_ex_iff same_value_def)
qed

lemma contract_errors_Nil:
  assumes "contract_errors R c = Inr []"
  shows "sound_contract c"
proof -
  let ?globs = "sp_allowlist (lc_scope c) @ sp_denylist (lc_scope c)"
  let ?limits = "[(''budgets.max_tokens'', bd_max_tokens (lc_budgets c)), (''budgets.max_cost_usd'', bd_max_cost_usd (lc_budgets c)),
      (''budgets.max_wall_clock_minutes'', bd_max_wall_clock_minutes (lc_budgets c)), (''budgets.max_commands'', bd_max_commands (lc_budgets c))]"
  from assms obtain gs ls where g: "rmap (glob_errors R) ?globs = Inr gs" "concat gs = []"
    "globs_disjoint (sp_allowlist (lc_scope c)) (sp_denylist (lc_scope c)) = Inr []"
    "rmap (budget_errors R) ?limits = Inr ls" "concat ls = []"
    "gate_errors (lc_hard_gates c) = Inr []" "trigger_errors (lc_trigger c) = []"
    by (auto simp: contract_errors_def Let_def rbind_Inr_iff simp del: rmap.simps concat_eq_Nil_conv)
  have "list_all glob_text ?globs"
    using rmap_concat_Nil_iff [OF g(1)] g(2) globs_disjoint_Nil(1) [OF g(3)] glob_errors_Nil
    unfolding list_all_iff by blast
  moreover have "\<forall>x \<in> set ?limits. budget_errors R x = Inr []" using rmap_concat_Nil_iff [OF g(4)] g(5) by blast
  moreover have "tr_type (lc_trigger c) = PStr ''schedule'' \<longrightarrow> truthy (tr_schedule (lc_trigger c))"
    "tr_type (lc_trigger c) = PStr ''event'' \<longrightarrow> truthy (tr_event (lc_trigger c))"
    using g(7) by (auto simp: trigger_errors_def split: if_splits)
  ultimately show ?thesis
    using globs_disjoint_Nil(2) [OF g(3)] g(6) by (simp add: sound_contract_def gate_errors_Nil budget_errors_Nil)
qed

lemma valid_contract:
  assumes "validate_loop_contract R d = Inr []"
  shows "\<exists>c. contract_of d = Inr c \<and> sound_contract c"
  using assms contract_errors_Nil by (auto simp: validate_loop_contract_def split: sum.splits)

text \<open>Exit code 0: every contract file found decodes to an object whose contract is sound.\<close>

lemma loop_contracts_main_zero:
  assumes "loop_contracts_main lib found = Inr (0, failures)" and "f \<in> set found" and "cf_suffix f \<in> set contract_suffixes"
  shows "\<exists>d c. load_contract_document lib f = Inr d \<and> contract_of d = Inr c \<and> sound_contract c"
proof -
  from assms(1) obtain fss where fs: "rmap (check_contract_file lib) (find_contracts found) = Inr fss" "concat fss = []"
    unfolding loop_contracts_main_def rbind_Inr_iff by (auto simp del: concat_eq_Nil_conv split: if_splits)
  then have "check_contract_file lib f = Inr []"
    using rmap_concat_Nil_iff [OF fs(1)] assms(2,3) by (simp add: find_contracts_def)
  then obtain d where "load_contract_document lib f = Inr d" "validate_loop_contract (cp_repr lib) d = Inr []"
    by (auto simp: check_contract_file_def rbind_Inr_iff split: sum.splits exn.splits if_splits)
  with valid_contract show ?thesis by blast
qed

text \<open>The command says valid exactly for what the run over the repository does not list.\<close>

lemma contract_main_zero:
  "(\<exists>out. contract_main lib f = Inr (0, out)) \<longleftrightarrow> check_contract_file lib f = Inr []"
proof (cases "load_contract_document lib f")
  case (Inl e)
  then show ?thesis
    by (cases e; cases "cf_text f") (simp_all add: contract_main_def check_contract_file_def)
next
  case (Inr d)
  then have "\<exists>t. cf_text f = Document t" by (auto simp: load_contract_document_def split: document.splits)
  with Inr show ?thesis by (auto simp: contract_main_def check_contract_file_def rbind_Inr_iff split: if_splits)
qed

text \<open>A file that is no JSON ends the run with the parser's exception; the command reports it.\<close>

lemma broken_json_escapes:
  assumes "cf_suffix f = ''.json''" and "cf_text f = Document t" and "cp_json lib t = Inl e"
  shows "loop_contracts_main lib [f] = Inl (ValueError e)"
    and "contract_main lib f = Inr (2, [cf_path f @ '': could not read or parse: '' @ e])"
  using assms
  by (simp_all add: loop_contracts_main_def check_contract_file_def load_contract_document_def parse_document_def find_contracts_def
      contract_suffixes_def contract_main_def)

text \<open>A path pattern that is a number ends the validation with a \<open>TypeError\<close>.\<close>

lemma numeric_pattern_escapes: "glob_errors R (PInt 1) = Inl type_error"
  by (simp add: glob_errors_def valid_glob_def)

end
