(* ===== verification/Quality_Gate.thy ===== *)
theory Quality_Gate
  imports Python_Text
begin

text \<open>
  \<open>scripts/quality_gate.py\<close>: which commands the quality gate runs and what its exit code is. The project
  file, globbing, the interpreter's path and running a command are parameters; \<open>run\<close> gives the return
  code of a command that starts.
\<close>

record gate_check =
  gc_name :: string
  gc_command :: "string list"

definition quality_settings :: "pyval dict document \<Rightarrow> pyval dict result" where
  "quality_settings pyproject =
     (case pyproject of
        NoFile _ \<Rightarrow> Inl (OtherExn ''OSError'')
      | BadSyntax _ \<Rightarrow> Inl (OtherExn ''TOMLDecodeError'')
      | BadEncoding \<Rightarrow> Inl undecodable
      | Document project \<Rightarrow>
          Inr (case as_dict (py_get project ''tool'') of
                 None \<Rightarrow> []
               | Some tools \<Rightarrow>
                   (case as_dict (py_get tools ''engineering-harness'') of
                      None \<Rightarrow> []
                    | Some harness \<Rightarrow>
                        (case as_dict (py_get harness ''quality'') of None \<Rightarrow> [] | Some quality \<Rightarrow> quality))))"

definition string_list_or :: "pyval \<Rightarrow> string list \<Rightarrow> string list" where
  "string_list_or v dflt =
     (case as_list v of
        None \<Rightarrow> dflt
      | Some vs \<Rightarrow> if list_all (\<lambda>x. as_str x \<noteq> None) vs then List.map_filter as_str vs else dflt)"

text \<open>\<open>glob\<close> lists the existing paths of a pattern, relative to the root.\<close>

definition expand_roots :: "(string \<Rightarrow> string list) \<Rightarrow> string list \<Rightarrow> string list" where
  "expand_roots glob patterns = sorted_set (concat (map glob patterns))"

definition script_check :: "string \<Rightarrow> string \<Rightarrow> string \<Rightarrow> gate_check" where
  "script_check python name path = \<lparr>gc_name = name, gc_command = [python, path]\<rparr>"

definition configured_checks :: "(string \<Rightarrow> string list) \<Rightarrow> string \<Rightarrow> pyval dict \<Rightarrow> gate_check list" where
  "configured_checks glob python settings =
     (let source_roots = expand_roots glob (string_list_or (py_get settings ''source-roots'') [''src'']);
          test_roots = expand_roots glob (string_list_or (py_get settings ''test-roots'') [''tests'']);
          type_roots = source_roots @ test_roots
      in [\<lparr>gc_name = ''lock'', gc_command = [''uv'', ''lock'', ''--check'']\<rparr>,
          \<lparr>gc_name = ''lint'', gc_command = [''ruff'', ''check'', ''.'']\<rparr>,
          \<lparr>gc_name = ''format'', gc_command = [''ruff'', ''format'', ''--check'', ''.'']\<rparr>,
          script_check python ''architecture'' ''scripts/validate_architecture.py'',
          script_check python ''supply-chain'' ''scripts/validate_supply_chain.py'',
          script_check python ''governance'' ''scripts/governance_gate.py'',
          script_check python ''registry'' ''scripts/validate_registry_metadata.py'',
          script_check python ''loop-schema-vendor'' ''scripts/validate_loop_schema_vendor.py'',
          script_check python ''loop-contracts'' ''scripts/validate_loop_contracts.py'',
          \<lparr>gc_name = ''typing'', gc_command = (if type_roots = [] then [] else ''mypy'' # type_roots)\<rparr>,
          \<lparr>gc_name = ''tests'', gc_command = (if test_roots = [] then [] else [''pytest''])\<rparr>,
          \<lparr>gc_name = ''security'',
            gc_command = (if source_roots = [] then [] else [''bandit'', ''-c'', ''pyproject.toml'', ''-r''] @ source_roots)\<rparr>,
          \<lparr>gc_name = ''dependencies'', gc_command = [''pip-audit'']\<rparr>])"

text \<open>What a run does: the commands it starts, in order, and the checks that failed.\<close>

fun run_checks ::
    "(string list \<Rightarrow> int result) \<Rightarrow> gate_check list \<Rightarrow> (string list list \<times> string list) result" where
  "run_checks run [] = Inr ([], [])"
| "run_checks run (c # cs) =
     (if gc_command c = [] then run_checks run cs
      else rbind (run (gc_command c)) (\<lambda>code.
           rbind (run_checks run cs) (\<lambda>(started, failures).
             Inr (gc_command c # started, if code \<noteq> 0 then gc_name c # failures else failures))))"

definition quality_main ::
    "(string list \<Rightarrow> int result) \<Rightarrow> (string \<Rightarrow> string list) \<Rightarrow> string \<Rightarrow> pyval dict document \<Rightarrow> string list \<Rightarrow> bool \<Rightarrow>
     (int \<times> string list list \<times> string list) result" where
  "quality_main run glob python pyproject asked listing_only =
     rbind (quality_settings pyproject) (\<lambda>settings.
     let available = configured_checks glob python settings;
         names = map gc_name available;
         requested = (if asked = [] then names else asked);
         unknown = sorted_set (filter (\<lambda>n. n \<notin> set names) requested);
         selected = filter (\<lambda>c. gc_name c \<in> set requested) available
     in if unknown \<noteq> [] then Inr (2, [], unknown)
        else if listing_only then Inr (0, [], [])
        else rbind (run_checks run selected) (\<lambda>(started, failures).
             Inr (if failures = [] then 0 else 1, started, failures)))"

section \<open>Every selected command runs, and each must succeed\<close>

lemma run_checks_Inr:
  assumes "run_checks run cs = Inr (started, failures)"
  shows "started = map gc_command (filter (\<lambda>c. gc_command c \<noteq> []) cs) \<and>
    failures = map gc_name (filter (\<lambda>c. gc_command c \<noteq> [] \<and> run (gc_command c) \<noteq> Inr 0) cs)"
  using assms
proof (induction cs arbitrary: started failures)
  case (Cons c cs)
  then show ?case by (cases "gc_command c = []") (auto simp: rbind_Inr_iff split: if_splits)
qed simp

lemma quality_main_runs:
  assumes "quality_main run glob python pyproject asked False = Inr (code, started, failures)" and "code \<noteq> 2"
  shows "\<exists>settings. quality_settings pyproject = Inr settings \<and>
    (let selected = filter (\<lambda>c. (asked = [] \<or> gc_name c \<in> set asked) \<and> gc_command c \<noteq> []) (configured_checks glob python settings)
     in set asked \<subseteq> set (map gc_name (configured_checks glob python settings)) \<and> started = map gc_command selected \<and>
        (code = 0 \<longleftrightarrow> (\<forall>c \<in> set selected. run (gc_command c) = Inr 0)))"
proof -
  from assms(1) obtain settings where s: "quality_settings pyproject = Inr settings"
    by (auto simp: quality_main_def rbind_Inr_iff)
  define cs where "cs = configured_checks glob python settings"
  define selected where "selected = filter (\<lambda>c. gc_name c \<in> set (if asked = [] then map gc_name cs else asked)) cs"
  from assms s have u: "set asked \<subseteq> set (map gc_name cs)" and r: "run_checks run selected = Inr (started, failures)"
    and c: "code = (if failures = [] then 0 else 1)"
    by (auto simp: quality_main_def cs_def selected_def Let_def rbind_Inr_iff filter_empty_conv split: if_splits)
  have "filter (\<lambda>c. gc_command c \<noteq> []) selected = filter (\<lambda>c. (asked = [] \<or> gc_name c \<in> set asked) \<and> gc_command c \<noteq> []) cs"
    unfolding selected_def by (cases "asked = []") (auto intro!: filter_cong)
  moreover have "started = map gc_command (filter (\<lambda>c. gc_command c \<noteq> []) selected)"
    "code = 0 \<longleftrightarrow> (\<forall>c \<in> set (filter (\<lambda>c. gc_command c \<noteq> []) selected). run (gc_command c) = Inr 0)"
    using run_checks_Inr [OF r] c by (auto simp: filter_empty_conv)
  ultimately show ?thesis using s u by (simp add: cs_def Let_def)
qed

end
