(* ===== verification/Contract_Properties.thy ===== *)
theory Contract_Properties
  imports Cross_Repository Registry_Publication Compatibility_Contract Loop_Schema_Vendor Loop_Contracts Quality_Gate
begin

text \<open>What the contracts with other repositories guarantee, and the exit codes of the remaining gates.\<close>

section \<open>The interoperability contract\<close>

text \<open>C31: With a peer, the check of the interoperability contract passes exactly when both repositories hold
  the same contract, evidence lists in the same order included, and that contract makes the required
  commitments: comparing the canonical texts is comparing the contracts.\<close>

theorem cross_repository_agreement:
  assumes "fr 1 = ''1.0''"
  shows "(\<exists>payload. validate_pair fr sha256 local_file (Some peer_file) = Inr payload) \<longleftrightarrow>
    (\<exists>c. load_contract local_file = Inr c \<and> load_contract peer_file = Inr c \<and>
       sc_protocol_version c = protocol_version \<and> sc_transport c = ''streamable-http'' \<and>
       sc_auth_profile c = ''generic-oidc-oauth-2.1'' \<and> sc_required_scope c = ''mcp:tools:call'' \<and>
       sc_client c = client_repository \<and> sc_server c = server_repository \<and>
       set (sc_positive c) = set required_positive_evidence \<and> set (sc_negative c) = set required_negative_evidence)"
proof -
  have "validate_commitments c = Inr () \<longleftrightarrow>
      sc_protocol_version c = protocol_version \<and> sc_transport c = ''streamable-http'' \<and>
      sc_auth_profile c = ''generic-oidc-oauth-2.1'' \<and> sc_required_scope c = ''mcp:tools:call'' \<and>
      sc_client c = client_repository \<and> sc_server c = server_repository \<and>
      set (sc_positive c) = set required_positive_evidence \<and> set (sc_negative c) = set required_negative_evidence" for c
    unfolding validate_commitments_def checks_Inr by auto
  with validate_pair_agrees [of fr sha256 local_file peer_file, OF assms] show ?thesis by simp
qed

definition example_contract :: shared_contract where
  "example_contract = \<lparr>sc_schema_version = PInt 1, sc_protocol_version = protocol_version, sc_transport = ''streamable-http'',
     sc_auth_profile = ''generic-oidc-oauth-2.1'', sc_required_scope = ''mcp:tools:call'', sc_client = client_repository,
     sc_server = server_repository, sc_positive = required_positive_evidence, sc_negative = required_negative_evidence\<rparr>"

lemma contract_strings_map: "xs \<noteq> [] \<Longrightarrow> distinct xs \<Longrightarrow> contract_strings (PList (map PStr xs)) field = Inr xs"
proof -
  have "List.map_filter as_str (map PStr xs) = xs" by (induction xs) (simp_all add: map_filter_simps)
  then show "xs \<noteq> [] \<Longrightarrow> distinct xs \<Longrightarrow> ?thesis" by (simp add: contract_strings_def list_ex_iff)
qed

lemma example_contract_loads: "load_contract (Document (contract_value example_contract)) = Inr example_contract"
proof -
  have "required_positive_evidence \<noteq> []" "distinct required_positive_evidence"
    "required_negative_evidence \<noteq> []" "distinct required_negative_evidence"
    by (simp_all add: required_positive_evidence_def required_negative_evidence_def)
  moreover have "protocol_version \<noteq> []" "client_repository \<noteq> []" "server_repository \<noteq> []"
    by (simp_all add: protocol_version_def client_repository_def server_repository_def)
  ultimately show ?thesis
    by (simp add: load_contract_def contract_value_def example_contract_def contract_string_def contract_strings_map ensure_def)
qed

text \<open>Witness of C31: two repositories with the example contract agree.\<close>

theorem cross_repository_agreement_witness:
  "\<exists>payload. validate_pair (\<lambda>q. ''1.0'') (\<lambda>b. b) (Document (contract_value example_contract))
     (Some (Document (contract_value example_contract))) = Inr payload"
  by (rule cross_repository_agreement [THEN iffD2]) (simp_all add: example_contract_loads, simp_all add: example_contract_def)

section \<open>Registry responses\<close>

text \<open>The metadata the Registry keeps for a published version.\<close>

definition live_entry :: "pyval \<Rightarrow> string \<Rightarrow> bool" where
  "live_entry meta latest_state \<longleftrightarrow>
     (\<exists>m official is_latest. meta = PDict m \<and> py_get m official_meta = PDict official \<and>
        py_get official ''status'' = PStr ''active'' \<and> py_get official ''isLatest'' = PBool is_latest \<and>
        (latest_state = ''true'' \<and> is_latest \<or> latest_state = ''false'' \<and> \<not> is_latest \<or> latest_state = ''any''))"

lemma flag_case_Inr:
  "(case v of PBool b \<Rightarrow> f b | _ \<Rightarrow> Inl e) = Inr (u :: unit) \<longleftrightarrow> (\<exists>b. v = PBool b \<and> f b = Inr u)"
  by (cases v) simp_all

lemma singleton_case_Inr:
  "(case xs of [x] \<Rightarrow> f x | _ \<Rightarrow> Inl e) = Inr (u :: unit) \<longleftrightarrow> (\<exists>x. xs = [x] \<and> f x = Inr u)"
  by (auto split: list.splits)

lemma validate_meta_iff: "validate_meta meta latest_state = Inr u \<longleftrightarrow> live_entry meta latest_state"
  unfolding validate_meta_def live_entry_def rbind_Inr_iff as_object_Inr flag_case_Inr
  by (auto split: if_splits)

lemma matching_entries_Inr:
  "matching_entries vs version = Inr found \<Longrightarrow>
     (\<forall>v \<in> set vs. \<exists>e s. v = PDict e \<and> py_get e ''server'' = PDict s) \<and>
     map PDict found = filter (\<lambda>v. \<exists>e s. v = PDict e \<and> py_get e ''server'' = PDict s \<and>
        py_get s ''name'' = PStr published_name \<and> py_get s ''version'' = PStr version) vs"
  by (induction vs arbitrary: found) (auto simp: rbind_Inr_iff split: if_splits)

text \<open>
  An accepted discovery response has exactly one entry for this server and version, and that entry is
  the published document, live.
\<close>

lemma discovery_accepted:
  assumes "registry_publication_main (Document payload) ''discovery'' version latest_state = Inr (0, out)"
  shows "\<exists>response entries entry server. payload = PDict response \<and> py_get response ''servers'' = PList entries \<and>
    filter (\<lambda>v. \<exists>e s. v = PDict e \<and> py_get e ''server'' = PDict s \<and>
        py_get s ''name'' = PStr published_name \<and> py_get s ''version'' = PStr version) entries = [PDict entry] \<and>
    py_get entry ''server'' = PDict server \<and> published_document server version \<and>
    live_entry (py_get entry ''_meta'') latest_state"
proof -
  from assms have "validate_payload ''discovery'' payload version latest_state = Inr ()"
    by (auto simp: registry_publication_main_def Let_def split: sum.splits exn.splits)
  then obtain response where r: "payload = PDict response" "validate_discovery response version latest_state = Inr ()"
    by (auto simp: validate_payload_def rbind_Inr_iff)
  then obtain entries selected where f: "py_get response ''servers'' = PList entries"
    "matching_entries entries version = Inr [selected]" "check_selected response selected version latest_state = Inr ()"
    unfolding validate_discovery_def rbind_Inr_iff as_array_Inr singleton_case_Inr by blast
  from f(3) obtain server where "py_get selected ''server'' = PDict server"
    "published_document server version" "live_entry (py_get selected ''_meta'') latest_state"
    by (auto simp: check_selected_def rbind_Inr_iff validate_server_iff validate_meta_iff)
  moreover note matching_entries_Inr [OF f(2), THEN conjunct2, symmetric]
  ultimately show ?thesis using r(1) f(1) by simp
qed

end
