(* ===== verification/Logging_Setup.thy ===== *)
theory Logging_Setup
  imports Logging_Redaction
begin

text \<open>
  \<open>configure_logging\<close> of \<open>entrypoints/logging.py\<close>: what it leaves in structlog, in the root logger and in
  the context variables, on success and when the level of the environment is refused; and what a
  record then writes to standard output. The library's processors are the functions of \<open>log_libs\<close>.
\<close>

section \<open>The logging state of the process\<close>

datatype renderer = JsonRenderer | ConsoleRenderer

datatype processor =
    MergeContextvars | AddLogLevel | AddLoggerName | AddTraceContext | TimeStamper | StackInfoRenderer
  | FormatExcInfo | RedactSecuritySecrets | WrapForFormatter | RemoveProcessorsMeta

text \<open>A \<open>ProcessorFormatter\<close>: its chain for records of other loggers, its own chain, and the renderer at its end.\<close>

record formatter =
  fm_foreign_pre_chain :: "processor list"
  fm_processors :: "processor list"
  fm_renderer :: renderer

text \<open>
  structlog's processors, the formatters of the root logger's handlers (each writes to standard
  output), the root level, and the context variables.
\<close>

record logging_state =
  lg_processors :: "processor list"
  lg_handlers :: "formatter list"
  lg_level :: int
  lg_context :: "pyval dict"

section \<open>The level\<close>

text \<open>
  The attributes of module \<open>logging\<close> whose name an upper-case string can be: the levels, a format string
  and a dictionary.
\<close>

datatype log_attribute = LevelNumber int | FormatText string | FormatStyles

definition level_numbers :: "(string \<times> int) list" where
  "level_numbers =
     [(''CRITICAL'', 50), (''FATAL'', 50), (''ERROR'', 40), (''WARNING'', 30), (''WARN'', 30), (''INFO'', 20),
      (''DEBUG'', 10), (''NOTSET'', 0)]"

definition logging_attribute :: "string \<Rightarrow> log_attribute option" where
  "logging_attribute name =
     (case map_of level_numbers name of
        Some n \<Rightarrow> Some (LevelNumber n)
      | None \<Rightarrow>
          if name = ''BASIC_FORMAT'' then Some (FormatText ''%(levelname)s:%(name)s:%(message)s'')
          else if name = ''_STYLES'' then Some FormatStyles else None)"

text \<open>
  \<open>upper()\<close> where it decides the lookup: letters outside ASCII become no letter of these names (the sharp s
  becomes two, which none of the names contains), so they are left as they are.
\<close>

definition upper_char :: "char \<Rightarrow> char" where
  "upper_char c = (if 97 \<le> ord_of c \<and> ord_of c \<le> 122 then char_of (ord_of c - 32) else c)"

definition log_level :: "(string \<rightharpoonup> string) \<Rightarrow> log_attribute" where
  "log_level env =
     (let level_name = map upper_char (case env ''LOG_LEVEL'' of None \<Rightarrow> ''INFO'' | Some v \<Rightarrow> v)
      in case logging_attribute level_name of None \<Rightarrow> LevelNumber 20 | Some a \<Rightarrow> a)"

text \<open>\<open>setLevel\<close> takes numbers and level names; another string is a \<open>ValueError\<close>, another object a \<open>TypeError\<close>.\<close>

definition set_level :: "log_attribute \<Rightarrow> int result" where
  "set_level a =
     (case a of
        LevelNumber n \<Rightarrow> Inr n
      | FormatText s \<Rightarrow>
          (case map_of level_numbers s of Some n \<Rightarrow> Inr n | None \<Rightarrow> Inl (ValueError (''Unknown level: '' @ s)))
      | FormatStyles \<Rightarrow> Inl (OtherExn ''TypeError''))"

section \<open>configure_logging\<close>

definition shared_chain :: "processor list" where
  "shared_chain =
     [MergeContextvars, AddLogLevel, AddLoggerName, AddTraceContext, TimeStamper, StackInfoRenderer,
      FormatExcInfo, RedactSecuritySecrets]"

definition log_formatter :: "(string \<rightharpoonup> string) \<Rightarrow> formatter" where
  "log_formatter env =
     \<lparr>fm_foreign_pre_chain = shared_chain, fm_processors = [RemoveProcessorsMeta],
      fm_renderer = (if json_logs env then JsonRenderer else ConsoleRenderer)\<rparr>"

definition configure_logging ::
    "(string \<rightharpoonup> string) \<Rightarrow> string \<Rightarrow> string \<Rightarrow> string \<Rightarrow> logging_state \<Rightarrow> unit result \<times> logging_state" where
  "configure_logging env service environment version lg =
     (let lg1 = lg\<lparr>lg_processors := shared_chain @ [WrapForFormatter]\<rparr>;
          lg2 = lg1\<lparr>lg_handlers := [log_formatter env]\<rparr>
      in case set_level (log_level env) of
           Inl e \<Rightarrow> (Inl e, lg2)
         | Inr level \<Rightarrow> (Inr (), lg2\<lparr>lg_level := level, lg_context := configured_context service environment version\<rparr>))"

section \<open>What a record writes\<close>

text \<open>
  One processor on an event. \<open>wrap_for_formatter\<close> hands the event to the handler as it is;
  \<open>remove_processors_meta\<close> drops the two keys the formatter adds.
\<close>

fun run_processor ::
    "log_libs \<Rightarrow> pyval dict \<Rightarrow> (string \<times> string) option \<Rightarrow> processor \<Rightarrow> pyval dict \<Rightarrow> pyval dict" where
  "run_processor libs ctx current_span MergeContextvars e = lb_merge libs ctx e"
| "run_processor libs ctx current_span AddLogLevel e = lb_level libs e"
| "run_processor libs ctx current_span AddLoggerName e = lb_name libs e"
| "run_processor libs ctx current_span AddTraceContext e = add_trace_context current_span e"
| "run_processor libs ctx current_span TimeStamper e = lb_stamp libs e"
| "run_processor libs ctx current_span StackInfoRenderer e = lb_stack libs e"
| "run_processor libs ctx current_span FormatExcInfo e = lb_exc_info libs e"
| "run_processor libs ctx current_span RedactSecuritySecrets e = redact_security_secrets e"
| "run_processor libs ctx current_span WrapForFormatter e = e"
| "run_processor libs ctx current_span RemoveProcessorsMeta e = without_key ''_from_structlog'' (without_key ''_record'' e)"

definition run_chain ::
    "log_libs \<Rightarrow> pyval dict \<Rightarrow> (string \<times> string) option \<Rightarrow> processor list \<Rightarrow> pyval dict \<Rightarrow> pyval dict" where
  "run_chain libs ctx current_span ps e = fold (run_processor libs ctx current_span) ps e"

text \<open>
  A logger of the process other than the root: its level (0 when not set), the levels of the handlers
  installed on it, as uvicorn's configuration does for its own loggers, and whether it passes records on.
\<close>

record logger =
  lo_level :: int
  lo_handlers :: "int list"
  lo_propagate :: bool

text \<open>
  A record: its level, the event, whether structlog or another library made it, and the loggers from
  the one it is made on up to the child of the root.
\<close>

record log_record =
  lr_level :: int
  lr_event :: "pyval dict"
  lr_from_structlog :: bool
  lr_loggers :: "logger list"

text \<open>A line: what the handler of another configuration gets, or the renderer of the root's formatter.\<close>

datatype log_line = OwnLine "pyval dict" | RootLine renderer "pyval dict"

fun line_event :: "log_line \<Rightarrow> pyval dict" where
  "line_event (OwnLine e) = e"
| "line_event (RootLine r e) = e"

fun is_root_line :: "log_line \<Rightarrow> bool" where
  "is_root_line (OwnLine e) = False"
| "is_root_line (RootLine r e) = True"

text \<open>\<open>getEffectiveLevel\<close> and \<open>callHandlers\<close> of module \<open>logging\<close>.\<close>

fun effective_level :: "logger list \<Rightarrow> int \<Rightarrow> int" where
  "effective_level [] root_level = root_level"
| "effective_level (l # ls) root_level = (if lo_level l \<noteq> 0 then lo_level l else effective_level ls root_level)"

fun own_handlers :: "int \<Rightarrow> logger list \<Rightarrow> int list" where
  "own_handlers level [] = []"
| "own_handlers level (l # ls) =
     filter (\<lambda>h. h \<le> level) (lo_handlers l) @ (if lo_propagate l then own_handlers level ls else [])"

text \<open>The lines a record writes, each an event and where it goes.\<close>

definition written_lines ::
    "log_libs \<Rightarrow> (string \<times> string) option \<Rightarrow> logging_state \<Rightarrow> log_record \<Rightarrow> log_line list" where
  "written_lines libs current_span lg r =
     (if lr_level r < effective_level (lr_loggers r) (lg_level lg) then []
      else let run = run_chain libs (lg_context lg) current_span;
               made = (if lr_from_structlog r then run (lg_processors lg) (lr_event r) else lr_event r)
           in map (\<lambda>_. OwnLine made) (own_handlers (lr_level r) (lr_loggers r)) @
              (if list_all lo_propagate (lr_loggers r)
               then map (\<lambda>f. RootLine (fm_renderer f)
                      (run (fm_processors f) (if lr_from_structlog r then made else run (fm_foreign_pre_chain f) made)))
                    (lg_handlers lg)
               else []))"

section \<open>Facts\<close>

lemma configure_logging_Inr:
  assumes "configure_logging env s e v lg = (Inr u, lg')"
  shows "lg_processors lg' = shared_chain @ [WrapForFormatter]" "lg_handlers lg' = [log_formatter env]"
    "set_level (log_level env) = Inr (lg_level lg')" "lg_context lg' = configured_context s e v"
  using assms by (auto simp: configure_logging_def Let_def split: sum.splits)

text \<open>A level is refused only for the two attributes that are no level; the handler is installed by then.\<close>

lemma configure_logging_Inl:
  assumes "configure_logging env s e v lg = (Inl x, lg')"
  shows "map upper_char (case env ''LOG_LEVEL'' of None \<Rightarrow> ''INFO'' | Some l \<Rightarrow> l) \<in> {''BASIC_FORMAT'', ''_STYLES''}"
    and "lg_handlers lg' = [log_formatter env]" and "lg_level lg' = lg_level lg" and "lg_context lg' = lg_context lg"
  using assms
  by (auto simp: configure_logging_def Let_def log_level_def logging_attribute_def set_level_def
      split: sum.splits option.splits if_splits)

lemma without_key_clean: "clean (PDict d) \<Longrightarrow> clean (PDict (without_key k d))"
  by (auto simp: without_key_def list_all_iff)

lemma shared_chain_event: "run_chain libs ctx sp shared_chain e = rendered_event libs ctx sp e"
  by (simp add: run_chain_def shared_chain_def rendered_event_redacted)

lemma shared_chain_clean: "clean (PDict (run_chain libs ctx sp shared_chain e))"
  using redact_clean(3) by (simp add: shared_chain_event rendered_event_redacted redact_security_secrets_def)

text \<open>Both kinds of records reach the root's renderer through the redaction, once.\<close>

lemma written_lines_configured:
  assumes "configure_logging env s e v lg = (Inr u, lg')"
  shows "written_lines libs sp lg' r =
    (if lr_level r < effective_level (lr_loggers r) (lg_level lg') then []
     else map (\<lambda>_. OwnLine (if lr_from_structlog r then run_chain libs (lg_context lg') sp shared_chain (lr_event r)
                               else lr_event r)) (own_handlers (lr_level r) (lr_loggers r)) @
          (if list_all lo_propagate (lr_loggers r)
           then [RootLine (fm_renderer (log_formatter env)) (without_key ''_from_structlog'' (without_key ''_record''
                   (run_chain libs (lg_context lg') sp shared_chain (lr_event r))))] else []))"
proof -
  have w: "run_chain libs ctx sp (shared_chain @ [WrapForFormatter]) x = run_chain libs ctx sp shared_chain x" for ctx x
    by (simp add: run_chain_def)
  have m: "run_chain libs ctx sp [RemoveProcessorsMeta] x = without_key ''_from_structlog'' (without_key ''_record'' x)" for ctx x
    by (simp add: run_chain_def)
  show ?thesis
    by (simp add: written_lines_def Let_def configure_logging_Inr [OF assms] w) (simp add: log_formatter_def m)
qed

lemma written_lines_root:
  assumes "configure_logging env s e v lg = (Inr u, lg')"
  shows "list_all (\<lambda>l. clean (PDict (line_event l))) (filter is_root_line (written_lines libs sp lg' r))"
    and "length (filter is_root_line (written_lines libs sp lg' r)) =
      (if effective_level (lr_loggers r) (lg_level lg') \<le> lr_level r \<and> list_all lo_propagate (lr_loggers r) then 1 else 0)"
  using without_key_clean shared_chain_clean
  by (simp_all add: written_lines_configured [OF assms] filter_map o_def del: clean.simps)

text \<open>Records of structlog are redacted before any handler; other records when no handler is in their way.\<close>

lemma written_lines_clean:
  assumes "configure_logging env s e v lg = (Inr u, lg')"
    and "lr_from_structlog r \<or> own_handlers (lr_level r) (lr_loggers r) = []"
  shows "list_all (\<lambda>l. clean (PDict (line_event l))) (written_lines libs sp lg' r)"
  using assms(2) without_key_clean shared_chain_clean
  by (auto simp: written_lines_configured [OF assms(1)] list_all_iff simp del: clean.simps)

text \<open>A logger with a handler of its own writes the event of another library as it is.\<close>

lemma own_handler_bypasses_redaction:
  assumes "configure_logging env s e v lg = (Inr u, lg')"
  shows "written_lines libs sp lg' \<lparr>lr_level = 20, lr_event = event, lr_from_structlog = False,
      lr_loggers = [\<lparr>lo_level = 20, lo_handlers = [0], lo_propagate = False\<rparr>]\<rparr> = [OwnLine event]"
  by (simp add: written_lines_configured [OF assms])

text \<open>The name of the format string is taken for a level, and the process does not start.\<close>

lemma format_name_refused:
  assumes "env ''LOG_LEVEL'' = Some ''basic_format''"
  shows "\<exists>m lg'. configure_logging env s e v lg = (Inl (ValueError m), lg')"
proof -
  have "map upper_char ''basic_format'' = ''BASIC_FORMAT''" by code_simp
  then have "log_level env = FormatText ''%(levelname)s:%(name)s:%(message)s''"
    using assms by (simp add: log_level_def logging_attribute_def level_numbers_def)
  then show ?thesis by (simp add: configure_logging_def set_level_def level_numbers_def)
qed

end
