(* ===== verification/Server_Startup.thy ===== *)
theory Server_Startup
  imports Mcp_Server Logging_Setup Preflight
begin

text \<open>
  How the process comes up: \<open>build_server\<close> with its logging configuration and \<open>create_app\<close> of
  \<open>entrypoints/mcp_server.py\<close>, which configurations start, and which requests of the finished stack
  reach the SDK's application.
\<close>

section \<open>Building the application\<close>

text \<open>What the process holds besides the application: its logging and whether observability runs.\<close>

record process =
  pr_logging :: logging_state
  pr_observing :: bool

text \<open>\<open>build_server\<close> configures logging first; a refused level ends the construction.\<close>

definition build_server ::
    "(string \<rightharpoonup> string) \<Rightarrow> string \<Rightarrow> (string \<Rightarrow> string result) \<Rightarrow> idna_codec \<Rightarrow> settings \<Rightarrow> logging_state \<Rightarrow>
     server_config result \<times> logging_state" where
  "build_server env service_version http_url idna st lg =
     (case configure_logging env (service_name st) (app_env_value (app_env st)) service_version lg of
        (Inl e, lg') \<Rightarrow> (Inl e, lg')
      | (Inr _, lg') \<Rightarrow> (assemble_server http_url idna st, lg'))"

lemma build_server_Inr_iff:
  "(build_server env ver http_url idna st lg = (Inr sv, lg')) =
     (configure_logging env (service_name st) (app_env_value (app_env st)) ver lg = (Inr (), lg') \<and>
      assemble_server http_url idna st = Inr sv)"
  by (auto simp: build_server_def split: prod.splits sum.splits)

text \<open>
  What \<open>create_app\<close> calls of the SDK and the kit: the URL type of the SDK's settings, the Host/Origin
  check, the metadata URL of a resource, starting observability (which may fail) with the middleware it gives, and the SDK's application for a
  server.
\<close>

record platform =
  pf_http_url :: "string \<Rightarrow> string result"
  pf_validate :: "transport_security \<Rightarrow> asgi_scope \<Rightarrow> bool \<Rightarrow> response option"
  pf_metadata_url :: "string \<Rightarrow> string"
  pf_observability :: "observability_settings \<Rightarrow> (app \<Rightarrow> app) result"
  pf_sdk_app :: "server_config \<Rightarrow> settings \<Rightarrow> transport_security \<Rightarrow> app"

definition build_http_app ::
    "platform \<Rightarrow> server_config \<Rightarrow> settings \<Rightarrow> runtime_status \<Rightarrow> (app \<Rightarrow> app) \<Rightarrow> app result" where
  "build_http_app pf sv st status tracing =
     rbind (build_transport_security st) (\<lambda>tsec.
       streamable_http_app (pf_validate pf) (pf_metadata_url pf (resource_server_url st)) st (Some status) (Some tracing)
         (pf_sdk_app pf sv st tsec))"

text \<open>\<open>loaded\<close> is what \<open>Settings()\<close> yields. Whatever fails after observability started shuts it down.\<close>

definition create_app ::
    "platform \<Rightarrow> (string \<rightharpoonup> string) \<Rightarrow> string \<Rightarrow> idna_codec \<Rightarrow> settings result \<Rightarrow> runtime_status \<Rightarrow> process \<Rightarrow>
     (server_config \<times> app) result \<times> process" where
  "create_app pf env service_version idna loaded status pr =
     (case loaded of
        Inl e \<Rightarrow> (Inl e, pr)
      | Inr st \<Rightarrow>
          (case pf_observability pf (build_observability_settings service_version st) of
             Inl e \<Rightarrow> (Inl e, pr)
           | Inr tracing \<Rightarrow>
               let pr1 = pr\<lparr>pr_observing := True\<rparr> in
               (case build_server env service_version (pf_http_url pf) idna st (pr_logging pr1) of (built, lg) \<Rightarrow>
                let pr2 = pr1\<lparr>pr_logging := lg\<rparr> in
                (case rbind built (\<lambda>sv. rbind (build_http_app pf sv st status tracing) (\<lambda>a. Inr (sv, a))) of
                   Inl e \<Rightarrow> (Inl e, pr2\<lparr>pr_observing := False\<rparr>)
                 | Inr r \<Rightarrow> (Inr r, pr2)))))"

lemma create_app_Inr:
  assumes "create_app pf env ver idna loaded status pr = (Inr (sv, a), pr')"
  obtains st tracing where "loaded = Inr st" "pf_observability pf (build_observability_settings ver st) = Inr tracing"
    "configure_logging env (service_name st) (app_env_value (app_env st)) ver (pr_logging pr) = (Inr (), pr_logging pr')"
    "assemble_server (pf_http_url pf) idna st = Inr sv" "build_http_app pf sv st status tracing = Inr a" "pr_observing pr'"
  using assms
  by (auto simp: create_app_def build_server_def Let_def rbind_Inr_iff split: sum.splits prod.splits)

text \<open>A construction that fails leaves observability as it was found, or shut down.\<close>

lemma create_app_Inl:
  assumes "create_app pf env ver idna loaded status pr = (Inl e, pr')" and "\<not> pr_observing pr"
  shows "\<not> pr_observing pr'"
  using assms by (auto simp: create_app_def Let_def split: sum.splits prod.splits)

section \<open>Which configurations start\<close>

text \<open>
  A URL the network policy can take as an origin: no control character or backslash, and a host that
  can be normalised, twice, because the origin normalises the parsed host again.
\<close>

definition plain_url :: "idna_codec \<Rightarrow> string \<Rightarrow> bool" where
  "plain_url idna url \<longleftrightarrow>
     CHR 0x5C \<notin> set url \<and> list_all (\<lambda>c. 32 \<le> ord_of c) url \<and>
     (\<exists>u h n m. urlsplit url = Some u \<and> url_hostname u = Some h \<and> normalize_host idna h = Inr n \<and>
        normalize_host idna n = Inr m)"

text \<open>The URLs the validators accept in production.\<close>

definition https_url :: "string \<Rightarrow> split_url \<Rightarrow> bool" where
  "https_url url u \<longleftrightarrow> urlsplit url = Some u \<and> u_scheme u = ''https'' \<and> \<not> has_credentials_part u \<and>
     u_query u = [] \<and> u_fragment u = [] \<and> (\<exists>p. url_port u = Inr p)"

lemma https_lower: "py_lower ''https'' = ''https''"
  by (simp add: py_lower_def lower_char_def ord_of_def)

lemma https_port:
  assumes "https_url url u"
  shows "\<exists>q. port_or_default u = Inr q"
proof -
  from assms obtain p where "url_port u = Inr p" "u_scheme u = ''https''" by (auto simp: https_url_def)
  then show ?thesis by (cases p) (auto simp: port_or_default_def default_port_def https_lower)
qed

lemma hostname_nonempty: "url_hostname u = Some h \<Longrightarrow> h \<noteq> []"
  by (auto simp: url_hostname_def Let_def partition_on_def py_lower_def split: if_splits prod.splits)

lemma parse_url_https:
  assumes "https_url url u"
  shows "parse_url idna url = Inr (s, h, p) \<longleftrightarrow>
    CHR 0x5C \<notin> set url \<and> list_all (\<lambda>c. 32 \<le> ord_of c) url \<and> s = ''https'' \<and> port_or_default u = Inr p \<and>
    (\<exists>n. url_hostname u = Some n \<and> normalize_host idna n = Inr h)"
proof (cases "CHR 0x5C \<notin> set url \<and> list_all (\<lambda>c. 32 \<le> ord_of c) url")
  case True
  then have "\<not> (CHR 0x5C \<in> set url \<or> (\<exists>c \<in> set url. ord_of c < 32))" by (auto simp: list_all_iff not_less)
  with True assms https_port [OF assms] hostname_nonempty [of u] show ?thesis
    by (auto simp: parse_url_def https_url_def has_credentials_part_def rbind_Inr_iff Let_def https_lower
        split: option.splits)
next
  case False
  then have "CHR 0x5C \<in> set url \<or> (\<exists>c \<in> set url. ord_of c < 32)" by (auto simp: list_all_iff not_le)
  with False show ?thesis by (auto simp: parse_url_def)
qed

lemma parse_url_scheme:
  assumes "https_url url u" and "parse_url idna url = Inr r"
  obtains h p where "r = (''https'', h, p)"
  using assms(2) that by (cases r) (auto simp: parse_url_https [OF assms(1)])

lemma origin_https:
  assumes "https_url url u"
  shows "(\<exists>s h p orig. parse_url idna url = Inr (s, h, p) \<and> origin_of idna s h p = Inr orig) \<longleftrightarrow> plain_url idna url"
  using https_port [OF assms] assms
  by (auto simp: parse_url_https [OF assms] plain_url_def origin_of_def rbind_Inr_iff https_url_def)

lemma allowed_origin_https:
  assumes "https_url url u" and "u_path u = []"
  shows "(\<exists>orig. allowed_origin idna ins url = Inr orig) \<longleftrightarrow> plain_url idna url"
proof -
  have "urlsplit url = Some u" "u_query u = []" using assms(1) by (simp_all add: https_url_def)
  then have "(\<exists>orig. allowed_origin idna ins url = Inr orig) \<longleftrightarrow>
      (\<exists>s h p orig. parse_url idna url = Inr (s, h, p) \<and> origin_of idna s h p = Inr orig)"
  proof (cases "parse_url idna url")
    case (Inr r)
    then obtain h p where "parse_url idna url = Inr (''https'', h, p)" using parse_url_scheme [OF assms(1) Inr] by metis
    with \<open>urlsplit url = Some u\<close> \<open>u_query u = []\<close> assms(2) show ?thesis by (simp add: allowed_origin_def)
  qed (simp add: allowed_origin_def)
  then show ?thesis using origin_https [OF assms(1)] by simp
qed

lemma rmap_defined: "(\<exists>ys. rmap f xs = Inr ys) \<longleftrightarrow> (\<forall>x \<in> set xs. \<exists>y. f x = Inr y)"
  by (induction xs) (auto simp: rbind_Inr_iff)

lemma policy_https:
  assumes "https_url issuer u" and "\<forall>url \<in> set extra. \<exists>v. https_url url v \<and> u_path v = []"
  shows "(\<exists>pol. make_network_policy idna issuer ins extra 2 5 65536 524288 = Inr pol) \<longleftrightarrow>
    (\<forall>url \<in> set (issuer # extra). plain_url idna url)"
proof -
  have "urlsplit issuer = Some u" "u_query u = []" using assms(1) by (simp_all add: https_url_def)
  then have "(\<exists>pol. make_network_policy idna issuer ins extra 2 5 65536 524288 = Inr pol) \<longleftrightarrow>
      (\<exists>s h p orig. parse_url idna issuer = Inr (s, h, p) \<and> origin_of idna s h p = Inr orig) \<and>
      (\<exists>os. rmap (allowed_origin idna ins) extra = Inr os)"
  proof (cases "parse_url idna issuer")
    case (Inr r)
    then obtain h p where "parse_url idna issuer = Inr (''https'', h, p)" using parse_url_scheme [OF assms(1) Inr] by metis
    with \<open>urlsplit issuer = Some u\<close> \<open>u_query u = []\<close> show ?thesis by (auto simp: make_network_policy_def rbind_Inr_iff)
  qed (simp add: make_network_policy_def)
  moreover have "(\<exists>os. rmap (allowed_origin idna ins) extra = Inr os) \<longleftrightarrow> (\<forall>url \<in> set extra. plain_url idna url)"
    unfolding rmap_defined using assms(2) allowed_origin_https by blast
  ultimately show ?thesis using origin_https [OF assms(1)] by simp
qed

text \<open>The Entra issuer is always such a URL.\<close>

lemma entra_issuer_plain:
  assumes "set t \<subseteq> set ''0123456789abcdef-''"
  shows "\<exists>u. https_url (entra_issuer t) u" and "plain_url idna (entra_issuer t)"
proof -
  let ?u = "\<lparr>u_scheme = ''https'', u_netloc = ''login.microsoftonline.com'', u_path = ''/'' @ t @ ''/v2.0'', u_query = [], u_fragment = []\<rparr>"
  have l: "list_all (\<lambda>c. 45 \<le> ord_of c \<and> c \<noteq> CHR ''#'' \<and> c \<noteq> CHR ''?'' \<and> c \<noteq> CHR 0x5C) ''0123456789abcdef-''" by code_simp
  have t: "\<forall>c \<in> set t. 45 \<le> ord_of c \<and> c \<noteq> CHR ''#'' \<and> c \<noteq> CHR ''?'' \<and> c \<noteq> CHR 0x5C"
  proof
    fix c assume "c \<in> set t"
    then have "c \<in> set ''0123456789abcdef-''" by (rule subsetD [OF assms])
    then show "45 \<le> ord_of c \<and> c \<noteq> CHR ''#'' \<and> c \<noteq> CHR ''?'' \<and> c \<noteq> CHR 0x5C"
      by (rule bspec [OF l [unfolded list_all_iff]])
  qed
  have "\<forall>c \<in> set t. ord_of c \<notin> {9, 10, 13}"
  proof
    fix c assume "c \<in> set t"
    with t have "45 \<le> ord_of c" by blast
    then show "ord_of c \<notin> {9, 10, 13}" by simp
  qed
  then have f: "filter (\<lambda>c. ord_of c \<notin> {9, 10, 13}) t = t" by (simp only: filter_id_conv)
  have n: "CHR ''#'' \<notin> set t" "CHR ''?'' \<notin> set t" using t by blast+
  have "clean_url (entra_issuer t) = entra_issuer t"
    using f by (simp add: clean_url_def entra_issuer_def ord_of_def)
  moreover have "split_scheme (entra_issuer t) = (''https'', ''//login.microsoftonline.com/'' @ t @ ''/v2.0'')"
    by (simp add: split_scheme_def entra_issuer_def partition_on_def scheme_char_def is_alpha_ascii_def https_lower ord_of_def)
  moreover have "split_netloc (''//login.microsoftonline.com/'' @ t @ ''/v2.0'') = (''login.microsoftonline.com'', ''/'' @ t @ ''/v2.0'')"
    by (simp add: split_netloc_def startswith_def netloc_end_def)
  moreover have "netloc_ok ''login.microsoftonline.com''" by (simp add: netloc_ok_def)
  moreover have "partition_on CHR ''#'' (''/'' @ t @ ''/v2.0'') = (''/'' @ t @ ''/v2.0'', False, [])"
    "partition_on CHR ''?'' (''/'' @ t @ ''/v2.0'') = (''/'' @ t @ ''/v2.0'', False, [])"
    using n by (simp_all add: partition_on_def)
  ultimately have u: "urlsplit (entra_issuer t) = Some ?u" by (simp add: urlsplit_def)
  have h: "url_hostname ?u = Some ''login.microsoftonline.com''" "url_port ?u = Inr None" "\<not> has_credentials_part ?u"
    by (simp_all add: url_eval has_credentials_part_def)
  show "\<exists>u. https_url (entra_issuer t) u" using u h by (auto simp: https_url_def)
  have "normalize_host idna ''login.microsoftonline.com'' = Inr ''login.microsoftonline.com''"
    by (simp add: normalize_host_def idna_encode_def is_ascii_def split_on_def py_lower_def lower_char_def ord_of_def
        py_rstrip_char_def py_rstrip_by_def)
  moreover have "list_all (\<lambda>c. 45 \<le> ord_of c) t" "CHR 0x5C \<notin> set t" using t unfolding list_all_iff by blast+
  then have "CHR 0x5C \<notin> set (entra_issuer t)" "list_all (\<lambda>c. 32 \<le> ord_of c) (entra_issuer t)"
    by (simp_all add: entra_issuer_def ord_of_def list.pred_mono_strong)
  ultimately show "plain_url idna (entra_issuer t)"
    using u h(1) unfolding plain_url_def by (intro conjI exI [of _ ?u] exI [of _ "''login.microsoftonline.com''"])
qed

section \<open>Startup\<close>

text \<open>The registry builds unless the application URI makes a scope no scope token can hold.\<close>

lemma authorizer_builds:
  "(\<exists>svc. build_tool_authorizer st None = Inr svc) \<longleftrightarrow>
     (case entra_application_id_uri st of
        None \<Rightarrow> True
      | Some uri \<Rightarrow> provider st = Entra \<longrightarrow>
          is_valid_oauth_scope_token (py_rstrip_char CHR ''/'' uri @ ''/'' @ health_scope))"
proof -
  obtain svc where d: "default_registry st = Inr svc" using default_registry_ok by blast
  show ?thesis
  proof (cases "provider st = Entra \<and> entra_application_id_uri st \<noteq> None")
    case False
    then show ?thesis using d by (auto simp: build_tool_authorizer_def split: option.splits)
  next
    case True
    then obtain uri where uri: "entra_application_id_uri st = Some uri" "provider st = Entra" by blast
    have v: "is_valid_oauth_scope_token health_scope" by code_simp
    have h: "permissions_of [x] = Inr {|x|}" if "x \<noteq> []" for x
      using that by (simp add: permissions_of_def Let_def flip: fset_of_list_filter)
    let ?q = "py_rstrip_char CHR ''/'' uri @ ''/'' @ health_scope"
    have "\<not> contains health_scope ''://''" by code_simp
    then have q: "qualify_scopes [health_scope] uri = [?q]"
      by (simp add: qualify_scopes_def qualify_scope_def health_scope_def sorted_set_def)
    have "svc = [(''whoami'', \<lparr>tp_kind = AUTHENTICATED, tp_permissions = {||}\<rparr>),
        (''health'', \<lparr>tp_kind = DELEGATED_SCOPES, tp_permissions = {|health_scope|}\<rparr>)]"
      using d uri(2) v h [of health_scope]
      by (simp add: default_registry_def policy_delegated_scopes_def policy_authenticated_def scope_permissions_def
          make_policy_def health_scope_def)
    then show ?thesis
      using d uri q h [of ?q]
      by (simp add: build_tool_authorizer_def effective_policy_def sorted_list_of_fset.rep_eq policy_delegated_scopes_def
          scope_permissions_def make_policy_def)
  qed
qed


text \<open>
  The settings validators establish what every URL of the policy needs but its characters and its host.
\<close>

lemma exact_origin_https:
  assumes "check_jwks_origin url = Inr ()"
  shows "\<exists>v. https_url url v \<and> u_path v = []"
  using assms
  by (auto simp: check_jwks_origin_def https_url_def is_exact_origin_def rbind_Inr_iff split_url_def
      split: option.splits sum.splits)

lemma production_generic_urls:
  assumes "validate_settings raw = Inr st" and "app_env st = Production" and "provider st = Generic"
  shows "\<exists>u. https_url (or_empty (generic_issuer_url st)) u"
    and "\<forall>url \<in> set (generic_jwks_allowed_origins st). \<exists>v. https_url url v \<and> u_path v = []"
proof -
  have q: "check_production_generic st = Inr ()"
    using assms by (auto simp: validate_settings_Inr require_matching_Inr validate_production_profile_def rbind_Inr_iff)
  then show "\<exists>u. https_url (or_empty (generic_issuer_url st)) u"
    by (auto simp: check_production_generic_def https_url_def rbind_Inr_iff split_url_def split: option.splits sum.splits)
  show "\<forall>url \<in> set (generic_jwks_allowed_origins st). \<exists>v. https_url url v \<and> u_path v = []"
    using q exact_origin_https
    by (auto simp: check_production_generic_def rbind_Inr_iff split_url_def split: option.splits sum.splits)
qed

lemma accepted_fields:
  assumes "validate_settings raw = Inr st"
  shows "provider st = Entra \<Longrightarrow> given (entra_tenant_id st) \<and> given (entra_audience st) \<and> given (entra_application_id_uri st)"
    and "provider st = Generic \<Longrightarrow> given (generic_issuer_url st) \<and> given (generic_audience st)"
  using assms by (auto simp: validate_settings_Inr require_matching_Inr missing_fields_def split: if_splits)

text \<open>Of accepted settings, the network policy, the tool registry and the issuer as a URL of the SDK are all that can still fail.\<close>

lemma assemble_server_defined:
  assumes "validate_settings raw = Inr st"
  shows "(\<exists>sv. assemble_server http_url idna st = Inr sv) \<longleftrightarrow>
    (\<exists>issuer pol. resolve_issuer_url st = Inr issuer \<and> build_oidc_network_policy idna st issuer = Inr pol \<and>
      (\<exists>u. http_url issuer = Inr u)) \<and>
    (\<exists>svc. build_tool_authorizer st None = Inr svc)"
proof -
  have "\<exists>v. build_token_verifier idna st (Some pol) = Inr v" if "resolve_issuer_url st = Inr issuer" for pol issuer
    using accepted_fields [OF assms] that by (cases "provider st") (simp_all add: build_token_verifier_def)
  then show ?thesis by (auto simp: assemble_server_def build_auth_settings_def rbind_Inr_iff)
qed

lemma server_starts:
  assumes "validate_settings raw = Inr st" and "app_env st = Production \<or> provider st = Entra"
  shows "(\<exists>sv. assemble_server http_url idna st = Inr sv) \<longleftrightarrow>
    (\<exists>issuer u. resolve_issuer_url st = Inr issuer \<and> http_url issuer = Inr u) \<and>
    (if provider st = Entra
     then is_valid_oauth_scope_token (py_rstrip_char CHR ''/'' (or_empty (entra_application_id_uri st)) @ ''/mcp:tools:health'')
     else \<forall>url \<in> set (or_empty (generic_issuer_url st) # generic_jwks_allowed_origins st). plain_url idna url)"
proof (cases "provider st")
  case Entra
  have "insert CHR ''-'' (set hex_chars) = set ''0123456789abcdef-''" by (simp add: hex_chars_def insert_commute)
  with accepted_tenant [OF assms(1) Entra] obtain u where u: "entra_tenant_id st = Some u" "set u \<subseteq> set ''0123456789abcdef-''"
    by metis
  obtain uri where uri: "entra_application_id_uri st = Some uri"
    using accepted_fields(1) [OF assms(1) Entra] by (auto simp: given_def)
  obtain v where v: "https_url (entra_issuer u) v" using entra_issuer_plain(1) [OF u(2)] by blast
  have "\<exists>pol. build_oidc_network_policy idna st (entra_issuer u) = Inr pol"
    using policy_https [OF v, of "[]"] entra_issuer_plain(2) [OF u(2)] Entra by (simp add: build_oidc_network_policy_def)
  moreover have "resolve_issuer_url st = Inr (entra_issuer u)" using Entra u(1) by (simp add: resolve_issuer_url_def)
  ultimately show ?thesis
    using uri Entra by (simp add: assemble_server_defined [OF assms(1)] authorizer_builds or_empty_def health_scope_def)
next
  case Generic
  then obtain issuer where i: "generic_issuer_url st = Some issuer"
    using accepted_fields(2) [OF assms(1)] by (auto simp: given_def)
  have "app_env st = Production" using assms(2) Generic by simp
  from production_generic_urls [OF assms(1) this Generic] i obtain u where
    "https_url issuer u" "\<forall>url \<in> set (generic_jwks_allowed_origins st). \<exists>v. https_url url v \<and> u_path v = []"
    by (auto simp: or_empty_def)
  from policy_https [OF this] show ?thesis
    using i Generic by (auto simp: assemble_server_defined [OF assms(1)] authorizer_builds resolve_issuer_url_def
        build_oidc_network_policy_def or_empty_def split: option.splits)
qed

text \<open>A level is taken unless the variable names one of the two attributes that are no level.\<close>

lemma level_taken:
  "(\<exists>lg'. configure_logging env s e v lg = (Inr (), lg')) \<longleftrightarrow>
     map upper_char (case env ''LOG_LEVEL'' of None \<Rightarrow> ''INFO'' | Some l \<Rightarrow> l) \<notin> {''BASIC_FORMAT'', ''_STYLES''}"
  (is "_ \<longleftrightarrow> ?name \<notin> _")
proof -
  have "(\<exists>n. set_level (log_level env) = Inr n) \<longleftrightarrow> ?name \<notin> {''BASIC_FORMAT'', ''_STYLES''}"
  proof (cases "?name = ''BASIC_FORMAT'' \<or> ?name = ''_STYLES''")
    case True
    then show ?thesis
      by (elim disjE) (simp_all add: log_level_def logging_attribute_def level_numbers_def set_level_def)
  next
    case False
    then show ?thesis
      by (simp add: log_level_def logging_attribute_def set_level_def Let_def split: option.splits)
  qed
  moreover have "(\<exists>lg'. configure_logging env s e v lg = (Inr (), lg')) \<longleftrightarrow> (\<exists>n. set_level (log_level env) = Inr n)"
    by (auto simp: configure_logging_def Let_def split: sum.splits)
  ultimately show ?thesis by simp
qed

section \<open>Requests that reach the SDK\<close>

text \<open>
  The application inside admission, for a tracing middleware of the kit and an application of the SDK.
\<close>

definition traced_stack ::
    "platform \<Rightarrow> (app \<Rightarrow> app) \<Rightarrow> settings \<Rightarrow> runtime_status \<Rightarrow> app \<Rightarrow> app" where
  "traced_stack pf tracing st status sdk_app =
     tracing (probe_middleware status
       (progressive_middleware (pf_metadata_url pf (resource_server_url st)) mcp_http_path sdk_app))"

lemma create_app_stack:
  assumes "create_app pf env ver idna loaded status pr = (Inr (sv, a), pr')"
  obtains st tsec tracing where "loaded = Inr st" "build_transport_security st = Inr tsec"
    "pf_observability pf (build_observability_settings ver st) = Inr tracing"
    "a = admission_middleware (admission_of (pf_validate pf) st tsec True)
       (traced_stack pf tracing st status (pf_sdk_app pf sv st tsec))"
    "\<And>sdk traced. create_app (pf\<lparr>pf_sdk_app := sdk, pf_observability := \<lambda>_. Inr traced\<rparr>) env ver idna loaded status pr =
      (Inr (sv, admission_middleware (admission_of (pf_validate pf) st tsec True)
         (traced_stack pf traced st status (sdk sv st tsec))), pr')"
proof -
  obtain st tracing where c: "loaded = Inr st" "pf_observability pf (build_observability_settings ver st) = Inr tracing"
    "configure_logging env (service_name st) (app_env_value (app_env st)) ver (pr_logging pr) = (Inr (), pr_logging pr')"
    "assemble_server (pf_http_url pf) idna st = Inr sv" "build_http_app pf sv st status tracing = Inr a" "pr_observing pr'"
    using assms by (rule create_app_Inr)
  obtain tsec where t: "build_transport_security st = Inr tsec" using c(5) by (auto simp: build_http_app_def rbind_Inr_iff)
  have "pr' = pr\<lparr>pr_observing := True, pr_logging := pr_logging pr'\<rparr>"
    using assms c(1,2) by (auto simp: create_app_def Let_def split: sum.splits prod.splits)
  with c t that show thesis
    by (auto simp: create_app_def build_server_def build_http_app_def streamable_http_app_def traced_stack_def)
qed

text \<open>Under the probe paths of the built application, admission decides as follows.\<close>

lemma built_operational:
  "is_operational (admission_of validate st tsec True) sc \<longleftrightarrow> sc_path sc \<in> {''/livez'', ''/readyz''}"
  by (simp add: is_operational_def admission_of_def operational_probe_paths_def)

lemma probe_split:
  assumes "sc_type sc = ''http''"
  shows "if sc_path sc \<in> {''/livez'', ''/readyz''}
     then \<forall>inner inner'. probe_middleware status inner sc = probe_middleware status inner' sc
     else \<forall>inner. probe_middleware status inner sc = inner sc"
proof (cases "sc_path sc \<in> {''/livez'', ''/readyz''}")
  case True
  show ?thesis
    unfolding if_P [OF True] by (intro allI ext) (rule probe_independent_of_app [OF assms True])
next
  case False
  show ?thesis unfolding if_not_P [OF False] by (intro allI ext) (rule probe_delegates [OF False])
qed

end
