(* ===== verification/Startup_Properties.thy ===== *)
theory Startup_Properties
  imports Server_Startup Entrypoint_Properties Oidc_Properties
begin

text \<open>
  The properties of startup: which accepted settings give a server, what the log of the running process
  writes, and which requests of the built application reach the SDK.
\<close>

section \<open>An example server\<close>

definition acme_policy :: network_policy where
  "acme_policy =
     \<lparr>np_issuer_url = ''https://id.acme.io'', np_issuer_origin = (''https'', ''id.acme.io'', 443),
      np_discovery_url = ''https://id.acme.io/.well-known/openid-configuration'',
      np_allow_insecure_loopback = False, np_dns_timeout = 2, np_http_timeout = 5,
      np_discovery_max_bytes = 65536, np_jwks_max_bytes = 524288,
      np_trusted_origins = [(''https'', ''id.acme.io'', 443)]\<rparr>"

lemma acme_urls:
  "parse_url no_idna ''https://id.acme.io'' = Inr (''https'', ''id.acme.io'', 443)"
  "parse_url no_idna ''https://id.acme.io/.well-known/openid-configuration'' = Inr (''https'', ''id.acme.io'', 443)"
  "normalize_host no_idna ''id.acme.io'' = Inr ''id.acme.io''"
  "ip_address ''id.acme.io'' = None"
  by (simp_all add: policy_eval)

lemma acme_policy_built:
  "make_network_policy no_idna ''https://id.acme.io'' False [] 2 5 65536 524288 = Inr acme_policy"
proof -
  have "\<exists>u. urlsplit ''https://id.acme.io'' = Some u \<and> u_query u = []" by (simp add: url_eval)
  then obtain u where "urlsplit ''https://id.acme.io'' = Some u" "u_query u = []" by blast
  moreover have "py_rstrip_char CHR ''/'' ''https://id.acme.io'' = ''https://id.acme.io''"
    by (simp add: py_rstrip_char_def py_rstrip_by_def)
  ultimately show ?thesis
    using acme_urls(1,3) by (simp add: make_network_policy_def acme_policy_def origin_of_def discovery_suffix_def)
qed

lemma acme_network: "build_oidc_network_policy no_idna generic_settings ''https://id.acme.io'' = Inr acme_policy"
  using acme_policy_built by (simp add: build_oidc_network_policy_def generic_settings_def)

lemma acme_assembled: "\<exists>sv. assemble_server Inr no_idna generic_settings = Inr sv \<and> sv_policy sv = acme_policy"
proof -
  have g: "entra_application_id_uri generic_settings = None" "provider generic_settings = Generic"
    "generic_issuer_url generic_settings = Some ''https://id.acme.io''" "given (generic_audience generic_settings)"
    "oidc_allow_insecure_loopback generic_settings = False" "generic_jwks_allowed_origins generic_settings = []"
    by (simp_all add: generic_settings_def given_def)
  then have "resolve_issuer_url generic_settings = Inr ''https://id.acme.io''"
    "build_oidc_network_policy no_idna generic_settings ''https://id.acme.io'' = Inr acme_policy"
    using acme_policy_built by (simp_all add: resolve_issuer_url_def build_oidc_network_policy_def)
  moreover have "\<exists>v. build_token_verifier no_idna generic_settings (Some acme_policy) = Inr v"
    using g by (simp add: build_token_verifier_def given_def)
  moreover obtain svc where "default_registry generic_settings = Inr svc" using default_registry_ok by blast
  then have "build_tool_authorizer generic_settings None = Inr (make_service svc)"
    using g(1) by (simp add: build_tool_authorizer_def)
  ultimately show ?thesis by (auto simp: assemble_server_def build_auth_settings_def)
qed

lemma info_level: "\<exists>level. set_level (log_level Map.empty) = Inr level"
proof -
  have "map upper_char ''INFO'' = ''INFO''" by code_simp
  then show ?thesis by (simp add: log_level_def logging_attribute_def level_numbers_def set_level_def)
qed

lemma acme_server:
  "\<exists>sv lg'. build_server Map.empty ''1.0'' Inr no_idna generic_settings lg = (Inr sv, lg') \<and> sv_policy sv = acme_policy"
proof -
  obtain level where "set_level (log_level Map.empty) = Inr level" using info_level by blast
  then have "\<exists>lg'. configure_logging Map.empty s e v lg = (Inr (), lg')" for s e v
    by (simp add: configure_logging_def Let_def)
  with acme_assembled show ?thesis by (simp add: build_server_Inr_iff)
qed

text \<open>A platform whose observability starts, and whose SDK application writes nothing.\<close>

definition plain_platform :: platform where
  "plain_platform =
     \<lparr>pf_http_url = Inr, pf_validate = (\<lambda>_ _ _. None), pf_metadata_url = id, pf_observability = (\<lambda>_. Inr id),
      pf_sdk_app = (\<lambda>_ _ _ _ _ w. (Returned, w))\<rparr>"

definition cold_process :: process where
  "cold_process =
     \<lparr>pr_logging = \<lparr>lg_processors = [], lg_handlers = [], lg_level = 30, lg_context = []\<rparr>, pr_observing = False\<rparr>"

lemma acme_app:
  "\<exists>sv a pr'. create_app plain_platform Map.empty ''1.0'' no_idna (Inr generic_settings) status cold_process =
     (Inr (sv, a), pr')"
proof -
  obtain sv where sv: "assemble_server Inr no_idna generic_settings = Inr sv" using acme_assembled by blast
  have "url_port \<lparr>u_scheme = ''https'', u_netloc = ''mcp.acme.io'', u_path = ''/mcp'', u_query = [], u_fragment = []\<rparr> = Inr None"
    by (simp add: url_eval)
  moreover have "resource_server_url generic_settings = ''https://mcp.acme.io/mcp''" by (simp add: generic_settings_def)
  ultimately obtain hosts origins where "transport_authority generic_settings = Inr (hosts, origins)"
    by (simp add: transport_authority_def split_url_def example_splits example_hosts Let_def)
  then obtain tsec where t: "build_transport_security generic_settings = Inr tsec"
    by (simp add: build_transport_security_def)
  from info_level obtain level where "set_level (log_level Map.empty) = Inr level" by blast
  with sv t show ?thesis
    by (simp add: create_app_def plain_platform_def build_server_def configure_logging_def Let_def
        build_http_app_def streamable_http_app_def split: prod.splits)
qed

section \<open>Startup\<close>

text \<open>C11: Which accepted settings start. \<open>build_server\<close> yields a server exactly when \<open>LOG_LEVEL\<close> does not name
  one of the two attributes of module \<open>logging\<close> that are no level, the URL type of the SDK's settings
  takes the issuer, and: with Entra, the scope the health tool asks for, qualified with the application
  URI, is a scope token; with a generic provider in production, the issuer and every extra JWKS origin can
  be taken as an origin (no backslash or control character, a host that can be normalised). Of what the
  program itself computes nothing else can fail for accepted settings; the constructors of the SDK
  other than that URL conversion are outside the model.\<close>

theorem server_starts_iff:
  assumes "validate_settings raw = Inr st" and "app_env st = Production \<or> provider st = Entra"
  shows "(\<exists>sv lg'. build_server env ver http_url idna st lg = (Inr sv, lg')) \<longleftrightarrow>
    map upper_char (case env ''LOG_LEVEL'' of None \<Rightarrow> ''INFO'' | Some l \<Rightarrow> l) \<notin> {''BASIC_FORMAT'', ''_STYLES''} \<and>
    (\<exists>issuer u. resolve_issuer_url st = Inr issuer \<and> http_url issuer = Inr u) \<and>
    (if provider st = Entra
     then is_valid_oauth_scope_token (py_rstrip_char CHR ''/'' (or_empty (entra_application_id_uri st)) @ ''/mcp:tools:health'')
     else \<forall>url \<in> set (or_empty (generic_issuer_url st) # generic_jwks_allowed_origins st). plain_url idna url)"
proof -
  have "(\<exists>sv lg'. build_server env ver http_url idna st lg = (Inr sv, lg')) \<longleftrightarrow>
      (\<exists>lg'. configure_logging env (service_name st) (app_env_value (app_env st)) ver lg = (Inr (), lg')) \<and>
      (\<exists>sv. assemble_server http_url idna st = Inr sv)"
    unfolding build_server_Inr_iff by blast
  then show ?thesis unfolding level_taken server_starts [OF assms] .
qed

text \<open>
  Both providers start; the generic server does not when the level names the format string, and the
  Entra server does not when the SDK refuses its issuer.
\<close>

theorem server_starts_iff_witness:
  "(\<exists>sv lg'. build_server Map.empty ''1.0'' Inr no_idna entra_settings (pr_logging cold_process) = (Inr sv, lg')) \<and>
   plain_url no_idna ''https://id.acme.io'' \<and>
   (\<nexists>sv lg'. build_server [''LOG_LEVEL'' \<mapsto> ''basic_format''] ''1.0'' Inr no_idna generic_settings (pr_logging cold_process) =
      (Inr sv, lg')) \<and>
   (\<nexists>sv lg'. build_server Map.empty ''1.0'' (\<lambda>_. Inl (OtherExn ''ValidationError'')) no_idna entra_settings
      (pr_logging cold_process) = (Inr sv, lg'))"
proof (intro conjI)
  have e: "provider entra_settings = Entra" "or_empty (entra_application_id_uri entra_settings) = ''api://mcp''"
    "\<exists>issuer. resolve_issuer_url entra_settings = Inr issuer"
    by (simp_all add: entra_settings_def or_empty_def resolve_issuer_url_def)
  have "is_valid_oauth_scope_token (py_rstrip_char CHR ''/'' ''api://mcp'' @ ''/mcp:tools:health'')" by code_simp
  moreover have "map upper_char ''INFO'' \<notin> {''BASIC_FORMAT'', ''_STYLES''}" by code_simp
  ultimately show "\<exists>sv lg'. build_server Map.empty ''1.0'' Inr no_idna entra_settings (pr_logging cold_process) = (Inr sv, lg')"
    using server_starts_iff [OF entra_settings_valid, of Map.empty "''1.0''" Inr no_idna "pr_logging cold_process"] e by simp
  show "\<nexists>sv lg'. build_server Map.empty ''1.0'' (\<lambda>_. Inl (OtherExn ''ValidationError'')) no_idna entra_settings
      (pr_logging cold_process) = (Inr sv, lg')"
    using server_starts_iff [OF entra_settings_valid, of Map.empty "''1.0''" "\<lambda>_. Inl (OtherExn ''ValidationError'')"
        no_idna "pr_logging cold_process"] e(1) by simp
next
  have g: "app_env generic_settings = Production" "provider generic_settings = Generic"
    "or_empty (generic_issuer_url generic_settings) = ''https://id.acme.io''"
    by (simp_all add: generic_settings_def or_empty_def)
  then show "plain_url no_idna ''https://id.acme.io''"
    using server_starts_iff [OF generic_settings_valid, of Map.empty "''1.0''" Inr no_idna "pr_logging cold_process"]
      acme_server [of "pr_logging cold_process"] by auto
  have "map upper_char ''basic_format'' = ''BASIC_FORMAT''" by code_simp
  then show "\<nexists>sv lg'. build_server [''LOG_LEVEL'' \<mapsto> ''basic_format''] ''1.0'' Inr no_idna generic_settings
      (pr_logging cold_process) = (Inr sv, lg')"
    using server_starts_iff [OF generic_settings_valid, of "[''LOG_LEVEL'' \<mapsto> ''basic_format'']" "''1.0''" Inr no_idna
        "pr_logging cold_process"] g by simp
qed

text \<open>Preflight cannot see these failures: it accepts an application URI with a space, no server starts with it.\<close>

lemma preflight_accepts_unstartable:
  defines "st \<equiv> entra_settings\<lparr>entra_application_id_uri := Some ''api://my app''\<rparr>"
  shows "\<exists>report. build_preflight_report st = Inr report" and "assemble_server http_url idna st \<noteq> Inr sv"
proof -
  have v: "validate_settings st = Inr st" unfolding st_def by (rule entra_settings_with_uri) simp
  then show "\<exists>report. build_preflight_report st = Inr report"
    by (simp add: build_preflight_report_def validate_preflight_settings_def)
  have "\<not> is_valid_oauth_scope_token (py_rstrip_char CHR ''/'' ''api://my app'' @ ''/mcp:tools:health'')" by code_simp
  moreover have "provider st = Entra" "or_empty (entra_application_id_uri st) = ''api://my app''"
    by (simp_all add: st_def entra_settings_def or_empty_def)
  ultimately show "assemble_server http_url idna st \<noteq> Inr sv" using server_starts [OF v, of http_url idna] by auto
qed

section \<open>Logging\<close>

text \<open>C33: Starting leaves logging and observability as they must be. When the construction fails, observability
  is not running. When it succeeds, observability runs, the root has the level the environment names, and
  of every record, of structlog or of any other
  logger, whatever the processors of the libraries added: the handler \<open>configure_logging\<close> installs on the
  root writes it exactly once when its level and its loggers let it pass, otherwise not at all, and what
  it writes has every field of a sensitive name, at any depth, replaced; the same holds of the handlers
  other libraries put on their own loggers for the records of structlog, and every line of another
  library's record is clean when none of its loggers has a handler of its own that takes it.\<close>

theorem process_logging:
  assumes "create_app pf env ver idna loaded status pr = (res, pr')" and "\<not> pr_observing pr"
  shows "case res of
      Inl e \<Rightarrow> \<not> pr_observing pr'
    | Inr r \<Rightarrow> pr_observing pr' \<and> set_level (log_level env) = Inr (lg_level (pr_logging pr')) \<and>
        (\<forall>libs current_span record.
           list_all (\<lambda>line. clean (PDict (line_event line)))
             (filter is_root_line (written_lines libs current_span (pr_logging pr') record)) \<and>
           length (filter is_root_line (written_lines libs current_span (pr_logging pr') record)) =
             (if effective_level (lr_loggers record) (lg_level (pr_logging pr')) \<le> lr_level record \<and>
                 list_all lo_propagate (lr_loggers record) then 1 else 0) \<and>
           (lr_from_structlog record \<or> own_handlers (lr_level record) (lr_loggers record) = [] \<longrightarrow>
             list_all (\<lambda>line. clean (PDict (line_event line))) (written_lines libs current_span (pr_logging pr') record)))"
proof (cases res)
  case (Inl e)
  then show ?thesis using assms create_app_Inl by simp
next
  case (Inr r)
  then obtain sv a where r: "res = Inr (sv, a)" by (cases r) simp
  obtain st tracing where "loaded = Inr st" "pf_observability pf (build_observability_settings ver st) = Inr tracing"
    "configure_logging env (service_name st) (app_env_value (app_env st)) ver (pr_logging pr) = (Inr (), pr_logging pr')"
    "assemble_server (pf_http_url pf) idna st = Inr sv" "build_http_app pf sv st status tracing = Inr a" "pr_observing pr'"
    using assms(1) unfolding r by (rule create_app_Inr)
  then show ?thesis using written_lines_clean written_lines_root configure_logging_Inr(3) r by simp
qed

text \<open>A process that started: the record of a library on a propagating logger is written once, and clean.\<close>

theorem process_logging_witness:
  "\<exists>sv a pr'. create_app plain_platform Map.empty ''1.0'' no_idna (Inr generic_settings) initial_status cold_process =
     (Inr (sv, a), pr') \<and> pr_observing pr' \<and>
     (\<forall>libs. \<exists>line. filter is_root_line (written_lines libs None (pr_logging pr')
        \<lparr>lr_level = 50, lr_event = [(''token'', PStr ''t'')], lr_from_structlog = False,
         lr_loggers = [\<lparr>lo_level = 20, lo_handlers = [], lo_propagate = True\<rparr>]\<rparr>) = [line] \<and>
        clean (PDict (line_event line)))"
proof -
  let ?r = "\<lparr>lr_level = 50, lr_event = [(''token'', PStr ''t'')], lr_from_structlog = False,
         lr_loggers = [\<lparr>lo_level = 20, lo_handlers = [], lo_propagate = True\<rparr>]\<rparr> :: log_record"
  obtain sv a pr' where c: "create_app plain_platform Map.empty ''1.0'' no_idna (Inr generic_settings) initial_status
      cold_process = (Inr (sv, a), pr')" using acme_app by blast
  have o: "\<not> pr_observing cold_process" by (simp add: cold_process_def)
  note p = process_logging [OF c o, unfolded sum.case, THEN conjunct2]
  have "\<exists>line. filter is_root_line (written_lines libs None (pr_logging pr') ?r) = [line] \<and>
      clean (PDict (line_event line))" for libs
  proof -
    have "length (filter is_root_line (written_lines libs None (pr_logging pr') ?r)) = 1"
      using p [THEN conjunct2, rule_format, of libs None ?r] by simp
    then obtain line where l: "filter is_root_line (written_lines libs None (pr_logging pr') ?r) = [line]"
      by (auto simp: length_Suc_conv)
    then show ?thesis using p [THEN conjunct2, rule_format, of libs None ?r] by (simp del: clean.simps)
  qed
  then show ?thesis using c process_logging [OF c o] by auto
qed

section \<open>Requests\<close>

text \<open>C15: What becomes of an HTTP request to a built application. The stack inside admission is the tracing
  middleware of the kit, the probes, the scope challenges and the SDK's application, in this order. A
  probe path with an acceptable envelope goes into it without taking a slot; any other request goes into
  it exactly when its envelope, Host and Origin are accepted, its method is POST where it is for the MCP
  path, and a slot is free, and then the slot is taken before and given back after. Every other request
  is answered with a rejection of admission alone, whatever the SDK's application or the tracing
  would do. In the stack the probes answer the two probe paths without what they wrap, and pass every other
  path on to it.\<close>

theorem request_path:
  assumes "create_app pf env ver idna loaded status pr = (Inr (sv, a), pr')" and "sc_type sc = ''http''"
  shows "\<exists>st tsec tracing. loaded = Inr st \<and> build_transport_security st = Inr tsec \<and>
    pf_observability pf (build_observability_settings ver st) = Inr tracing \<and>
    (let ad = admission_of (pf_validate pf) st tsec True;
         stack = tracing (probe_middleware status (progressive_middleware (pf_metadata_url pf (resource_server_url st))
           ''/mcp'' (pf_sdk_app pf sv st tsec)))
     in if envelope_ok ad sc \<and> sc_path sc \<in> {''/livez'', ''/readyz''} then a sc send w = stack sc send w
        else if transport_ok ad sc \<and> w_in_flight w < transport_max_concurrent_requests st
        then a sc send w =
          (case stack sc send (w\<lparr>w_in_flight := w_in_flight w + 1\<rparr>) of (out, w') \<Rightarrow> (out, release w'))
        else \<exists>rejection w1. a sc send w = respond rejection send w1 \<and> w_out w1 = w_out w \<and>
          w_in_flight w1 = w_in_flight w \<and>
          (rs_status rejection \<in> {400, 405, 431, 503} \<or>
           pf_validate pf tsec sc (sc_method sc = ''POST'') = Some rejection) \<and>
          (\<forall>sdk traced. \<exists>a'. create_app (pf\<lparr>pf_sdk_app := sdk, pf_observability := \<lambda>_. Inr traced\<rparr>) env ver idna
             loaded status pr = (Inr (sv, a'), pr') \<and> a' sc send w = respond rejection send w1)) \<and>
    (if sc_path sc \<in> {''/livez'', ''/readyz''}
     then \<forall>inner inner'. probe_middleware status inner sc = probe_middleware status inner' sc
     else \<forall>inner. probe_middleware status inner sc = inner sc)"
proof -
  obtain st tsec tracing where c: "loaded = Inr st" "build_transport_security st = Inr tsec"
    "pf_observability pf (build_observability_settings ver st) = Inr tracing"
    and a: "a = admission_middleware (admission_of (pf_validate pf) st tsec True)
       (traced_stack pf tracing st status (pf_sdk_app pf sv st tsec))"
    and others: "\<And>sdk traced. create_app (pf\<lparr>pf_sdk_app := sdk, pf_observability := \<lambda>_. Inr traced\<rparr>) env ver idna
      loaded status pr = (Inr (sv, admission_middleware (admission_of (pf_validate pf) st tsec True)
         (traced_stack pf traced st status (sdk sv st tsec))), pr')"
    using create_app_stack [OF assms(1)] by metis
  define ad where "ad = admission_of (pf_validate pf) st tsec True"
  have f: "ad_max_concurrent ad = transport_max_concurrent_requests st"
    "ad_validate ad sc (sc_method sc = ''POST'') = pf_validate pf tsec sc (sc_method sc = ''POST'')"
    by (simp_all add: ad_def admission_of_def)
  note op = built_operational [of "pf_validate pf" st tsec sc, folded ad_def]
  note stack = traced_stack_def [of pf tracing st status "pf_sdk_app pf sv st tsec", unfolded mcp_http_path_def, symmetric]
  show ?thesis
    unfolding Let_def stack ad_def [symmetric]
  proof (intro exI [of _ st] exI [of _ tsec] exI [of _ tracing] conjI c probe_split [OF assms(2)],
      unfold ad_def [symmetric], goal_cases)
    case 1
    show ?case
    proof (cases "envelope_ok ad sc \<and> sc_path sc \<in> {''/livez'', ''/readyz''}")
      case True
      with op have "is_operational ad sc" by blast
      with True show ?thesis
        unfolding if_P [OF True] stack a ad_def [symmetric] using admission_operational [OF assms(2)] by blast
    next
      case np: False
      show ?thesis
      proof (cases "transport_ok ad sc \<and> w_in_flight w < transport_max_concurrent_requests st")
        case True
        then have "\<not> is_operational ad sc" using np op by (simp add: transport_ok_def)
        with True f(1) show ?thesis
          unfolding if_not_P [OF np] if_P [OF True] stack a ad_def [symmetric]
          using admission_admits [OF assms(2)] by simp
      next
        case False
        have "\<not> envelope_ok ad sc \<or>
            (\<not> is_operational ad sc \<and> (\<not> transport_ok ad sc \<or> ad_max_concurrent ad \<le> w_in_flight w))"
          using np op False f(1) by auto
        from admission_rejects [OF assms(2) this] a ad_def obtain r w1 where
          "a sc send w = respond r send w1" "w_out w1 = w_out w" "w_in_flight w1 = w_in_flight w"
          "\<And>app'. admission_middleware ad app' sc send w = respond r send w1"
          "rs_status r \<in> {400, 405, 431, 503} \<or> pf_validate pf tsec sc (sc_method sc = ''POST'') = Some r"
          unfolding f(2) by metis
        then show ?thesis
          unfolding if_not_P [OF np] if_not_P [OF False] others ad_def [symmetric] by blast
      qed
    qed
  qed
qed

theorem request_path_witness:
  "\<exists>sv a pr'. create_app plain_platform Map.empty ''1.0'' no_idna (Inr generic_settings) initial_status cold_process =
     (Inr (sv, a), pr') \<and>
   a \<lparr>sc_type = ''http'', sc_method = ''POST'', sc_path = ''/mcp'', sc_headers = []\<rparr> (\<lambda>_ w. (Returned, w))
     \<lparr>w_out = [], w_audit = [], w_context = None, w_replaced = False, w_in_flight = 0\<rparr> =
   (case probe_middleware initial_status (progressive_middleware ''https://mcp.acme.io/mcp'' ''/mcp'' (\<lambda>_ _ w. (Returned, w)))
       \<lparr>sc_type = ''http'', sc_method = ''POST'', sc_path = ''/mcp'', sc_headers = []\<rparr> (\<lambda>_ w. (Returned, w))
       \<lparr>w_out = [], w_audit = [], w_context = None, w_replaced = False, w_in_flight = 1\<rparr> of (out, w') \<Rightarrow> (out, release w'))"
proof -
  let ?sc = "\<lparr>sc_type = ''http'', sc_method = ''POST'', sc_path = ''/mcp'', sc_headers = []\<rparr> :: asgi_scope"
  let ?w = "\<lparr>w_out = [], w_audit = [], w_context = None, w_replaced = False, w_in_flight = 0\<rparr> :: world"
  obtain sv a pr' where c: "create_app plain_platform Map.empty ''1.0'' no_idna (Inr generic_settings) initial_status
      cold_process = (Inr (sv, a), pr')" using acme_app by blast
  have pf: "pf_validate plain_platform = (\<lambda>_ _ _. None)" "pf_metadata_url plain_platform = id"
    "pf_observability plain_platform = (\<lambda>_. Inr id)"
    "pf_sdk_app plain_platform = (\<lambda>_ _ _ _ _ w. (Returned, w))"
    by (simp_all add: plain_platform_def)
  have adm: "transport_ok (admission_of (\<lambda>_ _ _. None) generic_settings tsec True) ?sc" for tsec
    by (simp add: transport_ok_def admission_of_def envelope_ok_def header_bytes_def header_names_def generic_settings_def)
  have free: "0 < transport_max_concurrent_requests generic_settings" by (simp add: generic_settings_def)
  have url: "resource_server_url generic_settings = ''https://mcp.acme.io/mcp''" by (simp add: generic_settings_def)
  have sc: "sc_type ?sc = ''http''" by simp
  show ?thesis
    using request_path [OF c sc, where w = ?w and send = "\<lambda>_ w. (Returned, w)"] c
    by (simp add: pf adm url free)
qed

section \<open>Responses of the deployment\<close>

definition public_dns :: "unit resolver" where
  "public_dns host port w = (Inr [IPv4 0x08080808], w)"

definition acme_request :: oidc_request where
  "acme_request =
     \<lparr>rq_method = ''GET'', rq_url = ''https://id.acme.io/.well-known/openid-configuration'', rq_headers = Map.empty\<rparr>"

definition acme_wire :: wire_request where
  "acme_wire =
     \<lparr>wr_method = ''GET'', wr_url = ''https://id.acme.io/.well-known/openid-configuration'', wr_connect = IPv4 0x08080808,
      wr_headers = [''host'' \<mapsto> ''id.acme.io'', ''accept-encoding'' \<mapsto> ''identity''], wr_timeout = 5,
      wr_sni = Some ''id.acme.io''\<rparr>"

definition acme_sent :: "unit transport_state" where
  "acme_sent =
     \<lparr>ts_children = [((''https'', ''id.acme.io'', 443), 0)], ts_created = 1, ts_audit = [], ts_closed = 0,
      ts_wire = [(0, acme_wire)], ts_env = ()\<rparr>"

definition answering :: "http_response \<Rightarrow> unit child_send" where
  "answering raw child wire w = (Inr raw, w)"

lemma acme_handled:
  assumes "hr_status raw = 200" and "hr_headers raw = Map.empty"
  shows "handle_request no_idna (policy_resolve no_idna public_dns acme_policy) (response_limit_for no_idna acme_policy)
     5 8 (answering raw) [] acme_request idle_transport = (Inr (bounded_response 65536 raw), acme_sent)"
proof -
  have "policy_resolve no_idna public_dns acme_policy (rq_url acme_request) () =
     (Inr \<lparr>rt_scheme = ''https'', rt_host = ''id.acme.io'', rt_port = 443, rt_ip = IPv4 0x08080808, rt_kind = Discovery\<rparr>, ())"
    using acme_urls example_urls(6,7)
    by (simp add: policy_resolve_def request_kind_def acme_request_def choose_target_def acme_policy_def public_dns_def)
  moreover have "response_limit_for no_idna acme_policy (rq_url acme_request) = Inr 65536"
    by (simp add: response_limit_for_def request_kind_def acme_request_def acme_policy_def)
  moreover have "render_host_header ''id.acme.io'' 443 ''https'' = Inr ''id.acme.io''"
    using acme_urls(4) by (simp add: render_host_header_def default_port_def)
  moreover have "rq_method acme_request = ''GET''" "\<not> has_credentials acme_request"
    "wire_request_of 5 acme_request \<lparr>rt_scheme = ''https'', rt_host = ''id.acme.io'', rt_port = 443,
       rt_ip = IPv4 0x08080808, rt_kind = Discovery\<rparr> ''id.acme.io'' = acme_wire"
    by (simp_all add: acme_request_def has_credentials_def wire_request_of_def acme_wire_def)
  moreover have "py_strip (py_lower ''identity'') = ''identity''" by code_simp
  ultimately show ?thesis
    using acme_urls(3) assms
    by (simp add: handle_request_def idle_transport_def set_env_def transport_for_def origin_of_def locked_child_def
        Let_def answering_def receive_response_def content_encoding_of_def check_content_length_def acme_sent_def)
qed

text \<open>C10: A response the transport of a configured server returns is one the network gave to the one request
  sent, with its status and headers. It is no redirect, is not compressed, and a length it declares is a
  number between 0 and the limit of its kind: 65536 bytes for the discovery document and 524288 for a
  JWKS. A body within the limit is passed on unchanged, chunk by chunk and with the error that ended it,
  if any; a longer one is cut to chunks within the limit and always ends with the size error.\<close>

theorem response_bounded:
  assumes "build_oidc_network_policy idna settings issuer = Inr pol"
    and "handle_request idna (policy_resolve idna resolver pol) (response_limit_for idna pol) timeout max_hosts
      network others req st = (Inr r, st')"
  shows "\<exists>child wr raw limit. limit = (if rq_url req = np_discovery_url pol then 65536 else 524288) \<and>
    ts_wire st' = ts_wire st @ [(child, wr)] \<and>
    fst (network child wr (snd (policy_resolve idna resolver pol (rq_url req) (ts_env st)))) = Inr raw \<and>
    hr_status r = hr_status raw \<and> hr_headers r = hr_headers raw \<and>
    \<not> (300 \<le> hr_status r \<and> hr_status r < 400) \<and> content_encoding_of r \<in> {[], ''identity''} \<and>
    (case hr_headers r ''content-length'' of None \<Rightarrow> True
     | Some v \<Rightarrow> (\<exists>n. py_int v = Some n \<and> 0 \<le> n \<and> n \<le> limit)) \<and>
    (if int (length (concat (hr_chunks raw))) \<le> limit
     then hr_chunks r = hr_chunks raw \<and> hr_fault r = hr_fault raw
     else (\<exists>cut. hr_chunks raw = hr_chunks r @ cut) \<and> int (length (concat (hr_chunks r))) \<le> limit \<and>
          hr_fault r = Some (OidcNetworkSecurityError ''OIDC response exceeded the configured size limit''))"
proof -
  obtain c wr raw l where h: "ts_wire st' = ts_wire st @ [(c, wr)]"
    "fst (network c wr (snd (policy_resolve idna resolver pol (rq_url req) (ts_env st)))) = Inr raw"
    "response_limit_for idna pol (rq_url req) = Inr l" "check_content_length l raw = Inr ()" "r = bounded_response l raw"
    "\<not> (300 \<le> hr_status raw \<and> hr_status raw < 400)" "content_encoding_of raw \<in> {[], ''identity''}"
    using assms(2) by (rule oidc_net.handle_request_response)
  have "np_discovery_max_bytes pol = 65536" "np_jwks_max_bytes pol = 524288"
    using assms(1) by (auto simp: build_oidc_network_policy_def elim!: make_network_policy_Inr)
  then have l: "l = (if rq_url req = np_discovery_url pol then 65536 else 524288)"
    using h(3) by (auto simp: response_limit_for_def request_kind_def rbind_Inr_iff split: if_splits)
  then have "0 \<le> l" by (simp split: if_splits)
  note b = bounded_response_relay [OF this, of raw, folded h(5), unfolded bounded_relay_def]
  have "content_encoding_of r = content_encoding_of raw" using b by (simp add: content_encoding_of_def)
  then show ?thesis
    using h(1-4,6,7) b unfolding check_content_length_Inr
    by (intro exI [of _ c] exI [of _ wr] exI [of _ raw] exI [of _ l] conjI l) simp_all
qed

text \<open>A document one byte too long: the chunk that fits is passed on, and the stream ends with the error.\<close>

definition flood :: http_response where
  "flood = \<lparr>hr_status = 200, hr_headers = Map.empty, hr_chunks = [''a'', replicate 65536 CHR ''x''], hr_fault = None\<rparr>"

theorem response_bounded_witness:
  "build_oidc_network_policy no_idna generic_settings ''https://id.acme.io'' = Inr acme_policy \<and>
   (\<exists>r. handle_request no_idna (policy_resolve no_idna public_dns acme_policy) (response_limit_for no_idna acme_policy)
       5 8 (answering flood) [] acme_request idle_transport = (Inr r, acme_sent) \<and>
     int (length (concat (hr_chunks r))) \<le> 65536 \<and>
     hr_fault r = Some (OidcNetworkSecurityError ''OIDC response exceeded the configured size limit''))"
proof -
  let ?r = "bounded_response 65536 flood"
  have h: "handle_request no_idna (policy_resolve no_idna public_dns acme_policy) (response_limit_for no_idna acme_policy)
       5 8 (answering flood) [] acme_request idle_transport = (Inr ?r, acme_sent)"
    by (rule acme_handled) (simp_all add: flood_def)
  have "rq_url acme_request = np_discovery_url acme_policy" by (simp add: acme_request_def acme_policy_def)
  moreover have "int (length (concat (hr_chunks flood))) = 65537" by (simp add: flood_def)
  ultimately have "int (length (concat (hr_chunks ?r))) \<le> 65536 \<and>
     hr_fault ?r = Some (OidcNetworkSecurityError ''OIDC response exceeded the configured size limit'')"
    using response_bounded [OF acme_network h] by (auto simp: answering_def)
  then show ?thesis using acme_network h by blast
qed

end
