(* ===== verification/Spec2Isabelle.thy ===== *)
theory Spec2Isabelle
  imports Access_Properties Oidc_Properties Entrypoint_Properties Governance_Properties Release_Properties
    Publication_Properties Contract_Properties Startup_Properties
begin

text \<open>
  This development models the Python program in \<open>src/src/mcp_server_auth_template\<close>, an MCP server
  that acts as an OAuth resource server, and the gates under \<open>src/scripts\<close> that guard its releases.
  A request passes admission, tracing, probes and the progressive-authorization middleware, is
  authenticated by a token verifier that fetches the issuer's metadata and keys over a pinned HTTP
  transport, and reaches a tool only through the tool-authorization middleware.

  \<^bold>\<open>Theories and the code they model.\<close> \<open>Prelude\<close>: errors as values (\<open>exn\<close>, \<open>result\<close>), the string methods
  of Python, sorted sets, dictionaries and JSON values. \<open>Python_Ip\<close>, \<open>Python_Url\<close>, \<open>Python_Uuid\<close>,
  \<open>Python_Date\<close>: the parts of \<open>ipaddress\<close>, \<open>urllib.parse\<close>, \<open>uuid\<close> and \<open>datetime\<close> that decisions rest on.
  \<open>Domain\<close>: \<open>domain/\<close>. \<open>Tool_Authorization\<close>: \<open>application/tool_authorization.py\<close>, with the locale
  \<open>tool_authorizer\<close>. \<open>Mcp_Principal\<close>, \<open>Security_Audit\<close>: the adapters of those names. \<open>Asgi\<close>: applications
  and \<open>send\<close> as functions on an explicit world, with the locales \<open>asgi_middleware\<close> and \<open>asgi_stack\<close> that
  \<open>Http_Admission\<close> (\<open>http_transport_security.py\<close>), \<open>Runtime_Probes\<close> and \<open>Progressive_Auth_Http\<close> (with
  \<open>Header_Codec\<close> for the sentinel encoding) instantiate. \<open>Oidc_Policy\<close> and \<open>Oidc_Transport\<close>:
  \<open>oidc_http_security.py\<close>, policy and transport, joined by the locale \<open>pinned_policy\<close>. \<open>Oidc_Json\<close>,
  \<open>Oidc_Discovery\<close>, \<open>Jwks_Key_Resolver\<close>, \<open>Token_Verifiers\<close>, \<open>Progressive_Token_Verifier\<close>: the verifier
  chain; the ports of \<open>application/auth_ports.py\<close> are the locales \<open>discovery_port\<close>,
  \<open>key_resolver_port\<close> and \<open>oidc_ports\<close>, the SDK's \<open>TokenVerifier\<close> contract is \<open>token_verifier\<close>.
  \<open>Mcp_Tool_Authorization\<close>, \<open>Tracing\<close>: the remaining adapters. \<open>Settings\<close>, \<open>Mcp_Server\<close>, \<open>Preflight\<close>,
  \<open>Logging_Redaction\<close>, \<open>Logging_Setup\<close>, \<open>Server_Startup\<close>: \<open>entrypoints/\<close>. \<open>Mcp_Server\<close> has the builders
  and \<open>assemble_server\<close>, the part of \<open>build_server\<close> after its call of \<open>configure_logging\<close>; \<open>Server_Startup\<close>
  has \<open>build_server\<close> and \<open>create_app\<close> with the logging and the observability of the process.
  \<open>Logging_Setup\<close> follows a record through the loggers of the process: to the handlers other libraries
  put on them, and to the root's handler. The scripts under \<open>scripts/\<close>: \<open>Vulnerability_Policy\<close>
  (\<open>enforce_vulnerability_policy.py\<close>), \<open>Governance_Gate\<close> (\<open>governance_gate.py\<close>), \<open>Architecture_Gate\<close>
  (\<open>validate_architecture.py\<close>), \<open>Auth_Transport_Contract\<close> (\<open>auth_transport_contract.py\<close>),
  \<open>Registry_Metadata\<close> (\<open>validate_registry_metadata.py\<close>), \<open>Supply_Chain\<close> and \<open>Supply_Chain_Baseline\<close>
  (\<open>validate_supply_chain.py\<close>), over \<open>Python_Text\<close>: lines, counts and the order of first occurrences;
  over \<open>Python_Json\<close> (\<open>json.dumps\<close> and patterns the scripts share) \<open>Security_Evidence\<close>
  (\<open>validate_security_evidence.py\<close>), \<open>Release_Artifacts\<close> (\<open>prepare_release_artifacts.py\<close>),
  \<open>Multiarch_Evidence\<close> (\<open>prepare_multiarch_image_evidence.py\<close>), \<open>Release_Publication\<close>
  (\<open>prepare_release_publication.py\<close>; its facts are in \<open>Release_Bundle\<close>, a bundle that passes in
  \<open>Release_Example\<close>), \<open>Registry_Publication\<close> (\<open>validate_registry_publication.py\<close>),
  \<open>Compatibility_Contract\<close>, \<open>Cross_Repository\<close>, \<open>Quality_Gate\<close> and \<open>Loop_Schema_Vendor\<close> (the scripts of
  those names), \<open>Loop_Contracts\<close> (\<open>validate_loop_contracts.py\<close> with \<open>_vendor_loop_schemas\<close>). A run of a
  script is a function from what it reads to its exit code and what it writes.

  \<^bold>\<open>State and effects.\<close> A handler takes the state and returns it: the ASGI \<open>world\<close> holds the messages
  sent, the audit log, the request context and the admission counter; \<open>transport_state\<close> the pools and
  the wire; \<open>oidc_state\<close> the caches and the rest of the program's environment \<open>'w\<close>. An \<open>await\<close> at which
  other tasks may run is a call that may change that environment; the tasks that get a lock first are
  listed by the environment (\<open>e_keys_waiters\<close>, \<open>e_metadata_waiters\<close>, the \<open>others\<close> of \<open>transport_for\<close>).
  Admission under concurrency is the step relation \<open>admission_step\<close>.

  \<^bold>\<open>What the lemmas show.\<close> \<open>Access_Properties\<close>: tool calls and tool lists follow the access-control
  specification \<open>may_invoke\<close>, admission and step-up. \<open>Oidc_Properties\<close>: accepted tokens, signing keys,
  outbound requests, bounds and caches. \<open>Entrypoint_Properties\<close>: settings, preflight, logging, tracing,
  lifecycle and the compatibility matrix. \<open>Governance_Properties\<close>: vulnerability policy, governance and
  architecture. \<open>Release_Properties\<close>: registry metadata and workflows. \<open>Publication_Properties\<close>: the way of
  a release from the build directories to the assets: what the artifact tool writes the publication tool
  accepts, the image evidence is bound to tag, commit and digest, the checksums cover every asset, the
  component loop ends. \<open>Contract_Properties\<close>: the contract with the client repository (comparing canonical
  texts compares contracts) and registry responses. \<open>Startup_Properties\<close>: which accepted settings start,
  what the running process logs, what becomes of a request to the built application, and what the
  deployment's transport returns. This theory joins components. The gates on workflows are about texts:
  \<open>Release_Properties\<close> says which lines they read and shows where that is less than the workflow.

  \<^bold>\<open>Parameters.\<close> Third-party behaviour is an argument of the definitions that use it: \<open>loads\<close> (the JSON
  grammar), the idna codec, \<open>getaddrinfo\<close>, PyJWT's decoding, header parsing and \<open>PyJWK.from_dict\<close>,
  httpx's network, cache expiry of cachetools, the clock, the SDK's application and Host/Origin check,
  the URL type of the SDK's settings, Starlette's metadata URL and the kit's observability (the record
  \<open>platform\<close>), the processors of structlog
  (\<open>log_libs\<close>), the Langfuse client, \<open>repr\<close>, and for the scripts the archive formats, the
  package header parser, SHA-256, the text of a float, TOML, YAML and Python parsing, globbing, and running
  a command. A file is what reading it gives: a document, undecodable bytes, a syntax error or no file.
  Strings are sequences of code points below 256. Numbers are unbounded as in Python; floats are
  rationals. No fuel is used: recursions are on the data, with a measure where they are not structural;
  the loop of \<open>component_names\<close> is a \<open>while_option\<close> whose end is proved.

  \<^bold>\<open>Not modelled.\<close> Parsing of environment variables by pydantic, argparse, the text
  the log renderers produce, the configuration of OpenTelemetry, the constructors of the SDK other than the
  URL conversion of its settings, what the scripts print beyond their errors, file access and failing
  writes of output files are effects without decisions of the program's own. The record
  types of evidence, verdicts and builder results in \<open>_vendor_loop_schemas/models.py\<close> have no operation and
  no user in the repository.
\<close>

section \<open>The OIDC boundary in production\<close>

text \<open>C2: A server built from accepted production settings never lets an OIDC request out to anything but a
  global address over TLS: every request that handling adds to the wire is a GET without credential
  headers for the URL asked for; that URL is https, its host is the TLS server name and the Host header
  (with the port where it is not 443), and the connection goes to an address that is global and not
  loopback even behind an IPv4-mapped IPv6 form. This holds for every resolver answer.\<close>

theorem outbound_production_safe:
  assumes "validate_settings raw = Inr st" and "app_env st = Production"
    and "build_server env ver http_url idna st lg = (Inr sv, lg')"
    and "handle_request idna (policy_resolve idna resolver (sv_policy sv)) (response_limit_for idna (sv_policy sv))
      timeout max_hosts network others req ts = (res, ts')"
    and "(child, wr) \<in> set (ts_wire ts')" and "(child, wr) \<notin> set (ts_wire ts)"
  shows "is_global (effective_address (wr_connect wr)) \<and> \<not> is_loopback (effective_address (wr_connect wr)) \<and>
    (\<exists>host port. parse_url idna (rq_url req) = Inr (''https'', host, port) \<and> wr_sni wr = Some host \<and>
       (\<exists>header. render_host_header host port ''https'' = Inr header \<and> wr_headers wr ''host'' = Some header)) \<and>
    wr_url wr = rq_url req \<and> wr_method wr = ''GET'' \<and> wr_headers wr ''authorization'' = None \<and>
    wr_headers wr ''proxy-authorization'' = None"
proof -
  have "\<not> oidc_allow_insecure_loopback st" using production_accepted(1) [OF assms(1,2)] .
  moreover have "assemble_server http_url idna st = Inr sv" using assms(3) by (simp add: build_server_Inr_iff)
  ultimately have closed: "\<not> np_allow_insecure_loopback (sv_policy sv)"
    by (auto simp: build_oidc_network_policy_def elim!: assemble_server_Inr make_network_policy_Inr)
  from handle_request_pinned [OF assms(4)] assms(5,6) obtain scheme host port answers where
    w: "pinned_wire idna resolver (sv_policy sv) req (ts_env ts) wr scheme host port answers" by auto
  then have "address_admitted (sv_policy sv) scheme (wr_connect wr)" by (auto simp: pinned_wire_def)
  then have "scheme = ''https''" "is_global (effective_address (wr_connect wr))"
    using closed by (auto simp: address_admitted_def)
  then show ?thesis using w loopback_not_global by (auto simp: pinned_wire_def)
qed

theorem outbound_production_safe_witness:
  "validate_settings generic_settings = Inr generic_settings \<and> app_env generic_settings = Production \<and>
   (\<exists>sv lg' res. build_server Map.empty ''1.0'' Inr no_idna generic_settings (pr_logging cold_process) = (Inr sv, lg') \<and>
     handle_request no_idna (policy_resolve no_idna public_dns (sv_policy sv)) (response_limit_for no_idna (sv_policy sv))
       5 8 (answering flood) [] acme_request idle_transport = (res, acme_sent)) \<and>
   ts_wire idle_transport = [] \<and> ts_wire acme_sent = [(0, acme_wire)] \<and>
   is_global (effective_address (wr_connect acme_wire)) \<and> wr_sni acme_wire = Some ''id.acme.io'' \<and>
   parse_url no_idna (wr_url acme_wire) = Inr (''https'', ''id.acme.io'', 443)"
proof -
  obtain sv lg' where sv: "build_server Map.empty ''1.0'' Inr no_idna generic_settings (pr_logging cold_process) = (Inr sv, lg')"
    "sv_policy sv = acme_policy" using acme_server by blast
  have h: "handle_request no_idna (policy_resolve no_idna public_dns acme_policy) (response_limit_for no_idna acme_policy)
       5 8 (answering flood) [] acme_request idle_transport = (Inr (bounded_response 65536 flood), acme_sent)"
    by (rule acme_handled) (simp_all add: flood_def)
  have p: "app_env generic_settings = Production" by (simp add: generic_settings_def)
  have w: "(0, acme_wire) \<in> set (ts_wire acme_sent)" "(0, acme_wire) \<notin> set (ts_wire idle_transport)"
    "ts_wire idle_transport = []" "ts_wire acme_sent = [(0, acme_wire)]"
    by (simp_all add: acme_sent_def idle_transport_def)
  have u: "parse_url no_idna (rq_url acme_request) = Inr (''https'', ''id.acme.io'', 443)" "wr_url acme_wire = rq_url acme_request"
    using acme_urls(2) by (simp_all add: acme_request_def acme_wire_def)
  have "is_global (effective_address (wr_connect acme_wire))" "wr_sni acme_wire = Some ''id.acme.io''"
    using outbound_production_safe [OF generic_settings_valid p sv(1), unfolded sv(2), OF h w(1,2)] u(1) by auto
  then show ?thesis using generic_settings_valid p sv h w u by auto
qed

section \<open>Scope names on both sides\<close>

text \<open>C26: Under Entra, the registry qualifies the scopes of its policies and the verifier those of the
  token. The two agree: a delegated principal whose raw token scopes cover the raw scopes of a
  tool's policy may invoke the tool after both were qualified.\<close>

theorem entra_scopes_agree:
  assumes "build_tool_authorizer st (Some registry) = Inr svc" and "provider st = Entra"
    and "entra_application_id_uri st = Some uri" and "map_of registry tool = Some pol"
    and "tp_kind pol = DELEGATED_SCOPES" and "fset (tp_permissions pol) \<subseteq> set raw_scopes"
    and "p_kind p = DELEGATED" and "fset (p_scopes p) = set (qualify_scopes raw_scopes uri)"
  shows "allowed (authorize svc tool (Some p))"
  using entra_qualification_agrees [OF assms] by (simp add: authorize_allowed_iff)

theorem entra_scopes_agree_witness:
  "\<exists>svc. build_tool_authorizer entra_settings
      (Some [(''deploy'', \<lparr>tp_kind = DELEGATED_SCOPES, tp_permissions = {|''run''|}\<rparr>)]) = Inr svc \<and>
    allowed (authorize svc ''deploy'' (Some \<lparr>p_client_id = ''c'', p_subject = None, p_issuer = None, p_kind = DELEGATED,
      p_scopes = {|''api://mcp/read'', ''api://mcp/run''|}, p_roles = {||}\<rparr>))"
proof -
  let ?reg = "[(''deploy'', \<lparr>tp_kind = DELEGATED_SCOPES, tp_permissions = {|''run''|}\<rparr>)]"
  have q: "qualify_scopes [''run''] ''api://mcp'' = [''api://mcp/run'']"
    "qualify_scopes [''run'', ''read''] ''api://mcp'' = [''api://mcp/read'', ''api://mcp/run'']" by code_simp+
  have e: "provider entra_settings = Entra" "entra_application_id_uri entra_settings = Some ''api://mcp''"
    by (simp_all add: entra_settings_def)
  have "is_valid_oauth_scope_token ''api://mcp/run''" by code_simp
  moreover have "permissions_of [''api://mcp/run''] = Inr {|''api://mcp/run''|}"
    by (simp add: permissions_of_def Let_def flip: fset_of_list_filter)
  ultimately have "\<exists>svc. build_tool_authorizer entra_settings (Some ?reg) = Inr svc"
    by (simp add: build_tool_authorizer_def e effective_policy_def sorted_list_of_fset.rep_eq q
        policy_delegated_scopes_def scope_permissions_def make_policy_def Let_def)
  then obtain svc where svc: "build_tool_authorizer entra_settings (Some ?reg) = Inr svc" by blast
  have "allowed (authorize svc ''deploy'' (Some \<lparr>p_client_id = ''c'', p_subject = None, p_issuer = None, p_kind = DELEGATED,
      p_scopes = {|''api://mcp/read'', ''api://mcp/run''|}, p_roles = {||}\<rparr>))"
    by (rule entra_scopes_agree [OF svc e, where raw_scopes = "[''run'', ''read'']"
        and pol = "\<lparr>tp_kind = DELEGATED_SCOPES, tp_permissions = {|''run''|}\<rparr>"]) (simp_all add: q)
  with svc show ?thesis by blast
qed

end
